(* ===== verification/Py_Prelude.thy ===== *)
theory Py_Prelude
  imports Main "HOL-Library.Sublist" "HOL-Library.Code_Target_Nat"
begin

text \<open>
  The shared layer of the development: the exceptions the harness can end in, the result and
  output types the components use, and the string operations of Python that the sources under
  \<^verbatim>\<open>src/tools/\<close> call, with the lemmas the component proofs share.

  A Python \<^verbatim>\<open>str\<close> is a \<^typ>\<open>string\<close>: the list of the bytes of its UTF-8 encoding.
  Searching, comparing and concatenating agree with Python on every such list, since UTF-8 is
  self-synchronising. \<^verbatim>\<open>isalpha\<close>, \<^verbatim>\<open>lower\<close>, \<^verbatim>\<open>strip\<close>, \<^verbatim>\<open>split\<close> and
  \<^verbatim>\<open>repr\<close> are Python's on ASCII text; on a byte above 127 they treat the character as
  neither a letter nor white space and leave it alone.
\<close>

named_theorems py_defs \<open>definitions of the Python string layer\<close>
named_theorems find_rules \<open>facts about leftmost search\<close>

section \<open>Exceptions, results and printed output\<close>

text \<open>Every exception one of the tools raises or lets through. \<open>SystemExit\<close> is
  \<^verbatim>\<open>sys.exit(n)\<close>; then come the exceptions of the language the sources do not catch. The last
  is no exception of the program: a loop of the model ran out of the passes it was given.\<close>

datatype exc =
    ToolError string
  | ToolchainError string
  | SystemExit int
  | KeyError string
  | IndexError
  | ValueError string
  | StructError
  | OSError string
  | StillRunning

type_synonym 'a res = "exc + 'a"

text \<open>A computation that prints: the lines printed before it ended, and how it ended.\<close>

type_synonym 'a printed = "string list \<times> 'a res"

definition emit :: "string list \<Rightarrow> unit printed" where
  "emit ls = (ls, Inr ())"

definition fail :: "exc \<Rightarrow> 'a printed" where
  "fail e = ([], Inl e)"

definition andthen :: "'a printed \<Rightarrow> ('a \<Rightarrow> 'b printed) \<Rightarrow> 'b printed" where
  "andthen m k =
     (case m of
        (out, Inl e) \<Rightarrow> (out, Inl e)
      | (out, Inr a) \<Rightarrow> (case k a of (out', r) \<Rightarrow> (out @ out', r)))"

definition liftR :: "'a res \<Rightarrow> 'a printed" where
  "liftR r = ([], r)"

lemma snd_andthen: "snd (andthen m k) = (case snd m of Inl e \<Rightarrow> Inl e | Inr a \<Rightarrow> snd (k a))"
  by (simp add: andthen_def split: prod.splits sum.splits)

lemma andthen_emit [simp]: "andthen (emit ls) k = (ls @ fst (k ()), snd (k ()))"
  by (simp add: andthen_def emit_def split: prod.splits)

lemma andthen_liftR_Inr [simp]: "andthen (liftR (Inr a)) k = k a"
  by (simp add: andthen_def liftR_def split: prod.splits)

lemma andthen_liftR_Inl [simp]: "andthen (liftR (Inl e)) k = ([], Inl e)"
  by (simp add: andthen_def liftR_def)

lemma andthen_fail [simp]: "andthen (fail e) k = ([], Inl e)"
  by (simp add: andthen_def fail_def)

section \<open>Characters\<close>

abbreviation chr_nl :: char where "chr_nl \<equiv> CHR 0x0A"
abbreviation chr_cr :: char where "chr_cr \<equiv> CHR 0x0D"
abbreviation chr_tab :: char where "chr_tab \<equiv> CHR 0x09"
abbreviation chr_squote :: char where "chr_squote \<equiv> CHR 0x27"
abbreviation chr_dquote :: char where "chr_dquote \<equiv> CHR 0x22"
abbreviation chr_bslash :: char where "chr_bslash \<equiv> CHR 0x5C"

text \<open>The one character outside ASCII the tools' messages are written with.\<close>

definition em_dash :: string where
  "em_dash = [CHR 0xE2, CHR 0x80, CHR 0x94]"

definition nl :: string where
  "nl = [chr_nl]"

definition dq :: string where
  "dq = [chr_dquote]"

definition is_alpha :: "char \<Rightarrow> bool" where
  "is_alpha c \<longleftrightarrow> (let n = (of_char c :: nat) in 65 \<le> n \<and> n \<le> 90 \<or> 97 \<le> n \<and> n \<le> 122)"

definition is_digit :: "char \<Rightarrow> bool" where
  "is_digit c \<longleftrightarrow> (let n = (of_char c :: nat) in 48 \<le> n \<and> n \<le> 57)"

definition is_space :: "char \<Rightarrow> bool" where
  "is_space c \<longleftrightarrow> (let n = (of_char c :: nat) in 9 \<le> n \<and> n \<le> 13 \<or> 28 \<le> n \<and> n \<le> 32)"

definition lower_char :: "char \<Rightarrow> char" where
  "lower_char c = (let n = (of_char c :: nat) in if 65 \<le> n \<and> n \<le> 90 then char_of (n + 32) else c)"

definition str_lower :: "string \<Rightarrow> string" where
  "str_lower s = map lower_char s"

lemma length_str_lower [simp]: "length (str_lower s) = length s"
  by (simp add: str_lower_def)

section \<open>Searching: \<open>str.find\<close>, \<open>in\<close>, \<open>startswith\<close>, \<open>endswith\<close>\<close>

fun find_sub :: "'a list \<Rightarrow> 'a list \<Rightarrow> nat option" where
  "find_sub [] w = (if w = [] then Some 0 else None)"
| "find_sub (c # cs) w =
     (if prefix w (c # cs) then Some 0 else map_option Suc (find_sub cs w))"

text \<open>\<^verbatim>\<open>hay.find(want, start)\<close>; \<^const>\<open>None\<close> is the \<^verbatim>\<open>-1\<close> of Python.\<close>

definition str_find :: "string \<Rightarrow> string \<Rightarrow> nat \<Rightarrow> nat option" where
  "str_find hay want start =
     (if length hay < start then None
      else map_option (\<lambda>i. start + i) (find_sub (drop start hay) want))"

definition str_in :: "string \<Rightarrow> string \<Rightarrow> bool" where
  "str_in want hay \<longleftrightarrow> find_sub hay want \<noteq> None"

definition ends_with :: "string \<Rightarrow> string \<Rightarrow> bool" where
  "ends_with s e \<longleftrightarrow> suffix e s"

text \<open>\<open>occurs_at hay w i\<close>: the word \<open>w\<close> stands at index \<open>i\<close> of \<open>hay\<close>.\<close>

definition occurs_at :: "'a list \<Rightarrow> 'a list \<Rightarrow> nat \<Rightarrow> bool" where
  "occurs_at hay w i \<longleftrightarrow> i \<le> length hay \<and> prefix w (drop i hay)"

lemma occurs_at_bound: "occurs_at hay w i \<Longrightarrow> i + length w \<le> length hay"
  by (auto simp: occurs_at_def dest!: prefix_length_le)

lemma occurs_at_0: "occurs_at hay w 0 \<longleftrightarrow> prefix w hay"
  by (simp add: occurs_at_def)

lemma occurs_at_Suc_Cons [simp]: "occurs_at (c # cs) w (Suc i) \<longleftrightarrow> occurs_at cs w i"
  by (simp add: occurs_at_def)

lemma occurs_at_drop:
  "start \<le> length hay \<Longrightarrow> occurs_at (drop start hay) w i \<longleftrightarrow> occurs_at hay w (start + i)"
  by (auto simp: occurs_at_def add.commute)

lemma occurs_at_iff_append:
  "occurs_at hay w i \<longleftrightarrow> (\<exists>p q. hay = p @ w @ q \<and> length p = i)"
proof
  assume a: "occurs_at hay w i"
  then obtain q where q: "drop i hay = w @ q"
    by (auto simp: occurs_at_def prefix_def)
  have "hay = take i hay @ w @ q"
    using q by (metis append_take_drop_id)
  moreover have "length (take i hay) = i"
    using a by (simp add: occurs_at_def)
  ultimately show "\<exists>p q. hay = p @ w @ q \<and> length p = i" by blast
next
  assume "\<exists>p q. hay = p @ w @ q \<and> length p = i"
  then show "occurs_at hay w i"
    by (auto simp: occurs_at_def)
qed

lemma find_sub_None [find_rules]: "find_sub hay w = None \<longleftrightarrow> (\<forall>i. \<not> occurs_at hay w i)"
proof (induction hay)
  case Nil
  show ?case by (auto simp: occurs_at_def)
next
  case (Cons c cs)
  have "(\<forall>i. \<not> occurs_at (c # cs) w i) \<longleftrightarrow>
        \<not> prefix w (c # cs) \<and> (\<forall>i. \<not> occurs_at cs w i)"
    by (metis occurs_at_0 occurs_at_Suc_Cons not0_implies_Suc)
  with Cons show ?case by auto
qed

lemma find_sub_Some [find_rules]:
  "find_sub hay w = Some i \<longleftrightarrow> occurs_at hay w i \<and> (\<forall>j<i. \<not> occurs_at hay w j)"
proof (induction hay arbitrary: i)
  case Nil
  show ?case by (auto simp: occurs_at_def)
next
  case (Cons c cs)
  show ?case
  proof (cases "prefix w (c # cs)")
    case True
    then show ?thesis by (auto simp: occurs_at_0 gr0_conv_Suc)
  next
    case False
    show ?thesis
    proof (cases i)
      case 0
      with False show ?thesis by (auto simp: occurs_at_0)
    next
      case (Suc k)
      with False Cons show ?thesis
        by (auto simp: occurs_at_0 less_Suc_eq_0_disj)
    qed
  qed
qed

lemma str_find_Some [find_rules]:
  "str_find hay w start = Some i \<longleftrightarrow>
     start \<le> i \<and> occurs_at hay w i \<and> (\<forall>j. start \<le> j \<and> j < i \<longrightarrow> \<not> occurs_at hay w j)"
proof (cases "length hay < start")
  case True
  then show ?thesis
    using occurs_at_bound[of hay w i] by (auto simp: str_find_def)
next
  case False
  then have le: "start \<le> length hay" by simp
  have "str_find hay w start = Some i \<longleftrightarrow>
      (\<exists>k. i = start + k \<and> find_sub (drop start hay) w = Some k)"
    using False by (auto simp: str_find_def)
  also have "\<dots> \<longleftrightarrow> start \<le> i \<and> occurs_at hay w i \<and>
      (\<forall>j. start \<le> j \<and> j < i \<longrightarrow> \<not> occurs_at hay w j)"
  proof
    assume "\<exists>k. i = start + k \<and> find_sub (drop start hay) w = Some k"
    then show "start \<le> i \<and> occurs_at hay w i \<and>
      (\<forall>j. start \<le> j \<and> j < i \<longrightarrow> \<not> occurs_at hay w j)"
      by (auto simp: find_sub_Some occurs_at_drop[OF le])
        (metis add_less_cancel_left le_Suc_ex)
  next
    assume a: "start \<le> i \<and> occurs_at hay w i \<and>
      (\<forall>j. start \<le> j \<and> j < i \<longrightarrow> \<not> occurs_at hay w j)"
    then obtain k where "i = start + k" using le_Suc_ex by blast
    with a show "\<exists>k. i = start + k \<and> find_sub (drop start hay) w = Some k"
      by (auto simp: find_sub_Some occurs_at_drop[OF le])
  qed
  finally show ?thesis .
qed

lemma str_find_None [find_rules]:
  "str_find hay w start = None \<longleftrightarrow> (\<forall>i\<ge>start. \<not> occurs_at hay w i)"
proof (cases "str_find hay w start")
  case None
  have "\<not> occurs_at hay w i" if "start \<le> i" for i
  proof
    assume o: "occurs_at hay w i"
    with that have le: "start \<le> length hay" using occurs_at_bound[OF o] by simp
    with None have "find_sub (drop start hay) w = None"
      by (simp add: str_find_def split: if_splits)
    then have "\<not> occurs_at hay w (start + (i - start))"
      using occurs_at_drop[OF le] by (auto simp: find_sub_None)
    with o that show False by simp
  qed
  with None show ?thesis by blast
next
  case (Some j)
  then have "start \<le> j \<and> occurs_at hay w j" by (simp add: str_find_Some)
  with Some show ?thesis by auto
qed

lemma str_in_iff [find_rules]: "str_in w hay \<longleftrightarrow> (\<exists>i. occurs_at hay w i)"
  by (auto simp: str_in_def find_sub_None)

section \<open>Splitting, stripping, joining\<close>

definition str_strip_by :: "(char \<Rightarrow> bool) \<Rightarrow> string \<Rightarrow> string" where
  "str_strip_by p s = rev (dropWhile p (rev (dropWhile p s)))"

definition str_strip :: "string \<Rightarrow> string" where
  "str_strip s = str_strip_by is_space s"

fun str_join :: "string \<Rightarrow> string list \<Rightarrow> string" where
  "str_join sep [] = []"
| "str_join sep [x] = x"
| "str_join sep (x # y # ys) = x @ sep @ str_join sep (y # ys)"

text \<open>\<^verbatim>\<open>s.split(c)\<close> for a one-character separator.\<close>

fun str_split_char :: "char \<Rightarrow> string \<Rightarrow> string list" where
  "str_split_char c [] = [[]]"
| "str_split_char c (x # xs) =
     (if x = c then [] # str_split_char c xs
      else (case str_split_char c xs of [] \<Rightarrow> [[x]] | w # ws \<Rightarrow> (x # w) # ws))"

text \<open>\<^verbatim>\<open>s.split()\<close>: the maximal runs of characters that are not white space.\<close>

fun str_split_ws_acc :: "string \<Rightarrow> string \<Rightarrow> string list" where
  "str_split_ws_acc acc [] = (if acc = [] then [] else [rev acc])"
| "str_split_ws_acc acc (c # cs) =
     (if is_space c then (if acc = [] then [] else [rev acc]) @ str_split_ws_acc [] cs
      else str_split_ws_acc (c # acc) cs)"

definition str_split :: "string \<Rightarrow> string list" where
  "str_split s = str_split_ws_acc [] s"

text \<open>\<^verbatim>\<open>s.partition(c)\<close> for a one-character separator that occurs: what precedes and what
  follows its first occurrence.\<close>

definition before_char :: "char \<Rightarrow> string \<Rightarrow> string" where
  "before_char c s = takeWhile (\<lambda>x. x \<noteq> c) s"

definition after_char :: "char \<Rightarrow> string \<Rightarrow> string" where
  "after_char c s = tl (dropWhile (\<lambda>x. x \<noteq> c) s)"

definition str_replace_char :: "char \<Rightarrow> char \<Rightarrow> string \<Rightarrow> string" where
  "str_replace_char a b s = map (\<lambda>x. if x = a then b else x) s"

text \<open>The lines a text file yields when it is iterated over: universal newlines turn
  \<^verbatim>\<open>CR LF\<close> and \<^verbatim>\<open>CR\<close> into \<^verbatim>\<open>LF\<close>, and each line keeps its own.\<close>

fun universal_newlines :: "string \<Rightarrow> string" where
  "universal_newlines [] = []"
| "universal_newlines [c] = (if c = chr_cr then [chr_nl] else [c])"
| "universal_newlines (c # d # cs) =
     (if c = chr_cr then chr_nl # (if d = chr_nl then universal_newlines cs
                                   else universal_newlines (d # cs))
      else c # universal_newlines (d # cs))"

fun keep_lines :: "string \<Rightarrow> string \<Rightarrow> string list" where
  "keep_lines acc [] = (if acc = [] then [] else [rev acc])"
| "keep_lines acc (c # cs) =
     (if c = chr_nl then rev (c # acc) # keep_lines [] cs else keep_lines (c # acc) cs)"

definition file_lines :: "string \<Rightarrow> string list" where
  "file_lines s = keep_lines [] (universal_newlines s)"

text \<open>\<^verbatim>\<open>s.splitlines()\<close>: the line boundaries of Python below 128, and no line for what
  follows a final boundary.\<close>

definition is_line_break :: "char \<Rightarrow> bool" where
  "is_line_break c \<longleftrightarrow> (let n = (of_char c :: nat) in 10 \<le> n \<and> n \<le> 13 \<or> 28 \<le> n \<and> n \<le> 30)"

fun splitlines_acc :: "string \<Rightarrow> string \<Rightarrow> string list" where
  "splitlines_acc acc [] = (if acc = [] then [] else [rev acc])"
| "splitlines_acc acc [c] = (if is_line_break c then [rev acc] else [rev (c # acc)])"
| "splitlines_acc acc (c # d # cs) =
     (if c = chr_cr \<and> d = chr_nl then rev acc # splitlines_acc [] cs
      else if is_line_break c then rev acc # splitlines_acc [] (d # cs)
      else splitlines_acc (c # acc) (d # cs))"

definition str_splitlines :: "string \<Rightarrow> string list" where
  "str_splitlines s = splitlines_acc [] s"

section \<open>Numbers as text\<close>

fun nat_digits :: "nat \<Rightarrow> nat \<Rightarrow> nat list" where
  "nat_digits b n = (if n < b \<or> b < 2 then [n] else nat_digits b (n div b) @ [n mod b])"

declare nat_digits.simps [simp del]

fun digit_char :: "nat \<Rightarrow> char" where
  "digit_char d = (if d < 10 then char_of (48 + d) else char_of (87 + d))"

definition show_nat :: "nat \<Rightarrow> string" where
  "show_nat n = map digit_char (nat_digits 10 n)"

definition show_int :: "int \<Rightarrow> string" where
  "show_int i = (if i < 0 then ''-'' @ show_nat (nat (- i)) else show_nat (nat i))"

definition show_hex :: "nat \<Rightarrow> string" where
  "show_hex n = map digit_char (nat_digits 16 n)"

text \<open>The format specifications the sources use: \<^verbatim>\<open>0Wx\<close> (zero padded), \<^verbatim>\<open><W\<close>
  (left justified), and \<^verbatim>\<open>#x\<close> with its prefix.\<close>

definition pad_zero :: "nat \<Rightarrow> string \<Rightarrow> string" where
  "pad_zero w s = replicate (w - length s) (CHR ''0'') @ s"

definition pad_right :: "nat \<Rightarrow> string \<Rightarrow> string" where
  "pad_right w s = s @ replicate (w - length s) (CHR '' '')"

definition fmt_0x :: "nat \<Rightarrow> nat \<Rightarrow> string" where
  "fmt_0x w n = ''0x'' @ pad_zero w (show_hex n)"

definition hash_x :: "nat \<Rightarrow> string" where
  "hash_x n = ''0x'' @ show_hex n"

fun digit_val :: "char \<Rightarrow> nat" where
  "digit_val c = (let n = (of_char c :: nat) in if n < 58 then n - 48 else n - 87)"

text \<open>Reading digits back, most significant first: the inverse the width lemmas use.\<close>

definition read_base :: "nat \<Rightarrow> string \<Rightarrow> nat" where
  "read_base b s = foldl (\<lambda>a c. b * a + digit_val c) 0 s"

lemma nat_digits_bound: "2 \<le> b \<Longrightarrow> d \<in> set (nat_digits b n) \<Longrightarrow> d < b"
proof (induction b n rule: nat_digits.induct)
  case (1 b n)
  show ?case
  proof (cases "n < b")
    case True
    with "1.prems" show ?thesis by (simp add: nat_digits.simps[of b n])
  next
    case False
    with "1.prems" have "d \<in> set (nat_digits b (n div b)) \<or> d = n mod b"
      by (auto simp: nat_digits.simps[of b n])
    then show ?thesis
    proof
      assume "d \<in> set (nat_digits b (n div b))"
      then show ?thesis using "1.IH" False "1.prems" by simp
    next
      assume "d = n mod b"
      then show ?thesis using "1.prems" by simp
    qed
  qed
qed

lemma nat_digits_value: "2 \<le> b \<Longrightarrow> foldl (\<lambda>a d. b * a + d) 0 (nat_digits b n) = n"
proof (induction b n rule: nat_digits.induct)
  case (1 b n)
  show ?case
  proof (cases "n < b")
    case True
    then show ?thesis by (simp add: nat_digits.simps[of b n])
  next
    case False
    with 1 show ?thesis by (simp add: nat_digits.simps[of b n])
  qed
qed

lemma digit_val_char [simp]: "d < 16 \<Longrightarrow> digit_val (digit_char d) = d"
  by (auto simp: Let_def of_char_of)

lemma foldl_digit_map:
  "\<forall>d \<in> set ds. d < 16 \<Longrightarrow>
   foldl (\<lambda>a c. b * a + digit_val c) a (map digit_char ds) = foldl (\<lambda>a d. b * a + d) a ds"
  by (induction ds arbitrary: a) (simp_all del: digit_val.simps digit_char.simps)

lemma read_show_hex [simp]: "read_base 16 (show_hex n) = n"
  unfolding read_base_def show_hex_def
  by (subst foldl_digit_map) (auto intro: nat_digits_bound simp: nat_digits_value)

lemma read_show_nat [simp]: "read_base 10 (show_nat n) = n"
proof -
  have "\<forall>d \<in> set (nat_digits 10 n). d < 16"
    using nat_digits_bound[of 10] by fastforce
  then show ?thesis
    unfolding read_base_def show_nat_def
    by (subst foldl_digit_map) (simp_all add: nat_digits_value)
qed

lemma show_hex_inj: "show_hex m = show_hex n \<Longrightarrow> m = n"
  by (metis read_show_hex)

lemma show_nat_inj: "show_nat m = show_nat n \<Longrightarrow> m = n"
  by (metis read_show_nat)

lemma read_base_pad_zero [simp]: "read_base b (pad_zero w s) = read_base b s"
proof -
  have z: "digit_val (CHR ''0'') = 0"
    by (simp add: Let_def)
  have "foldl (\<lambda>a c. b * a + digit_val c) 0 (replicate k (CHR ''0'')) = 0" for k
    by (induction k) (simp_all add: z del: digit_val.simps)
  then show ?thesis
    by (simp add: read_base_def pad_zero_def del: digit_val.simps)
qed

lemma show_nat_nonempty: "show_nat n \<noteq> []"
  by (simp add: show_nat_def nat_digits.simps[of 10 n])

lemma nat_digits_length: "2 \<le> b \<Longrightarrow> n < b ^ Suc k \<Longrightarrow> length (nat_digits b n) \<le> Suc k"
proof (induction k arbitrary: n)
  case 0
  then show ?case by (simp add: nat_digits.simps[of b n])
next
  case (Suc k)
  show ?case
  proof (cases "n < b")
    case True
    then show ?thesis by (simp add: nat_digits.simps[of b n])
  next
    case False
    have "n div b < b ^ Suc k"
      using Suc.prems by (simp add: less_mult_imp_div_less mult.commute)
    with Suc.IH Suc.prems(1) have "length (nat_digits b (n div b)) \<le> Suc k" by simp
    with False show ?thesis by (simp add: nat_digits.simps[of b n])
  qed
qed

lemma fmt_0x_length:
  "0 < w \<Longrightarrow> n < 16 ^ w \<Longrightarrow> length (fmt_0x w n) = w + 2"
  using nat_digits_length[of 16 n "w - 1"]
  by (simp add: fmt_0x_def pad_zero_def show_hex_def)

lemma fmt_0x_read: "read_base 16 (drop 2 (fmt_0x w n)) = n"
  by (simp add: fmt_0x_def)

section \<open>\<open>repr\<close> of a string\<close>

definition repr_char :: "char \<Rightarrow> char \<Rightarrow> string" where
  "repr_char q c =
     (if c = q \<or> c = chr_bslash then [chr_bslash, c]
      else if c = chr_nl then [chr_bslash, CHR ''n'']
      else if c = chr_cr then [chr_bslash, CHR ''r'']
      else if c = chr_tab then [chr_bslash, CHR ''t'']
      else if (of_char c :: nat) < 32 \<or> (of_char c :: nat) = 127
        then chr_bslash # CHR ''x'' # pad_zero 2 (show_hex (of_char c))
      else [c])"

definition py_repr :: "string \<Rightarrow> string" where
  "py_repr s =
     (let q = (if chr_squote \<in> set s \<and> chr_dquote \<notin> set s then chr_dquote else chr_squote)
      in q # concat (map (repr_char q) s) @ [q])"

section \<open>\<open>str.format\<close> with named fields\<close>

text \<open>
  \<open>str_format kv s\<close> is \<^verbatim>\<open>s.format(**kv)\<close> for the fields the case table writes: doubled
  braces stand for a brace, \<^verbatim>\<open>{name}\<close> for the value of \<open>name\<close>. A name that is missing raises
  \<open>KeyError\<close>, a positional field \<open>IndexError\<close>, an unbalanced brace \<open>ValueError\<close>. A field with a
  conversion, a format specification or an attribute is refused with \<open>ValueError\<close>; no string of
  the table has one.
\<close>

fun take_field :: "string \<Rightarrow> (string \<times> string) option" where
  "take_field [] = None"
| "take_field (c # cs) =
     (if c = CHR ''}'' then Some ([], cs)
      else map_option (\<lambda>(n, r). (c # n, r)) (take_field cs))"

lemma take_field_shorter: "take_field s = Some (n, r) \<Longrightarrow> length r < length s"
  by (induction s arbitrary: n) (auto split: if_splits)

definition plain_field :: "string \<Rightarrow> bool" where
  "plain_field n \<longleftrightarrow> (\<forall>c \<in> set n. c \<notin> set ''{!:.['')"

function str_format :: "(string \<times> string) list \<Rightarrow> string \<Rightarrow> string res" where
  "str_format kv [] = Inr []"
| "str_format kv (c # cs) =
     (if c = CHR ''{'' then
        (case cs of
           [] \<Rightarrow> Inl (ValueError ''unmatched brace'')
         | d # ds \<Rightarrow>
             if d = CHR ''{'' then map_sum id (\<lambda>r. CHR ''{'' # r) (str_format kv ds)
             else (case take_field cs of
                     None \<Rightarrow> Inl (ValueError ''unmatched brace'')
                   | Some (n, rest) \<Rightarrow>
                       if \<not> plain_field n then Inl (ValueError ''unsupported field'')
                       else if list_all is_digit n then Inl IndexError
                       else (case map_of kv n of
                               None \<Rightarrow> Inl (KeyError n)
                             | Some v \<Rightarrow> map_sum id (\<lambda>r. v @ r) (str_format kv rest))))
      else if c = CHR ''}'' then
        (case cs of
           d # ds \<Rightarrow> if d = CHR ''}'' then map_sum id (\<lambda>r. CHR ''}'' # r) (str_format kv ds)
                    else Inl (ValueError ''single brace'')
         | [] \<Rightarrow> Inl (ValueError ''single brace''))
      else map_sum id (\<lambda>r. c # r) (str_format kv cs))"
  by pat_completeness auto
termination
  by (relation "measure (\<lambda>(kv, s). length s)")
    (auto simp del: take_field.simps dest!: take_field_shorter)

declare str_format.simps(2) [simp del]

text \<open>A string without braces is its own formatting.\<close>

lemma str_format_plain:
  "CHR ''{'' \<notin> set s \<Longrightarrow> CHR ''}'' \<notin> set s \<Longrightarrow> str_format kv s = Inr s"
  by (induction s) (auto simp: str_format.simps(2))

lemma str_format_lit:
  "c \<noteq> CHR ''{'' \<Longrightarrow> c \<noteq> CHR ''}'' \<Longrightarrow>
   str_format kv (c # cs) = map_sum id (\<lambda>r. c # r) (str_format kv cs)"
  by (simp add: str_format.simps(2))

text \<open>Whether formatting succeeds depends on the names only, never on the values.\<close>

definition formats :: "string list \<Rightarrow> string \<Rightarrow> bool" where
  "formats ks s \<longleftrightarrow> (case str_format (map (\<lambda>k. (k, [])) ks) s of Inl _ \<Rightarrow> False | Inr _ \<Rightarrow> True)"

lemma isl_map_sum_id [simp]: "isl (map_sum id f x) = isl x"
  by (cases x) auto

lemma str_format_keys:
  "map fst kv = map fst kv' \<Longrightarrow> isl (str_format kv s) = isl (str_format kv' s)"
proof (induction kv s rule: str_format.induct)
  case (1 kv)
  show ?case by simp
next
  case (2 kv c cs)
  have keys: "map_of kv n = None \<longleftrightarrow> map_of kv' n = None" for n
    using 2(5) by (metis list.set_map map_of_eq_None_iff)
  show ?case
  proof (cases "c = CHR ''{''")
    case True
    with 2 keys show ?thesis
      by (auto simp: str_format.simps(2) split: list.splits option.splits simp del: take_field.simps)
        (metis keys option.distinct(1))
  next
    case False
    with 2 show ?thesis
      by (auto simp: str_format.simps(2) split: list.splits)
  qed
qed

lemma formats_str_format:
  "formats (map fst kv) s \<longleftrightarrow> (\<exists>t. str_format kv s = Inr t)"
proof -
  have "formats (map fst kv) s \<longleftrightarrow> \<not> isl (str_format (map (\<lambda>k. (k, [])) (map fst kv)) s)"
    unfolding formats_def by (cases "str_format (map (\<lambda>k. (k, [])) (map fst kv)) s") auto
  also have "\<dots> \<longleftrightarrow> \<not> isl (str_format kv s)"
    using str_format_keys[of kv "map (\<lambda>k. (k, [])) (map fst kv)" s] by (simp add: comp_def)
  finally show ?thesis by (cases "str_format kv s") auto
qed

section \<open>Lists and options\<close>

text \<open>Comparing two literals stops at the first character that differs.\<close>

lemma list_eq_if: "(x # xs = y # ys) = (if x = y then xs = ys else False)"
  by simp

fun enumerate_from :: "nat \<Rightarrow> 'a list \<Rightarrow> (nat \<times> 'a) list" where
  "enumerate_from n [] = []"
| "enumerate_from n (x # xs) = (n, x) # enumerate_from (Suc n) xs"

lemma length_enumerate_from [simp]: "length (enumerate_from n xs) = length xs"
  by (induction xs arbitrary: n) auto

lemma map_snd_enumerate_from [simp]: "map snd (enumerate_from n xs) = xs"
  by (induction xs arbitrary: n) auto

text \<open>The items of a list without repetitions, in the order of their first occurrence.\<close>

fun dedup_acc :: "'a list \<Rightarrow> 'a list \<Rightarrow> 'a list" where
  "dedup_acc seen [] = []"
| "dedup_acc seen (x # xs) =
     (if x \<in> set seen then dedup_acc seen xs else x # dedup_acc (x # seen) xs)"

lemma set_dedup_acc: "set (dedup_acc seen xs) = set xs - set seen"
  by (induction xs arbitrary: seen) auto

lemma distinct_dedup_acc: "distinct (dedup_acc seen xs)"
  by (induction xs arbitrary: seen) (auto simp: set_dedup_acc)

fun sequence_res :: "'a res list \<Rightarrow> 'a list res" where
  "sequence_res [] = Inr []"
| "sequence_res (r # rs) =
     (case r of Inl e \<Rightarrow> Inl e | Inr a \<Rightarrow> map_sum id (\<lambda>as. a # as) (sequence_res rs))"

end
