(* ===== verification/Struct_Codec.thy ===== *)
theory Struct_Codec
  imports Py_Prelude "HOL-Library.Word"
begin

text \<open>
  The part of Python's \<^verbatim>\<open>struct\<close> module the tools use: little-endian unpacking of the
  unsigned fields \<^verbatim>\<open>B\<close>, \<^verbatim>\<open>H\<close>, \<^verbatim>\<open>I\<close> and \<^verbatim>\<open>Q\<close> at an offset of a byte string,
  and the interface of a fixed-width record codec, from which the tables of the two binary
  formats get their round trips.
\<close>

type_synonym byte = "8 word"
type_synonym bytes = "byte list"

section \<open>Little-endian fields\<close>

fun le_nat :: "bytes \<Rightarrow> nat" where
  "le_nat [] = 0"
| "le_nat (b # bs) = unat b + 256 * le_nat bs"

fun le_bytes :: "nat \<Rightarrow> nat \<Rightarrow> bytes" where
  "le_bytes 0 n = []"
| "le_bytes (Suc k) n = word_of_nat (n mod 256) # le_bytes k (n div 256)"

lemma length_le_bytes [simp]: "length (le_bytes k n) = k"
  by (induction k arbitrary: n) auto

lemma unat_byte_of_nat [simp]: "unat (word_of_nat (n mod 256) :: byte) = n mod 256"
  by (simp add: unat_of_nat)

lemma le_nat_le_bytes: "n < 256 ^ k \<Longrightarrow> le_nat (le_bytes k n) = n"
proof (induction k arbitrary: n)
  case 0
  then show ?case by simp
next
  case (Suc k)
  have "n div 256 < 256 ^ k"
    using Suc.prems by (simp add: less_mult_imp_div_less mult.commute)
  with Suc.IH show ?case by simp
qed

lemma le_nat_bound: "le_nat bs < 256 ^ length bs"
proof (induction bs)
  case Nil
  show ?case by simp
next
  case (Cons b bs)
  have "unat b < 256" using unsigned_less[of b] by simp
  with Cons show ?case by simp
qed

lemma le_bytes_le_nat: "le_bytes (length bs) (le_nat bs) = bs"
proof (induction bs)
  case Nil
  show ?case by simp
next
  case (Cons b bs)
  have b: "unat b < 256" using unsigned_less[of b] by simp
  then have "(unat b + 256 * le_nat bs) mod 256 = unat b"
    and "(unat b + 256 * le_nat bs) div 256 = le_nat bs"
    by simp_all
  with Cons show ?case by simp
qed

text \<open>A 64-bit field written as its low half and a zero high half has the same bytes.\<close>

lemma le_bytes_zero: "le_bytes k 0 = replicate k 0"
  by (induction k) auto

lemma le_bytes_split: "n < 256 ^ j \<Longrightarrow> le_bytes j n @ le_bytes k 0 = le_bytes (j + k) n"
proof (induction j arbitrary: n)
  case 0
  then show ?case by simp
next
  case (Suc j)
  have "n div 256 < 256 ^ j"
    using Suc.prems by (simp add: less_mult_imp_div_less mult.commute)
  with Suc.IH show ?case by simp
qed

section \<open>\<open>struct.unpack_from\<close>\<close>

fun field_size :: "char \<Rightarrow> nat option" where
  "field_size c =
     (if c = CHR ''B'' then Some 1 else if c = CHR ''H'' then Some 2
      else if c = CHR ''I'' then Some 4 else if c = CHR ''Q'' then Some 8 else None)"

fun calcsize :: "string \<Rightarrow> nat option" where
  "calcsize [] = Some 0"
| "calcsize (c # cs) =
     (case (field_size c, calcsize cs) of (Some k, Some n) \<Rightarrow> Some (k + n) | _ \<Rightarrow> None)"

fun unpack_fields :: "string \<Rightarrow> bytes \<Rightarrow> nat list" where
  "unpack_fields [] bs = []"
| "unpack_fields (c # cs) bs =
     (case field_size c of
        None \<Rightarrow> []
      | Some k \<Rightarrow> le_nat (take k bs) # unpack_fields cs (drop k bs))"

text \<open>The format is a string after its \<^verbatim>\<open><\<close>; a buffer too short for it raises
  \<^verbatim>\<open>struct.error\<close>, as does a format character outside the four.\<close>

definition struct_unpack_from :: "string \<Rightarrow> bytes \<Rightarrow> nat \<Rightarrow> nat list res" where
  "struct_unpack_from fmt blob off =
     (case calcsize fmt of
        None \<Rightarrow> Inl StructError
      | Some n \<Rightarrow> if off + n \<le> length blob then Inr (unpack_fields fmt (drop off blob))
                  else Inl StructError)"

lemma unpack_fields_append:
  "calcsize fmt = Some n \<Longrightarrow> n \<le> length bs \<Longrightarrow> unpack_fields fmt (bs @ rest) = unpack_fields fmt bs"
proof (induction fmt arbitrary: bs n)
  case Nil
  then show ?case by simp
next
  case (Cons c cs)
  then obtain k m where "field_size c = Some k" "calcsize cs = Some m" "n = k + m"
    by (auto split: option.splits simp del: field_size.simps)
  with Cons show ?case by (simp del: field_size.simps)
qed

lemma unpack_from_append:
  "length pre = off \<Longrightarrow> calcsize fmt = Some n \<Longrightarrow> n \<le> length bs \<Longrightarrow>
   struct_unpack_from fmt (pre @ bs @ rest) off = Inr (unpack_fields fmt bs)"
  by (auto simp: struct_unpack_from_def unpack_fields_append)

section \<open>Fixed-width record codecs\<close>

text \<open>Decoding \<open>n\<close> consecutive records of \<open>w\<close> bytes, as the dump loops do with their running
  offset.\<close>

fun decode_many :: "(bytes \<Rightarrow> 'v option) \<Rightarrow> nat \<Rightarrow> nat \<Rightarrow> bytes \<Rightarrow> 'v list option" where
  "decode_many dec w 0 bs = Some []"
| "decode_many dec w (Suc n) bs =
     (case dec bs of
        None \<Rightarrow> None
      | Some v \<Rightarrow> map_option (\<lambda>vs. v # vs) (decode_many dec w n (drop w bs)))"

text \<open>What a client of a binary format relies on: every value in the codec's range has one width,
  and decoding reads back what was encoded whatever follows it.\<close>

locale record_codec =
  fixes enc :: "'v \<Rightarrow> bytes"
    and dec :: "bytes \<Rightarrow> 'v option"
    and width :: nat
    and ok :: "'v \<Rightarrow> bool"
  assumes enc_width: "ok v \<Longrightarrow> length (enc v) = width"
    and dec_enc: "ok v \<Longrightarrow> dec (enc v @ rest) = Some v"
begin

lemma length_table: "list_all ok vs \<Longrightarrow> length (concat (map enc vs)) = width * length vs"
  by (induction vs) (auto simp: enc_width)

lemma decode_table:
  "list_all ok vs \<Longrightarrow> decode_many dec width (length vs) (concat (map enc vs) @ rest) = Some vs"
  by (induction vs) (auto simp: enc_width dec_enc)

lemma enc_inj: "ok u \<Longrightarrow> ok v \<Longrightarrow> enc u = enc v \<Longrightarrow> u = v"
  by (metis dec_enc option.inject)

lemma table_inj:
  assumes "list_all ok us" "list_all ok vs" "length us = length vs"
    and "concat (map enc us) = concat (map enc vs)"
  shows "us = vs"
  using decode_table[OF assms(1), of "[]"] decode_table[OF assms(2), of "[]"] assms(3,4) by simp

lemma drop_table:
  "list_all ok us \<Longrightarrow> drop (width * length us) (concat (map enc us) @ rest) = rest"
  by (simp flip: length_table)

end

interpretation u64_field: record_codec "le_bytes 8"
    "\<lambda>bs. if 8 \<le> length bs then Some (le_nat (take 8 bs)) else None" 8 "\<lambda>n. n < 256 ^ 8"
  by unfold_locales (auto simp: le_nat_le_bytes simp del: power_numeral)

end
