(* ===== verification/Sosimg_Dump.thy ===== *)
theory Sosimg_Dump
  imports Struct_Codec
begin

text \<open>
  \<^verbatim>\<open>src/tools/sosimg_dump.py\<close>: the dumper of the two binary formats, the sosimg header with
  its segment table and the boot region table. A file is its bytes; what the tool prints is the
  list of the arguments of its \<^verbatim>\<open>print\<close> calls, kept also when \<^verbatim>\<open>struct\<close> raises half
  way through. The codec interface of \<open>Struct_Codec\<close> is interpreted on both record formats.
\<close>

unbundle bit_operations_syntax

section \<open>Constants and flags\<close>

definition SEG_FLAGS :: "(nat \<times> string) list" where
  "SEG_FLAGS = [(1, ''R''), (2, ''W''), (4, ''X''), (8, ''DEVICE'')]"

definition DUMP_ARCHES :: "(nat \<times> string) list" where
  "DUMP_ARCHES = [(1, ''riscv32''), (2, ''arm64'')]"

definition REGION_KINDS :: "(nat \<times> string) list" where
  "REGION_KINDS = [(0, ''ram''), (1, ''device'')]"

definition SOSIMG_MAGIC :: nat where
  "SOSIMG_MAGIC = 0x49534F53"

definition REGION_MAGIC :: nat where
  "REGION_MAGIC = 0x4E475253"

definition flags_str :: "nat \<Rightarrow> string" where
  "flags_str f =
     (let s = concat (map snd (filter (\<lambda>(b, name). f AND b \<noteq> 0) SEG_FLAGS))
      in if s = [] then ''-'' else s)"

definition get_or :: "(nat \<times> string) list \<Rightarrow> nat \<Rightarrow> string" where
  "get_or tab k = (case map_of tab k of None \<Rightarrow> ''?'' | Some v \<Rightarrow> v)"

definition magic_verdict :: "nat \<Rightarrow> nat \<Rightarrow> string" where
  "magic_verdict magic want = (if magic = want then ''ok'' else ''BAD (want '' @ fmt_0x 8 want @ '')'')"

section \<open>The sosimg dump\<close>

definition seg_line :: "nat \<Rightarrow> nat \<Rightarrow> nat \<Rightarrow> nat \<Rightarrow> nat \<Rightarrow> nat \<Rightarrow> string" where
  "seg_line i load foff flen mlen fl =
     ''  seg '' @ show_nat i @ '': load '' @ fmt_0x 16 load @ ''  file_off '' @ pad_right 8 (show_nat foff)
     @ '' file_len '' @ pad_right 8 (show_nat flen) @ '' mem_len '' @ pad_right 8 (show_nat mlen)
     @ (if flen < mlen then '' (+'' @ show_nat (mlen - flen) @ '' bss)'' else [])
     @ ''  ['' @ flags_str fl @ '']''"

text \<open>The loop over the segment table: \<open>n\<close> records are left, the next is number \<open>i\<close> at \<open>off\<close>.\<close>

fun dump_segs :: "bytes \<Rightarrow> nat \<Rightarrow> nat \<Rightarrow> nat \<Rightarrow> unit printed" where
  "dump_segs blob 0 i off = emit []"
| "dump_segs blob (Suc n) i off =
     andthen (liftR (struct_unpack_from ''QIIIB'' blob off)) (\<lambda>r.
       case r of
         [load, foff, flen, mlen, fl] \<Rightarrow>
           andthen (emit [seg_line i load foff flen mlen fl]) (\<lambda>_.
             dump_segs blob n (Suc i) (off + 24))
       | _ \<Rightarrow> fail (ValueError ''unpack''))"

definition dump_sosimg :: "bytes \<Rightarrow> unit printed" where
  "dump_sosimg blob =
     andthen (liftR (struct_unpack_from ''IHBBIIQ'' blob 0)) (\<lambda>r.
       case r of
         [magic, version, seg_count, arch, prio_map, res, entry] \<Rightarrow>
           andthen (emit
             [''magic     '' @ fmt_0x 8 magic @ '' ('' @ magic_verdict magic SOSIMG_MAGIC @ '')'',
              ''version   '' @ show_nat version,
              ''arch      '' @ show_nat arch @ '' ('' @ get_or DUMP_ARCHES arch @ '')'',
              ''segments  '' @ show_nat seg_count,
              ''prio_map  '' @ fmt_0x 8 prio_map,
              ''entry     '' @ fmt_0x 16 entry]) (\<lambda>_.
           andthen (dump_segs blob seg_count 0 24) (\<lambda>_.
           emit [''file size '' @ show_nat (length blob) @ '' bytes'']))
       | _ \<Rightarrow> fail (ValueError ''unpack''))"

section \<open>The region table dump\<close>

definition region_line :: "nat \<Rightarrow> nat \<Rightarrow> nat \<Rightarrow> nat \<Rightarrow> string" where
  "region_line i base len kind =
     ''  row '' @ show_nat i @ '': base '' @ fmt_0x 16 base @ ''  len '' @ hash_x len
     @ '' ('' @ show_nat len @ '')  kind '' @ show_nat kind @ '' ('' @ get_or REGION_KINDS kind @ '')''"

fun dump_rows :: "bytes \<Rightarrow> nat \<Rightarrow> nat \<Rightarrow> nat \<Rightarrow> unit printed" where
  "dump_rows blob 0 i off = emit []"
| "dump_rows blob (Suc n) i off =
     andthen (liftR (struct_unpack_from ''QQB'' blob off)) (\<lambda>r.
       case r of
         [base, len, kind] \<Rightarrow>
           andthen (emit [region_line i base len kind]) (\<lambda>_. dump_rows blob n (Suc i) (off + 24))
       | _ \<Rightarrow> fail (ValueError ''unpack''))"

definition dump_regions :: "bytes \<Rightarrow> unit printed" where
  "dump_regions blob =
     (if length blob = 0 then emit [''empty table (zero regions)'']
      else andthen (liftR (struct_unpack_from ''IHBB'' blob 0)) (\<lambda>r.
       case r of
         [magic, version, count, res] \<Rightarrow>
           andthen (emit
             [''magic     '' @ fmt_0x 8 magic @ '' ('' @ magic_verdict magic REGION_MAGIC @ '')'',
              ''version   '' @ show_nat version,
              ''regions   '' @ show_nat count]) (\<lambda>_.
           dump_rows blob count 0 8)
       | _ \<Rightarrow> fail (ValueError ''unpack'')))"

section \<open>The command line\<close>

text \<open>\<open>read\<close> gives the bytes of a file that can be opened, \<open>doc\<close> is the module's docstring.
  The integer is what \<^verbatim>\<open>main\<close> returns.\<close>

definition dump_main :: "(string \<Rightarrow> bytes option) \<Rightarrow> string \<Rightarrow> string list \<Rightarrow> int printed" where
  "dump_main read doc args =
     (let opened = (\<lambda>p. case read p of None \<Rightarrow> Inl (OSError p) | Some b \<Rightarrow> Inr b) in
      case args of
        [] \<Rightarrow> ([str_strip doc], Inr 0)
      | a # rest \<Rightarrow>
          if a \<in> {''-h'', ''--help''} then ([str_strip doc], Inr 0)
          else if a = ''--regions'' then
            (case rest of
               [] \<Rightarrow> fail IndexError
             | p # _ \<Rightarrow> andthen (liftR (opened p)) (\<lambda>b. andthen (dump_regions b) (\<lambda>_. ([], Inr 0))))
          else andthen (liftR (opened a)) (\<lambda>b. andthen (dump_sosimg b) (\<lambda>_. ([], Inr 0))))"


section \<open>The wire formats the dumps read\<close>

text \<open>
  The region table as \<^verbatim>\<open>sos_runner.py\<close> freezes it (an eight-byte header, then rows of
  \<open>{base u64, len u64, kind u8, 7 reserved}\<close>), and the sosimg header and segment record the
  dump unpacks. These are the specifications the dump loops are checked against.
\<close>

type_synonym region_row = "nat \<times> nat \<times> nat"

fun region_row_bytes :: "region_row \<Rightarrow> bytes" where
  "region_row_bytes (base, len, kind) =
     le_bytes 8 base @ le_bytes 8 len @ le_bytes 1 kind @ le_bytes 7 0"

fun region_row_ok :: "region_row \<Rightarrow> bool" where
  "region_row_ok (base, len, kind) \<longleftrightarrow> base < 256 ^ 8 \<and> len < 256 ^ 8 \<and> kind < 256 ^ 1"

definition region_header_bytes :: "nat \<Rightarrow> nat \<Rightarrow> bytes" where
  "region_header_bytes version count =
     le_bytes 4 REGION_MAGIC @ le_bytes 2 version @ le_bytes 1 count @ le_bytes 1 0"

definition region_table_bytes :: "region_row list \<Rightarrow> bytes" where
  "region_table_bytes rows =
     region_header_bytes 2 (length rows) @ concat (map region_row_bytes rows)"

definition region_row_dec :: "bytes \<Rightarrow> region_row option" where
  "region_row_dec bs =
     (case struct_unpack_from ''QQB'' bs 0 of
        Inr [base, len, kind] \<Rightarrow> Some (base, len, kind) | _ \<Rightarrow> None)"

type_synonym seg_rec = "nat \<times> nat \<times> nat \<times> nat \<times> nat"

fun seg_bytes :: "seg_rec \<Rightarrow> bytes" where
  "seg_bytes (load, foff, flen, mlen, fl) =
     le_bytes 8 load @ le_bytes 4 foff @ le_bytes 4 flen @ le_bytes 4 mlen @ le_bytes 1 fl @ le_bytes 3 0"

fun seg_ok :: "seg_rec \<Rightarrow> bool" where
  "seg_ok (load, foff, flen, mlen, fl) \<longleftrightarrow>
     load < 256 ^ 8 \<and> foff < 256 ^ 4 \<and> flen < 256 ^ 4 \<and> mlen < 256 ^ 4 \<and> fl < 256 ^ 1"

definition seg_dec :: "bytes \<Rightarrow> seg_rec option" where
  "seg_dec bs =
     (case struct_unpack_from ''QIIIB'' bs 0 of
        Inr [load, foff, flen, mlen, fl] \<Rightarrow> Some (load, foff, flen, mlen, fl) | _ \<Rightarrow> None)"

lemma take_le_bytes [simp]: "take k (le_bytes k n @ rest) = le_bytes k n"
  and drop_le_bytes [simp]: "drop k (le_bytes k n @ rest) = rest"
  by simp_all

interpretation region_codec: record_codec region_row_bytes region_row_dec 24 region_row_ok
proof
  fix v :: region_row and rest :: bytes
  assume ok: "region_row_ok v"
  then show "length (region_row_bytes v) = 24"
    by (cases v) simp
  from ok show "region_row_dec (region_row_bytes v @ rest) = Some v"
    by (cases v) (simp add: region_row_dec_def struct_unpack_from_def le_nat_le_bytes
        del: power_numeral le_bytes.simps One_nat_def)
qed

interpretation seg_codec: record_codec seg_bytes seg_dec 24 seg_ok
proof
  fix v :: seg_rec and rest :: bytes
  assume ok: "seg_ok v"
  then show "length (seg_bytes v) = 24"
    by (cases v) simp
  from ok show "seg_dec (seg_bytes v @ rest) = Some v"
    by (cases v) (simp add: seg_dec_def struct_unpack_from_def le_nat_le_bytes
        del: power_numeral le_bytes.simps One_nat_def)
qed

section \<open>What the dumps print\<close>

lemma unpack_from_drop:
  "calcsize fmt = Some n \<Longrightarrow> 0 < n \<Longrightarrow>
   struct_unpack_from fmt (drop off blob) 0 = struct_unpack_from fmt blob off"
  by (auto simp: struct_unpack_from_def)

lemma calcsize_formats [simp]:
  "calcsize ''QQB'' = Some 17" "calcsize ''QIIIB'' = Some 21"
  "calcsize ''IHBB'' = Some 8" "calcsize ''IHBBIIQ'' = Some 24"
  by simp_all

lemma dump_rows_decode:
  "decode_many region_row_dec 24 n (drop off blob) = Some rows \<Longrightarrow>
   dump_rows blob n i off =
     (map (\<lambda>(i, (base, len, kind)). region_line i base len kind) (enumerate_from i rows), Inr ())"
proof (induction n arbitrary: i off rows)
  case 0
  then show ?case by (simp add: emit_def)
next
  case (Suc n)
  have unp: "struct_unpack_from ''QQB'' (drop off blob) 0 = struct_unpack_from ''QQB'' blob off"
    by (rule unpack_from_drop[where n = 17]) simp_all
  from Suc.prems obtain base len kind vs where
      d: "region_row_dec (drop off blob) = Some (base, len, kind)"
      and vs: "decode_many region_row_dec 24 n (drop (off + 24) blob) = Some vs"
      and rows: "rows = (base, len, kind) # vs"
    by (auto split: option.splits simp: add.commute)
  from d have "struct_unpack_from ''QQB'' blob off = Inr [base, len, kind]"
    unfolding region_row_dec_def unp by (auto split: sum.splits list.splits)
  with Suc.IH[OF vs] rows show ?case by simp
qed

lemma dump_segs_decode:
  "decode_many seg_dec 24 n (drop off blob) = Some segs \<Longrightarrow>
   dump_segs blob n i off =
     (map (\<lambda>(i, (load, foff, flen, mlen, fl)). seg_line i load foff flen mlen fl)
        (enumerate_from i segs), Inr ())"
proof (induction n arbitrary: i off segs)
  case 0
  then show ?case by (simp add: emit_def)
next
  case (Suc n)
  have unp: "struct_unpack_from ''QIIIB'' (drop off blob) 0 = struct_unpack_from ''QIIIB'' blob off"
    by (rule unpack_from_drop[where n = 21]) simp_all
  from Suc.prems obtain load foff flen mlen fl vs where
      d: "seg_dec (drop off blob) = Some (load, foff, flen, mlen, fl)"
      and vs: "decode_many seg_dec 24 n (drop (off + 24) blob) = Some vs"
      and segs: "segs = (load, foff, flen, mlen, fl) # vs"
    by (auto split: option.splits simp: add.commute)
  from d have "struct_unpack_from ''QIIIB'' blob off = Inr [load, foff, flen, mlen, fl]"
    unfolding seg_dec_def unp by (auto split: sum.splits list.splits)
  with Suc.IH[OF vs] segs show ?case by simp
qed

lemma dump_encoded_table:
  assumes "list_all region_row_ok rows" and "length rows < 256"
  shows "dump_regions (region_table_bytes rows) =
    ([''magic     0x4e475253 (ok)'', ''version   2'', ''regions   '' @ show_nat (length rows)]
     @ map (\<lambda>(i, (base, len, kind)). region_line i base len kind) (enumerate_from 0 rows), Inr ())"
proof -
  let ?blob = "region_table_bytes rows"
  have hdr: "struct_unpack_from ''IHBB'' ?blob 0 = Inr [REGION_MAGIC, 2, length rows, 0]"
    using assms(2)
    by (simp add: region_table_bytes_def region_header_bytes_def struct_unpack_from_def
        le_nat_le_bytes REGION_MAGIC_def del: le_bytes.simps One_nat_def)
  have "drop 8 ?blob = concat (map region_row_bytes rows) @ []"
    by (simp add: region_table_bytes_def region_header_bytes_def)
  then have "decode_many region_row_dec 24 (length rows) (drop 8 ?blob) = Some rows"
    using region_codec.decode_table[OF assms(1), of "[]"] by (simp only:)
  note body = dump_rows_decode[OF this, of 0]
  have ne: "length ?blob \<noteq> 0"
    by (simp add: region_table_bytes_def region_header_bytes_def)
  have shown: "fmt_0x 8 REGION_MAGIC = ''0x4e475253''" "show_nat 2 = ''2''"
    by code_simp+
  show ?thesis
    using ne by (simp add: dump_regions_def hdr body shown magic_verdict_def)
qed

text \<open>C12: dumping a well-formed version 2 region table reports the magic as correct, the version,
  the number of rows, and every row in table order with exactly the base, length and kind that
  were encoded; no row is lost, repeated or shifted, and the dump ends without an error.\<close>

theorem dump_regions_roundtrip:
  assumes "list_all region_row_ok rows" and "length rows < 256"
  shows "dump_regions (region_table_bytes rows) =
    ([''magic     0x4e475253 (ok)'', ''version   2'', ''regions   '' @ show_nat (length rows)]
     @ map (\<lambda>(i, (base, len, kind)). region_line i base len kind) (enumerate_from 0 rows), Inr ())"
  using assms by (rule dump_encoded_table)

theorem dump_regions_roundtrip_witness:
  "dump_regions (region_table_bytes [(0x80240000, 0x40000, 0), (0x10000000, 0x1000, 1)]) =
    ([''magic     0x4e475253 (ok)'', ''version   2'', ''regions   2'',
      ''  row 0: base 0x0000000080240000  len 0x40000 (262144)  kind 0 (ram)'',
      ''  row 1: base 0x0000000010000000  len 0x1000 (4096)  kind 1 (device)''], Inr ())"
proof -
  have "list_all region_row_ok [(0x80240000, 0x40000, 0), (0x10000000, 0x1000, 1)]"
    and "length [(0x80240000, 0x40000, 0), (0x10000000, 0x1000, 1 :: nat)] < 256"
    by simp_all
  note eq = dump_regions_roundtrip[OF this]
  have "region_line 0 0x80240000 0x40000 0 =
      ''  row 0: base 0x0000000080240000  len 0x40000 (262144)  kind 0 (ram)''"
    and "region_line 1 0x10000000 0x1000 1 =
      ''  row 1: base 0x0000000010000000  len 0x1000 (4096)  kind 1 (device)''"
    and "show_nat (Suc (Suc 0)) = ''2''"
    by code_simp+
  with eq show ?thesis by simp
qed

lemma dump_segs_result:
  "snd (dump_segs blob n i off) =
     (if n = 0 \<or> off + 24 * (n - 1) + 21 \<le> length blob then Inr () else Inl StructError)"
proof (induction n arbitrary: i off)
  case 0
  show ?case by (simp add: emit_def)
next
  case (Suc n)
  show ?case
  proof (cases "off + 21 \<le> length blob")
    case True
    then have "\<exists>a b c d e. struct_unpack_from ''QIIIB'' blob off = Inr [a, b, c, d, e]"
      by (simp add: struct_unpack_from_def)
    then have "snd (dump_segs blob (Suc n) i off) = snd (dump_segs blob n (Suc i) (off + 24))"
      by auto
    also have "\<dots> = (if n = 0 \<or> off + 24 + 24 * (n - 1) + 21 \<le> length blob
        then Inr () else Inl StructError)"
      by (rule Suc.IH)
    finally show ?thesis
      using True by (auto split: nat_diff_split)
  next
    case False
    then have "struct_unpack_from ''QIIIB'' blob off = Inl StructError"
      by (simp add: struct_unpack_from_def)
    with False show ?thesis by simp
  qed
qed

text \<open>C40: the sosimg dump fails with \<^verbatim>\<open>struct.error\<close> exactly when the file is shorter than
  the 24-byte header, or shorter than the last byte the record of its last declared segment
  needs (the segment count is the byte at offset 6); on every other file it prints the whole
  table and returns.\<close>

theorem dump_sosimg_error:
  "snd (dump_sosimg blob) =
     (if 24 \<le> length blob \<and> (unat (blob ! 6) = 0 \<or> 24 * unat (blob ! 6) + 21 \<le> length blob)
      then Inr () else Inl StructError)"
proof (cases "24 \<le> length blob")
  case False
  then show ?thesis by (simp add: dump_sosimg_def struct_unpack_from_def)
next
  case True
  define n where "n = unat (blob ! 6)"
  have "take 1 (drop 6 blob) = [blob ! 6]"
    using True by (simp add: take_Suc_conv_app_nth hd_drop_conv_nth take_Suc)
  then have cnt: "le_nat (take 1 (drop 6 blob)) = n" by (simp add: n_def)
  have "\<exists>a b d e f g. struct_unpack_from ''IHBBIIQ'' blob 0 = Inr [a, b, n, d, e, f, g]"
    using True cnt by (simp add: struct_unpack_from_def)
  then obtain a b d e f g where
    h: "struct_unpack_from ''IHBBIIQ'' blob 0 = Inr [a, b, n, d, e, f, g]" by blast
  have seg: "snd (dump_segs blob n 0 24) =
      (if n = 0 \<or> 24 * n + 21 \<le> length blob then Inr () else Inl StructError)"
    by (auto simp: dump_segs_result)
  show ?thesis
    using True seg by (simp add: dump_sosimg_def h snd_andthen n_def emit_def)
qed

text \<open>The flags column is faithful on the four flag bits: two flag bytes print alike exactly
  when they agree on read, write, execute and device, whatever their upper bits hold.\<close>

theorem flags_str_faithful: "flags_str f = flags_str g \<longleftrightarrow> f mod 16 = g mod 16"
proof -
  have bits: "(h AND 1 = 0 \<longleftrightarrow> even h) \<and> (h AND 2 = 0 \<longleftrightarrow> even (h div 2))
      \<and> (h AND 4 = 0 \<longleftrightarrow> even (h div 4)) \<and> (h AND 8 = 0 \<longleftrightarrow> even (h div 8))" for h :: nat
  proof -
    have "h AND 2 ^ k = 0 \<longleftrightarrow> even (h div 2 ^ k)" for k
      by (simp add: and_exp_eq_0_iff_not_bit bit_iff_odd)
    from this[of 0] this[of 1] this[of 2] this[of 3] show ?thesis by simp
  qed
  have dec: "flags_str h =
      (let s = (if even h then [] else ''R'') @ (if even (h div 2) then [] else ''W'')
        @ (if even (h div 4) then [] else ''X'') @ (if even (h div 8) then [] else ''DEVICE'')
       in if s = [] then ''-'' else s)" for h
    using bits[of h] by (auto simp: flags_str_def SEG_FLAGS_def)
  have low: "h mod 16 = of_bool (odd h) + 2 * (of_bool (odd (h div 2))
      + 2 * (of_bool (odd (h div 4)) + 2 * of_bool (odd (h div 8))))" for h :: nat
  proof -
    have two: "m mod (2 * k) = m mod 2 + 2 * (m div 2 mod k)" for m k :: nat
      by (simp add: mod_mult2_eq)
    show ?thesis
      using two[of h 8] two[of "h div 2" 4] two[of "h div 4" 2]
      by (simp add: mod_2_eq_odd flip: div_mult2_eq)
  qed
  have same: "f mod 16 = g mod 16 \<longleftrightarrow>
      (even f \<longleftrightarrow> even g) \<and> (even (f div 2) \<longleftrightarrow> even (g div 2))
      \<and> (even (f div 4) \<longleftrightarrow> even (g div 4)) \<and> (even (f div 8) \<longleftrightarrow> even (g div 8))"
    unfolding low by (auto simp: of_bool_def split: if_splits)
  show ?thesis
    unfolding same dec Let_def by (auto split: if_splits)
qed

end
