(* ===== verification/Py_Path.thy ===== *)
theory Py_Path
  imports Py_Prelude
begin

text \<open>
  The functions of \<^verbatim>\<open>os.path\<close> the tools call, on POSIX paths: joining, splitting,
  normalising, making absolute and relative, and the expansion of a leading tilde. The working
  directory and the home directories of the host are arguments.
\<close>

definition is_abs :: "string \<Rightarrow> bool" where
  "is_abs p \<longleftrightarrow> p \<noteq> [] \<and> hd p = CHR ''/''"

text \<open>\<^verbatim>\<open>os.path.join(a, b)\<close>: an absolute \<open>b\<close> replaces \<open>a\<close>.\<close>

definition py_join :: "string \<Rightarrow> string \<Rightarrow> string" where
  "py_join a b =
     (if is_abs b then b
      else if a = [] \<or> last a = CHR ''/'' then a @ b
      else a @ ''/'' @ b)"

definition path_join :: "string \<Rightarrow> string list \<Rightarrow> string" where
  "path_join a bs = foldl py_join a bs"

definition basename :: "string \<Rightarrow> string" where
  "basename p = rev (takeWhile (\<lambda>c. c \<noteq> CHR ''/'') (rev p))"

definition dirname :: "string \<Rightarrow> string" where
  "dirname p =
     (let h = rev (dropWhile (\<lambda>c. c \<noteq> CHR ''/'') (rev p)) in
      if list_all (\<lambda>c. c = CHR ''/'') h then h
      else rev (dropWhile (\<lambda>c. c = CHR ''/'') (rev h)))"

text \<open>The component loop of \<^verbatim>\<open>normpath\<close>: \<open>ab\<close> says that the path starts with a slash.\<close>

fun norm_comps :: "bool \<Rightarrow> string list \<Rightarrow> string list \<Rightarrow> string list" where
  "norm_comps ab acc [] = rev acc"
| "norm_comps ab acc (c # cs) =
     (if c = [] \<or> c = ''.'' then norm_comps ab acc cs
      else if c \<noteq> ''..'' \<or> (\<not> ab \<and> acc = []) \<or> (acc \<noteq> [] \<and> hd acc = ''..'')
        then norm_comps ab (c # acc) cs
      else norm_comps ab (tl acc) cs)"

definition normpath :: "string \<Rightarrow> string" where
  "normpath p =
     (if p = [] then ''.''
      else let slashes = (if prefix ''//'' p \<and> \<not> prefix ''///'' p then ''//''
                          else if prefix ''/'' p then ''/'' else []);
               s = slashes @ str_join ''/'' (norm_comps (slashes \<noteq> []) [] (str_split_char (CHR ''/'') p))
           in if s = [] then ''.'' else s)"

definition abspath :: "string \<Rightarrow> string \<Rightarrow> string" where
  "abspath cwd p = normpath (if is_abs p then p else py_join cwd p)"

fun common_len :: "string list \<Rightarrow> string list \<Rightarrow> nat" where
  "common_len (a # as) (b # bs) = (if a = b then Suc (common_len as bs) else 0)"
| "common_len _ _ = 0"

definition relpath :: "string \<Rightarrow> string \<Rightarrow> string \<Rightarrow> string" where
  "relpath cwd p start =
     (let parts = (\<lambda>q. filter (\<lambda>x. x \<noteq> []) (str_split_char (CHR ''/'') (abspath cwd q)));
          i = common_len (parts start) (parts p);
          rel = replicate (length (parts start) - i) ''..'' @ drop i (parts p)
      in if rel = [] then ''.'' else str_join ''/'' rel)"

text \<open>\<^verbatim>\<open>os.path.expanduser\<close>; \<open>home u\<close> is the home directory of user \<open>u\<close>, the empty name being
  the current user.\<close>

definition expanduser :: "(string \<Rightarrow> string option) \<Rightarrow> string \<Rightarrow> string" where
  "expanduser home p =
     (if \<not> prefix ''~'' p then p
      else let user = takeWhile (\<lambda>c. c \<noteq> CHR ''/'') (tl p);
               rest = dropWhile (\<lambda>c. c \<noteq> CHR ''/'') (tl p)
           in case home user of
                None \<Rightarrow> p
              | Some h \<Rightarrow>
                  let s = rev (dropWhile (\<lambda>c. c = CHR ''/'') (rev h)) @ rest
                  in if s = [] then ''/'' else s)"

section \<open>Facts the build uses\<close>

abbreviation no_slash :: "string \<Rightarrow> bool" where
  "no_slash s \<equiv> CHR ''/'' \<notin> set s"

lemma not_is_abs_no_slash: "no_slash b \<Longrightarrow> \<not> is_abs b"
  by (auto simp: is_abs_def dest: hd_in_set)

lemma py_join_inj:
  assumes "no_slash b" "no_slash c" "py_join a b = py_join a c"
  shows "b = c"
  using assms not_is_abs_no_slash[of b] not_is_abs_no_slash[of c]
  by (auto simp: py_join_def split: if_splits)

lemma basename_append: "no_slash b \<Longrightarrow> basename (a @ ''/'' @ b) = b"
proof -
  assume "no_slash b"
  then have "takeWhile (\<lambda>c. c \<noteq> CHR ''/'') (rev b @ CHR ''/'' # rev a) = rev b"
    by (subst takeWhile_append2) auto
  then show ?thesis by (simp add: basename_def)
qed

lemma basename_py_join:
  assumes "no_slash b" "a \<noteq> []"
  shows "basename (py_join a b) = b"
proof (cases "last a = CHR ''/''")
  case True
  then obtain p where "a = p @ ''/''"
    using assms(2) by (metis append_butlast_last_id)
  then show ?thesis
    using assms basename_append[of b p] not_is_abs_no_slash[of b] by (simp add: py_join_def)
next
  case False
  then show ?thesis
    using assms basename_append[of b a] not_is_abs_no_slash[of b] by (simp add: py_join_def)
qed

lemma py_join_abs: "is_abs a \<Longrightarrow> \<not> is_abs b \<Longrightarrow> is_abs (py_join a b)"
  by (auto simp: py_join_def is_abs_def)

lemma py_join_nonempty: "a \<noteq> [] \<or> b \<noteq> [] \<Longrightarrow> py_join a b \<noteq> []"
  by (auto simp: py_join_def is_abs_def)

lemma length_py_join: "\<not> is_abs b \<Longrightarrow> length a + length b \<le> length (py_join a b)"
  by (auto simp: py_join_def)

lemma prefix_py_join: "\<not> is_abs b \<Longrightarrow> prefix a (py_join a b)"
  by (auto simp: py_join_def)

end
