(* ===== verification/Host_World.thy ===== *)
theory Host_World
  imports Py_Path
begin

text \<open>
  The machine the tools run on, as far as they see it: the files, the commands that were run, and
  what was printed; and the computations over it that may raise. The programs the tools start
  (clang, ld.lld, blade, git, QEMU) are not part of the repository: running one is the parameter
  \<open>h_exec\<close>, an arbitrary function from the command and the files to the exit status and the output
  (nothing, when the program cannot be started) and the files afterwards.

  A file system is the list of its files with their contents; a directory exists when a file lies
  below it, so an empty directory and a missing one are the same here. Permissions, links and
  failing system calls other than the ones written out are not modelled.
\<close>

section \<open>Files\<close>

type_synonym fs = "(string \<times> string) list"

definition under :: "string \<Rightarrow> string \<Rightarrow> bool" where
  "under d q \<longleftrightarrow> q = d \<or> prefix (d @ ''/'') q"

definition fs_isfile :: "fs \<Rightarrow> string \<Rightarrow> bool" where
  "fs_isfile fs p \<longleftrightarrow> map_of fs p \<noteq> None"

definition fs_isdir :: "fs \<Rightarrow> string \<Rightarrow> bool" where
  "fs_isdir fs d \<longleftrightarrow> list_ex (\<lambda>(q, v). prefix (d @ ''/'') q) fs"

definition fs_write :: "string \<Rightarrow> string \<Rightarrow> fs \<Rightarrow> fs" where
  "fs_write p v fs = (p, v) # filter (\<lambda>(q, w). q \<noteq> p) fs"

definition fs_remove :: "string \<Rightarrow> fs \<Rightarrow> fs" where
  "fs_remove p fs = filter (\<lambda>(q, w). q \<noteq> p) fs"

text \<open>\<^verbatim>\<open>shutil.rmtree(d, ignore_errors=True)\<close>: a directory goes with all below it, a file that is no
  directory stays.\<close>

definition fs_rmtree :: "string \<Rightarrow> fs \<Rightarrow> fs" where
  "fs_rmtree d fs = filter (\<lambda>(q, w). \<not> prefix (d @ ''/'') q) fs"

text \<open>\<^verbatim>\<open>os.replace(a, b)\<close> on a directory: everything below \<open>a\<close> moves below \<open>b\<close>.\<close>

definition fs_rename :: "string \<Rightarrow> string \<Rightarrow> fs \<Rightarrow> fs" where
  "fs_rename a b fs = map (\<lambda>(q, w). (if under a q then b @ drop (length a) q else q, w)) fs"

definition entry_name :: "string \<Rightarrow> string \<Rightarrow> string" where
  "entry_name d q = takeWhile (\<lambda>c. c \<noteq> CHR ''/'') (drop (length d + 1) q)"

definition fs_listdir :: "fs \<Rightarrow> string \<Rightarrow> string list" where
  "fs_listdir fs d = remdups (map (\<lambda>(q, v). entry_name d q) (filter (\<lambda>(q, v). prefix (d @ ''/'') q) fs))"

lemma map_of_fs_write [simp]: "map_of (fs_write p v fs) q = (if q = p then Some v else map_of fs q)"
  by (induction fs) (auto simp: fs_write_def)

lemma map_of_fs_remove [simp]: "map_of (fs_remove p fs) q = (if q = p then None else map_of fs q)"
  by (induction fs) (auto simp: fs_remove_def)

lemma map_of_fs_rmtree [simp]: "map_of (fs_rmtree d fs) q = (if prefix (d @ ''/'') q then None else map_of fs q)"
  by (induction fs) (auto simp: fs_rmtree_def)

lemma under_refl [simp]: "under d d"
  by (simp add: under_def)

lemma map_of_fs_rename_outside:
  assumes "\<not> under a q" "\<not> under b q"
  shows "map_of (fs_rename a b fs) q = map_of fs q"
proof (induction fs)
  case Nil
  show ?case by (simp add: fs_rename_def)
next
  case (Cons f fs)
  obtain p v where f: "f = (p, v)" by fastforce
  have "q \<noteq> b @ drop (length a) p" if "under a p"
    using that assms(2) by (auto simp: under_def prefix_def)
  with Cons assms(1) show ?case by (auto simp: fs_rename_def f)
qed

lemma listdir_file:
  assumes "no_slash n"
  shows "map_of fs (d @ ''/'' @ n) \<noteq> None \<Longrightarrow> n \<in> set (fs_listdir fs d)"
proof -
  assume "map_of fs (d @ ''/'' @ n) \<noteq> None"
  then obtain v where v: "(d @ ''/'' @ n, v) \<in> set fs" by (auto dest: map_of_SomeD)
  have "entry_name d (d @ ''/'' @ n) = n"
    using assms by (auto simp: entry_name_def takeWhile_eq_all_conv)
  then show ?thesis
    using v unfolding fs_listdir_def by (force intro: rev_image_eqI)
qed

section \<open>The world and the computations over it\<close>

record cmd =
  cmd_argv :: "string list"
  cmd_cwd :: "string option"
  cmd_env :: "(string \<times> string) list"

record world =
  w_fs :: fs
  w_cmds :: "cmd list"
  w_out :: "string list"
  w_err :: "string list"

text \<open>What a finished process leaves: its return code, its output and its error output.\<close>

type_synonym proc = "int \<times> string \<times> string"

record host =
  h_env :: "(string \<times> string) list"
  h_which :: "string option \<Rightarrow> string \<Rightarrow> string option"
  h_probe :: "string list \<Rightarrow> proc option"
  h_exec :: "cmd \<Rightarrow> fs \<Rightarrow> proc option \<times> fs"
  h_cwd :: string
  h_home :: "string \<Rightarrow> string option"
  h_python :: string
  h_tty :: bool

type_synonym 'a io = "world \<Rightarrow> 'a res \<times> world"

definition ret :: "'a \<Rightarrow> 'a io" where
  "ret a = (\<lambda>w. (Inr a, w))"

definition raise :: "exc \<Rightarrow> 'a io" where
  "raise e = (\<lambda>w. (Inl e, w))"

definition bind :: "'a io \<Rightarrow> ('a \<Rightarrow> 'b io) \<Rightarrow> 'b io" where
  "bind m k = (\<lambda>w. case m w of (Inl e, w') \<Rightarrow> (Inl e, w') | (Inr a, w') \<Rightarrow> k a w')"

definition of_res :: "'a res \<Rightarrow> 'a io" where
  "of_res r = (\<lambda>w. (r, w))"

definition get_fs :: "fs io" where
  "get_fs = (\<lambda>w. (Inr (w_fs w), w))"

definition upd_fs :: "(fs \<Rightarrow> fs) \<Rightarrow> unit io" where
  "upd_fs f = (\<lambda>w. (Inr (), w\<lparr>w_fs := f (w_fs w)\<rparr>))"

definition print_out :: "string \<Rightarrow> unit io" where
  "print_out s = (\<lambda>w. (Inr (), w\<lparr>w_out := w_out w @ [s]\<rparr>))"

definition print_err :: "string \<Rightarrow> unit io" where
  "print_err s = (\<lambda>w. (Inr (), w\<lparr>w_err := w_err w @ [s]\<rparr>))"

text \<open>Starting a program and waiting for it.\<close>

definition run_proc :: "host \<Rightarrow> cmd \<Rightarrow> proc io" where
  "run_proc h c =
     (\<lambda>w. case h_exec h c (w_fs w) of
            (None, fs') \<Rightarrow> (Inl (OSError (hd (cmd_argv c))), w\<lparr>w_fs := fs', w_cmds := w_cmds w @ [c]\<rparr>)
          | (Some p, fs') \<Rightarrow> (Inr p, w\<lparr>w_fs := fs', w_cmds := w_cmds w @ [c]\<rparr>))"

fun each :: "('a \<Rightarrow> unit io) \<Rightarrow> 'a list \<Rightarrow> unit io" where
  "each f [] = ret ()"
| "each f (x # xs) = bind (f x) (\<lambda>_. each f xs)"

fun map_io :: "('a \<Rightarrow> 'b io) \<Rightarrow> 'a list \<Rightarrow> 'b list io" where
  "map_io f [] = ret []"
| "map_io f (x # xs) = bind (f x) (\<lambda>y. bind (map_io f xs) (\<lambda>ys. ret (y # ys)))"

text \<open>\<^verbatim>\<open>try ... except\<close>: the handler is given the exception.\<close>

definition catch :: "'a io \<Rightarrow> (exc \<Rightarrow> 'a io) \<Rightarrow> 'a io" where
  "catch m h = (\<lambda>w. case m w of (Inl e, w') \<Rightarrow> h e w' | (Inr a, w') \<Rightarrow> (Inr a, w'))"

lemma bind_apply:
  "bind m k w = (case m w of (Inl e, w') \<Rightarrow> (Inl e, w') | (Inr a, w') \<Rightarrow> k a w')"
  by (simp add: bind_def)

lemma io_simps [simp]:
  "ret a w = (Inr a, w)"
  "raise e w = (Inl e, w)"
  "of_res r w = (r, w)"
  "get_fs w = (Inr (w_fs w), w)"
  "upd_fs f w = (Inr (), w\<lparr>w_fs := f (w_fs w)\<rparr>)"
  "print_out s w = (Inr (), w\<lparr>w_out := w_out w @ [s]\<rparr>)"
  "print_err s w = (Inr (), w\<lparr>w_err := w_err w @ [s]\<rparr>)"
  by (simp_all add: ret_def raise_def of_res_def get_fs_def upd_fs_def print_out_def print_err_def)

lemma bind_simps [simp]:
  "bind (ret a) k w = k a w"
  "bind (raise e) k w = (Inl e, w)"
  "bind get_fs kf w = kf (w_fs w) w"
  "bind (upd_fs f) k' w = k' () (w\<lparr>w_fs := f (w_fs w)\<rparr>)"
  "bind (print_out s) k' w = k' () (w\<lparr>w_out := w_out w @ [s]\<rparr>)"
  "bind (print_err s) k' w = k' () (w\<lparr>w_err := w_err w @ [s]\<rparr>)"
  "bind (of_res (Inr a)) k w = k a w"
  "bind (of_res (Inl e)) k w = (Inl e, w)"
  by (simp_all add: bind_apply)

lemma bind_Inr: "bind m k w = (Inr b, w') \<longleftrightarrow> (\<exists>a w1. m w = (Inr a, w1) \<and> k a w1 = (Inr b, w'))"
  by (auto simp: bind_apply split: prod.splits sum.splits)

lemma bind_Inl:
  "bind m k w = (Inl e, w') \<longleftrightarrow>
     m w = (Inl e, w') \<or> (\<exists>a w1. m w = (Inr a, w1) \<and> k a w1 = (Inl e, w'))"
  by (auto simp: bind_apply split: prod.splits sum.splits)

text \<open>An invariant of the world that every part of a computation keeps, the whole keeps.\<close>

definition keeps :: "(world \<Rightarrow> bool) \<Rightarrow> 'a io \<Rightarrow> bool" where
  "keeps P m \<longleftrightarrow> (\<forall>w. P w \<longrightarrow> P (snd (m w)))"

lemma keeps_bind: "keeps P m \<Longrightarrow> (\<And>a. keeps P (k a)) \<Longrightarrow> keeps P (bind m k)"
  unfolding keeps_def bind_apply by (auto split: prod.splits sum.splits)

lemma keeps_ret [simp]: "keeps P (ret a)" "keeps P (raise e)" "keeps P (of_res r)" "keeps P get_fs"
  by (simp_all add: keeps_def)

lemma keeps_each: "(\<And>x. x \<in> set xs \<Longrightarrow> keeps P (f x)) \<Longrightarrow> keeps P (each f xs)"
  by (induction xs) (auto intro: keeps_bind)

lemma keeps_map_io: "(\<And>x. x \<in> set xs \<Longrightarrow> keeps P (f x)) \<Longrightarrow> keeps P (map_io f xs)"
  by (induction xs) (auto intro!: keeps_bind)

lemma keepsD: "keeps P m \<Longrightarrow> P w \<Longrightarrow> m w = (r, w') \<Longrightarrow> P w'"
  by (auto simp: keeps_def)

text \<open>The exceptions a computation may end in.\<close>

definition errs :: "(exc \<Rightarrow> bool) \<Rightarrow> 'a io \<Rightarrow> bool" where
  "errs P m \<longleftrightarrow> (\<forall>w e w'. m w = (Inl e, w') \<longrightarrow> P e)"

named_theorems errs_rules \<open>which exceptions the parts of a computation may raise\<close>

lemma errs_bind [errs_rules]: "errs P m \<Longrightarrow> (\<And>a. errs P (k a)) \<Longrightarrow> errs P (bind m k)"
  unfolding errs_def bind_Inl by blast

lemma errs_basic [errs_rules]:
  "errs P (ret a)" "errs P get_fs" "errs P (upd_fs f)" "errs P (print_out s)" "errs P (print_err s)"
  by (auto simp: errs_def)

lemma errs_raise [errs_rules]: "P e \<Longrightarrow> errs P (raise e)"
  by (simp add: errs_def)

lemma errs_of_res: "(\<And>e. r = Inl e \<Longrightarrow> P e) \<Longrightarrow> errs P (of_res r)"
  by (auto simp: errs_def)

lemma errs_each [errs_rules]: "(\<And>x. errs P (f x)) \<Longrightarrow> errs P (each f xs)"
  by (induction xs) (auto intro: errs_rules)

lemma errs_map_io [errs_rules]: "(\<And>x. errs P (f x)) \<Longrightarrow> errs P (map_io f xs)"
  by (induction xs) (auto intro!: errs_rules)

lemma errs_run_proc [errs_rules]: "(\<And>p. P (OSError p)) \<Longrightarrow> errs P (run_proc h c)"
  by (auto simp: errs_def run_proc_def split: prod.splits option.splits)

lemma errsD: "errs P m \<Longrightarrow> m w = (Inl e, w') \<Longrightarrow> P e"
  by (auto simp: errs_def)

end
