(* ===== verification/Toolchain.thy ===== *)
theory Toolchain
  imports Host_World
begin

text \<open>
  The toolchain resolver, \<^verbatim>\<open>src/tools/toolchain.py\<close>: reading the pin file, probing a compiler's
  version, the resolved toolchain and what it answers, the four steps of \<^verbatim>\<open>resolve\<close> and the fetch
  that publishes a checkout by renaming a directory.

  The environment is the argument \<open>env\<close>, as in the source. \<^verbatim>\<open>shutil.which\<close>, the probed compiler and
  the commands of the fetch are fields of the \<^typ>\<open>host\<close>; nothing is assumed about them here.
\<close>

section \<open>Names\<close>

type_synonym env = "(string \<times> string) list"
type_synonym pin = "(string \<times> string) list"

definition UPSTREAM_URL :: string where
  "UPSTREAM_URL = ''https://github.com/swoodtke/sawlang.git''"

definition CACHE_ENV :: string where
  "CACHE_ENV = ''SAW_TOOLCHAIN_CACHE''"

definition DEFAULT_CACHE :: string where
  "DEFAULT_CACHE = path_join ''~'' [''.cache'', ''saw-toolchain'']"

definition MODULE_DIRS :: "(string \<times> string list) list" where
  "MODULE_DIRS =
     [(''imgformat'', [''libs'', ''imgformat'', ''src'']),
      (''toml'', [''libs'', ''toml'', ''src'']),
      (''semver'', [''libs'', ''semver'', ''src''])]"

text \<open>\<^verbatim>\<open>sorted(MODULE_DIRS)\<close>.\<close>

definition module_names :: "string list" where
  "module_names = [''imgformat'', ''semver'', ''toml'']"

definition PIN_FILE :: string where
  "PIN_FILE = ''sawlang.pin''"

text \<open>\<^verbatim>\<open>env.get(k)\<close> where the source then asks whether the value is true: an empty value counts as
  no value.\<close>

definition env_named :: "env \<Rightarrow> string \<Rightarrow> string option" where
  "env_named env k = (case map_of env k of None \<Rightarrow> None | Some v \<Rightarrow> if v = [] then None else Some v)"

definition repo_root :: "host \<Rightarrow> string \<Rightarrow> string" where
  "repo_root h file = dirname (dirname (abspath (h_cwd h) file))"

definition looks_like_sawlang :: "fs \<Rightarrow> string \<Rightarrow> bool" where
  "looks_like_sawlang fs path \<longleftrightarrow> path \<noteq> [] \<and> fs_isfile fs (path_join path [''sawc'', ''sawc.py''])"

section \<open>The pin file\<close>

definition pin_line :: "string \<Rightarrow> string" where
  "pin_line raw = str_strip (before_char (CHR ''#'') raw)"

definition pin_error :: "string \<Rightarrow> nat \<Rightarrow> string \<Rightarrow> exc" where
  "pin_error path lineno line =
     ToolchainError (path @ '':'' @ show_nat lineno @ '': expected `key = value`, got `'' @ line
                  @ ''`'')"

fun read_pin_lines :: "string \<Rightarrow> nat \<Rightarrow> string list \<Rightarrow> pin \<Rightarrow> pin res" where
  "read_pin_lines path lineno [] pin = Inr pin"
| "read_pin_lines path lineno (raw # raws) pin =
     (let line = pin_line raw in
      if line = [] then read_pin_lines path (lineno + 1) raws pin
      else if \<not> str_in ''='' line
        then Inl (pin_error path lineno line)
      else read_pin_lines path (lineno + 1) raws
             ((str_strip (before_char (CHR ''='') line),
               str_strip_by (\<lambda>c. c = chr_dquote) (str_strip (after_char (CHR ''='') line))) # pin))"

definition read_pin :: "fs \<Rightarrow> string \<Rightarrow> pin option res" where
  "read_pin fs consumer_root =
     (let path = py_join consumer_root PIN_FILE in
      case map_of fs path of
        None \<Rightarrow> Inr None
      | Some contents \<Rightarrow> map_sum id Some (read_pin_lines path 1 (file_lines contents) []))"

section \<open>Probing\<close>

definition which_tool :: "host \<Rightarrow> string \<Rightarrow> env \<Rightarrow> string option" where
  "which_tool h name env = h_which h (map_of env ''PATH'') name"

definition probe_version :: "host \<Rightarrow> string list \<Rightarrow> string option" where
  "probe_version h sawc_argv =
     (case h_probe h (sawc_argv @ [''--version'']) of
        None \<Rightarrow> None
      | Some (rc, out, err) \<Rightarrow>
          if rc \<noteq> 0 then None
          else case str_split (str_strip (if out \<noteq> [] then out else err)) of
                 [prog, version] \<Rightarrow> if prog = ''sawc'' then Some version else None
               | _ \<Rightarrow> None)"

section \<open>A resolved toolchain\<close>

record toolchain =
  sawc_argv :: "string list"
  tc_source :: string
  tc_root :: "string option"
  tc_blade_bin :: "string option"
  tc_notes :: "string list"

definition sawc :: "toolchain \<Rightarrow> string list" where
  "sawc t = sawc_argv t"

definition sawc_env_value :: "toolchain \<Rightarrow> string" where
  "sawc_env_value t = str_join '' '' (sawc_argv t)"

definition blade_binary :: "toolchain \<Rightarrow> string option" where
  "blade_binary t = tc_blade_bin t"

definition no_root_text :: "string \<Rightarrow> string \<Rightarrow> string" where
  "no_root_text source what =
     ''no sawlang checkout is available, and '' @ what @ '' live INSIDE one.'' @ nl @ nl
      @ ''The toolchain in use came from '' @ source @ '', which supplies the'' @ nl
      @ ''`sawc` and `blade` PROGRAMS and nothing else '' @ em_dash @ '' no install puts a''
      @ nl @ ''package'' @ [chr_squote] @ ''s source directory on a $PATH.'' @ nl @ nl
      @ ''Name a checkout with SAWLANG_ROOT=/path/to/sawlang, or add a'' @ nl @ PIN_FILE
      @ '' so one can be fetched.''"

definition require_root :: "toolchain \<Rightarrow> string \<Rightarrow> string res" where
  "require_root t what =
     (case tc_root t of
        Some root \<Rightarrow> if root \<noteq> [] then Inr root else Inl (ToolchainError (no_root_text (tc_source t) what))
      | None \<Rightarrow> Inl (ToolchainError (no_root_text (tc_source t) what)))"

definition blade_package_dir :: "toolchain \<Rightarrow> string res" where
  "blade_package_dir t =
     map_sum id (\<lambda>root. py_join root ''blade'') (require_root t (''Blade'' @ [chr_squote] @ ''s own sources''))"

definition module_source :: "toolchain \<Rightarrow> string \<Rightarrow> string res" where
  "module_source t name =
     (case map_of MODULE_DIRS name of
        None \<Rightarrow>
          Inl (ToolchainError (''`'' @ name @ ''` is not a sawlang package this resolver owns (it owns: ''
                @ str_join '', '' module_names @ '')''))
      | Some parts \<Rightarrow>
          map_sum id (\<lambda>root. path_join root parts) (require_root t (''the `'' @ name @ ''` package'' @ [chr_squote] @ ''s sources'')))"

definition module_path_arg :: "toolchain \<Rightarrow> string \<Rightarrow> string res" where
  "module_path_arg t name = map_sum id (\<lambda>d. name @ ''='' @ d) (module_source t name)"

section \<open>The steps\<close>

definition resolve_root :: "host \<Rightarrow> fs \<Rightarrow> env \<Rightarrow> string \<Rightarrow> string option res" where
  "resolve_root h fs env consumer_root =
     (case env_named env ''SAWLANG_ROOT'' of
        Some named0 \<Rightarrow>
          let named = abspath (h_cwd h) (expanduser (h_home h) named0) in
          if \<not> looks_like_sawlang fs named
            then Inl (ToolchainError (''SAWLANG_ROOT='' @ named
                  @ '' is not a sawlang checkout (no sawc/sawc.py under it)''))
          else Inr (Some named)
      | None \<Rightarrow> Inr (if looks_like_sawlang fs consumer_root then Some consumer_root else None))"

definition sawc_from_root :: "host \<Rightarrow> fs \<Rightarrow> string \<Rightarrow> string list" where
  "sawc_from_root h fs root =
     (let venv_py = path_join root [''.venv'', ''bin'', ''python''] in
      [if fs_isfile fs venv_py then venv_py else h_python h, path_join root [''sawc'', ''sawc.py'']])"

text \<open>The pin check of a compiler found on \<^verbatim>\<open>$PATH\<close>: the notes to add, or the refusal.\<close>

definition unpinned_note :: "string \<Rightarrow> string option \<Rightarrow> string" where
  "unpinned_note loc found =
     ''note: using the unpinned `sawc` at '' @ loc @
     (case found of None \<Rightarrow> [] | Some v \<Rightarrow> if v = [] then [] else '' (version '' @ v @ '')'') @
     '' '' @ em_dash @ '' no '' @ PIN_FILE @ '' states which version is required.''"

definition version_unknown_text :: "string \<Rightarrow> string \<Rightarrow> string" where
  "version_unknown_text loc want =
     ''the `sawc` at '' @ loc @ '' would not say what version it is, and'' @ nl @ PIN_FILE
      @ '' requires '' @ want @ ''.'' @ nl @ nl
      @ ''`sawc --version` must print `sawc <semver>`. A compiler that'' @ nl
      @ ''cannot name itself is not one this build will trust.''"

definition version_mismatch_text :: "string \<Rightarrow> string \<Rightarrow> string \<Rightarrow> string" where
  "version_mismatch_text loc found want =
     ''the `sawc` on your PATH is version '' @ found @ '', and '' @ PIN_FILE @ nl
      @ ''requires '' @ want @ ''.'' @ nl @ nl @ ''  found:    '' @ loc @ '' ('' @ found @ '')''
      @ nl @ ''  required: '' @ want @ nl @ nl
      @ ''Install the required version, point SAWLANG_ROOT at a checkout'' @ nl
      @ ''of it, or unset your PATH entry so the pinned commit is fetched'' @ nl @ ''instead.''"

definition check_version :: "host \<Rightarrow> string list \<Rightarrow> pin option \<Rightarrow> string \<Rightarrow> string list res" where
  "check_version h argv pin loc =
     (let found = probe_version h argv in
      case Option.bind pin (\<lambda>p. map_of p ''version'') of
        None \<Rightarrow> Inr [unpinned_note loc found]
      | Some want \<Rightarrow>
          (case found of
             None \<Rightarrow> Inl (ToolchainError (version_unknown_text loc want))
           | Some v \<Rightarrow>
               if v \<noteq> want then Inl (ToolchainError (version_mismatch_text loc v want))
               else Inr []))"

definition cache_root :: "host \<Rightarrow> env \<Rightarrow> string" where
  "cache_root h env =
     (case env_named env CACHE_ENV of
        Some named \<Rightarrow> abspath (h_cwd h) (expanduser (h_home h) named)
      | None \<Rightarrow> expanduser (h_home h) DEFAULT_CACHE)"

section \<open>The pinned fetch\<close>

definition fetch_dest :: "host \<Rightarrow> env \<Rightarrow> string \<Rightarrow> string" where
  "fetch_dest h env sha = py_join (cache_root h env) sha"

definition fetch_tmp :: "host \<Rightarrow> env \<Rightarrow> string \<Rightarrow> string" where
  "fetch_tmp h env sha = fetch_dest h env sha @ ''.partial''"

definition fetch_run :: "host \<Rightarrow> string \<Rightarrow> string list \<times> string option \<Rightarrow> unit io" where
  "fetch_run h tmp c =
     bind (run_proc h \<lparr>cmd_argv = fst c, cmd_cwd = snd c, cmd_env = h_env h\<rparr>)
       (\<lambda>(rc, out, err).
          if rc \<noteq> 0 then
            bind (upd_fs (fs_rmtree tmp))
              (\<lambda>_. raise (ToolchainError
                 (''fetching the pinned sawlang toolchain failed:'' @ nl @ ''  $ ''
                  @ str_join '' '' (fst c) @ nl @ out @ err)))
          else ret ())"

definition fetch_cmds :: "string \<Rightarrow> string \<Rightarrow> (string list \<times> string option) list" where
  "fetch_cmds tmp sha =
     [([''git'', ''init'', ''--quiet'', tmp], None),
      ([''git'', ''remote'', ''add'', ''origin'', UPSTREAM_URL], Some tmp),
      ([''git'', ''fetch'', ''--quiet'', ''--depth'', ''1'', ''origin'', sha], Some tmp),
      ([''git'', ''checkout'', ''--quiet'', ''FETCH_HEAD''], Some tmp),
      ([''python3'', ''-m'', ''venv'', py_join tmp ''.venv''], None),
      ([path_join tmp [''.venv'', ''bin'', ''pip''], ''install'', ''--quiet'', ''llvmlite''], None)]"

definition need_tool :: "host \<Rightarrow> env \<Rightarrow> string \<Rightarrow> unit io" where
  "need_tool h env tool =
     (case which_tool h tool env of
        Some p \<Rightarrow> ret ()
      | None \<Rightarrow> raise (ToolchainError
          (''fetching the pinned sawlang toolchain needs `'' @ tool @ ''`, and'' @ nl
           @ ''there is none on your PATH.'' @ nl @ nl @ ''Install '' @ tool
           @ '', or supply a toolchain yourself with'' @ nl
           @ ''SAWLANG_ROOT / SAWC / a `sawc` on your PATH.'')))"

text \<open>\<^verbatim>\<open>os.makedirs(tmp)\<close> refuses a path that exists, \<^verbatim>\<open>os.replace\<close> a target directory that is not
  empty.\<close>

definition make_new_dir :: "string \<Rightarrow> unit io" where
  "make_new_dir d =
     bind get_fs (\<lambda>fs. if fs_isfile fs d \<or> fs_isdir fs d then raise (OSError d) else ret ())"

definition publish :: "string \<Rightarrow> string \<Rightarrow> unit io" where
  "publish tmp dest =
     bind get_fs (\<lambda>fs. if fs_isfile fs dest \<or> fs_isdir fs dest then raise (OSError dest)
                       else upd_fs (fs_rename tmp dest))"

text \<open>The fetch once the cache has no checkout: the tools, then the run in the partial directory.\<close>

definition fetch_body :: "host \<Rightarrow> string \<Rightarrow> string \<Rightarrow> string \<Rightarrow> bool \<Rightarrow> string io" where
  "fetch_body h sha dest tmp verbose =
     bind (if verbose then print_out (''  fetching sawlang '' @ take 12 sha @ '' -> '' @ dest) else ret ()) (\<lambda>_.
     bind (make_new_dir tmp) (\<lambda>_.
     bind (each (fetch_run h tmp) (fetch_cmds tmp sha)) (\<lambda>_.
     bind (publish tmp dest) (\<lambda>_.
     ret dest))))"

definition fetch :: "host \<Rightarrow> string \<Rightarrow> env \<Rightarrow> bool \<Rightarrow> string io" where
  "fetch h sha env verbose =
     (let dest = fetch_dest h env sha; tmp = fetch_tmp h env sha in
      bind get_fs (\<lambda>fs.
      if looks_like_sawlang fs dest then ret dest
      else
        bind (each (need_tool h env) [''git'', ''python3'']) (\<lambda>_.
        bind (upd_fs (fs_rmtree tmp)) (\<lambda>_.
        fetch_body h sha dest tmp verbose))))"

section \<open>The resolution\<close>

definition refusal_text :: "string \<Rightarrow> string \<Rightarrow> string \<Rightarrow> string \<Rightarrow> string" where
  "refusal_text consumer_root tried_env tried_path tried_fetch =
     ''no sawlang toolchain found '' @ em_dash
      @ '' `sawc` is needed to build this repository.'' @ nl @ nl
      @ ''Three ways to supply one, tried in this order:'' @ nl @ nl @ ''  1. NAME ONE.'' @ nl
      @ ''       SAWLANG_ROOT=/path/to/sawlang   a checkout to build against'' @ nl
      @ ''       SAWC='' @ dq @ ''python /path/to/sawlang/sawc/sawc.py'' @ dq
      @ ''   the compiler'' @ nl
      @ ''       BLADE=/path/to/blade                          a built blade'' @ nl
      @ ''     -> '' @ tried_env @ nl @ nl @ ''  2. PUT `sawc` AND `blade` ON YOUR PATH.'' @ nl
      @ ''       `make install` in a sawlang checkout does this, into'' @ nl
      @ ''       ~/.local/bin.'' @ nl @ ''     -> '' @ tried_path @ nl @ nl
      @ ''  3. LET THIS REPOSITORY FETCH ONE.'' @ nl @ ''       Needs a `'' @ PIN_FILE
      @ ''` naming the commit, plus `git` and'' @ nl
      @ ''       `python3`. The checkout is cached by SHA and reused.'' @ nl @ ''     -> ''
      @ tried_fetch @ nl @ nl @ ''(looked for '' @ PIN_FILE @ '' in '' @ consumer_root @ '')''"

definition tried_env :: string where
  "tried_env = ''SAWLANG_ROOT, SAWC and BLADE are all unset''"

definition tried_path :: string where
  "tried_path = ''no `sawc` on your PATH''"

definition tried_fetch :: "pin option \<Rightarrow> string" where
  "tried_fetch pin = (case pin of None \<Rightarrow> ''no '' @ PIN_FILE @ '' here'' | Some p \<Rightarrow> PIN_FILE @ '' names no `sha`'')"

text \<open>The names step 1 answers to, joined for the log line.\<close>

definition named_sources :: "env \<Rightarrow> string option \<Rightarrow> string list" where
  "named_sources env root =
     (if env_named env ''SAWC'' \<noteq> None then [''SAWC''] else []) @
     (if env_named env ''BLADE'' \<noteq> None then [''BLADE''] else []) @
     (if env_named env ''SAWLANG_ROOT'' \<noteq> None then [''SAWLANG_ROOT'']
      else if root \<noteq> None then [''this checkout''] else [])"

definition step1_argv :: "host \<Rightarrow> fs \<Rightarrow> env \<Rightarrow> string option \<Rightarrow> string list" where
  "step1_argv h fs env root =
     (case env_named env ''SAWC'' of
        Some named_sawc \<Rightarrow> str_split named_sawc
      | None \<Rightarrow> (case root of Some r \<Rightarrow> sawc_from_root h fs r | None \<Rightarrow> []))"

definition resolve_fetch :: "host \<Rightarrow> env \<Rightarrow> string \<Rightarrow> bool \<Rightarrow> pin option \<Rightarrow> toolchain io" where
  "resolve_fetch h env consumer_root verbose pin =
     (case Option.bind pin (\<lambda>p. env_named p ''sha'') of
        Some sha \<Rightarrow>
          bind (fetch h sha env verbose) (\<lambda>fetched.
          bind get_fs (\<lambda>fs.
          ret \<lparr>sawc_argv = sawc_from_root h fs fetched, tc_source = ''fetch'', tc_root = Some fetched,
               tc_blade_bin = map_of env ''BLADE'', tc_notes = []\<rparr>))
      | None \<Rightarrow>
          raise (ToolchainError (refusal_text consumer_root tried_env tried_path (tried_fetch pin))))"

definition step1_toolchain :: "host \<Rightarrow> fs \<Rightarrow> env \<Rightarrow> string option \<Rightarrow> toolchain" where
  "step1_toolchain h fs env root =
     \<lparr>sawc_argv = step1_argv h fs env root, tc_source = str_join '' + '' (named_sources env root),
      tc_root = root, tc_blade_bin = map_of env ''BLADE'', tc_notes = []\<rparr>"

definition path_toolchain :: "host \<Rightarrow> env \<Rightarrow> string \<Rightarrow> string list \<Rightarrow> toolchain" where
  "path_toolchain h env path_sawc notes =
     \<lparr>sawc_argv = [path_sawc], tc_source = ''PATH'', tc_root = None,
      tc_blade_bin = (case env_named env ''BLADE'' of
                        Some b \<Rightarrow> Some b | None \<Rightarrow> which_tool h ''blade'' env), tc_notes = notes\<rparr>"

definition resolve_rest :: "host \<Rightarrow> fs \<Rightarrow> env \<Rightarrow> string \<Rightarrow> bool \<Rightarrow> pin option \<Rightarrow> string option \<Rightarrow> toolchain io" where
  "resolve_rest h fs env consumer_root verbose pin root =
     (if step1_argv h fs env root \<noteq> [] then ret (step1_toolchain h fs env root)
      else
        case which_tool h ''sawc'' env of
          Some path_sawc \<Rightarrow>
            bind (of_res (check_version h [path_sawc] pin path_sawc)) (\<lambda>notes.
            ret (path_toolchain h env path_sawc notes))
        | None \<Rightarrow> resolve_fetch h env consumer_root verbose pin)"

definition resolve :: "host \<Rightarrow> env \<Rightarrow> string \<Rightarrow> bool \<Rightarrow> toolchain io" where
  "resolve h env consumer_root verbose =
     bind get_fs (\<lambda>fs.
     bind (of_res (read_pin fs consumer_root)) (\<lambda>pin.
     bind (of_res (resolve_root h fs env consumer_root)) (\<lambda>root.
     resolve_rest h fs env consumer_root verbose pin root)))"

section \<open>The command line\<close>

definition or_else :: "string option \<Rightarrow> string \<Rightarrow> string" where
  "or_else v d = (case v of Some s \<Rightarrow> if s \<noteq> [] then s else d | None \<Rightarrow> d)"

definition red_error :: "string \<Rightarrow> string" where
  "red_error m = [CHR 0x1B] @ ''[1;31merror'' @ [CHR 0x1B] @ ''[0m: '' @ m"

definition print_module :: "toolchain \<Rightarrow> string \<Rightarrow> unit io" where
  "print_module t name =
     bind (of_res (module_source t name)) (\<lambda>d. print_out (''  '' @ pad_right 11 name @ '': '' @ d))"

definition print_toolchain :: "toolchain \<Rightarrow> int io" where
  "print_toolchain t =
     bind (each print_out (tc_notes t)) (\<lambda>_.
     bind (print_out (''resolved via : '' @ tc_source t)) (\<lambda>_.
     bind (print_out (''sawc         : '' @ sawc_env_value t)) (\<lambda>_.
     bind (print_out (''blade        : '' @ or_else (blade_binary t) ''(build from source)'')) (\<lambda>_.
     bind (print_out (''root         : '' @ or_else (tc_root t) (''(none '' @ em_dash @ '' executables only)''))) (\<lambda>_.
     bind (if or_else (tc_root t) [] \<noteq> [] then each (print_module t) module_names else ret ()) (\<lambda>_.
     ret 0))))))"

definition toolchain_main :: "host \<Rightarrow> string \<Rightarrow> int io" where
  "toolchain_main h file =
     bind (catch (bind (resolve h (h_env h) (repo_root h file) True) (\<lambda>t. ret (Inr t)))
             (\<lambda>e. case e of ToolchainError m \<Rightarrow> bind (print_err (red_error m)) (\<lambda>_. ret (Inl 1))
                          | _ \<Rightarrow> raise e))
       (\<lambda>r. case r of Inl code \<Rightarrow> ret code | Inr t \<Rightarrow> print_toolchain t)"


section \<open>Reading a pin\<close>

lemma universal_newlines_id: "chr_cr \<notin> set s \<Longrightarrow> universal_newlines s = s"
  by (induction s rule: universal_newlines.induct) auto

lemma keep_lines_line:
  "chr_nl \<notin> set l \<Longrightarrow> keep_lines acc (l @ chr_nl # rest) = (rev acc @ l @ [chr_nl]) # keep_lines [] rest"
  by (induction l arbitrary: acc) auto

lemma keep_lines_concat:
  "(\<And>l. l \<in> set ls \<Longrightarrow> chr_nl \<notin> set l) \<Longrightarrow>
   keep_lines [] (concat (map (\<lambda>l. l @ [chr_nl]) ls)) = map (\<lambda>l. l @ [chr_nl]) ls"
  by (induction ls) (auto simp: keep_lines_line)

text \<open>The pin file as it is written by hand: one quoted assignment per line.\<close>

definition pin_word :: "string \<Rightarrow> bool" where
  "pin_word s \<longleftrightarrow>
     list_all (\<lambda>c. \<not> is_space c \<and> c \<noteq> CHR ''#'' \<and> c \<noteq> CHR ''='' \<and> c \<noteq> chr_dquote) s"

definition pin_text :: "(string \<times> string) list \<Rightarrow> string" where
  "pin_text kvs = concat (map (\<lambda>l. l @ [chr_nl]) (map (\<lambda>(k, v). k @ '' = '' @ dq @ v @ dq) kvs))"

lemma dropWhile_notin: "(\<And>c. c \<in> set s \<Longrightarrow> \<not> p c) \<Longrightarrow> dropWhile p s = s"
  by (cases s) auto

lemma str_strip_by_id: "(\<And>c. c \<in> set s \<Longrightarrow> \<not> p c) \<Longrightarrow> str_strip_by p s = s"
  using dropWhile_notin[of s p] dropWhile_notin[of "rev s" p] by (simp add: str_strip_by_def)

lemma str_strip_by_last:
  assumes "\<And>c. c \<in> set s \<Longrightarrow> \<not> p c" "s \<noteq> []" "p x"
  shows "str_strip_by p (s @ [x]) = s"
proof -
  have "dropWhile p (s @ [x]) = s @ [x]" using assms(1,2) by (cases s) auto
  then show ?thesis using assms(1,3) dropWhile_notin[of "rev s" p] by (simp add: str_strip_by_def)
qed

lemma pin_wordD:
  "pin_word s \<Longrightarrow> c \<in> set s \<Longrightarrow> \<not> is_space c \<and> c \<noteq> CHR ''#'' \<and> c \<noteq> CHR ''='' \<and> c \<noteq> chr_dquote"
  by (auto simp: pin_word_def list_all_iff)

lemma takeWhile_stop: "(\<And>c. c \<in> set s \<Longrightarrow> p c) \<Longrightarrow> \<not> p x \<Longrightarrow> takeWhile p (s @ x # r) = s"
  by (simp add: takeWhile_append)

lemma dropWhile_stop: "(\<And>c. c \<in> set s \<Longrightarrow> p c) \<Longrightarrow> \<not> p x \<Longrightarrow> dropWhile p (s @ x # r) = x # r"
  by (induction s) auto

lemma space_facts [simp]:
  "is_space (CHR '' '')" "is_space chr_nl" "is_space chr_cr" "\<not> is_space chr_dquote"
  "\<not> is_space (CHR ''='')"
  by (simp_all add: is_space_def)

lemma pin_line_assignment:
  assumes "pin_word k" "k \<noteq> []" "pin_word v"
  shows "pin_line (k @ '' = '' @ dq @ v @ dq @ [chr_nl]) = k @ '' = '' @ dq @ v @ dq"
proof -
  have no_hash: "takeWhile (\<lambda>x. x \<noteq> CHR ''#'') (k @ '' = '' @ dq @ v @ dq @ [chr_nl])
      = k @ '' = '' @ dq @ v @ dq @ [chr_nl]"
    using assms by (auto simp: takeWhile_eq_all_conv dq_def dest: pin_wordD)
  have "hd k \<in> set k" using assms(2) by simp
  then have front: "dropWhile is_space (k @ r) = k @ r" for r
    using assms(1,2) pin_wordD[of k "hd k"] by (cases k) auto
  show ?thesis
    unfolding pin_line_def before_char_def no_hash str_strip_def str_strip_by_def
    by (simp add: front dq_def)
qed

lemma pin_assignment_fields:
  assumes "pin_word k" "k \<noteq> []" "pin_word v"
  shows "str_strip (before_char (CHR ''='') (k @ '' = '' @ dq @ v @ dq)) = k"
    and "str_strip_by (\<lambda>c. c = chr_dquote) (str_strip (after_char (CHR ''='') (k @ '' = '' @ dq @ v @ dq))) = v"
proof -
  have pre: "takeWhile (\<lambda>x. x \<noteq> CHR ''='') ((k @ '' '') @ CHR ''='' # r) = k @ '' ''"
       and post: "dropWhile (\<lambda>x. x \<noteq> CHR ''='') ((k @ '' '') @ CHR ''='' # r) = CHR ''='' # r" for r
    by (rule takeWhile_stop dropWhile_stop; use assms(1) in \<open>auto dest: pin_wordD\<close>)+
  have k: "str_strip (k @ '' '') = k"
    unfolding str_strip_def by (rule str_strip_by_last) (use assms in \<open>auto dest: pin_wordD\<close>)
  show "str_strip (before_char (CHR ''='') (k @ '' = '' @ dq @ v @ dq)) = k"
    using pre k by (simp add: before_char_def)
  have q: "str_strip ('' '' @ dq @ v @ dq) = dq @ v @ dq"
    by (simp add: str_strip_def str_strip_by_def dq_def)
  have "str_strip_by (\<lambda>c. c = chr_dquote) (dq @ v @ dq) = v"
  proof (cases "v = []")
    case True
    then show ?thesis by (simp add: str_strip_by_def dq_def)
  next
    case False
    have "str_strip_by (\<lambda>c. c = chr_dquote) (dq @ v @ dq) = str_strip_by (\<lambda>c. c = chr_dquote) (v @ [chr_dquote])"
      by (simp add: str_strip_by_def dq_def)
    also have "\<dots> = v"
      by (rule str_strip_by_last) (use assms(3) False in \<open>auto dest: pin_wordD\<close>)
    finally show ?thesis .
  qed
  then show "str_strip_by (\<lambda>c. c = chr_dquote) (str_strip (after_char (CHR ''='') (k @ '' = '' @ dq @ v @ dq))) = v"
    using post q by (simp add: after_char_def)
qed

definition pin_ok :: "(string \<times> string) list \<Rightarrow> bool" where
  "pin_ok kvs \<longleftrightarrow> list_all (\<lambda>(k, v). pin_word k \<and> k \<noteq> [] \<and> pin_word v) kvs"

lemma str_in_char: "str_in [c] s \<longleftrightarrow> c \<in> set s"
proof
  assume "str_in [c] s"
  then obtain i where "occurs_at s [c] i" by (auto simp: str_in_iff)
  then show "c \<in> set s" by (auto simp: occurs_at_def prefix_def) (metis in_set_dropD list.set_intros(1))
next
  assume "c \<in> set s"
  then obtain a b where "s = a @ [c] @ b" by (auto dest: split_list)
  then have "occurs_at s [c] (length a)" by (simp add: occurs_at_def)
  then show "str_in [c] s" by (auto simp: str_in_iff)
qed

lemma read_pin_lines_text:
  "pin_ok kvs \<Longrightarrow>
   read_pin_lines path n (map (\<lambda>(k, v). k @ '' = '' @ dq @ v @ dq @ [chr_nl]) kvs) pin = Inr (rev kvs @ pin)"
  by (induction kvs arbitrary: n pin)
     (auto simp: pin_ok_def pin_line_assignment[simplified] pin_assignment_fields[simplified] str_in_char Let_def)

lemma file_lines_pin_text:
  assumes "pin_ok kvs"
  shows "file_lines (pin_text kvs) = map (\<lambda>(k, v). k @ '' = '' @ dq @ v @ dq @ [chr_nl]) kvs"
proof -
  have clean: "chr_nl \<notin> set w \<and> chr_cr \<notin> set w" if "pin_word w" for w
    using that pin_wordD[of w chr_nl] pin_wordD[of w chr_cr] by auto
  have "chr_cr \<notin> set (pin_text kvs)"
    using assms clean by (auto simp: pin_ok_def list_all_iff pin_text_def dq_def)
  moreover have "keep_lines [] (pin_text kvs) = map (\<lambda>l. l @ [chr_nl]) (map (\<lambda>(k, v). k @ '' = '' @ dq @ v @ dq) kvs)"
    unfolding pin_text_def
    by (rule keep_lines_concat) (use assms clean in \<open>auto simp: pin_ok_def list_all_iff dq_def\<close>)
  ultimately show ?thesis
    by (simp add: file_lines_def universal_newlines_id case_prod_unfold)
qed

text \<open>C34: A pin file that holds one quoted assignment per line is read back as exactly those
  assignments, the last one first, so the last assignment to a key is the one that counts.\<close>

theorem read_pin_roundtrip:
  assumes "map_of fs (py_join r PIN_FILE) = Some (pin_text kvs)" "pin_ok kvs"
  shows "read_pin fs r = Inr (Some (rev kvs))"
  using assms by (simp add: read_pin_def Let_def file_lines_pin_text[simplified] read_pin_lines_text[simplified])

theorem read_pin_roundtrip_witness:
  "read_pin [(''/r/sawlang.pin'', pin_text [(''version'', ''0.2.0''), (''sha'', ''ab12'')])] ''/r''
     = Inr (Some [(''sha'', ''ab12''), (''version'', ''0.2.0'')])"
  using read_pin_roundtrip[of "[(''/r/sawlang.pin'', pin_text [(''version'', ''0.2.0''), (''sha'', ''ab12'')])]"
      "''/r''" "[(''version'', ''0.2.0''), (''sha'', ''ab12'')]"]
  by (simp add: pin_ok_def pin_word_def is_space_def PIN_FILE_def py_join_def is_abs_def)

definition bad_pin_line :: "string \<Rightarrow> bool" where
  "bad_pin_line raw \<longleftrightarrow> pin_line raw \<noteq> [] \<and> CHR ''='' \<notin> set (pin_line raw)"

lemma read_pin_lines_Inl:
  "read_pin_lines path n raws pin = Inl e \<longleftrightarrow>
     (\<exists>i < length raws. bad_pin_line (raws ! i) \<and> (\<forall>j < i. \<not> bad_pin_line (raws ! j)) \<and>
        e = pin_error path (n + i) (pin_line (raws ! i)))"
proof (induction raws arbitrary: n pin)
  case Nil
  show ?case by simp
next
  case (Cons raw raws)
  show ?case
  proof (cases "bad_pin_line raw")
    case True
    then have "read_pin_lines path n (raw # raws) pin = Inl (pin_error path n (pin_line raw))"
      by (simp add: bad_pin_line_def str_in_char Let_def)
    with True show ?thesis
      by (auto simp: less_Suc_eq_0_disj intro!: exI[of _ 0])
  next
    case False
    then have "\<exists>pin'. read_pin_lines path n (raw # raws) pin = read_pin_lines path (n + 1) raws pin'"
      by (cases "pin_line raw = []") (auto simp: bad_pin_line_def str_in_char Let_def)
    then obtain pin' where "read_pin_lines path n (raw # raws) pin = read_pin_lines path (n + 1) raws pin'"
      by blast
    then have "read_pin_lines path n (raw # raws) pin = Inl e \<longleftrightarrow>
        (\<exists>i < length raws. bad_pin_line (raws ! i) \<and> (\<forall>j < i. \<not> bad_pin_line (raws ! j)) \<and>
           e = pin_error path (Suc n + i) (pin_line (raws ! i)))"
      using Cons.IH[of "n + 1" pin'] by simp
    also have "\<dots> \<longleftrightarrow> (\<exists>i < length (raw # raws). bad_pin_line ((raw # raws) ! i) \<and>
        (\<forall>j < i. \<not> bad_pin_line ((raw # raws) ! j)) \<and>
        e = pin_error path (n + i) (pin_line ((raw # raws) ! i)))"
      using False by (auto simp: All_less_Suc2 Ex_less_Suc2)
    finally show ?thesis .
  qed
qed

text \<open>C35: Reading a pin fails exactly when the file has a line that is neither blank nor a comment and
  holds no \<open>=\<close>; the refusal names the file, the first such line and its number.\<close>

theorem read_pin_refusal:
  "read_pin fs r = Inl e \<longleftrightarrow>
     (\<exists>text i. map_of fs (py_join r PIN_FILE) = Some text \<and> i < length (file_lines text) \<and>
        bad_pin_line (file_lines text ! i) \<and> (\<forall>j < i. \<not> bad_pin_line (file_lines text ! j)) \<and>
        e = pin_error (py_join r PIN_FILE) (1 + i) (pin_line (file_lines text ! i)))"
proof -
  have "map_sum id Some x = Inl e \<longleftrightarrow> x = Inl e" for x :: "pin res"
    by (cases x) auto
  then show ?thesis
    by (auto simp: read_pin_def Let_def read_pin_lines_Inl split: option.splits)
qed

definition bad_pin_ex :: string where
  "bad_pin_ex = ''# the pin'' @ nl @ ''version = '' @ dq @ ''1.2'' @ dq @ nl @ ''sha'' @ nl"

theorem read_pin_refusal_witness:
  "read_pin [(''/r/sawlang.pin'', bad_pin_ex)] ''/r'' = Inl (pin_error ''/r/sawlang.pin'' 3 ''sha'')"
proof -
  have l: "length (file_lines bad_pin_ex) = 3" "pin_line (file_lines bad_pin_ex ! 2) = ''sha''" by (code_simp, code_simp)
  have b: "\<not> bad_pin_line (file_lines bad_pin_ex ! 0)" "\<not> bad_pin_line (file_lines bad_pin_ex ! 1)"
    "bad_pin_line (file_lines bad_pin_ex ! 2)"
    by (code_simp, code_simp, code_simp)
  have p: "py_join ''/r'' PIN_FILE = ''/r/sawlang.pin''" by code_simp
  have j: "j = 0 \<or> j = 1" if "j < 2" for j :: nat using that by auto
  show ?thesis
    unfolding read_pin_refusal p
    by (intro exI[of _ bad_pin_ex] exI[of _ 2] conjI allI impI) (use b in \<open>auto simp: l numeral_3_eq_3 dest!: j\<close>)
qed

section \<open>Which toolchain answers\<close>

lemma looks_like_nonempty: "looks_like_sawlang fs p \<Longrightarrow> p \<noteq> []"
  by (simp add: looks_like_sawlang_def)

lemma sawc_from_root_nonempty [simp]: "sawc_from_root h fs r \<noteq> []"
  by (simp add: sawc_from_root_def Let_def)

lemma resolve_root_Some:
  "resolve_root h fs env cr = Inr (Some r) \<Longrightarrow> looks_like_sawlang fs r"
  by (auto simp: resolve_root_def Let_def split: option.splits if_splits)

text \<open>A checkout the operator names with \<^verbatim>\<open>SAWLANG_ROOT\<close> is the one that is used, whatever
  compilers are on \<^verbatim>\<open>$PATH\<close> and whatever the pin asks for: the compiler is the checkout's own unless
  \<^verbatim>\<open>SAWC\<close> names another, no program is run and no file is touched. If the named directory is not a
  checkout, the resolution refuses instead of falling through to the later steps.\<close>

theorem resolve_named_root:
  assumes pin: "read_pin (w_fs w) cr = Inr pin"
    and named: "env_named env ''SAWLANG_ROOT'' = Some p"
    and root: "root = abspath (h_cwd h) (expanduser (h_home h) p)"
    and sawc: "env_named env ''SAWC'' = None \<or> (\<exists>c. env_named env ''SAWC'' = Some c \<and> str_split c \<noteq> [])"
  shows "if looks_like_sawlang (w_fs w) root
         then \<exists>t. resolve h env cr v w = (Inr t, w) \<and> tc_root t = Some root \<and>
                (case env_named env ''SAWC'' of
                   None \<Rightarrow> sawc_argv t = sawc_from_root h (w_fs w) root
                 | Some c \<Rightarrow> sawc_argv t = str_split c)
         else \<exists>m. resolve h env cr v w = (Inl (ToolchainError m), w)"
  using assms
  by (auto simp: resolve_def resolve_rest_def step1_toolchain_def resolve_root_def step1_argv_def Let_def)

definition host_ex :: host where
  "host_ex = \<lparr>h_env = [], h_which = (\<lambda>p n. Some (''/usr/bin/'' @ n)), h_probe = (\<lambda>a. Some (0, ''sawc 9.9.9'', [])),
              h_exec = (\<lambda>c fs. (Some (0, [], []), fs)), h_cwd = ''/cwd'', h_home = (\<lambda>u. Some ''/home/u''),
              h_python = ''/usr/bin/python3'', h_tty = False\<rparr>"

definition checkout_fs :: "string \<Rightarrow> fs" where
  "checkout_fs d = [(d @ ''/sawc/sawc.py'', ''''), (''/r/sawlang.pin'', ''version = 0.2.0'')]"

theorem resolve_named_root_witness:
  "\<exists>t. resolve host_ex [(''SAWLANG_ROOT'', ''~/sawlang'')] ''/r'' False
         \<lparr>w_fs = checkout_fs ''/home/u/sawlang'', w_cmds = [], w_out = [], w_err = []\<rparr>
       = (Inr t, \<lparr>w_fs = checkout_fs ''/home/u/sawlang'', w_cmds = [], w_out = [], w_err = []\<rparr>) \<and>
       sawc_argv t = [''/usr/bin/python3'', ''/home/u/sawlang/sawc/sawc.py'']"
proof -
  let ?w = "\<lparr>w_fs = checkout_fs ''/home/u/sawlang'', w_cmds = [], w_out = [], w_err = []\<rparr>"
  have a: "read_pin (w_fs ?w) ''/r'' = Inr (Some [(''version'', ''0.2.0'')])" by code_simp
  have b: "env_named [(''SAWLANG_ROOT'', ''~/sawlang'')] ''SAWLANG_ROOT'' = Some ''~/sawlang''" by code_simp
  have c: "''/home/u/sawlang'' = abspath (h_cwd host_ex) (expanduser (h_home host_ex) ''~/sawlang'')" by code_simp
  have d: "env_named [(''SAWLANG_ROOT'', ''~/sawlang'')] ''SAWC'' = None" by code_simp
  have e: "looks_like_sawlang (w_fs ?w) ''/home/u/sawlang''" by code_simp
  have f: "sawc_from_root host_ex (w_fs ?w) ''/home/u/sawlang'' = [''/usr/bin/python3'', ''/home/u/sawlang/sawc/sawc.py'']"
    by code_simp
  show ?thesis
    using resolve_named_root[OF a b c disjI1[OF d], of False] d e f by auto
qed

definition pin_version :: "pin option \<Rightarrow> string option" where
  "pin_version pin = Option.bind pin (\<lambda>p. map_of p ''version'')"

definition pin_sha :: "pin option \<Rightarrow> string option" where
  "pin_sha pin = Option.bind pin (\<lambda>p. env_named p ''sha'')"

lemma check_version_ok:
  "check_version h argv pin loc = Inr notes \<Longrightarrow> pin_version pin = Some v \<Longrightarrow> probe_version h argv = Some v"
  by (auto simp: check_version_def pin_version_def Let_def split: option.splits if_splits)

lemma named_sources_join:
  "str_join '' + '' (named_sources env root) \<noteq> ''PATH''"
  "str_join '' + '' (named_sources env root) \<noteq> ''fetch''"
  by (auto simp: named_sources_def)

lemma fetch_returns_dest: "fetch h sha env v w = (Inr d, w') \<Longrightarrow> d = fetch_dest h env sha"
  by (auto simp: fetch_def fetch_body_def Let_def bind_Inr split: if_splits)

lemma fetch_dest_nonempty: "sha \<noteq> [] \<Longrightarrow> fetch_dest h env sha \<noteq> []"
  by (simp add: fetch_dest_def py_join_nonempty)

lemma env_named_nonempty: "env_named env k = Some v \<Longrightarrow> v \<noteq> []"
  by (auto simp: env_named_def split: option.splits if_splits)

text \<open>The three ways a resolution can succeed.\<close>

lemma resolve_split:
  assumes "resolve h env cr v w = (Inr t, w')"
  obtains
    (named) root where "resolve_root h (w_fs w) env cr = Inr root" "step1_argv h (w_fs w) env root \<noteq> []"
      "t = step1_toolchain h (w_fs w) env root" "w' = w"
  | (path) pin p ns where "read_pin (w_fs w) cr = Inr pin" "check_version h [p] pin p = Inr ns"
      "t = path_toolchain h env p ns" "w' = w"
  | (fetched) pin sha where "read_pin (w_fs w) cr = Inr pin" "pin_sha pin = Some sha"
      "tc_root t = Some (fetch_dest h env sha)" "sawc_argv t \<noteq> []" "tc_source t = ''fetch''"
proof -
  obtain pin root where pin: "read_pin (w_fs w) cr = Inr pin" and root: "resolve_root h (w_fs w) env cr = Inr root"
    and rest: "resolve_rest h (w_fs w) env cr v pin root w = (Inr t, w')"
    using assms unfolding resolve_def by (auto simp: bind_Inr)
  show ?thesis
  proof (cases "step1_argv h (w_fs w) env root = []")
    case False
    then have "t = step1_toolchain h (w_fs w) env root" "w' = w" using rest by (auto simp: resolve_rest_def)
    with root False show ?thesis by (rule named)
  next
    case step1: True
    show ?thesis
    proof (cases "which_tool h ''sawc'' env")
      case None
      with step1 rest have "resolve_fetch h env cr v pin w = (Inr t, w')" by (simp add: resolve_rest_def)
      then obtain sha where "pin_sha pin = Some sha" "tc_root t = Some (fetch_dest h env sha)"
        "sawc_argv t \<noteq> []" "tc_source t = ''fetch''"
        by (auto simp: resolve_fetch_def pin_sha_def bind_Inr split: option.splits dest!: fetch_returns_dest)
      with pin show ?thesis by (rule fetched)
    next
      case (Some p)
      with step1 rest have "bind (of_res (check_version h [p] pin p)) (\<lambda>ns. ret (path_toolchain h env p ns)) w = (Inr t, w')"
        by (simp add: resolve_rest_def)
      then obtain ns where "check_version h [p] pin p = Inr ns" "t = path_toolchain h env p ns" "w' = w"
        by (cases "check_version h [p] pin p") auto
      with pin show ?thesis by (rule path)
    qed
  qed
qed

lemma step1_source: "tc_source (step1_toolchain h fs env root) \<noteq> ''PATH''" "tc_source (step1_toolchain h fs env root) \<noteq> ''fetch''"
  by (simp_all add: step1_toolchain_def named_sources_join)

lemma resolve_path_root: "resolve h env cr v w = (Inr t, w') \<Longrightarrow> tc_source t = ''PATH'' \<Longrightarrow> tc_root t = None"
  by (erule resolve_split) (auto simp: step1_source path_toolchain_def)



section \<open>The fetch publishes all or nothing\<close>

definition fetch_cmd :: "host \<Rightarrow> string list \<times> string option \<Rightarrow> cmd" where
  "fetch_cmd h c = \<lparr>cmd_argv = fst c, cmd_cwd = snd c, cmd_env = h_env h\<rparr>"

text \<open>The files after a sequence of commands that all succeed, and what is relied on about git, venv
  and pip: run on a directory, they leave the files outside it alone.\<close>

fun run_all :: "host \<Rightarrow> (string list \<times> string option) list \<Rightarrow> fs \<Rightarrow> fs option" where
  "run_all h [] fs = Some fs"
| "run_all h (c # cs) fs =
     (case h_exec h (fetch_cmd h c) fs of
        (None, fs') \<Rightarrow> None
      | (Some (rc, out, err), fs') \<Rightarrow> if rc = 0 then run_all h cs fs' else None)"

definition confined :: "host \<Rightarrow> string \<Rightarrow> (string list \<times> string option) list \<Rightarrow> bool" where
  "confined h tmp cs \<longleftrightarrow>
     (\<forall>c \<in> set cs. \<forall>fs q. \<not> under tmp q \<longrightarrow> map_of (snd (h_exec h (fetch_cmd h c) fs)) q = map_of fs q)"

definition same_outside :: "string \<Rightarrow> fs \<Rightarrow> fs \<Rightarrow> bool" where
  "same_outside d fs fs' \<longleftrightarrow> (\<forall>q. \<not> under d q \<longrightarrow> map_of fs' q = map_of fs q)"

lemma same_outside_refl [simp]: "same_outside d fs fs"
  by (simp add: same_outside_def)

lemma same_outside_trans: "same_outside d a b \<Longrightarrow> same_outside d b c \<Longrightarrow> same_outside d a c"
  by (simp add: same_outside_def)

lemma same_outside_rmtree [simp]: "same_outside d fs (fs_rmtree d fs)"
  unfolding same_outside_def under_def by simp

lemma confined_step:
  "confined h tmp (c # cs) \<Longrightarrow> h_exec h (fetch_cmd h c) fs = (r, fs') \<Longrightarrow> same_outside tmp fs fs'"
proof -
  assume a: "confined h tmp (c # cs)" "h_exec h (fetch_cmd h c) fs = (r, fs')"
  have "map_of (snd (h_exec h (fetch_cmd h c) fs)) q = map_of fs q" if "\<not> under tmp q" for q
    using a(1) that unfolding confined_def by (auto simp del: split_paired_Ex)
  with a(2) show ?thesis by (simp add: same_outside_def)
qed

lemma fetch_run_cases:
  "fetch_run h tmp c w =
     (case h_exec h (fetch_cmd h c) (w_fs w) of
        (None, fs') \<Rightarrow>
          (Inl (OSError (hd (fst c))), w\<lparr>w_fs := fs', w_cmds := w_cmds w @ [fetch_cmd h c]\<rparr>)
      | (Some (rc, out, err), fs') \<Rightarrow>
          if rc = 0 then (Inr (), w\<lparr>w_fs := fs', w_cmds := w_cmds w @ [fetch_cmd h c]\<rparr>)
          else (Inl (ToolchainError (''fetching the pinned sawlang toolchain failed:'' @ nl @ ''  $ '' @
                       str_join '' '' (fst c) @ nl @ out @ err)),
                w\<lparr>w_fs := fs_rmtree tmp fs', w_cmds := w_cmds w @ [fetch_cmd h c]\<rparr>))"
  by (auto simp: fetch_run_def fetch_cmd_def run_proc_def bind_apply raise_def upd_fs_def ret_def
           split: prod.splits option.splits)

lemma each_fetch_run_sound:
  "each (fetch_run h tmp) cs w = (r, w') \<Longrightarrow> confined h tmp cs \<Longrightarrow>
     same_outside tmp (w_fs w) (w_fs w') \<and> (r = Inr () \<longrightarrow> run_all h cs (w_fs w) = Some (w_fs w'))"
proof (induction cs arbitrary: w)
  case Nil
  then show ?case by auto
next
  case (Cons c cs)
  obtain p fs' where ex: "h_exec h (fetch_cmd h c) (w_fs w) = (p, fs')" by fastforce
  note so = confined_step[OF Cons.prems(2) ex]
  have cs: "confined h tmp cs" using Cons.prems(2) by (simp add: confined_def)
  show ?case
  proof (cases "\<exists>out err. p = Some (0, out, err)")
    case True
    then obtain out err where p: "p = Some (0, out, err)" by blast
    let ?w1 = "w\<lparr>w_fs := fs', w_cmds := w_cmds w @ [fetch_cmd h c]\<rparr>"
    have "each (fetch_run h tmp) cs ?w1 = (r, w')"
      using Cons.prems(1) ex p by (simp add: bind_apply fetch_run_cases[of h tmp c w])
    from Cons.IH[OF this cs] show ?thesis
      using so ex p by (auto intro: same_outside_trans)
  next
    case False
    with Cons.prems(1) ex have "r \<noteq> Inr () \<and> (w_fs w' = fs' \<or> w_fs w' = fs_rmtree tmp fs')"
      by (auto simp: bind_apply fetch_run_cases[of h tmp c w] split: option.splits prod.splits if_splits)
    with so same_outside_trans[OF so same_outside_rmtree] show ?thesis by auto
  qed
qed

lemma each_fetch_run_complete:
  "run_all h cs (w_fs w) = Some fs' \<Longrightarrow> \<exists>w'. each (fetch_run h tmp) cs w = (Inr (), w') \<and> w_fs w' = fs'"
proof (induction cs arbitrary: w)
  case Nil
  then show ?case by simp
next
  case (Cons c cs)
  then obtain out err fs1 where ex: "h_exec h (fetch_cmd h c) (w_fs w) = (Some (0, out, err), fs1)"
    and rest: "run_all h cs fs1 = Some fs'"
    by (auto split: option.splits prod.splits if_splits)
  from Cons.IH[of "w\<lparr>w_fs := fs1, w_cmds := w_cmds w @ [fetch_cmd h c]\<rparr>"] rest
  show ?case using ex by (simp add: bind_apply fetch_run_cases[of h tmp c w])
qed

lemma marker_not_in_partial: "\<not> under (d @ ''.partial'') (path_join d [''sawc'', ''sawc.py''])"
  by (auto simp: under_def path_join_def py_join_def is_abs_def prefix_def)

lemma same_outside_looks_like:
  "same_outside (d @ ''.partial'') fs fs' \<Longrightarrow> looks_like_sawlang fs' d = looks_like_sawlang fs d"
  by (auto simp: same_outside_def looks_like_sawlang_def fs_isfile_def marker_not_in_partial)

definition free_path :: "fs \<Rightarrow> string \<Rightarrow> bool" where
  "free_path fs d \<longleftrightarrow> \<not> fs_isfile fs d \<and> \<not> fs_isdir fs d"

lemma need_tools_cases:
  "each (need_tool h env) [''git'', ''python3''] w = (r, w') \<Longrightarrow>
     w' = w \<and> (r = Inr () \<longleftrightarrow> which_tool h ''git'' env \<noteq> None \<and> which_tool h ''python3'' env \<noteq> None)"
  by (auto simp: need_tool_def bind_apply split: option.splits)

lemma not_isdir_rmtree: "\<not> fs_isdir (fs_rmtree d fs) d"
  by (auto simp: fs_isdir_def fs_rmtree_def list_ex_iff)

lemma isfile_rmtree [simp]: "fs_isfile (fs_rmtree d fs) d = fs_isfile fs d"
  by (simp add: fs_isfile_def prefix_def)

lemma fetch_body_sound:
  assumes "fetch_body h sha dest tmp v w = (r, w')" "confined h tmp (fetch_cmds tmp sha)"
  shows "case r of Inr d \<Rightarrow> d = dest \<and> (\<exists>fs1. run_all h (fetch_cmds tmp sha) (w_fs w) = Some fs1 \<and>
                     w_fs w' = fs_rename tmp dest fs1)
                 | Inl e \<Rightarrow> same_outside tmp (w_fs w) (w_fs w')"
proof -
  define w1 where "w1 = (if v then w\<lparr>w_out := w_out w @ [''  fetching sawlang '' @ take 12 sha @ '' -> '' @ dest]\<rparr> else w)"
  have w1: "w_fs w1 = w_fs w" by (simp add: w1_def)
  have b: "bind (make_new_dir tmp) (\<lambda>_. bind (each (fetch_run h tmp) (fetch_cmds tmp sha))
          (\<lambda>_. bind (publish tmp dest) (\<lambda>_. ret dest))) w1 = (r, w')"
    using assms(1) by (cases v) (simp_all add: fetch_body_def w1_def)
  obtain r2 w2 where e: "each (fetch_run h tmp) (fetch_cmds tmp sha) w1 = (r2, w2)" by fastforce
  from each_fetch_run_sound[OF e assms(2)]
  have s: "same_outside tmp (w_fs w) (w_fs w2)"
    "r2 = Inr () \<longrightarrow> run_all h (fetch_cmds tmp sha) (w_fs w) = Some (w_fs w2)" using w1 by auto
  show ?thesis
    using b e s w1
    by (cases r2) (auto simp: bind_apply make_new_dir_def publish_def split: if_splits)
qed

lemma fetch_body_complete:
  assumes "free_path (w_fs w) tmp" "run_all h (fetch_cmds tmp sha) (w_fs w) = Some fs1" "free_path fs1 dest"
  shows "\<exists>w'. fetch_body h sha dest tmp v w = (Inr dest, w')"
proof -
  have ok: "\<exists>w'. bind (make_new_dir tmp) (\<lambda>_. bind (each (fetch_run h tmp) (fetch_cmds tmp sha))
          (\<lambda>_. bind (publish tmp dest) (\<lambda>_. ret dest))) w1 = (Inr dest, w')"
    if "w_fs w1 = w_fs w" for w1
    using each_fetch_run_complete[of h "fetch_cmds tmp sha" w1 fs1 tmp] that assms
    by (auto simp: bind_apply make_new_dir_def publish_def free_path_def split: if_splits)
  show ?thesis
    using ok[of w] ok[of "w\<lparr>w_out := w_out w @ [''  fetching sawlang '' @ take 12 sha @ '' -> '' @ dest]\<rparr>"]
    by (cases v) (simp_all add: fetch_body_def)
qed

lemma fetch_eq:
  assumes "\<not> looks_like_sawlang (w_fs w) (fetch_dest h env sha)"
  shows "fetch h sha env v w =
     (case each (need_tool h env) [''git'', ''python3''] w of
        (Inl e, w') \<Rightarrow> (Inl e, w')
      | (Inr _, w') \<Rightarrow> fetch_body h sha (fetch_dest h env sha) (fetch_tmp h env sha) v
                       (w'\<lparr>w_fs := fs_rmtree (fetch_tmp h env sha) (w_fs w')\<rparr>))"
  using assms
  by (simp add: fetch_def Let_def bind_apply[of "each (need_tool h env) [''git'', ''python3'']"]
           del: each.simps split: prod.splits sum.splits)


text \<open>A host whose programs all succeed, and on which a command run inside a directory leaves a
  compiler there.\<close>

definition git_ex :: "cmd \<Rightarrow> fs \<Rightarrow> proc option \<times> fs" where
  "git_ex c fs =
     (Some (0, [], []),
      case cmd_cwd c of None \<Rightarrow> fs | Some d \<Rightarrow> fs_write (d @ ''/sawc/sawc.py'') ''compiler'' fs)"


section \<open>Errors, and the command line\<close>

definition resolver_exc :: "exc \<Rightarrow> bool" where
  "resolver_exc e \<longleftrightarrow> (case e of ToolchainError _ \<Rightarrow> True | OSError _ \<Rightarrow> True | _ \<Rightarrow> False)"

lemma resolver_exc_simps [simp]: "resolver_exc (ToolchainError m)" "resolver_exc (OSError p)"
  by (simp_all add: resolver_exc_def)

lemma errs_fetch: "errs resolver_exc (fetch h sha env v)"
  unfolding fetch_def fetch_body_def Let_def need_tool_def make_new_dir_def publish_def fetch_run_def
  by (auto intro!: errs_rules split: option.splits prod.splits)

lemma read_pin_exc: "read_pin fs r = Inl e \<Longrightarrow> resolver_exc e"
proof -
  assume a: "read_pin fs r = Inl e"
  have "map_sum id Some x = Inl e \<longleftrightarrow> x = Inl e" for x :: "pin res"
    by (cases x) auto
  with a show ?thesis
    by (auto simp: read_pin_def Let_def read_pin_lines_Inl pin_error_def split: option.splits)
qed

lemma check_version_exc: "check_version h argv pin loc = Inl e \<Longrightarrow> resolver_exc e"
  by (auto simp: check_version_def Let_def split: option.splits if_splits)

lemma resolve_root_exc: "resolve_root h fs env cr = Inl e \<Longrightarrow> resolver_exc e"
  by (auto simp: resolve_root_def Let_def split: option.splits if_splits)

lemma errs_resolve: "errs resolver_exc (resolve h env cr v)"
  unfolding resolve_def resolve_rest_def resolve_fetch_def
  by (auto intro!: errs_rules errs_of_res errs_fetch
           intro: read_pin_exc resolve_root_exc check_version_exc split: option.splits)

lemma module_names_known: "name \<in> set module_names \<Longrightarrow> \<exists>parts. map_of MODULE_DIRS name = Some parts"
  by (auto simp: module_names_def MODULE_DIRS_def)

lemma print_modules_ok:
  "tc_root t = Some r \<Longrightarrow> r \<noteq> [] \<Longrightarrow> set names \<subseteq> set module_names \<Longrightarrow>
   errs (\<lambda>_. False) (each (print_module t) names)"
proof (induction names)
  case Nil
  show ?case unfolding each.simps by (rule errs_basic)
next
  case (Cons n names)
  then obtain parts where "map_of MODULE_DIRS n = Some parts" using module_names_known[of n] by auto
  with Cons show ?case
    by (auto simp: print_module_def module_source_def require_root_def intro!: errs_rules errs_of_res)
qed

lemma errs_print_toolchain: "errs (\<lambda>_. False) (print_toolchain t)"
proof -
  have "errs (\<lambda>_. False) (if or_else (tc_root t) [] \<noteq> [] then each (print_module t) module_names else ret ())"
    using print_modules_ok[of t _ module_names]
    by (auto simp: or_else_def intro: errs_basic split: option.splits)
  then show ?thesis
    unfolding print_toolchain_def by (intro errs_rules)
qed

lemma print_toolchain_ok: "fst (print_toolchain t w) = Inr 0"
proof -
  have "fst (print_toolchain t w) = Inl e \<or> fst (print_toolchain t w) = Inr 0" if "fst (print_toolchain t w) = Inl e \<or> (\<exists>c. fst (print_toolchain t w) = Inr c)" for e
    using that unfolding print_toolchain_def by (auto simp: bind_apply split: prod.splits sum.splits)
  moreover have "fst (print_toolchain t w) \<noteq> Inl e" for e
    using errs_print_toolchain[of t] by (auto simp: errs_def prod_eq_iff)
  ultimately show ?thesis by (metis sumE)
qed

text \<open>C33: The command line of the resolver answers every refusal: it ends with status 0 when a
  toolchain was resolved and with status 1 when the resolution refused, and the only exception it lets
  through is a failing system call of the fetch. In particular printing the package directories of a
  resolved checkout never refuses.\<close>

theorem toolchain_main_exit:
  "case toolchain_main h file w of
     (Inr c, w') \<Rightarrow> (case resolve h (h_env h) (repo_root h file) True w of
                      (Inr t, _) \<Rightarrow> c = 0
                    | (Inl e, _) \<Rightarrow> c = 1 \<and> (\<exists>m. e = ToolchainError m))
   | (Inl e, w') \<Rightarrow> \<exists>p. e = OSError p \<and> fst (resolve h (h_env h) (repo_root h file) True w) = Inl (OSError p)"
proof -
  obtain r w1 where res: "resolve h (h_env h) (repo_root h file) True w = (r, w1)" by fastforce
  show ?thesis
  proof (cases r)
    case (Inl e)
    then have "resolver_exc e" using errsD[OF errs_resolve] res by blast
    then consider m where "e = ToolchainError m" | p where "e = OSError p"
      by (cases e) (auto simp: resolver_exc_def)
    then show ?thesis
      by cases (simp_all add: toolchain_main_def bind_apply catch_def res Inl)
  next
    case (Inr t)
    have "toolchain_main h file w = print_toolchain t w1"
      by (simp add: toolchain_main_def bind_apply catch_def res Inr)
    then have "fst (toolchain_main h file w) = Inr 0" by (simp add: print_toolchain_ok)
    then show ?thesis
      using res Inr by (cases "toolchain_main h file w") auto
  qed
qed


end
