(* ===== verification/Arch_Table.thy ===== *)
theory Arch_Table
  imports Py_Path
begin

text \<open>
  The tables and constants at the head of \<^verbatim>\<open>src/tools/sos_runner.py\<close>: the directories of
  the repository, the three profiles \<^verbatim>\<open>ARCHES\<close>, and the two functions that read a profile,
  \<^verbatim>\<open>arch_dirs\<close> and \<^verbatim>\<open>expectations\<close>. Every directory hangs off the repository's root,
  which the source computes from its own location; here it is the argument \<open>r\<close>. A key a profile
  leaves out is \<^const>\<open>None\<close>, and \<^verbatim>\<open>.get\<close> with a default reads it as the source does.
\<close>

section \<open>Directories and constants\<close>

definition KERNEL_DIR :: "string \<Rightarrow> string" where
  "KERNEL_DIR r = py_join r ''kernel''"

definition CORE_DIR :: "string \<Rightarrow> string" where
  "CORE_DIR r = py_join (KERNEL_DIR r) ''core''"

definition TESTS_DIR :: "string \<Rightarrow> string" where
  "TESTS_DIR r = py_join r ''tests''"

definition HAL_DIR :: "string \<Rightarrow> string" where
  "HAL_DIR r = py_join r ''hal''"

definition CORE_MODULE :: "string \<Rightarrow> string" where
  "CORE_MODULE r = ''kcore='' @ CORE_DIR r"

definition SOSRT_MODULE :: "string \<Rightarrow> string" where
  "SOSRT_MODULE r = ''sosrt='' @ path_join r [''rt'', ''common'', ''src'']"

definition SOSABI_MODULE :: "string \<Rightarrow> string" where
  "SOSABI_MODULE r = ''sosabi='' @ path_join (KERNEL_DIR r) [''abi'', ''src'']"

definition RT_COMMON_C_DIR :: "string \<Rightarrow> string" where
  "RT_COMMON_C_DIR r = path_join r [''rt'', ''common_c'']"

definition RV32_COMMON_DIR :: "string \<Rightarrow> string" where
  "RV32_COMMON_DIR r = py_join (HAL_DIR r) ''riscv32-common''"

definition RV32_CORE_MODULE :: "string \<Rightarrow> string" where
  "RV32_CORE_MODULE r = ''rv32core='' @ py_join (RV32_COMMON_DIR r) ''kernel''"

definition RV32_VIRT_MODULE :: "string \<Rightarrow> string" where
  "RV32_VIRT_MODULE r = ''rv32virt='' @ path_join (HAL_DIR r) [''riscv32'', ''kernel'']"

definition EXIT_PROCESS_FAULT :: int where
  "EXIT_PROCESS_FAULT = 5"

definition EXIT_ARENA_EXHAUSTED :: int where
  "EXIT_ARENA_EXHAUSTED = 65"

definition ECHO_INPUT :: string where
  "ECHO_INPUT = ''Zq7#''"

definition QEMU_TIMEOUT_S :: nat where
  "QEMU_TIMEOUT_S = 10"

definition TIER_ISOLATED :: string where
  "TIER_ISOLATED = ''isolated''"

definition TIER_FLAT :: string where
  "TIER_FLAT = ''flat''"

definition CHILD_REGION_LEN :: nat where
  "CHILD_REGION_LEN = 0x40000"

definition REGION_TABLE_MAGIC :: nat where
  "REGION_TABLE_MAGIC = 0x4E475253"

definition REGION_TABLE_VERSION :: nat where
  "REGION_TABLE_VERSION = 2"

definition REGION_KIND_RAM :: nat where
  "REGION_KIND_RAM = 0"

definition REGION_KIND_DEVICE :: nat where
  "REGION_KIND_DEVICE = 1"

section \<open>The profiles\<close>

record arch =
  a_name :: string
  a_triple :: string
  a_qemu :: string
  a_tier :: string
  a_qemu_args :: "string list"
  a_cc_args :: "string list"
  a_features :: "string option"
  a_hal_native :: string
  a_hal_modules :: "string list"
  a_hal_asm :: "string list"
  a_hal_board :: "string option"
  a_tests_arch :: "string option"
  a_build_tag :: "string option"
  a_banner_arch :: "string option"
  a_hex_width :: nat
  a_root_entry :: nat
  a_child_region_base :: nat
  a_selftest_line :: nat
  a_pool_base :: nat
  a_pool_len :: nat
  a_device_base :: nat
  a_device_len :: nat

definition arch_riscv32 :: "string \<Rightarrow> arch" where
  "arch_riscv32 r =
     \<lparr>a_name = ''riscv32'', a_triple = ''riscv32-unknown-none-elf'', a_qemu = ''qemu-system-riscv32'',
      a_tier = TIER_ISOLATED, a_qemu_args = [''-M'', ''virt'', ''-bios'', ''none''],
      a_cc_args = [''-march=rv32imac_zicsr'', ''-mabi=ilp32''], a_features = Some ''+m,+a,+c'',
      a_hal_native = py_join ''riscv32-common'' ''kernel'', a_hal_modules = [RV32_CORE_MODULE r],
      a_hal_asm = [path_join ''riscv32-common'' [''kernel'', ''trap.S'']],
      a_hal_board = None, a_tests_arch = None, a_build_tag = None, a_banner_arch = None,
      a_hex_width = 8, a_root_entry = 0x80200000, a_child_region_base = 0x80240000,
      a_selftest_line = 10, a_pool_base = 0x80280000, a_pool_len = 0x40000,
      a_device_base = 0x10000000, a_device_len = 0x1000\<rparr>"

definition arch_arm64 :: "string \<Rightarrow> arch" where
  "arch_arm64 r =
     \<lparr>a_name = ''arm64'', a_triple = ''aarch64-unknown-none-elf'', a_qemu = ''qemu-system-aarch64'',
      a_tier = TIER_ISOLATED,
      a_qemu_args = [''-M'', ''virt,gic-version=2'', ''-cpu'', ''cortex-a53'', ''-semihosting''],
      a_cc_args = [], a_features = None,
      a_hal_native = py_join ''arm64'' ''kernel'', a_hal_modules = [], a_hal_asm = [],
      a_hal_board = None, a_tests_arch = None, a_build_tag = None, a_banner_arch = None,
      a_hex_width = 16, a_root_entry = 0x40200000, a_child_region_base = 0x40240000,
      a_selftest_line = 5, a_pool_base = 0x40280000, a_pool_len = 0x40000,
      a_device_base = 0x09000000, a_device_len = 0x1000\<rparr>"

definition arch_riscv32_flat :: "string \<Rightarrow> arch" where
  "arch_riscv32_flat r =
     \<lparr>a_name = ''riscv32-flat'', a_triple = ''riscv32-unknown-none-elf'',
      a_qemu = ''qemu-system-riscv32'', a_tier = TIER_FLAT,
      a_qemu_args = [''-M'', ''virt'', ''-bios'', ''none''],
      a_cc_args = [''-march=rv32imac_zicsr'', ''-mabi=ilp32''], a_features = Some ''+m,+a,+c'',
      a_hal_native = py_join ''riscv32-common'' ''kernel'',
      a_hal_modules = [RV32_CORE_MODULE r, RV32_VIRT_MODULE r],
      a_hal_asm = [path_join ''riscv32-common'' [''kernel'', ''trap.S'']],
      a_hal_board = Some (py_join ''riscv32'' ''kernel''), a_tests_arch = Some ''riscv32'',
      a_build_tag = Some ''riscv32-unknown-none-elf-flat'', a_banner_arch = Some ''riscv32'',
      a_hex_width = 8, a_root_entry = 0x80200000, a_child_region_base = 0x80240000,
      a_selftest_line = 10, a_pool_base = 0x80280000, a_pool_len = 0x40000,
      a_device_base = 0x10000000, a_device_len = 0x1000\<rparr>"

definition ARCHES :: "string \<Rightarrow> arch list" where
  "ARCHES r = [arch_riscv32 r, arch_arm64 r, arch_riscv32_flat r]"

lemmas arch_defs = arch_riscv32_def arch_arm64_def arch_riscv32_flat_def ARCHES_def

section \<open>\<open>arch_dirs\<close>\<close>

text \<open>\<^verbatim>\<open>d.get(k, default)\<close>.\<close>

definition dict_get :: "'a option \<Rightarrow> 'a \<Rightarrow> 'a" where
  "dict_get v d = (case v of None \<Rightarrow> d | Some x \<Rightarrow> x)"

lemma dict_get_simps [simp]: "dict_get None d = d" "dict_get (Some x) d = x"
  by (simp_all add: dict_get_def)

record dirs =
  d_hal_kernel :: string
  d_hal_board :: string
  d_hal_native :: string
  d_tests :: string
  d_build :: string

definition arch_dirs :: "string \<Rightarrow> arch \<Rightarrow> dirs" where
  "arch_dirs r a =
     \<lparr>d_hal_kernel = path_join (HAL_DIR r) [a_name a, ''kernel''],
      d_hal_board = py_join (HAL_DIR r) (dict_get (a_hal_board a) (py_join (a_name a) ''kernel'')),
      d_hal_native = py_join (HAL_DIR r) (a_hal_native a),
      d_tests = py_join (TESTS_DIR r) (dict_get (a_tests_arch a) (a_name a)),
      d_build = path_join r [''.build'', dict_get (a_build_tag a) (a_triple a), ''sos'']\<rparr>"

section \<open>\<open>expectations\<close>\<close>

definition expectations :: "arch \<Rightarrow> (string \<times> string) list" where
  "expectations a =
     (let w = a_hex_width a in
      [(''banner'', ''SOS M1: kernel up on '' @ dict_get (a_banner_arch a) (a_name a)),
       (''tier'', if a_tier a = TIER_ISOLATED then ''Isolated'' else ''Flat''),
       (''entry'', fmt_0x w (a_root_entry a)),
       (''zero'', fmt_0x w 0), (''one'', fmt_0x w 1), (''two'', fmt_0x w 2),
       (''three'', fmt_0x w 3), (''four'', fmt_0x w 4), (''five'', fmt_0x w 5),
       (''six'', fmt_0x w 6), (''seven'', fmt_0x w 7), (''eight'', fmt_0x w 8),
       (''nine'', fmt_0x w 9), (''ten'', fmt_0x w 10),
       (''prio'', fmt_0x w 0x01010100),
       (''irq_line'', fmt_0x w (a_selftest_line a)),
       (''touch_mark'', fmt_0x w 0x3C),
       (''pingpong_mark'', fmt_0x w 0x21), (''caller_mark'', fmt_0x w 0x33),
       (''orphan_mark'', fmt_0x w 0x3D), (''resolve_orphan_mark'', fmt_0x w 0x47),
       (''share_mark'', fmt_0x w 0xA5)])"

text \<open>The placeholders a case may write, which do not depend on the profile.\<close>

definition placeholders :: "string list" where
  "placeholders =
     [''banner'', ''tier'', ''entry'', ''zero'', ''one'', ''two'', ''three'', ''four'', ''five'',
      ''six'', ''seven'', ''eight'', ''nine'', ''ten'', ''prio'', ''irq_line'', ''touch_mark'',
      ''pingpong_mark'', ''caller_mark'', ''orphan_mark'', ''resolve_orphan_mark'', ''share_mark'']"

lemma expectations_keys: "map fst (expectations a) = placeholders"
  by (simp add: expectations_def placeholders_def Let_def)

end
