(* ===== verification/Case_Model.thy ===== *)
theory Case_Model
  imports Arch_Table
begin

text \<open>
  The shape of an entry of \<^verbatim>\<open>TEST_CASES\<close> in \<^verbatim>\<open>src/tools/sos_runner.py\<close>. The source
  writes a dictionary with the keys a case needs and reads the others with \<^verbatim>\<open>.get\<close>; here a
  case is \<open>blank_case\<close>, in which every optional key has the value \<^verbatim>\<open>.get\<close> falls back to, with
  the written keys updated. The two keys \<^verbatim>\<open>_run_arch\<close> adds while it runs are the last fields.
\<close>

text \<open>\<^verbatim>\<open>expect_out\<close> is \<^verbatim>\<open>None\<close>, one string, or a list of them.\<close>

datatype expect_out = NoOutput | OneString string | Strings "string list"

record test_case =
  c_name :: string
  c_src :: string
  c_csrc :: "string option"
  c_asm :: "string option"
  c_root_pkg :: "string option"
  c_children :: "string list"
  c_pool :: bool
  c_device :: bool
  c_arches :: "string list option"
  c_tier :: "string option"
  c_tier_reason :: "string option"
  c_stdin :: "string option"
  c_expect_out :: expect_out
  c_expect_clean_exit :: bool
  c_expect_status :: "int option"
  c_strip_kernel_lines :: bool
  c_overlapping_matches :: bool
  c_root_image :: "(string \<times> string) list"
  c_child_images :: "(string \<times> string list) list"

definition blank_case :: test_case where
  "blank_case =
     \<lparr>c_name = [], c_src = [], c_csrc = None, c_asm = None, c_root_pkg = None, c_children = [],
      c_pool = False, c_device = False, c_arches = None, c_tier = None, c_tier_reason = None,
      c_stdin = None, c_expect_out = NoOutput, c_expect_clean_exit = False,
      c_expect_status = None, c_strip_kernel_lines = False, c_overlapping_matches = False,
      c_root_image = [], c_child_images = []\<rparr>"

text \<open>The strings a case matches against, as \<^verbatim>\<open>_check\<close> turns them into one list.\<close>

fun expect_strings :: "expect_out \<Rightarrow> string list" where
  "expect_strings NoOutput = []"
| "expect_strings (OneString s) = [s]"
| "expect_strings (Strings ss) = ss"

section \<open>Well-formed entries\<close>

text \<open>
  What the harness relies on in an entry and nothing else checks: every placeholder of an
  expected string is one \<^verbatim>\<open>expectations\<close> has, and the string is not empty; an entry that
  names a tier says why (\<^verbatim>\<open>_run_arch\<close> prints the reason of an excluded case); an exact exit
  status agrees with the clean-exit flag; at most one child together with a pool; a case matched
  against the stripped transcript expects no kernel line; and the name has no character that
  could make two cases share an artifact or a \<^verbatim>\<open>--case\<close> spelling.
\<close>

definition expects_ok :: "test_case \<Rightarrow> bool" where
  "expects_ok c \<longleftrightarrow>
     list_all (\<lambda>s. s \<noteq> [] \<and> formats placeholders s) (expect_strings (c_expect_out c))"

definition tier_ok :: "test_case \<Rightarrow> bool" where
  "tier_ok c \<longleftrightarrow>
     (case c_tier c of None \<Rightarrow> c_tier_reason c = None
      | Some t \<Rightarrow> t = TIER_ISOLATED \<and> c_tier_reason c \<noteq> None)"

definition status_ok :: "test_case \<Rightarrow> bool" where
  "status_ok c \<longleftrightarrow>
     (case c_expect_status c of None \<Rightarrow> True | Some s \<Rightarrow> (s = 0) = c_expect_clean_exit c)"

definition regions_ok :: "test_case \<Rightarrow> bool" where
  "regions_ok c \<longleftrightarrow> (c_pool c \<longrightarrow> length (c_children c) \<le> 1)"

definition strip_ok :: "test_case \<Rightarrow> bool" where
  "strip_ok c \<longleftrightarrow>
     (c_strip_kernel_lines c \<longrightarrow>
      list_all (\<lambda>s. \<not> prefix ''SOS: '' s) (expect_strings (c_expect_out c)))"

definition name_ok :: "test_case \<Rightarrow> bool" where
  "name_ok c \<longleftrightarrow> c_name c \<noteq> [] \<and> list_all (\<lambda>x. is_alpha x \<or> is_digit x \<or> x = CHR ''_'') (c_name c)"

definition case_wf :: "test_case \<Rightarrow> bool" where
  "case_wf c \<longleftrightarrow>
     expects_ok c \<and> tier_ok c \<and> status_ok c \<and> regions_ok c \<and> strip_ok c \<and> name_ok c"

lemmas case_ok_defs = expects_ok_def tier_ok_def status_ok_def regions_ok_def strip_ok_def name_ok_def

text \<open>An entry with its paths erased: everything in it that does not depend on where the
  repository is. Well-formedness is a property of this shape, so one evaluation of the table
  settles it for every root directory.\<close>

definition case_shape :: "test_case \<Rightarrow> test_case" where
  "case_shape c =
     c\<lparr>c_src := [], c_root_pkg := map_option (\<lambda>_. []) (c_root_pkg c),
       c_children := map (\<lambda>_. []) (c_children c)\<rparr>"

lemma case_shape_fields [simp]:
  "c_name (case_shape c) = c_name c"
  "c_tier (case_shape c) = c_tier c"
  "c_arches (case_shape c) = c_arches c"
  "c_pool (case_shape c) = c_pool c"
  "c_device (case_shape c) = c_device c"
  "length (c_children (case_shape c)) = length (c_children c)"
  by (simp_all add: case_shape_def)

lemma case_wf_shape: "case_wf (case_shape c) = case_wf c"
  by (simp add: case_wf_def case_ok_defs case_shape_def split: option.split)

lemma list_all_shape_cong:
  assumes "map case_shape xs = map case_shape ys" and "\<And>c. P (case_shape c) = P c"
  shows "list_all P xs = list_all P ys"
proof -
  have "list_all P zs = list_all P (map case_shape zs)" for zs
    using assms(2) by (induction zs) auto
  then show ?thesis using assms(1) by metis
qed

end
