(* ===== verification/Region_Table.thy ===== *)
theory Region_Table
  imports Case_Model Sosimg_Dump
begin

text \<open>
  The boot region table the harness generates for a case, from \<^verbatim>\<open>src/tools/sos_runner.py\<close>:
  \<^verbatim>\<open>_region_rows\<close> (which rows, in which order), \<^verbatim>\<open>_emit_word64\<close> and \<^verbatim>\<open>_emit_row\<close>
  (a row as assembler text) and the text half of \<^verbatim>\<open>_stitch_regions\<close>; its file copies and its
  \<^verbatim>\<open>clang\<close> run are in \<open>Build_Pipeline\<close>.

  The assembler is not part of the repository. It is a parameter: a function that gives the bytes a
  source line adds to its section, with the documented behaviour of the data directives as the
  hypothesis \<open>data_directives\<close>.
\<close>

section \<open>\<open>_region_rows\<close>\<close>

text \<open>A row: comment, base expression, length expression, kind.\<close>

type_synonym row = "string \<times> string \<times> string \<times> nat"

definition blob_row :: "nat \<Rightarrow> row" where
  "blob_row i =
     (''child '' @ show_nat i @ [chr_squote] @ ''s image blob (linker-resolved)'',
      ''_sos_child'' @ show_nat i @ ''_start'',
      ''_sos_child'' @ show_nat i @ ''_end - _sos_child'' @ show_nat i @ ''_start'',
      REGION_KIND_RAM)"

definition dest_row :: "arch \<Rightarrow> nat \<Rightarrow> row" where
  "dest_row a i =
     (''child '' @ show_nat i @ [chr_squote] @ ''s destination RAM'',
      hash_x (a_child_region_base a + i * CHILD_REGION_LEN),
      hash_x CHILD_REGION_LEN,
      REGION_KIND_RAM)"

definition pool_row :: "arch \<Rightarrow> row" where
  "pool_row a =
     (''the RAM POOL '' @ em_dash @ '' free memory above every child region'',
      hash_x (a_pool_base a), hash_x (a_pool_len a), REGION_KIND_RAM)"

definition device_row :: "arch \<Rightarrow> row" where
  "device_row a =
     (''the DEVICE window '' @ em_dash @ '' the console UART'' @ [chr_squote] @ ''s register page'',
      hash_x (a_device_base a), hash_x (a_device_len a), REGION_KIND_DEVICE)"

definition region_rows :: "test_case \<Rightarrow> arch \<Rightarrow> row list res" where
  "region_rows c a =
     (let n = length (c_children c) in
      if 1 < n \<and> c_pool c
      then Inl (ToolError (''case '' @ py_repr (c_name c)
             @ '': a case with two children cannot also ask ''
             @ ''for a pool '' @ em_dash @ '' the second child'' @ [chr_squote] @ ''s destination region and the pool ''
             @ ''share a base (see hal/*/user/child2.ld)''))
      else Inr (map blob_row [0..<n] @ map (dest_row a) [0..<n]
             @ (if c_pool c then [pool_row a] else [])
             @ (if c_device c then [device_row a] else [])))"

section \<open>The generated text\<close>

definition emit_word64 :: "arch \<Rightarrow> string \<Rightarrow> string list" where
  "emit_word64 a e =
     (if a_hex_width a = 8 then [''    .4byte '' @ e, ''    .4byte 0''] else [''    .8byte '' @ e])"

definition emit_row :: "arch \<Rightarrow> string \<Rightarrow> string \<Rightarrow> nat \<Rightarrow> string list" where
  "emit_row a base_expr len_expr kind =
     emit_word64 a base_expr @ emit_word64 a len_expr
     @ [''    .byte  '' @ show_nat kind, ''    .byte  0, 0, 0, 0, 0, 0, 0'']"

definition childimg_lines :: "string \<Rightarrow> nat \<Rightarrow> string list" where
  "childimg_lines name n =
     (if n = 0 then []
      else [''    .section .childimg, '' @ dq @ ''a'' @ dq @ '', @progbits'', ''    .balign 16'']
        @ concat (map (\<lambda>i.
            [''_sos_child'' @ show_nat i @ ''_start:'',
             ''    .incbin '' @ dq @ name @ ''.child'' @ show_nat i @ ''.sosimg'' @ dq,
             ''_sos_child'' @ show_nat i @ ''_end:'',
             ''    .balign 16'']) [0..<n]))"

definition regions_lines :: "arch \<Rightarrow> row list \<Rightarrow> string list" where
  "regions_lines a rows =
     [[], ''    .section .regions, '' @ dq @ ''a'' @ dq @ '', @progbits'', ''    .balign 8'',
      ''    .4byte '' @ fmt_0x 8 REGION_TABLE_MAGIC,
      ''    .2byte '' @ show_nat REGION_TABLE_VERSION,
      ''    .byte  '' @ show_nat (length rows),
      ''    .byte  0'']
     @ concat (map (\<lambda>(i, (what, base_expr, len_expr, kind)).
         (''    /* row '' @ show_nat i @ '': '' @ what @ '' */'') # emit_row a base_expr len_expr kind)
         (enumerate_from 0 rows))
     @ [[]]"

definition regions_text :: "test_case \<Rightarrow> arch \<Rightarrow> string res" where
  "regions_text c a =
     map_sum id (\<lambda>rows.
       str_join nl
         ([''/* GENERATED by tools/sos_runner.py '' @ em_dash @ '' sawos design 2 D-2, 6 D-5. */'', []]
          @ childimg_lines (c_name c) (length (c_children c))
          @ regions_lines a rows))
     (region_rows c a)"

section \<open>The rows as windows of memory\<close>

text \<open>The window a row names with numbers: its base and length read back out of the text. A blob
  row has none, its address is the linker's.\<close>

definition row_window :: "row \<Rightarrow> (nat \<times> nat) option" where
  "row_window rw =
     (case rw of (what, base, len, kind) \<Rightarrow>
        if prefix ''0x'' base then Some (read_base 16 (drop 2 base), read_base 16 (drop 2 len))
        else None)"

definition windows :: "row list \<Rightarrow> (nat \<times> nat) list" where
  "windows rows = List.map_filter row_window rows"

definition overlap :: "nat \<times> nat \<Rightarrow> nat \<times> nat \<Rightarrow> bool" where
  "overlap u v \<longleftrightarrow> fst u < fst v + snd v \<and> fst v < fst u + snd u"

text \<open>The window root itself is loaded at: the same length as a child's.\<close>

definition root_window :: "arch \<Rightarrow> nat \<times> nat" where
  "root_window a = (a_root_entry a, CHILD_REGION_LEN)"

lemma hash_x_read [simp]: "read_base 16 (drop 2 (hash_x n)) = n" "prefix ''0x'' (hash_x n)"
  by (simp_all add: hash_x_def)

lemma row_window_simps [simp]:
  "row_window (blob_row i) = None"
  "row_window (dest_row a i) = Some (a_child_region_base a + i * CHILD_REGION_LEN, CHILD_REGION_LEN)"
  "row_window (pool_row a) = Some (a_pool_base a, a_pool_len a)"
  "row_window (device_row a) = Some (a_device_base a, a_device_len a)"
  by (simp_all add: row_window_def blob_row_def dest_row_def pool_row_def device_row_def)

lemma map_filter_append: "List.map_filter f (xs @ ys) = List.map_filter f xs @ List.map_filter f ys"
  by (simp add: List.map_filter_def)

lemma map_filter_None: "List.map_filter row_window (map blob_row ns) = []"
  by (simp add: List.map_filter_def)

lemma map_filter_dest:
  "List.map_filter row_window (map (dest_row a) ns) =
     map (\<lambda>i. (a_child_region_base a + i * CHILD_REGION_LEN, CHILD_REGION_LEN)) ns"
  by (induction ns) (simp_all add: List.map_filter_simps)

lemma windows_region_rows:
  "region_rows c a = Inr rows \<Longrightarrow>
   windows rows =
     map (\<lambda>i. (a_child_region_base a + i * CHILD_REGION_LEN, CHILD_REGION_LEN)) [0..<length (c_children c)]
     @ (if c_pool c then [(a_pool_base a, a_pool_len a)] else [])
     @ (if c_device c then [(a_device_base a, a_device_len a)] else [])"
  by (auto simp: region_rows_def windows_def Let_def map_filter_append map_filter_None map_filter_dest
      List.map_filter_simps split: if_splits)

section \<open>The order of the rows\<close>

text \<open>The order of the rows is the contract root's config reads as tags. A case's rows with a
  pool or a device window added begin with the rows it had without them, so every earlier tag keeps
  its meaning; and the device row, when there is one, is last and the only one that is not RAM.\<close>

theorem region_rows_append:
  assumes "region_rows c a = Inr rows"
  shows "\<exists>base extra. region_rows (c\<lparr>c_pool := False, c_device := False\<rparr>) a = Inr base
    \<and> rows = base @ extra \<and> length base = 2 * length (c_children c)
    \<and> extra = (if c_pool c then [pool_row a] else []) @ (if c_device c then [device_row a] else [])
    \<and> list_all (\<lambda>(what, b, l, kind). kind = REGION_KIND_RAM) (base @ (if c_pool c then [pool_row a] else []))
    \<and> (c_device c \<longrightarrow> last rows = device_row a)"
proof -
  have "list_all (\<lambda>(what, b, l, kind). kind = REGION_KIND_RAM) (map blob_row ns)"
    and "list_all (\<lambda>(what, b, l, kind). kind = REGION_KIND_RAM) (map (dest_row a) ns)" for ns
    by (induction ns) (simp_all add: blob_row_def dest_row_def)
  with assms show ?thesis
    by (auto simp: region_rows_def Let_def pool_row_def split: if_splits)
qed

theorem region_rows_append_witness:
  "\<exists>rows base. region_rows (blank_case\<lparr>c_children := [''/t/kid''], c_pool := True\<rparr>) (arch_arm64 ''/r'') = Inr rows
     \<and> region_rows (blank_case\<lparr>c_children := [''/t/kid'']\<rparr>) (arch_arm64 ''/r'') = Inr base
     \<and> rows = base @ [pool_row (arch_arm64 ''/r'')] \<and> length base = 2"
proof -
  let ?c = "blank_case\<lparr>c_children := [''/t/kid''], c_pool := True\<rparr>"
  have "\<exists>rows. region_rows ?c (arch_arm64 ''/r'') = Inr rows"
    by (simp add: region_rows_def blank_case_def)
  then obtain rows where r: "region_rows ?c (arch_arm64 ''/r'') = Inr rows" by blast
  from region_rows_append[OF r] r show ?thesis
    by (auto simp: blank_case_def)
qed

text \<open>The generator refuses a case exactly when it asks for a pool and has more than one child;
  every other case gets its table.\<close>

theorem region_rows_refusal:
  "(\<exists>rows. region_rows c a = Inr rows) \<longleftrightarrow> \<not> (c_pool c \<and> 1 < length (c_children c))"
  by (auto simp: region_rows_def Let_def)

section \<open>No two rows name the same memory\<close>

definition layout_ok :: "arch \<Rightarrow> bool" where
  "layout_ok a \<longleftrightarrow>
     a_root_entry a + CHILD_REGION_LEN \<le> a_child_region_base a \<and>
     a_child_region_base a + CHILD_REGION_LEN = a_pool_base a \<and> a_pool_len a = CHILD_REGION_LEN \<and>
     a_device_base a + a_device_len a \<le> a_root_entry a"

lemma arches_layout_ok: "a \<in> set (ARCHES r) \<Longrightarrow> layout_ok a"
  by (auto simp: arch_defs layout_ok_def CHILD_REGION_LEN_def)

lemma dest_windows_apart:
  "i < j \<Longrightarrow> \<not> overlap (b + i * CHILD_REGION_LEN, CHILD_REGION_LEN) (b + j * CHILD_REGION_LEN, CHILD_REGION_LEN)"
  by (auto simp: overlap_def CHILD_REGION_LEN_def)



text \<open>The refusal is needed. On every profile the second child's destination is byte for byte
  the pool's window, so without the refusal a two-child case with a pool would publish the same
  memory twice.\<close>

theorem pool_collision:
  assumes "a \<in> set (ARCHES r)"
  shows "row_window (dest_row a 1) = row_window (pool_row a) \<and>
    overlap (the (row_window (dest_row a 1))) (the (row_window (pool_row a)))"
  using arches_layout_ok[OF assms]
  by (simp add: layout_ok_def overlap_def CHILD_REGION_LEN_def)

theorem pool_collision_witness:
  "row_window (dest_row (arch_arm64 ''/r'') 1) = Some (0x40280000, 0x40000)
   \<and> row_window (pool_row (arch_arm64 ''/r'')) = Some (0x40280000, 0x40000)"
proof -
  have "arch_arm64 ''/r'' \<in> set (ARCHES ''/r'')" by (simp add: ARCHES_def)
  from pool_collision[OF this] show ?thesis
    by (simp add: arch_arm64_def)
qed

section \<open>The bytes of the table\<close>

text \<open>The documented behaviour of the data directives the text uses: \<open>asm val line\<close> is what \<open>line\<close>
  adds to its section when \<open>val\<close> gives the value of every expression. Numbers have their value;
  opening a section, aligning at its start, comments and empty lines add nothing.\<close>

definition data_directives :: "((string \<Rightarrow> nat) \<Rightarrow> string \<Rightarrow> bytes) \<Rightarrow> bool" where
  "data_directives asm \<longleftrightarrow>
     (\<forall>val e. asm val (''    .2byte '' @ e) = le_bytes 2 (val e)
            \<and> asm val (''    .4byte '' @ e) = le_bytes 4 (val e)
            \<and> asm val (''    .8byte '' @ e) = le_bytes 8 (val e)
            \<and> asm val (''    .byte  '' @ e) =
                concat (map (\<lambda>x. le_bytes 1 (val (str_strip x))) (str_split_char (CHR '','') e))
            \<and> asm val (''    .section '' @ e) = [] \<and> asm val ''    .balign 8'' = []
            \<and> asm val (''    /* '' @ e) = [] \<and> asm val [] = [])"

definition literals :: "(string \<Rightarrow> nat) \<Rightarrow> bool" where
  "literals val \<longleftrightarrow> (\<forall>n. val (hash_x n) = n \<and> val (fmt_0x 8 n) = n \<and> val (show_nat n) = n)"

definition assemble :: "((string \<Rightarrow> nat) \<Rightarrow> string \<Rightarrow> bytes) \<Rightarrow> (string \<Rightarrow> nat) \<Rightarrow> string list \<Rightarrow> bytes" where
  "assemble asm val ls = concat (map (asm val) ls)"

text \<open>The largest address a 64-bit field can be given on a profile: the assembler of a 32-bit
  target relocates the low half only.\<close>

definition addr_bytes :: "arch \<Rightarrow> nat" where
  "addr_bytes a = (if a_hex_width a = 8 then 4 else 8)"

lemma assemble_simps [simp]:
  "assemble asm val [] = []"
  "assemble asm val (l # ls) = asm val l @ assemble asm val ls"
  "assemble asm val (xs @ ys) = assemble asm val xs @ assemble asm val ys"
  by (simp_all add: assemble_def)

lemma show_nat_chars: "x \<in> set (show_nat n) \<Longrightarrow> \<exists>d<10. x = char_of (48 + d :: nat)"
  using nat_digits_bound[of 10 _ n] by (fastforce simp: show_nat_def)

lemma show_nat_no_comma: "CHR '','' \<notin> set (show_nat n)"
proof
  assume "CHR '','' \<in> set (show_nat n)"
  then obtain d :: nat where "d < 10" "CHR '','' = char_of (48 + d)" using show_nat_chars by blast
  then have "(of_char (CHR '','') :: nat) = 48 + d" by (simp add: of_char_of)
  then show False by simp
qed

lemma show_nat_no_space: "\<forall>x \<in> set (show_nat n). \<not> is_space x"
  using show_nat_chars by (fastforce simp: is_space_def Let_def of_char_of)

lemma split_char_none: "c \<notin> set s \<Longrightarrow> str_split_char c s = [s]"
  by (induction s) auto

lemma strip_none: "\<forall>x \<in> set s. \<not> is_space x \<Longrightarrow> str_strip s = s"
  unfolding str_strip_def str_strip_by_def
  by (metis dropWhile_eq_self_iff hd_in_set rev_rev_ident set_rev)

lemma byte_directive_nat:
  "data_directives asm \<Longrightarrow> literals val \<Longrightarrow> asm val (''    .byte  '' @ show_nat n) = le_bytes 1 n"
  using show_nat_no_comma[of n] show_nat_no_space[of n]
  by (simp add: data_directives_def literals_def split_char_none strip_none)

lemma word64_bytes:
  assumes "data_directives asm" "literals val" "val e < 256 ^ addr_bytes a"
  shows "assemble asm val (emit_word64 a e) = le_bytes 8 (val e)"
proof (cases "a_hex_width a = 8")
  case True
  have z: "val ''0'' = 0"
  proof -
    have "show_nat 0 = ''0''" by code_simp
    then show ?thesis using assms(2) unfolding literals_def by metis
  qed
  have "asm val ''    .4byte 0'' = le_bytes 4 (val ''0'')"
    using assms(1) unfolding data_directives_def by (metis append_Cons append_Nil)
  then show ?thesis
    using assms True le_bytes_split[of "val e" 4 4]
    by (simp add: emit_word64_def data_directives_def addr_bytes_def z del: le_bytes.simps)
next
  case False
  then show ?thesis
    using assms by (simp add: emit_word64_def data_directives_def del: le_bytes.simps)
qed

lemma seven_zeros:
  assumes "data_directives asm" "literals val"
  shows "asm val ''    .byte  0, 0, 0, 0, 0, 0, 0'' = le_bytes 7 0"
proof -
  have z: "val ''0'' = 0"
  proof -
    have "show_nat 0 = ''0''" by code_simp
    then show ?thesis using assms(2) unfolding literals_def by metis
  qed
  have "map str_strip (str_split_char (CHR '','') ''0, 0, 0, 0, 0, 0, 0'') = replicate 7 ''0''"
    by code_simp
  moreover have "map (\<lambda>x. le_bytes 1 (val (str_strip x))) xs
      = map (\<lambda>y. le_bytes 1 (val y)) (map str_strip xs)" for xs
    by simp
  ultimately have "concat (map (\<lambda>x. le_bytes 1 (val (str_strip x)))
      (str_split_char (CHR '','') ''0, 0, 0, 0, 0, 0, 0'')) = concat (replicate 7 (le_bytes 1 0))"
    by (simp only: map_replicate z)
  moreover have "asm val (''    .byte  '' @ ''0, 0, 0, 0, 0, 0, 0'') = concat (map (\<lambda>x. le_bytes 1 (val (str_strip x)))
      (str_split_char (CHR '','') ''0, 0, 0, 0, 0, 0, 0''))"
    using assms(1) unfolding data_directives_def by blast
  moreover have "concat (replicate 7 (le_bytes 1 0)) = le_bytes 7 0"
    by code_simp
  moreover have "''    .byte  '' @ ''0, 0, 0, 0, 0, 0, 0'' = ''    .byte  0, 0, 0, 0, 0, 0, 0''"
    by simp
  ultimately show ?thesis by metis
qed

text \<open>What a row says, with its expressions resolved.\<close>

definition resolved :: "(string \<Rightarrow> nat) \<Rightarrow> row \<Rightarrow> region_row" where
  "resolved val rw = (case rw of (what, base, len, kind) \<Rightarrow> (val base, val len, kind))"

definition row_fits :: "arch \<Rightarrow> (string \<Rightarrow> nat) \<Rightarrow> row \<Rightarrow> bool" where
  "row_fits a val rw =
     (case rw of (what, base, len, kind) \<Rightarrow>
        val base < 256 ^ addr_bytes a \<and> val len < 256 ^ addr_bytes a \<and> kind < 256)"

lemma row_bytes:
  assumes "data_directives asm" "literals val" "row_fits a val rw"
  shows "assemble asm val (case rw of (what, b, l, k) \<Rightarrow> emit_row a b l k) = region_row_bytes (resolved val rw)"
proof -
  obtain what b l k where rw: "rw = (what, b, l, k)" by (cases rw) auto
  show ?thesis
    using assms byte_directive_nat[OF assms(1,2), of k]
    by (simp add: rw emit_row_def word64_bytes seven_zeros row_fits_def resolved_def
        del: le_bytes.simps One_nat_def)
qed

lemma rows_bytes:
  assumes "data_directives asm" "literals val" "list_all (row_fits a val) rows"
  shows "assemble asm val (concat (map (\<lambda>(i, (what, b, l, k)).
         (''    /* row '' @ show_nat i @ '': '' @ what @ '' */'') # emit_row a b l k) (enumerate_from n rows)))
    = concat (map (\<lambda>rw. region_row_bytes (resolved val rw)) rows)"
  using assms(3)
proof (induction rows arbitrary: n)
  case Nil
  show ?case by simp
next
  case (Cons rw rows)
  obtain what b l k where rw: "rw = (what, b, l, k)" by (cases rw) auto
  have "asm val (''    /* '' @ (''row '' @ show_nat n @ '': '' @ what @ '' */'')) = []"
    using assms(1) unfolding data_directives_def by blast
  then have "asm val (''    /* row '' @ show_nat n @ '': '' @ what @ '' */'') = []" by simp
  moreover have "assemble asm val (emit_row a b l k) = region_row_bytes (resolved val rw)"
    using row_bytes[OF assms(1,2), of a rw] Cons.prems rw by simp
  ultimately show ?case
    using Cons.IH[of "Suc n"] Cons.prems by (simp add: rw)
qed

lemma table_header_bytes:
  assumes "data_directives asm" and "literals val"
  shows "assemble asm val
    ([[], ''    .section .regions, '' @ dq @ ''a'' @ dq @ '', @progbits'', ''    .balign 8'',
      ''    .4byte '' @ fmt_0x 8 REGION_TABLE_MAGIC,
      ''    .2byte '' @ show_nat REGION_TABLE_VERSION,
      ''    .byte  '' @ show_nat n,
      ''    .byte  0''] @ rest) = region_header_bytes 2 n @ assemble asm val rest"
proof -
  have sec: "asm val (''    .section '' @ (''.regions, '' @ dq @ ''a'' @ dq @ '', @progbits'')) = []"
    and bal: "asm val ''    .balign 8'' = []" and emp: "asm val [] = []"
    using assms(1) unfolding data_directives_def by blast+
  have mag: "asm val (''    .4byte '' @ fmt_0x 8 REGION_TABLE_MAGIC) = le_bytes 4 REGION_MAGIC"
    and ver: "asm val (''    .2byte '' @ show_nat REGION_TABLE_VERSION) = le_bytes 2 2"
    using assms(1,2)
    by (simp_all add: data_directives_def literals_def REGION_TABLE_MAGIC_def REGION_MAGIC_def
        REGION_TABLE_VERSION_def del: le_bytes.simps)
  have cnt: "asm val (''    .byte  '' @ show_nat n) = le_bytes 1 n"
    using assms(1,2) by (rule byte_directive_nat)
  have res: "asm val ''    .byte  0'' = le_bytes 1 0"
  proof -
    have "show_nat 0 = ''0''" by code_simp
    then show ?thesis using byte_directive_nat[OF assms(1,2), of 0] by simp
  qed
  show ?thesis
    using sec bal emp mag ver cnt res
    by (simp add: region_header_bytes_def del: le_bytes.simps One_nat_def)
qed

lemma regions_lines_assemble:
  assumes "data_directives asm" and "literals val"
    and "list_all (row_fits a val) rows"
  shows "assemble asm val (regions_lines a rows) = region_table_bytes (map (resolved val) rows)"
proof -
  have emp: "asm val [] = []" using assms(1) unfolding data_directives_def by blast
  show ?thesis
    using table_header_bytes[OF assms(1,2), of "length rows"] rows_bytes[OF assms(1-3), of 0] emp
    by (simp add: regions_lines_def region_table_bytes_def comp_def)
qed

text \<open>C9: the text the harness generates assembles to the wire format the kernel and the dumper
  read. For any assembler that treats the data directives as documented, on either word width, the
  section is the eight-byte version 2 header followed by one 24-byte record per row, holding that
  row's base, length and kind in order.\<close>

theorem regions_lines_bytes:
  assumes "data_directives asm" and "literals val"
    and "list_all (row_fits a val) rows" and "length rows < 256"
  shows "assemble asm val (regions_lines a rows) = region_table_bytes (map (resolved val) rows)"
  using assms(1-3) by (rule regions_lines_assemble)

text \<open>A concrete assembler and a concrete reading of numbers that behave as documented.\<close>

definition gas_ref :: "(string \<Rightarrow> nat) \<Rightarrow> string \<Rightarrow> bytes" where
  "gas_ref val line =
     (if prefix ''    .2byte '' line then le_bytes 2 (val (drop 11 line))
      else if prefix ''    .4byte '' line then le_bytes 4 (val (drop 11 line))
      else if prefix ''    .8byte '' line then le_bytes 8 (val (drop 11 line))
      else if prefix ''    .byte  '' line
        then concat (map (\<lambda>x. le_bytes 1 (val (str_strip x))) (str_split_char (CHR '','') (drop 11 line)))
      else [])"

definition val_ref :: "string \<Rightarrow> nat" where
  "val_ref e = (if prefix ''0x'' e then read_base 16 (drop 2 e) else read_base 10 e)"

lemma gas_ref_directives: "data_directives gas_ref"
  by (simp add: data_directives_def gas_ref_def)

lemma show_nat_not_hex: "\<not> prefix ''0x'' (show_nat n)"
proof
  assume "prefix ''0x'' (show_nat n)"
  then have "CHR ''x'' \<in> set (show_nat n)" by (auto simp: prefix_def)
  then obtain d :: nat where "d < 10" "CHR ''x'' = char_of (48 + d)" using show_nat_chars by blast
  then have "(of_char (CHR ''x'') :: nat) = 48 + d" by (simp add: of_char_of)
  with \<open>d < 10\<close> show False by simp
qed

lemma val_ref_literals: "literals val_ref"
  using show_nat_not_hex by (simp add: literals_def val_ref_def fmt_0x_def)

text \<open>A linker that puts the first child image at 64 KiB above the start of the flash.\<close>

definition link_ref :: "string \<Rightarrow> nat" where
  "link_ref e =
     (if e = ''_sos_child0_start'' then 0x80210000
      else if e = ''_sos_child0_end - _sos_child0_start'' then 1234 else val_ref e)"

lemma hd_show_nat: "hd (show_nat n) \<noteq> CHR ''_''"
proof
  assume h: "hd (show_nat n) = CHR ''_''"
  obtain d :: nat where "d < 10" "CHR ''_'' = char_of (48 + d)"
    using show_nat_chars[of "CHR ''_''" n] h show_nat_nonempty[of n] hd_in_set by metis
  then have "(of_char (CHR ''_'') :: nat) = 48 + d" by (simp add: of_char_of)
  with \<open>d < 10\<close> show False by simp
qed

lemma link_ref_literals: "literals link_ref"
proof -
  have "link_ref e = val_ref e" if "hd e \<noteq> CHR ''_''" for e using that by (auto simp: link_ref_def)
  then show ?thesis using val_ref_literals hd_show_nat unfolding literals_def by (auto simp: hash_x_def fmt_0x_def)
qed

theorem regions_lines_bytes_witness:
  "assemble gas_ref val_ref
     (regions_lines (arch_riscv32 ''/r'') [pool_row (arch_riscv32 ''/r''), device_row (arch_riscv32 ''/r'')])
   = region_table_bytes [(0x80280000, 0x40000, 0), (0x10000000, 0x1000, 1)]"
proof -
  let ?a = "arch_riscv32 ''/r''"
  have vals: "val_ref (hash_x n) = n" for n
    using val_ref_literals by (simp add: literals_def)
  have fits: "list_all (row_fits ?a val_ref) [pool_row ?a, device_row ?a]"
    by (simp add: row_fits_def pool_row_def device_row_def vals arch_riscv32_def addr_bytes_def
        REGION_KIND_RAM_def REGION_KIND_DEVICE_def)
  have len: "length [pool_row ?a, device_row ?a] < 256" by simp
  show ?thesis
    using regions_lines_bytes[OF gas_ref_directives val_ref_literals fits len]
    by (simp add: resolved_def pool_row_def device_row_def vals arch_riscv32_def
        REGION_KIND_RAM_def REGION_KIND_DEVICE_def)
qed

end
