(* ===== verification/Build_Pipeline.thy ===== *)
theory Build_Pipeline
  imports Toolchain Case_Model Region_Table
begin

text \<open>
  The build steps of \<^verbatim>\<open>src/tools/sos_runner.py\<close>: finding the host tools, building an architecture's
  shared objects, Blade and the root images, staging an img into a kernel img and linking one test
  case. Each step is a computation over the files of the host; the programs it starts are the host's
  \<^const>\<open>h_exec\<close>. \<open>r\<close> is the repository's root and \<open>t\<close> the toolchain \<^verbatim>\<open>tc()\<close> answers with, which is
  resolved once.
\<close>

section \<open>Commands\<close>

text \<open>The value of an optional key that the source tests for truth.\<close>

definition given :: "string option \<Rightarrow> string option" where
  "given v = (case v of None \<Rightarrow> None | Some s \<Rightarrow> if s = [] then None else Some s)"

definition run_in :: "host \<Rightarrow> string list \<Rightarrow> string option \<Rightarrow> env \<Rightarrow> unit io" where
  "run_in h argv cwd env =
     bind (run_proc h \<lparr>cmd_argv = argv, cmd_cwd = cwd, cmd_env = env\<rparr>)
       (\<lambda>(rc, out, err).
          if rc \<noteq> 0
          then raise (ToolError (''command failed ('' @ show_int rc @ ''): '' @ str_join '' '' argv @ nl @ out @ err))
          else ret ())"

definition run :: "host \<Rightarrow> string list \<Rightarrow> unit io" where
  "run h argv = run_in h argv None (h_env h)"

definition cc :: "arch \<Rightarrow> string \<Rightarrow> string list" where
  "cc a clang = [clang, ''--target='' @ a_triple a] @ a_cc_args a"

definition catch_tool :: "'a io \<Rightarrow> (string \<Rightarrow> 'a io) \<Rightarrow> 'a io" where
  "catch_tool m k = catch m (\<lambda>e. case e of ToolError s \<Rightarrow> k s | _ \<Rightarrow> raise e)"

section \<open>The host tools\<close>

definition INSTALL_HINTS :: "(string \<times> string) list" where
  "INSTALL_HINTS =
     [(''qemu-system-riscv32'', ''brew install qemu   (macOS)  |  apt install qemu-system-misc   (Debian/Ubuntu)''),
      (''qemu-system-aarch64'', ''brew install qemu   (macOS)  |  apt install qemu-system-arm    (Debian/Ubuntu)''),
      (''ld.lld'', ''brew install lld    (macOS)  |  apt install lld                (Debian/Ubuntu)''),
      (''clang'', ''install Xcode/`brew install llvm` (macOS)  |  apt install clang  (Debian/Ubuntu)'')]"

text \<open>Can this clang assemble the boot code of every architecture? The first one it cannot ends the
  probe of the candidate.\<close>

fun probe_arches :: "host \<Rightarrow> string \<Rightarrow> string \<Rightarrow> arch list \<Rightarrow> bool io" where
  "probe_arches h r path [] = ret True"
| "probe_arches h r path (a # as) =
     bind (catch_tool
             (bind (run h (cc a path @ [''-nostdlib'', ''-c'', py_join (d_hal_board (arch_dirs r a)) ''boot.S'',
                                        ''-o'', py_join (d_build (arch_dirs r a)) ''_probe.o'']))
                (\<lambda>_. ret True))
             (\<lambda>_. ret False))
       (\<lambda>ok. if ok then probe_arches h r path as else ret False)"

definition candidate_path :: "host \<Rightarrow> fs \<Rightarrow> string \<Rightarrow> string option" where
  "candidate_path h fs cand =
     (case given (which_tool h cand (h_env h)) of
        Some p \<Rightarrow> Some p
      | None \<Rightarrow> if cand \<noteq> [] \<and> (fs_isfile fs cand \<or> fs_isdir fs cand) then Some cand else None)"

fun first_clang :: "host \<Rightarrow> string \<Rightarrow> arch list \<Rightarrow> string list \<Rightarrow> string option io" where
  "first_clang h r arches [] = ret None"
| "first_clang h r arches (cand # cands) =
     bind get_fs (\<lambda>fs.
     case candidate_path h fs cand of
       None \<Rightarrow> first_clang h r arches cands
     | Some path \<Rightarrow>
         bind (probe_arches h r path arches)
           (\<lambda>ok. if ok then ret (Some path) else first_clang h r arches cands))"

definition find_clang :: "host \<Rightarrow> string \<Rightarrow> arch list \<Rightarrow> string option io" where
  "find_clang h r arches =
     first_clang h r arches
       ((case env_named (h_env h) ''SOS_CLANG'' of Some c \<Rightarrow> [c] | None \<Rightarrow> []) @
        [''clang'', ''/opt/homebrew/opt/llvm/bin/clang'', ''/usr/local/opt/llvm/bin/clang''])"

text \<open>The colours, which are empty when the output is not a terminal.\<close>

definition ansi :: "bool \<Rightarrow> string \<Rightarrow> string" where
  "ansi tty code = (if tty then [CHR 0x1B] @ ''['' @ code @ ''m'' else [])"

definition GREEN :: "bool \<Rightarrow> string" where "GREEN tty = ansi tty ''92''"
definition RED :: "bool \<Rightarrow> string" where "RED tty = ansi tty ''91''"
definition BOLD :: "bool \<Rightarrow> string" where "BOLD tty = ansi tty ''1''"
definition RESET :: "bool \<Rightarrow> string" where "RESET tty = ansi tty ''0''"

definition CHECK :: "bool \<Rightarrow> string" where
  "CHECK tty = GREEN tty @ [CHR 0xE2, CHR 0x9C, CHR 0x93] @ RESET tty"

definition CROSS :: "bool \<Rightarrow> string" where
  "CROSS tty = RED tty @ [CHR 0xE2, CHR 0x9C, CHR 0x97] @ RESET tty"

record tools =
  t_qemus :: "(string \<times> string option) list"
  t_lld :: "string option"
  t_clang :: "string option"

definition print_hint :: "string \<Rightarrow> unit io" where
  "print_hint tool =
     bind (of_res (case map_of INSTALL_HINTS tool of None \<Rightarrow> Inl (KeyError tool) | Some s \<Rightarrow> Inr s))
       (\<lambda>hint. print_err (''  - '' @ tool @ '': '' @ hint))"

definition missing_tools :: "arch list \<Rightarrow> tools \<Rightarrow> string list" where
  "missing_tools arches ts =
     map a_qemu (filter (\<lambda>a. given (dict_get (map_of (t_qemus ts) (a_name a)) None) = None) arches) @
     (if given (t_lld ts) = None then [''ld.lld''] else []) @
     (if given (t_clang ts) = None then [''clang''] else [])"

definition probe_tools :: "host \<Rightarrow> string \<Rightarrow> arch list \<Rightarrow> tools io" where
  "probe_tools h r arches =
     bind (find_clang h r arches) (\<lambda>clang.
     let ts = \<lparr>t_qemus = map (\<lambda>a. (a_name a, which_tool h (a_qemu a) (h_env h))) arches,
               t_lld = which_tool h ''ld.lld'' (h_env h), t_clang = clang\<rparr>
     in if missing_tools arches ts \<noteq> [] then
          bind (print_err (RED (h_tty h) @ BOLD (h_tty h) @ ''sos-test: missing host prerequisites'' @ RESET (h_tty h))) (\<lambda>_.
          bind (each print_hint (missing_tools arches ts)) (\<lambda>_.
          raise (SystemExit 2)))
        else ret ts)"

section \<open>The shared objects and Blade\<close>

text \<open>\<^verbatim>\<open>s.replace(old, new)\<close> for an \<open>old\<close> that is not empty.\<close>

function str_replace :: "string \<Rightarrow> string \<Rightarrow> string \<Rightarrow> string" where
  "str_replace old new s =
     (if s = [] \<or> old = [] then s
      else if prefix old s then new @ str_replace old new (drop (length old) s)
      else hd s # str_replace old new (tl s))"
  by pat_completeness auto
termination by (relation "measure (\<lambda>(old, new, s). length s)") auto

declare str_replace.simps [simp del]

definition asm_object :: "string \<Rightarrow> string \<Rightarrow> string" where
  "asm_object build rel = py_join build (str_replace ''.S'' ''.o'' (basename rel))"

definition build_shared :: "host \<Rightarrow> string \<Rightarrow> arch \<Rightarrow> string \<Rightarrow> string list io" where
  "build_shared h r a clang =
     (let d = arch_dirs r a; build = d_build d;
          boot_o = py_join build ''boot.o''; sink_o = py_join build ''sink.o'';
          support_o = py_join build ''support.o'' in
      bind (run h (cc a clang @ [''-nostdlib'', ''-c'', py_join (d_hal_board d) ''boot.S'', ''-o'', boot_o])) (\<lambda>_.
      bind (map_io (\<lambda>rel.
              bind (run h (cc a clang @ [''-nostdlib'', ''-c'', py_join (HAL_DIR r) rel, ''-o'', asm_object build rel]))
                (\<lambda>_. ret (asm_object build rel))) (a_hal_asm a)) (\<lambda>asm_objs.
      bind (each (\<lambda>(src, obj).
              run h (cc a clang @ [''-ffreestanding'', ''-fno-builtin'', ''-ffunction-sections'', ''-fdata-sections'',
                                   ''-nostdlib'', ''-O2'', ''-c'', src, ''-o'', obj]))
              [(py_join (d_hal_native d) ''sink.c'', sink_o),
               (py_join (RT_COMMON_C_DIR r) ''support.c'', support_o)]) (\<lambda>_.
      ret ([boot_o] @ asm_objs @ [sink_o, support_o])))))"

definition build_blade :: "host \<Rightarrow> toolchain \<Rightarrow> string \<Rightarrow> string io" where
  "build_blade h t build_dir =
     (case given (blade_binary t) of
        Some bin \<Rightarrow> ret bin
      | None \<Rightarrow>
          let blade_bin = py_join build_dir ''blade'' in
          bind (of_res (blade_package_dir t)) (\<lambda>pkg.
          bind (map_io (\<lambda>m. of_res (module_path_arg t m)) [''toml'', ''semver'', ''imgformat'']) (\<lambda>mods.
          bind (run h (sawc t @ [path_join pkg [''src'', ''main.saw''], ''-o'', blade_bin] @
                       concat (map (\<lambda>m. [''--module-path'', m]) mods))) (\<lambda>_.
          ret blade_bin))))"

definition blade_env :: "host \<Rightarrow> toolchain \<Rightarrow> string \<Rightarrow> env" where
  "blade_env h t clang =
     [(''SOS_CLANG'', clang), (''SAWC'', sawc_env_value t @ '' -Oz'')] @ h_env h"

section \<open>A root image\<close>

definition image_dir :: "string \<Rightarrow> arch \<Rightarrow> string" where
  "image_dir pkg_dir a = path_join pkg_dir [''.build'', a_triple a]"

definition is_image :: "string \<Rightarrow> bool" where
  "is_image f \<longleftrightarrow> ends_with f ''.sosimg''"

definition images_in :: "fs \<Rightarrow> string \<Rightarrow> string list" where
  "images_in fs out_dir = filter is_image (fs_listdir fs out_dir)"

text \<open>\<^verbatim>\<open>os.remove\<close>: a directory, or nothing, at the path is an error.\<close>

definition remove_file :: "string \<Rightarrow> unit io" where
  "remove_file p = bind get_fs (\<lambda>fs. if fs_isfile fs p then upd_fs (fs_remove p) else raise (OSError p))"

definition sweep_images :: "string \<Rightarrow> unit io" where
  "sweep_images out_dir =
     bind get_fs (\<lambda>fs. each (\<lambda>stale. remove_file (py_join out_dir stale)) (images_in fs out_dir))"

definition comma_reprs :: "string list \<Rightarrow> string" where
  "comma_reprs xs = ''['' @ str_join '', '' (map py_repr xs) @ '']''"

definition blade_argv :: "string \<Rightarrow> arch \<Rightarrow> string list" where
  "blade_argv blade_bin a = [blade_bin, ''build'', ''--force'', ''--target'', a_triple a]"

text \<open>The image is named for the package, which need not match its directory: the only one there.\<close>

definition the_image :: "string \<Rightarrow> string list \<Rightarrow> string res" where
  "the_image out_dir images =
     (if length images \<noteq> 1
      then Inl (ToolError (''expected exactly one .sosimg in '' @ out_dir @ '', found '' @ comma_reprs images))
      else Inr (py_join out_dir (images ! 0)))"

definition build_root_image :: "host \<Rightarrow> toolchain \<Rightarrow> string \<Rightarrow> string \<Rightarrow> arch \<Rightarrow> string \<Rightarrow> string io" where
  "build_root_image h t blade_bin pkg_dir a clang =
     (let out_dir = image_dir pkg_dir a in
      bind (sweep_images out_dir) (\<lambda>_.
      bind (run_in h (blade_argv blade_bin a) (Some pkg_dir) (blade_env h t clang)) (\<lambda>_.
      bind get_fs (\<lambda>fs.
      of_res (the_image out_dir (images_in fs out_dir))))))"

text \<open>\<^verbatim>\<open>_root_image_path\<close> lists a directory that has to exist and takes the first img.\<close>

definition root_image_path :: "string \<Rightarrow> arch \<Rightarrow> string io" where
  "root_image_path pkg_dir a =
     bind get_fs (\<lambda>fs.
     let out_dir = image_dir pkg_dir a in
     if \<not> fs_isdir fs out_dir then raise (OSError out_dir)
     else case images_in fs out_dir of
            [] \<Rightarrow> raise IndexError
          | img # _ \<Rightarrow> ret (py_join out_dir img))"

section \<open>Staging images into a kernel image\<close>

definition copyfile :: "string \<Rightarrow> string \<Rightarrow> unit io" where
  "copyfile src dst =
     bind get_fs (\<lambda>fs. case map_of fs src of
                         None \<Rightarrow> raise (OSError src)
                       | Some v \<Rightarrow> upd_fs (fs_write dst v))"

definition stitch_root_image :: "host \<Rightarrow> string \<Rightarrow> string \<Rightarrow> arch \<Rightarrow> string \<Rightarrow> string \<Rightarrow> string io" where
  "stitch_root_image h r img a clang name =
     (let build = d_build (arch_dirs r a);
          stage = py_join build (name @ ''.rootimg'');
          stub_o = py_join build (name @ ''.rootimg.o'') in
      bind (copyfile img (py_join stage ''root.sosimg'')) (\<lambda>_.
      bind (run h (cc a clang @ [''-nostdlib'', ''-I'', stage, ''-c'', py_join (KERNEL_DIR r) ''rootimg.S'',
                                 ''-o'', stub_o])) (\<lambda>_.
      ret stub_o)))"

definition child_image :: "test_case \<Rightarrow> arch \<Rightarrow> nat \<Rightarrow> string res" where
  "child_image c a i =
     (case map_of (c_child_images c) (a_name a) of
        None \<Rightarrow> Inl (KeyError (a_name a))
      | Some images \<Rightarrow> if i < length images then Inr (images ! i) else Inl IndexError)"

definition staged_child :: "string \<Rightarrow> test_case \<Rightarrow> arch \<Rightarrow> nat \<Rightarrow> string" where
  "staged_child r c a i =
     py_join (d_build (arch_dirs r a)) (c_name c @ ''.child'' @ show_nat i @ ''.sosimg'')"

definition stitch_regions :: "host \<Rightarrow> string \<Rightarrow> test_case \<Rightarrow> arch \<Rightarrow> string \<Rightarrow> string io" where
  "stitch_regions h r c a clang =
     (let build = d_build (arch_dirs r a);
          stub_s = py_join build (c_name c @ ''.regions.S'');
          stub_o = py_join build (c_name c @ ''.regions.o'') in
      bind (each (\<lambda>i. bind (of_res (child_image c a i)) (\<lambda>img. copyfile img (staged_child r c a i)))
                 [0..<length (c_children c)]) (\<lambda>_.
      bind (of_res (regions_text c a)) (\<lambda>body.
      bind (upd_fs (fs_write stub_s body)) (\<lambda>_.
      bind (run h (cc a clang @ [''-nostdlib'', ''-I'', build, ''-c'', stub_s, ''-o'', stub_o])) (\<lambda>_.
      ret stub_o)))))"

section \<open>One test case\<close>

definition kernel_argv :: "string \<Rightarrow> toolchain \<Rightarrow> test_case \<Rightarrow> arch \<Rightarrow> string \<Rightarrow> string \<Rightarrow> string list" where
  "kernel_argv r t c a obj imgformat =
     sawc t @ [c_src c, ''-o'', obj, ''-Oz'', ''--freestanding'', ''--no-hidden-alloc'',
               ''--runtime-provider'', ''--target'', a_triple a] @
     (case given (a_features a) of Some f \<Rightarrow> [''--target-features'', f] | None \<Rightarrow> []) @
     [''--module-path'', CORE_MODULE r,
      ''--module-path'', ''hal='' @ d_hal_kernel (arch_dirs r a),
      ''--module-path'', imgformat,
      ''--module-path'', SOSRT_MODULE r,
      ''--module-path'', SOSABI_MODULE r] @
     concat (map (\<lambda>extra. [''--module-path'', extra]) (a_hal_modules a))"

text \<open>The steps a case may ask for, each giving the object it adds to the link.\<close>

definition csrc_step :: "host \<Rightarrow> string \<Rightarrow> test_case \<Rightarrow> arch \<Rightarrow> string \<Rightarrow> string list io" where
  "csrc_step h r c a clang =
     (case given (c_csrc c) of
        None \<Rightarrow> ret []
      | Some csrc \<Rightarrow>
          let c_obj = py_join (d_build (arch_dirs r a)) (c_name c @ ''.stubs.o'') in
          bind (run h (cc a clang @ [''-nostdlib'', ''-ffreestanding'', ''-O2'', ''-c'',
                                     py_join (TESTS_DIR r) csrc, ''-o'', c_obj])) (\<lambda>_. ret [c_obj]))"

definition asm_step :: "host \<Rightarrow> string \<Rightarrow> test_case \<Rightarrow> arch \<Rightarrow> string \<Rightarrow> string list io" where
  "asm_step h r c a clang =
     (case given (c_asm c) of
        None \<Rightarrow> ret []
      | Some asm \<Rightarrow>
          let payload_o = py_join (d_build (arch_dirs r a)) (c_name c @ ''.payload.o'') in
          bind (run h (cc a clang @ [''-nostdlib'', ''-c'', py_join (d_tests (arch_dirs r a)) asm,
                                     ''-o'', payload_o])) (\<lambda>_. ret [payload_o]))"

definition root_step :: "host \<Rightarrow> string \<Rightarrow> test_case \<Rightarrow> arch \<Rightarrow> string \<Rightarrow> string list io" where
  "root_step h r c a clang =
     (case given (c_root_pkg c) of
        None \<Rightarrow> ret []
      | Some pkg \<Rightarrow>
          bind (of_res (case map_of (c_root_image c) (a_name a) of
                          None \<Rightarrow> Inl (KeyError (a_name a)) | Some img \<Rightarrow> Inr img)) (\<lambda>img.
          bind (stitch_root_image h r img a clang (c_name c)) (\<lambda>stub_o. ret [stub_o])))"

definition wants_regions :: "test_case \<Rightarrow> bool" where
  "wants_regions c \<longleftrightarrow> c_children c \<noteq> [] \<or> c_pool c \<or> c_device c"

definition regions_step :: "host \<Rightarrow> string \<Rightarrow> test_case \<Rightarrow> arch \<Rightarrow> string \<Rightarrow> string list io" where
  "regions_step h r c a clang =
     (if wants_regions c then bind (stitch_regions h r c a clang) (\<lambda>stub_o. ret [stub_o]) else ret [])"

definition link_argv :: "string \<Rightarrow> arch \<Rightarrow> string \<Rightarrow> string \<Rightarrow> string list \<Rightarrow> string list" where
  "link_argv r a lld elf objs =
     [lld, ''-T'', py_join (d_hal_board (arch_dirs r a)) ''virt.ld'', ''--gc-sections'', ''-o'', elf] @ objs"

definition build_elf ::
  "host \<Rightarrow> string \<Rightarrow> toolchain \<Rightarrow> test_case \<Rightarrow> arch \<Rightarrow> string list \<Rightarrow> string \<Rightarrow> string \<Rightarrow> string io"
where
  "build_elf h r t c a shared_objs lld clang =
     (let build = d_build (arch_dirs r a);
          obj = py_join build (c_name c @ ''.o'');
          elf = py_join build (c_name c @ ''.elf'') in
      bind (of_res (module_path_arg t ''imgformat'')) (\<lambda>imgformat.
      bind (run h (kernel_argv r t c a obj imgformat)) (\<lambda>_.
      bind (csrc_step h r c a clang) (\<lambda>stubs.
      bind (asm_step h r c a clang) (\<lambda>payload.
      bind (root_step h r c a clang) (\<lambda>root.
      bind (regions_step h r c a clang) (\<lambda>regions.
      bind (run h (link_argv r a lld elf (shared_objs @ [obj] @ stubs @ payload @ root @ regions))) (\<lambda>_.
      ret elf))))))))"

section \<open>Booting\<close>

text \<open>What running the emulator ends in: an exit status, or the deadline; and the serial output. The
  emulator is the parameter \<open>emu\<close>, from its command line, the bytes typed at the guest and the files.\<close>

datatype emu_end = Exited int string | Deadline string

type_synonym emulator = "string list \<Rightarrow> string option \<Rightarrow> fs \<Rightarrow> emu_end"

definition qemu_argv :: "string \<Rightarrow> arch \<Rightarrow> string \<Rightarrow> string list" where
  "qemu_argv qemu a elf = [qemu] @ a_qemu_args a @ [''-nographic'', ''-kernel'', elf]"

definition run_qemu ::
  "emulator \<Rightarrow> fs \<Rightarrow> string \<Rightarrow> arch \<Rightarrow> string \<Rightarrow> string option \<Rightarrow> int option \<times> string \<times> bool"
where
  "run_qemu emu fs qemu a elf feed =
     (case emu (qemu_argv qemu a elf) feed fs of
        Exited status out \<Rightarrow> (Some status, out, False)
      | Deadline out \<Rightarrow> (None, out, True))"



section \<open>What a step leaves behind\<close>

lemma run_in_Inr:
  "run_in h argv cwd env w = (Inr u, w') \<longleftrightarrow>
     (\<exists>out err fs'. h_exec h \<lparr>cmd_argv = argv, cmd_cwd = cwd, cmd_env = env\<rparr> (w_fs w) = (Some (0, out, err), fs') \<and>
        w' = w\<lparr>w_fs := fs', w_cmds := w_cmds w @ [\<lparr>cmd_argv = argv, cmd_cwd = cwd, cmd_env = env\<rparr>]\<rparr>)"
  by (auto simp: run_in_def bind_Inr run_proc_def split: prod.splits option.splits if_splits)

text \<open>\<open>touches Q m\<close>: however \<open>m\<close> ends, only the files \<open>Q\<close> holds of are written, created or removed.\<close>

definition touches :: "(string \<Rightarrow> bool) \<Rightarrow> 'a io \<Rightarrow> bool" where
  "touches Q m \<longleftrightarrow> (\<forall>w q. \<not> Q q \<longrightarrow> map_of (w_fs (snd (m w))) q = map_of (w_fs w) q)"

named_theorems touch_rules \<open>which files the steps of a build touch\<close>

lemma touches_bind [touch_rules]:
  assumes "touches Q m" "\<And>x w w'. m w = (Inr x, w') \<Longrightarrow> touches Q (k x)"
  shows "touches Q (bind m k)"
  unfolding touches_def
proof (intro allI impI)
  fix w q
  assume q: "\<not> Q q"
  obtain x w1 where m: "m w = (x, w1)" by fastforce
  have 1: "map_of (w_fs w1) q = map_of (w_fs w) q"
    using assms(1) q m by (auto simp: touches_def dest: spec[of _ w])
  show "map_of (w_fs (snd (bind m k w))) q = map_of (w_fs w) q"
  proof (cases x)
    case (Inl e)
    then show ?thesis using 1 m by (simp add: bind_apply)
  next
    case (Inr y)
    then have "touches Q (k y)" using assms(2) m by blast
    then show ?thesis using 1 m q Inr by (simp add: bind_apply touches_def)
  qed
qed

lemma touches_basic [touch_rules]:
  "touches Q (ret a)" "touches Q (raise e)" "touches Q (of_res x)" "touches Q get_fs"
  by (simp_all add: touches_def)

lemma touches_write [touch_rules]: "Q p \<Longrightarrow> touches Q (upd_fs (fs_write p v))"
  by (auto simp: touches_def)

lemma touches_copyfile [touch_rules]: "Q dst \<Longrightarrow> touches Q (copyfile src dst)"
  by (auto simp: touches_def copyfile_def split: option.splits)

lemma touches_each [touch_rules]: "(\<And>x. x \<in> set xs \<Longrightarrow> touches Q (f x)) \<Longrightarrow> touches Q (each f xs)"
  by (induction xs) (auto intro!: touch_rules)

text \<open>What is relied on about the compilers and the linker: a command with exactly one \<^verbatim>\<open>-o\<close> writes the
  file that follows it and no other.\<close>

definition outputs_only :: "host \<Rightarrow> bool" where
  "outputs_only h \<longleftrightarrow>
     (\<forall>pre out post cwd env fs q.
        ''-o'' \<notin> set pre \<and> ''-o'' \<notin> set post \<and> q \<noteq> out \<longrightarrow>
        map_of (snd (h_exec h \<lparr>cmd_argv = pre @ [''-o'', out] @ post, cmd_cwd = cwd, cmd_env = env\<rparr> fs)) q
          = map_of fs q)"

lemma touches_run:
  assumes "outputs_only h" "argv = pre @ [''-o'', out] @ post" "''-o'' \<notin> set pre" "''-o'' \<notin> set post" "Q out"
  shows "touches Q (run h argv)"
proof -
  have "map_of fs' q = map_of fs q"
    if "h_exec h \<lparr>cmd_argv = argv, cmd_cwd = None, cmd_env = h_env h\<rparr> fs = (x, fs')" "\<not> Q q" for x fs fs' q
    using assms that unfolding outputs_only_def by (metis snd_conv)
  then show ?thesis
    by (auto simp: touches_def run_def run_in_def bind_apply run_proc_def raise_def ret_def
             split: prod.splits option.splits)
qed

lemma py_join_slash: "a \<noteq> [] \<Longrightarrow> CHR ''/'' \<in> set (py_join a b)"
proof -
  assume a: "a \<noteq> []"
  show ?thesis
  proof (cases "last a = CHR ''/''")
    case True
    then have "CHR ''/'' \<in> set a" using a by (metis last_in_set)
    then show ?thesis by (cases b) (auto simp: py_join_def is_abs_def)
  next
    case False
    with a show ?thesis by (cases b) (auto simp: py_join_def is_abs_def)
  qed
qed

lemma not_minus_o: "CHR ''/'' \<in> set s \<Longrightarrow> s \<noteq> ''-o''"
  by auto

section \<open>The artifacts of a case\<close>

definition artifacts :: "string \<Rightarrow> test_case \<Rightarrow> arch \<Rightarrow> string list" where
  "artifacts r c a =
     map (\<lambda>e. py_join (d_build (arch_dirs r a)) (c_name c @ e))
       [''.o'', ''.elf'', ''.stubs.o'', ''.payload.o'', ''.rootimg.o'', ''.regions.S'', ''.regions.o''] @
     [py_join (py_join (d_build (arch_dirs r a)) (c_name c @ ''.rootimg'')) ''root.sosimg''] @
     map (staged_child r c a) [0..<length (c_children c)]"

lemma d_build_eq:
  "d_build (arch_dirs r a) = py_join (py_join (py_join r ''.build'') (dict_get (a_build_tag a) (a_triple a))) ''sos''"
  by (simp add: arch_dirs_def path_join_def)

lemma build_nonempty [simp]: "d_build (arch_dirs r a) \<noteq> []"
  by (simp add: d_build_eq py_join_nonempty)

lemma plain_arch:
  assumes "a \<in> set (ARCHES r)"
  shows "''-o'' \<notin> set (a_cc_args a)" "''-o'' \<notin> set (a_hal_modules a)" "a_features a \<noteq> Some ''-o''" "a_triple a \<noteq> ''-o''"
  using assms by (auto simp: arch_defs RV32_CORE_MODULE_def RV32_VIRT_MODULE_def)

lemma touches_cc:
  assumes "outputs_only h" "a \<in> set (ARCHES r)" "clang \<noteq> ''-o''" "''-o'' \<notin> set flags" "Q out"
  shows "touches Q (run h (cc a clang @ flags @ [''-o'', out]))"
  by (rule touches_run[of _ _ "cc a clang @ flags" _ "[]"])
     (use assms plain_arch[of a r] in \<open>auto simp: cc_def\<close>)

lemma run_out_list: "m @ [x] @ [y] @ [''-o'', z] = (m @ [x, y]) @ [''-o'', z]"
  by simp

lemma csrc_objs:
  "csrc_step h r c a clang w = (Inr xs, w') \<Longrightarrow>
   xs = (if given (c_csrc c) \<noteq> None then [py_join (d_build (arch_dirs r a)) (c_name c @ ''.stubs.o'')] else [])"
  by (auto simp: csrc_step_def bind_Inr Let_def split: option.splits)

lemma asm_objs:
  "asm_step h r c a clang w = (Inr xs, w') \<Longrightarrow>
   xs = (if given (c_asm c) \<noteq> None then [py_join (d_build (arch_dirs r a)) (c_name c @ ''.payload.o'')] else [])"
  by (auto simp: asm_step_def bind_Inr Let_def split: option.splits)

lemma root_objs:
  "root_step h r c a clang w = (Inr xs, w') \<Longrightarrow>
   xs = (if given (c_root_pkg c) \<noteq> None then [py_join (d_build (arch_dirs r a)) (c_name c @ ''.rootimg.o'')] else [])"
  by (auto simp: root_step_def stitch_root_image_def bind_Inr Let_def split: option.splits)

lemma regions_objs:
  "regions_step h r c a clang w = (Inr xs, w') \<Longrightarrow>
   xs = (if wants_regions c then [py_join (d_build (arch_dirs r a)) (c_name c @ ''.regions.o'')] else [])"
  by (auto simp: regions_step_def stitch_regions_def bind_Inr Let_def split: if_splits)

lemmas step_objs = csrc_objs asm_objs root_objs regions_objs

lemma dirs_nonempty [simp]:
  "TESTS_DIR r \<noteq> []" "KERNEL_DIR r \<noteq> []" "HAL_DIR r \<noteq> []" "d_tests (arch_dirs r a) \<noteq> []"
  "d_hal_board (arch_dirs r a) \<noteq> []"
  by (simp_all add: TESTS_DIR_def KERNEL_DIR_def HAL_DIR_def arch_dirs_def py_join_nonempty)

lemma steps_touch:
  assumes h: "outputs_only h" "a \<in> set (ARCHES r)" "clang \<noteq> ''-o''"
    and Q: "\<And>q. q \<in> set (artifacts r c a) \<Longrightarrow> Q q"
  shows "touches Q (csrc_step h r c a clang)"
    and "touches Q (asm_step h r c a clang)"
    and "touches Q (root_step h r c a clang)"
    and "touches Q (regions_step h r c a clang)"
proof -
  note ccr = touches_cc[OF h, of _ Q]
  note slash = py_join_slash[THEN not_minus_o] py_join_slash[THEN not_minus_o, THEN not_sym]
  let ?B = "d_build (arch_dirs r a)"
  have m: "Q (py_join ?B (c_name c @ ''.stubs.o''))" "Q (py_join ?B (c_name c @ ''.payload.o''))"
    "Q (py_join ?B (c_name c @ ''.rootimg.o''))" "Q (py_join (py_join ?B (c_name c @ ''.rootimg'')) ''root.sosimg'')"
    "Q (py_join ?B (c_name c @ ''.regions.S''))" "Q (py_join ?B (c_name c @ ''.regions.o''))"
    by (rule Q, simp add: artifacts_def)+
  have kids: "i < length (c_children c) \<Longrightarrow> Q (staged_child r c a i)" for i
    by (rule Q) (simp add: artifacts_def)
  show "touches Q (csrc_step h r c a clang)"
    using ccr[of "[''-nostdlib'', ''-ffreestanding'', ''-O2'', ''-c'', py_join (TESTS_DIR r) x]"
                 "py_join ?B (c_name c @ ''.stubs.o'')" for x] m
    by (auto simp: csrc_step_def Let_def slash intro!: touch_rules split: option.splits)
  show "touches Q (asm_step h r c a clang)"
    using ccr[of "[''-nostdlib'', ''-c'', py_join (d_tests (arch_dirs r a)) x]"
                 "py_join ?B (c_name c @ ''.payload.o'')" for x] m
    by (auto simp: asm_step_def Let_def slash intro!: touch_rules split: option.splits)
  show "touches Q (root_step h r c a clang)"
    using ccr[of "[''-nostdlib'', ''-I'', py_join ?B (c_name c @ ''.rootimg''), ''-c'',
                    py_join (KERNEL_DIR r) ''rootimg.S'']" "py_join ?B (c_name c @ ''.rootimg.o'')"] m
    by (auto simp: root_step_def stitch_root_image_def Let_def slash intro!: touch_rules split: option.splits)
  have "?B \<noteq> ''-o''"
    unfolding d_build_eq by (rule slash(1)) (simp add: py_join_nonempty)
  then show "touches Q (regions_step h r c a clang)"
    using ccr[of "[''-nostdlib'', ''-I'', ?B, ''-c'', py_join ?B (c_name c @ ''.regions.S'')]"
                 "py_join ?B (c_name c @ ''.regions.o'')"] m kids
    by (auto simp: regions_step_def stitch_regions_def Let_def slash intro!: touch_rules)
qed

lemma touches_build_elf:
  assumes h: "outputs_only h" "a \<in> set (ARCHES r)" "clang \<noteq> ''-o''"
    and words: "''-o'' \<notin> set (sawc_argv t @ [c_src c, lld] @ shared)"
  shows "touches (\<lambda>q. q \<in> set (artifacts r c a)) (build_elf h r t c a shared lld clang)"
proof -
  let ?Q = "\<lambda>q. q \<in> set (artifacts r c a)" and ?B = "d_build (arch_dirs r a)"
  note steps = steps_touch[OF h, of c ?Q, simplified]
  note slash = py_join_slash[THEN not_minus_o] py_join_slash[THEN not_minus_o, THEN not_sym]
  have mem: "?Q (py_join ?B (c_name c @ ''.o''))" "?Q (py_join ?B (c_name c @ ''.elf''))"
    by (simp_all add: artifacts_def)
  have kernel: "touches ?Q (run h (kernel_argv r t c a (py_join ?B (c_name c @ ''.o'')) m))"
    if "module_path_arg t ''imgformat'' = Inr m" for m
  proof -
    have m: "m \<noteq> ''-o''" using that by (cases "module_source t ''imgformat''") (auto simp: module_path_arg_def)
    let ?post = "[''-Oz'', ''--freestanding'', ''--no-hidden-alloc'', ''--runtime-provider'', ''--target'', a_triple a] @
     (case given (a_features a) of Some f \<Rightarrow> [''--target-features'', f] | None \<Rightarrow> []) @
     [''--module-path'', CORE_MODULE r, ''--module-path'', ''hal='' @ d_hal_kernel (arch_dirs r a),
      ''--module-path'', m, ''--module-path'', SOSRT_MODULE r, ''--module-path'', SOSABI_MODULE r] @
     concat (map (\<lambda>extra. [''--module-path'', extra]) (a_hal_modules a))"
    have post: "''-o'' \<notin> set ?post"
      using m plain_arch[OF h(2)]
      by (auto simp: CORE_MODULE_def SOSRT_MODULE_def SOSABI_MODULE_def given_def split: option.splits if_splits)
    show ?thesis
      by (rule touches_run[OF h(1), of _ "sawc t @ [c_src c]" "py_join ?B (c_name c @ ''.o'')" ?post])
         (use words post mem in \<open>simp_all add: kernel_argv_def sawc_def\<close>)
  qed
  have link: "touches ?Q (run h (link_argv r a lld (py_join ?B (c_name c @ ''.elf'')) objs))"
    if "''-o'' \<notin> set objs" for objs
    by (rule touches_run[OF h(1), of _ "[lld, ''-T'', py_join (d_hal_board (arch_dirs r a)) ''virt.ld'', ''--gc-sections'']"
                    "py_join ?B (c_name c @ ''.elf'')" objs])
       (use words that mem in \<open>simp_all add: link_argv_def slash\<close>)
  show ?thesis
    unfolding build_elf_def Let_def
    by (intro touch_rules kernel steps link)
       (use words in \<open>auto simp: slash dest!: step_objs split: if_splits\<close>)
qed

definition build_tag :: "arch \<Rightarrow> string" where
  "build_tag a = dict_get (a_build_tag a) (a_triple a)"

lemma build_tags:
  assumes "a \<in> set (ARCHES r)" "b \<in> set (ARCHES r)"
  shows "no_slash (build_tag a)" "build_tag a \<noteq> []" "build_tag a = build_tag b \<Longrightarrow> a = b"
proof -
  have tags: "build_tag (arch_riscv32 r) = ''riscv32-unknown-none-elf''"
    "build_tag (arch_arm64 r) = ''aarch64-unknown-none-elf''"
    "build_tag (arch_riscv32_flat r) = ''riscv32-unknown-none-elf-flat''"
    by (simp_all add: build_tag_def arch_riscv32_def arch_arm64_def arch_riscv32_flat_def)
  have a: "a = arch_riscv32 r \<or> a = arch_arm64 r \<or> a = arch_riscv32_flat r"
    and b: "b = arch_riscv32 r \<or> b = arch_arm64 r \<or> b = arch_riscv32_flat r"
    using assms by (auto simp: ARCHES_def)
  show "no_slash (build_tag a)" "build_tag a \<noteq> []" using a by (elim disjE; simp add: tags)+
  show "build_tag a = build_tag b \<Longrightarrow> a = b" using a b by (elim disjE; simp add: tags)
qed

lemma py_join_plain: "a \<noteq> [] \<Longrightarrow> last a \<noteq> CHR ''/'' \<Longrightarrow> \<not> is_abs b \<Longrightarrow> py_join a b = a @ ''/'' @ b"
  by (simp add: py_join_def)

lemma last_py_join: "b \<noteq> [] \<Longrightarrow> last (py_join a b) = last b"
  by (auto simp: py_join_def)

lemma build_path:
  assumes "a \<in> set (ARCHES r)" "\<not> is_abs x"
  shows "py_join (d_build (arch_dirs r a)) x = py_join r ''.build'' @ ''/'' @ build_tag a @ ''/sos/'' @ x"
proof -
  have tag: "no_slash (build_tag a)" "build_tag a \<noteq> []" using build_tags(1,2)[OF assms(1,1)] by auto
  then have last: "last (build_tag a) \<noteq> CHR ''/''" using last_in_set by metis
  have 1: "py_join (py_join r ''.build'') (build_tag a) = py_join r ''.build'' @ ''/'' @ build_tag a"
    by (rule py_join_plain) (auto simp: py_join_nonempty last_py_join not_is_abs_no_slash tag)
  have 2: "py_join (py_join r ''.build'' @ ''/'' @ build_tag a) ''sos'' = (py_join r ''.build'' @ ''/'' @ build_tag a) @ ''/sos''"
    by (subst py_join_plain) (use tag last in \<open>auto simp: is_abs_def\<close>)
  show ?thesis
    unfolding d_build_eq build_tag_def[symmetric] 1 2
    by (subst py_join_plain) (use assms(2) in auto)
qed

lemma name_ok_chars: "name_ok c \<Longrightarrow> CHR ''.'' \<notin> set (c_name c)" "name_ok c \<Longrightarrow> no_slash (c_name c)"
  by (auto simp: name_ok_def list_all_iff is_alpha_def is_digit_def Let_def)

lemma artifact_form:
  assumes "a \<in> set (ARCHES r)" "name_ok c" "q \<in> set (artifacts r c a)"
  shows "\<exists>s. q = py_join r ''.build'' @ ''/'' @ build_tag a @ ''/sos/'' @ c_name c @ ''.'' @ s"
proof -
  have na: "\<not> is_abs (c_name c @ s)" for s
    using not_is_abs_no_slash[OF name_ok_chars(2)[OF assms(2)]] assms(2) by (auto simp: is_abs_def name_ok_def)
  note bp = build_path[OF assms(1) na]
  have st: "py_join (py_join r ''.build'' @ ''/'' @ build_tag a @ ''/sos/'' @ c_name c @ ''.rootimg'') ''root.sosimg'' =
      py_join r ''.build'' @ ''/'' @ build_tag a @ ''/sos/'' @ c_name c @ ''.'' @ ''rootimg/root.sosimg''"
    by (subst py_join_plain) (auto simp: is_abs_def)
  show ?thesis
    using assms(3) by (auto simp: artifacts_def staged_child_def st[simplified] bp)
qed

lemma append_until:
  "x @ c # s = y @ c # t \<Longrightarrow> c \<notin> set x \<Longrightarrow> c \<notin> set y \<Longrightarrow> x = y \<and> s = t"
proof (induction x arbitrary: y)
  case Nil
  then show ?case by (cases y) auto
next
  case (Cons k x)
  then show ?case by (cases y) auto
qed

lemma artifacts_disjoint:
  assumes "a \<in> set (ARCHES r)" "b \<in> set (ARCHES r)" "name_ok c" "name_ok d"
    and "c_name c \<noteq> c_name d \<or> a \<noteq> b"
  shows "set (artifacts r c a) \<inter> set (artifacts r d b) = {}"
proof -
  have False if q: "q \<in> set (artifacts r c a)" "q \<in> set (artifacts r d b)" for q
  proof -
    obtain s where s: "q = py_join r ''.build'' @ ''/'' @ build_tag a @ ''/sos/'' @ c_name c @ ''.'' @ s"
      using artifact_form[OF assms(1,3) q(1)] by blast
    obtain u where "q = py_join r ''.build'' @ ''/'' @ build_tag b @ ''/sos/'' @ d_n @ ''.'' @ u" if "d_n = c_name d" for d_n
      using artifact_form[OF assms(2,4) q(2)] by blast
    then have u: "q = py_join r ''.build'' @ ''/'' @ build_tag b @ ''/sos/'' @ c_name d @ ''.'' @ u" by blast
    have "build_tag a @ CHR ''/'' # (''sos/'' @ c_name c @ ''.'' @ s) = build_tag b @ CHR ''/'' # (''sos/'' @ c_name d @ ''.'' @ u)"
      using s u by simp
    from append_until[OF this] build_tags[OF assms(1,2)] build_tags[OF assms(2,1)]
    have "a = b" and "c_name c @ CHR ''.'' # s = c_name d @ CHR ''.'' # u" by auto
    with append_until[of "c_name c" "CHR ''.''" s "c_name d" u] name_ok_chars(1) assms(3,4,5)
    show False by auto
  qed
  then show ?thesis by blast
qed

section \<open>Properties\<close>

text \<open>C7: Building one case cannot disturb another. When the compilers and the linker write only the file
  after \<^verbatim>\<open>-o\<close>, building a case, whether it succeeds or fails, leaves every artifact of a case with
  another name, and every artifact of any case on another profile, as it was: the staged root image, the
  staged children, the generated table and all objects. This is what lets cases build at the same time.\<close>

theorem case_builds_isolated:
  assumes "outputs_only h" "a \<in> set (ARCHES r)" "b \<in> set (ARCHES r)" "name_ok c" "name_ok d"
    and "c_name c \<noteq> c_name d \<or> a \<noteq> b"
    and "''-o'' \<notin> set (sawc_argv t @ [c_src c, clang, lld] @ shared)"
    and "q \<in> set (artifacts r d b)"
  shows "map_of (w_fs (snd (build_elf h r t c a shared lld clang w))) q = map_of (w_fs w) q"
proof -
  have "touches (\<lambda>q. q \<in> set (artifacts r c a)) (build_elf h r t c a shared lld clang)"
    using touches_build_elf[OF assms(1,2)] assms(7) by auto
  moreover have "q \<notin> set (artifacts r c a)"
    using artifacts_disjoint[OF assms(2-6)] assms(8) by auto
  ultimately show ?thesis by (simp add: touches_def)
qed

text \<open>A host whose compilers write what follows \<^verbatim>\<open>-o\<close>.\<close>

fun after_o :: "string list \<Rightarrow> string option" where
  "after_o (x # y # zs) = (if x = ''-o'' then Some y else after_o (y # zs))"
| "after_o _ = None"

definition exec_o :: "cmd \<Rightarrow> fs \<Rightarrow> proc option \<times> fs" where
  "exec_o c fs =
     (Some (0, [], []), case after_o (cmd_argv c) of Some out \<Rightarrow> fs_write out ''built'' fs | None \<Rightarrow> fs)"

lemma after_o_pre: "''-o'' \<notin> set pre \<Longrightarrow> after_o (pre @ ''-o'' # out # post) = Some out"
proof (induction pre)
  case Nil
  show ?case by simp
next
  case (Cons x pre)
  then show ?case by (cases pre) auto
qed

lemma exec_o_outputs_only: "outputs_only (host_ex\<lparr>h_exec := exec_o\<rparr>)"
  by (auto simp: outputs_only_def exec_o_def after_o_pre)

definition tc_ex :: toolchain where
  "tc_ex = \<lparr>sawc_argv = [''/usr/bin/sawc''], tc_source = ''SAWLANG_ROOT'', tc_root = Some ''/s'',
            tc_blade_bin = None, tc_notes = []\<rparr>"

definition world_ex :: "fs \<Rightarrow> world" where
  "world_ex fs = \<lparr>w_fs = fs, w_cmds = [], w_out = [], w_err = []\<rparr>"

theorem case_builds_isolated_witness:
  "map_of (w_fs (snd (build_elf (host_ex\<lparr>h_exec := exec_o\<rparr>) ''/r'' tc_ex
       (blank_case\<lparr>c_name := ''boot'', c_src := ''/r/kernel/main.saw'', c_device := True\<rparr>) (arch_riscv32 ''/r'')
       [''/r/boot.o''] ''/usr/bin/ld.lld'' ''/usr/bin/clang''
       (world_ex [(''/r/.build/riscv32-unknown-none-elf/sos/echo.regions.o'', ''theirs'')]))))
     ''/r/.build/riscv32-unknown-none-elf/sos/echo.regions.o'' = Some ''theirs''"
proof -
  let ?q = "''/r/.build/riscv32-unknown-none-elf/sos/echo.regions.o''"
  let ?c = "blank_case\<lparr>c_name := ''boot'', c_src := ''/r/kernel/main.saw'', c_device := True\<rparr>"
  let ?d = "blank_case\<lparr>c_name := ''echo''\<rparr>" and ?a = "arch_riscv32 ''/r''"
  have a: "?a \<in> set (ARCHES ''/r'')" by (simp add: ARCHES_def)
  have n: "name_ok ?c" "name_ok ?d" by (code_simp, code_simp)
  have q: "?q \<in> set (artifacts ''/r'' ?d ?a)" by code_simp
  have ne: "c_name ?c \<noteq> c_name ?d \<or> ?a \<noteq> ?a" by simp
  have w: "''-o'' \<notin> set (sawc_argv tc_ex @ [c_src ?c, ''/usr/bin/clang'', ''/usr/bin/ld.lld''] @ [''/r/boot.o''])"
    by (simp add: tc_ex_def)
  show ?thesis
    using case_builds_isolated[OF exec_o_outputs_only a a n ne w q, of "world_ex [(?q, ''theirs'')]"]
    by (simp add: world_ex_def)
qed

text \<open>The objects a case's link is given, in order.\<close>

definition link_objs :: "string \<Rightarrow> test_case \<Rightarrow> arch \<Rightarrow> string list \<Rightarrow> string list" where
  "link_objs r c a shared =
     (let at = (\<lambda>e. py_join (d_build (arch_dirs r a)) (c_name c @ e)) in
      shared @ [at ''.o''] @
      (if given (c_csrc c) \<noteq> None then [at ''.stubs.o''] else []) @
      (if given (c_asm c) \<noteq> None then [at ''.payload.o''] else []) @
      (if given (c_root_pkg c) \<noteq> None then [at ''.rootimg.o''] else []) @
      (if wants_regions c then [at ''.regions.o''] else []))"



section \<open>Root images are fresh\<close>

lemma remove_file_Inr:
  "remove_file p w = (Inr u, w') \<longleftrightarrow> fs_isfile (w_fs w) p \<and> w' = w\<lparr>w_fs := fs_remove p (w_fs w)\<rparr>"
  by (auto simp: remove_file_def)

lemma each_remove_file:
  "each (\<lambda>s. remove_file (f s)) xs w = (Inr (), w') \<Longrightarrow>
     map_of (w_fs w') q = (if q \<in> f ` set xs then None else map_of (w_fs w) q)"
proof (induction xs arbitrary: w)
  case Nil
  then show ?case by simp
next
  case (Cons x xs)
  from Cons.prems have
    "each (\<lambda>s. remove_file (f s)) xs (w\<lparr>w_fs := fs_remove (f x) (w_fs w)\<rparr>) = (Inr (), w')"
    by (auto simp: bind_Inr remove_file_Inr)
  from Cons.IH[OF this] show ?case by auto
qed

lemma image_dir_entry:
  assumes "a \<in> set (ARCHES r)" "no_slash n"
  shows "py_join (image_dir pkg a) n = image_dir pkg a @ ''/'' @ n"
proof -
  have t: "no_slash (a_triple a)" "a_triple a \<noteq> []" using assms(1) by (auto simp: arch_defs)
  have d: "image_dir pkg a = py_join (py_join pkg ''.build'') (a_triple a)"
    by (simp add: image_dir_def path_join_def)
  have "last (image_dir pkg a) \<noteq> CHR ''/''"
    unfolding d last_py_join[OF t(2)] using t last_in_set by metis
  then show ?thesis
    by (intro py_join_plain) (auto simp: d py_join_nonempty not_is_abs_no_slash assms(2))
qed

lemma entry_no_slash: "no_slash (entry_name d q)"
  by (auto simp: entry_name_def dest: set_takeWhileD)

lemma listdir_no_slash: "n \<in> set (fs_listdir fs d) \<Longrightarrow> no_slash n"
  by (auto simp: fs_listdir_def entry_no_slash)

text \<open>C19: An image the harness boots is one this build made. If building a root package succeeds, the image
  it returns is the only one in the package's output directory, the package manager ran last and
  succeeded, and when it started there was no image there at all; nothing but images of that directory
  had been removed. An image a previous build left can therefore never be booted in place of a new one.\<close>

theorem root_image_fresh:
  assumes "a \<in> set (ARCHES r)" "build_root_image h t blade_bin pkg a clang w = (Inr p, w')"
  shows "\<exists>n fs1 out err.
     p = image_dir pkg a @ ''/'' @ n \<and> images_in (w_fs w') (image_dir pkg a) = [n] \<and>
     h_exec h \<lparr>cmd_argv = blade_argv blade_bin a, cmd_cwd = Some pkg, cmd_env = blade_env h t clang\<rparr> fs1
       = (Some (0, out, err), w_fs w') \<and>
     (\<forall>m. no_slash m \<and> is_image m \<longrightarrow> map_of fs1 (image_dir pkg a @ ''/'' @ m) = None) \<and>
     (\<forall>q. (\<forall>m. is_image m \<longrightarrow> q \<noteq> image_dir pkg a @ ''/'' @ m) \<longrightarrow> map_of fs1 q = map_of (w_fs w) q)"
proof -
  let ?d = "image_dir pkg a"
  obtain w1 where sweep: "each (\<lambda>s. remove_file (py_join ?d s)) (images_in (w_fs w) ?d) w = (Inr (), w1)"
    and blade: "run_in h (blade_argv blade_bin a) (Some pkg) (blade_env h t clang) w1 = (Inr (), w')"
    and pick: "the_image ?d (images_in (w_fs w') ?d) = Inr p"
    using assms(2) unfolding build_root_image_def sweep_images_def Let_def
    by (auto simp: bind_Inr)
  obtain n where n: "images_in (w_fs w') ?d = [n]" and p: "p = py_join ?d n"
    using pick by (auto simp: the_image_def length_Suc_conv split: if_splits)
  have "n \<in> set (images_in (w_fs w') ?d)" using n by simp
  then have "no_slash n" by (auto simp: images_in_def dest: listdir_no_slash)
  then have p': "p = ?d @ ''/'' @ n" using p image_dir_entry[OF assms(1)] by simp
  note swept = each_remove_file[OF sweep]
  have gone: "map_of (w_fs w1) (?d @ ''/'' @ m) = None" if m: "no_slash m" "is_image m" for m
  proof (cases "map_of (w_fs w) (?d @ ''/'' @ m) = None")
    case True
    then show ?thesis using swept[of "?d @ ''/'' @ m"] by (auto split: if_splits)
  next
    case False
    then have "m \<in> set (images_in (w_fs w) ?d)"
      using listdir_file[OF m(1) False] m(2) by (simp add: images_in_def)
    then have "?d @ ''/'' @ m \<in> py_join ?d ` set (images_in (w_fs w) ?d)"
      by (rule rev_image_eqI) (rule image_dir_entry[OF assms(1) m(1), symmetric])
    then show ?thesis using swept[of "?d @ ''/'' @ m"] by simp
  qed
  have kept: "map_of (w_fs w1) q = map_of (w_fs w) q" if "\<forall>m. is_image m \<longrightarrow> q \<noteq> ?d @ ''/'' @ m" for q
  proof -
    have "q \<notin> py_join ?d ` set (images_in (w_fs w) ?d)"
      using that image_dir_entry[OF assms(1)] listdir_no_slash[of _ "w_fs w" ?d] by (auto simp: images_in_def)
    then show ?thesis using swept[of q] by (simp split: if_splits)
  qed
  from blade obtain out err where
    "h_exec h \<lparr>cmd_argv = blade_argv blade_bin a, cmd_cwd = Some pkg, cmd_env = blade_env h t clang\<rparr> (w_fs w1)
       = (Some (0, out, err), w_fs w')"
    by (auto simp: run_in_Inr)
  with n p' gone kept show ?thesis by blast
qed

text \<open>A package manager that builds one image.\<close>

definition blade_ex :: "cmd \<Rightarrow> fs \<Rightarrow> proc option \<times> fs" where
  "blade_ex c fs =
     (Some (0, [], []),
      case cmd_cwd c of
        Some d \<Rightarrow> fs_write (d @ ''/.build/'' @ last (cmd_argv c) @ ''/root.sosimg'') ''new'' fs
      | None \<Rightarrow> fs)"

theorem root_image_fresh_witness:
  "\<exists>n (fs1 :: fs). images_in (w_fs (snd (build_root_image (host_ex\<lparr>h_exec := blade_ex\<rparr>) tc_ex ''/b/blade'' ''/r/root'' (arch_arm64 ''/r'')
       ''/usr/bin/clang'' (world_ex [(''/r/root/.build/aarch64-unknown-none-elf/old.sosimg'', ''stale'')]))))
       (image_dir ''/r/root'' (arch_arm64 ''/r'')) = [n] \<and>
     map_of fs1 ''/r/root/.build/aarch64-unknown-none-elf/old.sosimg'' = None"
proof -
  let ?h = "host_ex\<lparr>h_exec := blade_ex\<rparr>"
  let ?m = "build_root_image ?h tc_ex ''/b/blade'' ''/r/root'' (arch_arm64 ''/r'')
       ''/usr/bin/clang'' (world_ex [(''/r/root/.build/aarch64-unknown-none-elf/old.sosimg'', ''stale'')])"
  have a: "arch_arm64 ''/r'' \<in> set (ARCHES ''/r'')" by (simp add: ARCHES_def)
  have "fst ?m = Inr ''/r/root/.build/aarch64-unknown-none-elf/root.sosimg''" by code_simp
  then obtain w' where w': "?m = (Inr ''/r/root/.build/aarch64-unknown-none-elf/root.sosimg'', w')"
    by (metis prod.collapse)
  have s: "no_slash ''old.sosimg''" "is_image ''old.sosimg''" by (simp, code_simp)
  have d: "image_dir ''/r/root'' (arch_arm64 ''/r'') @ ''/'' @ ''old.sosimg''
      = ''/r/root/.build/aarch64-unknown-none-elf/old.sosimg''" by code_simp
  let ?d = "image_dir ''/r/root'' (arch_arm64 ''/r'')"
  have snd: "snd ?m = w'" using w' by (rule arg_cong[where f = snd, THEN trans]) simp
  show ?thesis
    using root_image_fresh[OF a w']
  proof (elim exE conjE)
    fix n and fs1 :: fs
    assume n: "images_in (w_fs w') ?d = [n]"
      and fresh: "\<forall>m. no_slash m \<and> is_image m \<longrightarrow> map_of fs1 (?d @ ''/'' @ m) = None"
    have "map_of fs1 (?d @ ''/'' @ ''old.sosimg'') = None"
      by (rule mp[OF spec[OF fresh]]) (rule conjI[OF s])
    then have "map_of fs1 ''/r/root/.build/aarch64-unknown-none-elf/old.sosimg'' = None" unfolding d .
    with n show ?thesis unfolding snd by (intro exI[of _ n] exI[of _ fs1] conjI)
  qed
qed

text \<open>C36: A toolchain found on \<^verbatim>\<open>$PATH\<close> cannot build a single kernel image: every build of a case with it ends
  at once, before any command, in the resolver's refusal. That exception is not the \<^verbatim>\<open>ToolError\<close> the
  callers of the build steps handle.\<close>

theorem path_toolchain_cannot_build:
  assumes "resolve h env cr v w0 = (Inr t, w1)" "tc_source t = ''PATH''"
  shows "\<exists>m. build_elf h r t c a shared lld clang w = (Inl (ToolchainError m), w)"
proof -
  have "tc_root t = None"
    using resolve_path_root assms by blast
  then show ?thesis
    by (simp add: build_elf_def Let_def module_path_arg_def module_source_def MODULE_DIRS_def require_root_def bind_apply)
qed

theorem path_toolchain_cannot_build_witness:
  "\<exists>t m. resolve host_ex [] ''/r'' False (world_ex []) = (Inr t, world_ex []) \<and> blade_binary t = Some ''/usr/bin/blade'' \<and>
     build_elf host_ex ''/r'' t (blank_case\<lparr>c_name := ''boot''\<rparr>) (arch_riscv32 ''/r'') [] ''/l'' ''/c'' (world_ex [])
       = (Inl (ToolchainError m), world_ex [])"
proof -
  let ?t = "\<lparr>sawc_argv = [''/usr/bin/sawc''], tc_source = ''PATH'', tc_root = None, tc_blade_bin = Some ''/usr/bin/blade'',
             tc_notes = [unpinned_note ''/usr/bin/sawc'' (Some ''9.9.9'')]\<rparr>"
  define t where "t = ?t"
  have a: "resolve host_ex [] ''/r'' False (world_ex []) = (Inr t, world_ex [])" unfolding t_def by code_simp
  have b: "tc_source t = ''PATH''" "blade_binary t = Some ''/usr/bin/blade''" by (simp_all add: t_def blade_binary_def)
  obtain m where "build_elf host_ex ''/r'' t (blank_case\<lparr>c_name := ''boot''\<rparr>) (arch_riscv32 ''/r'') [] ''/l'' ''/c'' (world_ex [])
      = (Inl (ToolchainError m), world_ex [])"
    using path_toolchain_cannot_build[OF a b(1)] by blast
  with a b(2) show ?thesis by blast
qed

end
