(* ===== verification/Transcript_Check.thy ===== *)
theory Transcript_Check
  imports Case_Model
begin

text \<open>
  The verdict on one boot, from \<^verbatim>\<open>src/tools/sos_runner.py\<close>: \<^verbatim>\<open>_strip_kernel_diagnostics\<close>
  and \<^verbatim>\<open>_check\<close>. The captured console is a string; the branch of \<^verbatim>\<open>_check\<close> that decodes
  bytes is never reached, since only a timed-out run hands over bytes and a timed-out run is
  refused before it. The specification a verdict is proved against is \<open>embeds\<close>: there are places
  for the expected strings, in order, each place leaving the earlier match behind.
\<close>

section \<open>\<open>_strip_kernel_diagnostics\<close>\<close>

text \<open>The regular expression \<^verbatim>\<open>SOS: [^\r\n]*(?:\r?\n)?\<close> with every match removed: a match is
  the five characters, the rest of the line, and the line end if there is one.\<close>

definition KERNEL_TAG :: string where
  "KERNEL_TAG = ''SOS: ''"

definition not_eol :: "char \<Rightarrow> bool" where
  "not_eol c \<longleftrightarrow> c \<noteq> chr_cr \<and> c \<noteq> chr_nl"

fun drop_eol :: "string \<Rightarrow> string" where
  "drop_eol [] = []"
| "drop_eol (c # cs) =
     (if c = chr_nl then cs
      else if c = chr_cr \<and> cs \<noteq> [] \<and> hd cs = chr_nl then tl cs
      else c # cs)"

lemma length_drop_eol: "length (drop_eol s) \<le> length s"
  by (cases s) auto

function strip_kernel_diagnostics :: "string \<Rightarrow> string" where
  "strip_kernel_diagnostics [] = []"
| "strip_kernel_diagnostics (c # cs) =
     (if prefix KERNEL_TAG (c # cs)
      then strip_kernel_diagnostics (drop_eol (dropWhile not_eol (drop 4 cs)))
      else c # strip_kernel_diagnostics cs)"
  by pat_completeness auto
termination
proof (relation "measure length")
  fix c :: char and cs :: string
  have "length (drop_eol (dropWhile not_eol (drop 4 cs))) \<le> length cs"
    using length_drop_eol[of "dropWhile not_eol (drop 4 cs)"]
      length_dropWhile_le[of not_eol "drop 4 cs"] by simp
  then show "(drop_eol (dropWhile not_eol (drop 4 cs)), c # cs) \<in> measure length"
    by simp
qed auto

declare strip_kernel_diagnostics.simps(2) [simp del]

section \<open>\<open>_check\<close>\<close>

text \<open>The loop over the expected strings. \<open>Inr None\<close>: all were found; \<open>Inr (Some why)\<close>: one was
  not; \<open>Inl e\<close>: formatting one of them raised.\<close>

fun match_in_order ::
  "(string \<times> string) list \<Rightarrow> string \<Rightarrow> string \<Rightarrow> bool \<Rightarrow> nat \<Rightarrow> string list \<Rightarrow> string option res"
where
  "match_in_order fmt out hay step_one cursor [] = Inr None"
| "match_in_order fmt out hay step_one cursor (w # ws) =
     (case str_format fmt w of
        Inl e \<Rightarrow> Inl e
      | Inr want \<Rightarrow>
          (case str_find hay want cursor of
             None \<Rightarrow>
               Inr (Some ((if str_in want hay then ''out of order'' else ''missing'')
                 @ '' expected output '' @ py_repr want @ '' (got '' @ py_repr out @ '')''))
           | Some at \<Rightarrow>
               match_in_order fmt out hay step_one (at + (if step_one then 1 else length want)) ws))"

definition show_status :: "int option \<Rightarrow> string" where
  "show_status st = (case st of None \<Rightarrow> ''None'' | Some s \<Rightarrow> show_int s)"

definition haystack :: "test_case \<Rightarrow> string \<Rightarrow> string" where
  "haystack c out = (if c_strip_kernel_lines c then strip_kernel_diagnostics out else out)"

definition check_output :: "test_case \<Rightarrow> arch \<Rightarrow> string \<Rightarrow> string option res" where
  "check_output c a out =
     (case c_expect_out c of
        NoOutput \<Rightarrow> Inr None
      | expected \<Rightarrow>
          match_in_order (expectations a) out (haystack c out) (c_overlapping_matches c) 0
            (expect_strings expected))"

definition check_exit :: "test_case \<Rightarrow> int option \<Rightarrow> bool \<times> string" where
  "check_exit c status =
     (if c_expect_clean_exit c \<and> status \<noteq> Some 0
      then (False, ''expected clean exit (0), got status '' @ show_status status)
      else if \<not> c_expect_clean_exit c \<and> status = Some 0
      then (False, ''expected a failing (non-zero) exit, got 0'')
      else (case c_expect_status c of
              None \<Rightarrow> (True, [])
            | Some want \<Rightarrow>
                if status \<noteq> Some want
                then (False, ''expected exit status '' @ show_int want @ '', got '' @ show_status status)
                else (True, [])))"

definition check :: "test_case \<Rightarrow> arch \<Rightarrow> int option \<Rightarrow> string \<Rightarrow> bool \<Rightarrow> (bool \<times> string) res" where
  "check c a status out timed_out =
     (if timed_out
      then Inr (False, ''QEMU hung (> '' @ show_nat QEMU_TIMEOUT_S @ ''s) '' @ em_dash @ '' no clean exit'')
      else (case check_output c a out of
              Inl e \<Rightarrow> Inl e
            | Inr (Some why) \<Rightarrow> Inr (False, why)
            | Inr None \<Rightarrow> Inr (check_exit c status)))"

section \<open>The specification of ordered matching\<close>

text \<open>\<open>embeds adv hay c ws\<close>: from index \<open>c\<close> on, each word of \<open>ws\<close> occurs at a place of its own, a
  place moving the next one at least \<open>adv w\<close> further.\<close>

fun embeds :: "(string \<Rightarrow> nat) \<Rightarrow> string \<Rightarrow> nat \<Rightarrow> string list \<Rightarrow> bool" where
  "embeds adv hay c [] \<longleftrightarrow> True"
| "embeds adv hay c (w # ws) \<longleftrightarrow> (\<exists>i\<ge>c. occurs_at hay w i \<and> embeds adv hay (i + adv w) ws)"

lemma embeds_antimono: "embeds adv hay c' ws \<Longrightarrow> c \<le> c' \<Longrightarrow> embeds adv hay c ws"
  by (cases ws) (auto intro: le_trans)

text \<open>Taking the leftmost occurrence loses nothing: whatever a later place allows, the leftmost
  one allows.\<close>

lemma embeds_leftmost:
  assumes "str_find hay w c = Some i"
  shows "embeds adv hay c (w # ws) \<longleftrightarrow> embeds adv hay (i + adv w) ws"
proof
  assume "embeds adv hay c (w # ws)"
  then obtain j where j: "c \<le> j" "occurs_at hay w j" "embeds adv hay (j + adv w) ws" by auto
  with assms have "i \<le> j" by (auto simp: str_find_Some not_less[symmetric])
  with j(3) show "embeds adv hay (i + adv w) ws" by (auto intro: embeds_antimono)
next
  assume "embeds adv hay (i + adv w) ws"
  with assms show "embeds adv hay c (w # ws)" by (auto simp: str_find_Some)
qed

lemma embeds_no_find: "str_find hay w c = None \<Longrightarrow> \<not> embeds adv hay c (w # ws)"
  by (auto simp: str_find_None)

definition advance :: "bool \<Rightarrow> string \<Rightarrow> nat" where
  "advance step_one w = (if step_one then 1 else length w)"

lemma match_in_order_embeds:
  "sequence_res (map (str_format fmt) ws) = Inr wants \<Longrightarrow>
   match_in_order fmt out hay step_one c ws = Inr None \<longleftrightarrow> embeds (advance step_one) hay c wants"
proof (induction ws arbitrary: c wants)
  case Nil
  then show ?case by simp
next
  case (Cons w ws)
  from Cons.prems obtain v vs where
      v: "str_format fmt w = Inr v" and vs: "sequence_res (map (str_format fmt) ws) = Inr vs"
      and wants: "wants = v # vs"
    by (cases "str_format fmt w"; cases "sequence_res (map (str_format fmt) ws)") auto
  show ?case
  proof (cases "str_find hay v c")
    case None
    then show ?thesis using v wants embeds_no_find by (simp del: embeds.simps)
  next
    case (Some i)
    then show ?thesis
      using Cons.IH[OF vs, of "i + advance step_one v"] v wants embeds_leftmost[OF Some]
      by (simp add: advance_def del: embeds.simps)
  qed
qed

lemma match_in_order_total:
  "sequence_res (map (str_format fmt) ws) = Inr wants \<Longrightarrow>
   \<exists>v. match_in_order fmt out hay step_one c ws = Inr v"
proof (induction ws arbitrary: c wants)
  case Nil
  then show ?case by simp
next
  case (Cons w ws)
  from Cons.prems obtain v vs where
      v: "str_format fmt w = Inr v" and vs: "sequence_res (map (str_format fmt) ws) = Inr vs"
    by (cases "str_format fmt w"; cases "sequence_res (map (str_format fmt) ws)") auto
  then show ?case using Cons.IH[OF vs] by (auto split: option.splits)
qed

text \<open>Without overlap, embedding is a decomposition of the transcript: the expected strings in
  order, with arbitrary text before, between and after them.\<close>

definition spaced :: "string list \<Rightarrow> string list \<Rightarrow> string" where
  "spaced gs ws = concat (map (\<lambda>(g, w). g @ w) (zip gs ws))"

lemma spaced_Nil [simp]: "spaced gs [] = []" "spaced [] ws = []"
  by (simp_all add: spaced_def)

lemma spaced_Cons [simp]: "spaced (g # gs) (w # ws) = g @ w @ spaced gs ws"
  by (simp add: spaced_def)

lemma embeds_length_iff:
  "c \<le> length hay \<Longrightarrow> embeds length hay c ws \<longleftrightarrow>
     (\<exists>gs g. length gs = length ws \<and> drop c hay = spaced gs ws @ g)"
proof (induction ws arbitrary: c)
  case Nil
  then show ?case by auto
next
  case (Cons w ws)
  show ?case
  proof
    assume "embeds length hay c (w # ws)"
    then obtain i where i: "c \<le> i" "occurs_at hay w i" "embeds length hay (i + length w) ws"
      by auto
    have le: "i + length w \<le> length hay" using i(2) by (rule occurs_at_bound)
    with i(3) Cons.IH obtain gs g where
      gs: "length gs = length ws" "drop (i + length w) hay = spaced gs ws @ g" by blast
    obtain zs where "drop i hay = w @ zs"
      using i(2) by (auto simp: occurs_at_def prefix_def)
    then have "drop i hay = w @ drop (i + length w) hay"
      by (metis add.commute append_eq_conv_conj drop_drop)
    moreover have "drop c hay = take (i - c) (drop c hay) @ drop i hay"
      using i(1) by (metis append_take_drop_id drop_drop le_add_diff_inverse2)
    ultimately have "drop c hay = spaced (take (i - c) (drop c hay) # gs) (w # ws) @ g"
      using gs(2) by simp
    with gs(1) show "\<exists>gs g. length gs = length (w # ws) \<and> drop c hay = spaced gs (w # ws) @ g"
      by (metis length_Cons)
  next
    assume "\<exists>gs g. length gs = length (w # ws) \<and> drop c hay = spaced gs (w # ws) @ g"
    then obtain h gs g where
      gs: "length gs = length ws" "drop c hay = h @ w @ spaced gs ws @ g"
      by (auto simp: length_Suc_conv)
    let ?i = "c + length h"
    have dr: "drop ?i hay = w @ spaced gs ws @ g"
      using gs(2) by (metis add.commute append_eq_conv_conj drop_drop)
    have "length (drop c hay) = length h + length w + length (spaced gs ws @ g)"
      using gs(2) by simp
    then have le: "?i + length w \<le> length hay" using Cons.prems by simp
    with dr have occ: "occurs_at hay w ?i" by (auto simp: occurs_at_def)
    have "drop (?i + length w) hay = spaced gs ws @ g"
      using dr by (metis add.commute append_eq_conv_conj drop_drop)
    with gs(1) Cons.IH[OF le] have "embeds length hay (?i + length w) ws" by blast
    with occ show "embeds length hay c (w # ws)" by (auto intro: exI[of _ ?i])
  qed
qed

text \<open>With overlap, it is a strictly increasing list of places.\<close>

lemma embeds_one_iff:
  "embeds (\<lambda>_. 1) hay c ws \<longleftrightarrow>
     (\<exists>ps. list_all2 (occurs_at hay) ws ps \<and> sorted_wrt (<) ps \<and> (\<forall>p \<in> set ps. c \<le> p))"
proof (induction ws arbitrary: c)
  case Nil
  show ?case by (auto intro: exI[of _ "[]"])
next
  case (Cons w ws)
  show ?case
  proof
    assume "embeds (\<lambda>_. 1) hay c (w # ws)"
    then obtain i where i: "c \<le> i" "occurs_at hay w i" "embeds (\<lambda>_. 1) hay (i + 1) ws" by auto
    with Cons.IH obtain ps where
      "list_all2 (occurs_at hay) ws ps" "sorted_wrt (<) ps" "\<forall>p \<in> set ps. i + 1 \<le> p" by blast
    with i show "\<exists>ps. list_all2 (occurs_at hay) (w # ws) ps \<and> sorted_wrt (<) ps \<and> (\<forall>p\<in>set ps. c \<le> p)"
      by (intro exI[of _ "i # ps"]) fastforce
  next
    assume "\<exists>ps. list_all2 (occurs_at hay) (w # ws) ps \<and> sorted_wrt (<) ps \<and> (\<forall>p\<in>set ps. c \<le> p)"
    then obtain i ps where
      "occurs_at hay w i" "c \<le> i" "list_all2 (occurs_at hay) ws ps" "sorted_wrt (<) ps"
      "\<forall>p \<in> set ps. i + 1 \<le> p"
      by (auto simp: list_all2_Cons1 Suc_le_eq)
    with Cons.IH show "embeds (\<lambda>_. 1) hay c (w # ws)" by auto
  qed
qed

section \<open>What a verdict means\<close>

definition exit_ok :: "test_case \<Rightarrow> int option \<Rightarrow> bool" where
  "exit_ok c status \<longleftrightarrow>
     (status = Some 0) = c_expect_clean_exit c \<and>
     (\<forall>want. c_expect_status c = Some want \<longrightarrow> status = Some want)"

lemma check_exit_accepts: "check_exit c status = (True, []) \<longleftrightarrow> exit_ok c status"
  by (auto simp: check_exit_def exit_ok_def split: option.splits)

lemma check_exit_reason: "fst (check_exit c status) \<longleftrightarrow> snd (check_exit c status) = []"
  by (auto simp: check_exit_def split: option.splits)

text \<open>The strings a case expects on a profile, formatted.\<close>

definition wanted :: "test_case \<Rightarrow> arch \<Rightarrow> string list res" where
  "wanted c a = sequence_res (map (str_format (expectations a)) (expect_strings (c_expect_out c)))"

lemma check_output_embeds:
  "wanted c a = Inr wants \<Longrightarrow>
   check_output c a out = Inr None \<longleftrightarrow>
     embeds (advance (c_overlapping_matches c)) (haystack c out) 0 wants"
  unfolding wanted_def check_output_def
  by (cases "c_expect_out c") (auto dest: match_in_order_embeds simp del: expect_strings.simps
      simp: expect_strings.simps(1))

lemma check_accepts_embeds:
  assumes "wanted c a = Inr wants"
  shows "check c a status out False = Inr (True, []) \<longleftrightarrow>
    embeds (advance (c_overlapping_matches c)) (haystack c out) 0 wants \<and> exit_ok c status"
proof -
  have "check c a status out False = Inr (True, []) \<longleftrightarrow>
      check_output c a out = Inr None \<and> check_exit c status = (True, [])"
    unfolding check_def by (auto split: sum.splits option.splits)
  then show ?thesis
    by (simp only: check_output_embeds[OF assms] check_exit_accepts)
qed

text \<open>C1: a verdict is a pass exactly when the (stripped, if asked for) transcript is the expected
  strings in order with arbitrary text before, between and after them, and the exit status is the
  one the case asks for. The harness finds each string at its leftmost place past the previous
  match; this costs nothing, no transcript that could be matched at all is refused.\<close>

theorem check_accepts_iff:
  assumes "wanted c a = Inr wants" and "\<not> c_overlapping_matches c"
  shows "check c a status out False = Inr (True, []) \<longleftrightarrow>
    (\<exists>gs g. length gs = length wants \<and> haystack c out = spaced gs wants @ g) \<and> exit_ok c status"
proof -
  have "advance (c_overlapping_matches c) = length"
    using assms(2) by (simp add: advance_def fun_eq_iff)
  then show ?thesis
    using check_accepts_embeds[OF assms(1)] embeds_length_iff[of 0 "haystack c out" wants] by simp
qed

theorem check_accepts_iff_witness:
  "check (blank_case\<lparr>c_expect_out := Strings [''up {one}'', ''bye''], c_expect_clean_exit := True\<rparr>)
     (arch_riscv32 ''/r'') (Some 0) ''SOS up 0x00000001! bye'' False = Inr (True, [])"
proof -
  let ?c = "blank_case\<lparr>c_expect_out := Strings [''up {one}'', ''bye''], c_expect_clean_exit := True\<rparr>"
  have w: "wanted ?c (arch_riscv32 ''/r'') = Inr [''up 0x00000001'', ''bye'']"
    by code_simp
  have no: "\<not> c_overlapping_matches ?c" by (simp add: blank_case_def)
  have "haystack ?c ''SOS up 0x00000001! bye'' =
      spaced [''SOS '', ''! ''] [''up 0x00000001'', ''bye''] @ []"
    by (simp add: haystack_def blank_case_def)
  moreover have "exit_ok ?c (Some 0)" by (simp add: exit_ok_def blank_case_def)
  ultimately show ?thesis
    using check_accepts_iff[OF w no] by (metis length_Cons)
qed

text \<open>C22: a case that asks for overlapping matches passes exactly when the expected strings occur
  at strictly increasing places, so one may begin inside the one before it.\<close>

theorem check_overlapping_iff:
  assumes "wanted c a = Inr wants" and "c_overlapping_matches c"
  shows "check c a status out False = Inr (True, []) \<longleftrightarrow>
    (\<exists>ps. list_all2 (occurs_at (haystack c out)) wants ps \<and> sorted_wrt (<) ps) \<and> exit_ok c status"
proof -
  have "advance (c_overlapping_matches c) = (\<lambda>_. 1)"
    using assms(2) by (simp add: advance_def fun_eq_iff)
  then show ?thesis
    using check_accepts_embeds[OF assms(1)] embeds_one_iff[of "haystack c out" 0 wants] by simp
qed

theorem check_overlapping_iff_witness:
  "check (blank_case\<lparr>c_expect_out := Strings [''AB'', ''BA'', ''AB''], c_overlapping_matches := True,
      c_expect_clean_exit := True\<rparr>) (arch_riscv32 ''/r'') (Some 0) ''xABAB'' False = Inr (True, [])"
proof -
  let ?c = "blank_case\<lparr>c_expect_out := Strings [''AB'', ''BA'', ''AB''], c_overlapping_matches := True,
      c_expect_clean_exit := True\<rparr>"
  have w: "wanted ?c (arch_riscv32 ''/r'') = Inr [''AB'', ''BA'', ''AB'']"
    by code_simp
  have ov: "c_overlapping_matches ?c" by (simp add: blank_case_def)
  have "list_all2 (occurs_at (haystack ?c ''xABAB'')) [''AB'', ''BA'', ''AB''] [1, 2, 3]"
    by (simp add: haystack_def blank_case_def occurs_at_def eval_nat_numeral)
  moreover have "sorted_wrt (<) [1, 2, 3 :: nat]" by simp
  moreover have "exit_ok ?c (Some 0)" by (simp add: exit_ok_def blank_case_def)
  ultimately show ?thesis
    using check_overlapping_iff[OF w ov] by blast
qed

lemma match_in_order_reason:
  "match_in_order fmt out hay step_one c ws = Inr (Some why) \<Longrightarrow> why \<noteq> []"
  by (induction ws arbitrary: c) (auto split: sum.splits option.splits)

text \<open>C30: a hung machine is never a pass, whatever it had printed; and a reason accompanies every
  refusal and no pass.\<close>

theorem check_verdict_reason:
  assumes "check c a status out timed_out = Inr (b, why)"
  shows "(b \<longleftrightarrow> why = []) \<and> (timed_out \<longrightarrow> \<not> b)"
proof (cases timed_out)
  case True
  with assms show ?thesis by (auto simp: check_def)
next
  case False
  have "w \<noteq> []" if "check_output c a out = Inr (Some w)" for w
    using that match_in_order_reason
    by (auto simp: check_output_def simp del: match_in_order.simps split: expect_out.splits)
  moreover have "b \<longleftrightarrow> why = []" if "check_exit c status = (b, why)"
    using that check_exit_reason[of c status] by simp
  ultimately show ?thesis
    using assms False by (auto simp: check_def split: sum.splits option.splits)
qed

theorem check_verdict_reason_witness:
  "\<exists>b why. check blank_case (arch_arm64 ''/r'') None ''boot'' True = Inr (b, why) \<and> \<not> b \<and> why \<noteq> []"
proof -
  have "\<exists>v. check blank_case (arch_arm64 ''/r'') None ''boot'' True = Inr v"
    unfolding check_def if_True by blast
  then obtain b why where
    c: "check blank_case (arch_arm64 ''/r'') None ''boot'' True = Inr (b, why)" by auto
  from check_verdict_reason[OF c] c show ?thesis by blast
qed

section \<open>Stripping is exact\<close>

lemma tag_border_free: "u \<noteq> [] \<Longrightarrow> prefix KERNEL_TAG (u @ KERNEL_TAG @ rest) \<Longrightarrow> prefix KERNEL_TAG u"
proof -
  assume ne: "u \<noteq> []" and pre: "prefix KERNEL_TAG (u @ KERNEL_TAG @ rest)"
  show "prefix KERNEL_TAG u"
  proof (cases "5 \<le> length u")
    case True
    then have "length KERNEL_TAG \<le> length u" by (simp add: KERNEL_TAG_def)
    with pre show ?thesis using prefix_length_prefix[OF pre, of u] by simp
  next
    case False
    then consider a where "u = [a]" | a b where "u = [a, b]" | a b d where "u = [a, b, d]"
      | a b d e where "u = [a, b, d, e]"
      using ne by (cases u; cases "tl u"; cases "tl (tl u)"; cases "tl (tl (tl u))") (auto simp: not_le)
    then show ?thesis using pre by cases (auto simp: KERNEL_TAG_def)
  qed
qed

lemma strip_no_tag:
  "\<not> str_in KERNEL_TAG u \<Longrightarrow> strip_kernel_diagnostics u = u"
proof (induction u)
  case Nil
  show ?case by simp
next
  case (Cons c cs)
  have "\<not> prefix KERNEL_TAG (c # cs)" "\<not> str_in KERNEL_TAG cs"
    using Cons.prems by (auto simp: str_in_iff simp flip: occurs_at_0) (metis occurs_at_Suc_Cons)
  with Cons.IH show ?case by (simp add: strip_kernel_diagnostics.simps(2))
qed

lemma strip_user_then_tag:
  "\<not> str_in KERNEL_TAG u \<Longrightarrow>
   strip_kernel_diagnostics (u @ KERNEL_TAG @ rest) = u @ strip_kernel_diagnostics (KERNEL_TAG @ rest)"
proof (induction u)
  case Nil
  show ?case by simp
next
  case (Cons c cs)
  have no: "\<not> prefix KERNEL_TAG (c # cs)" "\<not> str_in KERNEL_TAG cs"
    using Cons.prems by (auto simp: str_in_iff simp flip: occurs_at_0) (metis occurs_at_Suc_Cons)
  then have "\<not> prefix KERNEL_TAG ((c # cs) @ KERNEL_TAG @ rest)"
    using tag_border_free[of "c # cs" rest] by blast
  with Cons.IH[OF no(2)] show ?case by (simp add: strip_kernel_diagnostics.simps(2))
qed

lemma strip_kernel_line:
  assumes "list_all not_eol k"
  shows "strip_kernel_diagnostics (KERNEL_TAG @ k @ nl @ rest) = strip_kernel_diagnostics rest"
proof -
  have "dropWhile not_eol (k @ nl @ rest) = nl @ rest"
    using assms by (induction k) (auto simp: nl_def not_eol_def)
  then show ?thesis
    by (simp add: KERNEL_TAG_def strip_kernel_diagnostics.simps(2) nl_def)
qed

text \<open>C23: stripping is exact. When whole kernel lines (\<^verbatim>\<open>SOS: \<close> to the newline) land anywhere in
  a process's byte stream, and the process itself never writes the tag inside one stretch, what
  remains is precisely the process's bytes in the order it wrote them: nothing of the kernel's is
  left and nothing of the process's is lost.\<close>

theorem strip_exact:
  assumes "\<not> str_in KERNEL_TAG u" and "\<forall>(k, v) \<in> set ks. list_all not_eol k \<and> \<not> str_in KERNEL_TAG v"
  shows "strip_kernel_diagnostics (u @ concat (map (\<lambda>(k, v). KERNEL_TAG @ k @ nl @ v) ks))
    = u @ concat (map snd ks)"
  using assms
proof (induction ks arbitrary: u)
  case Nil
  then show ?case by (simp add: strip_no_tag)
next
  case (Cons kv ks)
  obtain k v where kv: "kv = (k, v)" by fastforce
  let ?rest = "v @ concat (map (\<lambda>(k, v). KERNEL_TAG @ k @ nl @ v) ks)"
  have "strip_kernel_diagnostics (u @ KERNEL_TAG @ k @ nl @ ?rest)
      = u @ strip_kernel_diagnostics (KERNEL_TAG @ k @ nl @ ?rest)"
    using Cons.prems(1) by (rule strip_user_then_tag)
  also have "\<dots> = u @ strip_kernel_diagnostics ?rest"
    using Cons.prems(2) kv by (simp add: strip_kernel_line del: append_assoc)
  also have "\<dots> = u @ v @ concat (map snd ks)"
    using Cons.IH[of v] Cons.prems(2) kv by simp
  finally show ?case by (simp add: kv)
qed

theorem strip_exact_witness:
  "strip_kernel_diagnostics (''AB'' @ KERNEL_TAG @ ''timer tick'' @ nl @ ''AB'') = ''ABAB''"
proof -
  have "\<not> str_in KERNEL_TAG ''AB''"
    and "\<forall>(k, v) \<in> set [(''timer tick'', ''AB'')]. list_all not_eol k \<and> \<not> str_in KERNEL_TAG v"
    by (simp_all add: str_in_def KERNEL_TAG_def not_eol_def)
  from strip_exact[OF this] show ?thesis by simp
qed

end
