(* ===== verification/Map_Ordered.thy ===== *)
theory Map_Ordered
  imports Py_Prelude
begin

text \<open>
  \<^verbatim>\<open>_map_ordered\<close> of \<^verbatim>\<open>src/tools/sos_runner.py\<close>: work on the items of a list, several at a
  time, yielding the results in item order to a consumer that may break off.

  The parallel branch is a state machine. A state holds the queue of submitted items, the items
  workers are on, the resolved futures, and what has been yielded. \<open>pool_step\<close> is every move the
  pool and the consumer can make, in any order; \<open>pool_exec\<close> runs the machine under one schedule,
  a sequence of choices among the enabled moves, so that \<open>map_ordered\<close> can be evaluated. The
  consumer is the predicate \<open>stop\<close> on what it has received: true means that it breaks out of the
  loop there, which cancels what has not started.
\<close>

section \<open>The serial loop\<close>

text \<open>The inline branch, and the reference for the other one: the item after a break is never
  worked on.\<close>

fun serial :: "('b list \<Rightarrow> bool) \<Rightarrow> ('a \<Rightarrow> 'b) \<Rightarrow> 'b list \<Rightarrow> 'a list \<Rightarrow> 'b list" where
  "serial stop work out [] = out"
| "serial stop work out (x # xs) =
     (if stop (out @ [work x]) then out @ [work x] else serial stop work (out @ [work x]) xs)"

section \<open>The pool\<close>

record 'b pool =
  p_pending :: "nat list"
  p_running :: "nat list"
  p_futures :: "(nat \<times> 'b) list"
  p_next :: nat
  p_out :: "'b list"
  p_open :: bool

definition pool_init :: "'a list \<Rightarrow> 'b pool" where
  "pool_init items =
     \<lparr>p_pending = [0..<length items], p_running = [], p_futures = [], p_next = 0, p_out = [],
      p_open = True\<rparr>"

datatype move = Start | Finish nat | Yield | Close

text \<open>A worker takes the head of the queue; a worker resolves its future; the consumer receives
  the next future's result and goes on or breaks off (the \<^verbatim>\<open>finally\<close> cancels the queue); the
  loop ends after the last one.\<close>

definition do_start :: "'b pool \<Rightarrow> 'b pool" where
  "do_start s = s\<lparr>p_running := hd (p_pending s) # p_running s, p_pending := tl (p_pending s)\<rparr>"

definition do_finish :: "'a list \<Rightarrow> ('a \<Rightarrow> 'b) \<Rightarrow> nat \<Rightarrow> 'b pool \<Rightarrow> 'b pool" where
  "do_finish items work i s =
     s\<lparr>p_running := remove1 i (p_running s), p_futures := (i, work (items ! i)) # p_futures s\<rparr>"

definition do_yield :: "('b list \<Rightarrow> bool) \<Rightarrow> 'b \<Rightarrow> 'b pool \<Rightarrow> 'b pool" where
  "do_yield stop v s =
     (let out = p_out s @ [v]; s' = s\<lparr>p_out := out, p_next := Suc (p_next s)\<rparr>
      in if stop out then s'\<lparr>p_open := False, p_pending := []\<rparr> else s')"

definition do_close :: "'b pool \<Rightarrow> 'b pool" where
  "do_close s = s\<lparr>p_open := False, p_pending := []\<rparr>"

inductive pool_step ::
  "nat \<Rightarrow> 'a list \<Rightarrow> ('a \<Rightarrow> 'b) \<Rightarrow> ('b list \<Rightarrow> bool) \<Rightarrow> 'b pool \<Rightarrow> 'b pool \<Rightarrow> bool"
  for jobs items work stop
where
  start: "p_pending s \<noteq> [] \<Longrightarrow> length (p_running s) < jobs \<Longrightarrow>
    pool_step jobs items work stop s (do_start s)"
| finish: "i \<in> set (p_running s) \<Longrightarrow>
    pool_step jobs items work stop s (do_finish items work i s)"
| yield: "p_open s \<Longrightarrow> p_next s < length items \<Longrightarrow> map_of (p_futures s) (p_next s) = Some v \<Longrightarrow>
    pool_step jobs items work stop s (do_yield stop v s)"
| close: "p_open s \<Longrightarrow> p_next s = length items \<Longrightarrow>
    pool_step jobs items work stop s (do_close s)"

inductive_cases pool_stepE: "pool_step jobs items work stop s t"

inductive pool_reach ::
  "nat \<Rightarrow> 'a list \<Rightarrow> ('a \<Rightarrow> 'b) \<Rightarrow> ('b list \<Rightarrow> bool) \<Rightarrow> 'b pool \<Rightarrow> bool"
  for jobs items work stop
where
  init: "pool_reach jobs items work stop (pool_init items)"
| step: "pool_reach jobs items work stop s \<Longrightarrow> pool_step jobs items work stop s t \<Longrightarrow>
    pool_reach jobs items work stop t"

section \<open>Running the pool under a schedule\<close>

definition enabled :: "nat \<Rightarrow> 'a list \<Rightarrow> 'b pool \<Rightarrow> move list" where
  "enabled jobs items s =
     (if p_pending s \<noteq> [] \<and> length (p_running s) < jobs then [Start] else [])
     @ map Finish (p_running s)
     @ (if p_open s \<and> p_next s < length items \<and> map_of (p_futures s) (p_next s) \<noteq> None
        then [Yield] else [])
     @ (if p_open s \<and> p_next s = length items then [Close] else [])"

fun do_move :: "'a list \<Rightarrow> ('a \<Rightarrow> 'b) \<Rightarrow> ('b list \<Rightarrow> bool) \<Rightarrow> move \<Rightarrow> 'b pool \<Rightarrow> 'b pool" where
  "do_move items work stop Start s = do_start s"
| "do_move items work stop (Finish i) s = do_finish items work i s"
| "do_move items work stop Yield s =
     (case map_of (p_futures s) (p_next s) of None \<Rightarrow> s | Some v \<Rightarrow> do_yield stop v s)"
| "do_move items work stop Close s = do_close s"

lemma enabled_step:
  "m \<in> set (enabled jobs items s) \<Longrightarrow> pool_step jobs items work stop s (do_move items work stop m s)"
  by (auto simp: enabled_def intro: pool_step.intros split: if_splits)

lemma step_enabled:
  "pool_step jobs items work stop s t \<Longrightarrow>
   \<exists>m \<in> set (enabled jobs items s). t = do_move items work stop m s"
proof (induction rule: pool_step.induct)
  case (start s)
  then show ?case by (intro bexI[of _ Start]) (auto simp: enabled_def)
next
  case (finish i s)
  then show ?case by (intro bexI[of _ "Finish i"]) (auto simp: enabled_def)
next
  case (yield s v)
  then show ?case by (intro bexI[of _ Yield]) (auto simp: enabled_def)
next
  case (close s)
  then show ?case by (intro bexI[of _ Close]) (auto simp: enabled_def)
qed

text \<open>Every move uses something up: an item leaves the queue, a worker ends, a result is handed
  over, the loop closes.\<close>

definition pool_measure :: "'a list \<Rightarrow> 'b pool \<Rightarrow> nat" where
  "pool_measure items s =
     2 * length (p_pending s) + length (p_running s) + (length items - p_next s)
     + (if p_open s then 1 else 0)"

lemma step_decreases:
  "pool_step jobs items work stop s t \<Longrightarrow> pool_measure items t < pool_measure items s"
proof (induction rule: pool_step.induct)
  case (start s)
  then show ?case by (cases "p_pending s") (auto simp: pool_measure_def do_start_def)
next
  case (finish i s)
  then have "0 < length (p_running s)" by (cases "p_running s") auto
  with finish show ?case by (auto simp: pool_measure_def do_finish_def length_remove1)
next
  case (yield s v)
  then show ?case by (auto simp: pool_measure_def do_yield_def Let_def)
next
  case (close s)
  then show ?case by (auto simp: pool_measure_def do_close_def)
qed

definition chosen :: "nat \<Rightarrow> 'a list \<Rightarrow> (nat \<Rightarrow> nat) \<Rightarrow> nat \<Rightarrow> 'b pool \<Rightarrow> move" where
  "chosen jobs items sched k s =
     (let ms = enabled jobs items s in ms ! (sched k mod length ms))"

lemma chosen_enabled:
  "enabled jobs items s \<noteq> [] \<Longrightarrow> chosen jobs items sched k s \<in> set (enabled jobs items s)"
  by (simp add: chosen_def Let_def)

function pool_exec ::
  "nat \<Rightarrow> 'a list \<Rightarrow> ('a \<Rightarrow> 'b) \<Rightarrow> ('b list \<Rightarrow> bool) \<Rightarrow> (nat \<Rightarrow> nat) \<Rightarrow> nat \<Rightarrow> 'b pool \<Rightarrow> 'b pool"
where
  "pool_exec jobs items work stop sched k s =
     (if enabled jobs items s = [] then s
      else pool_exec jobs items work stop sched (Suc k)
             (do_move items work stop (chosen jobs items sched k s) s))"
  by pat_completeness auto
termination
proof (relation "measure (\<lambda>(jobs, items, work, stop, sched, k, s). pool_measure items s)")
  fix jobs and items :: "'a list" and work :: "'a \<Rightarrow> 'b" and stop sched k and s :: "'b pool"
  assume "enabled jobs items s \<noteq> []"
  then have "pool_step jobs items work stop s (do_move items work stop (chosen jobs items sched k s) s)"
    by (intro enabled_step chosen_enabled)
  then show "((jobs, items, work, stop, sched, Suc k,
       do_move items work stop (chosen jobs items sched k s) s), jobs, items, work, stop, sched, k, s)
    \<in> measure (\<lambda>(jobs, items, work, stop, sched, k, s). pool_measure items s)"
    by (auto dest: step_decreases)
qed simp

declare pool_exec.simps [simp del]

text \<open>The function: \<open>jobs <= 1\<close> and short lists run inline, the rest on the pool.\<close>

definition map_ordered ::
  "(nat \<Rightarrow> nat) \<Rightarrow> nat \<Rightarrow> 'a list \<Rightarrow> ('a \<Rightarrow> 'b) \<Rightarrow> ('b list \<Rightarrow> bool) \<Rightarrow> 'b list"
where
  "map_ordered sched jobs items work stop =
     (if jobs \<le> 1 \<or> length items \<le> 1 then serial stop work [] items
      else p_out (pool_exec jobs items work stop sched 0 (pool_init items)))"

section \<open>The invariant\<close>

definition pool_inv ::
  "nat \<Rightarrow> 'a list \<Rightarrow> ('a \<Rightarrow> 'b) \<Rightarrow> ('b list \<Rightarrow> bool) \<Rightarrow> 'b pool \<Rightarrow> bool"
where
  "pool_inv jobs items work stop s \<longleftrightarrow>
     distinct (p_pending s @ p_running s @ map fst (p_futures s)) \<and>
     set (p_pending s @ p_running s @ map fst (p_futures s)) \<subseteq> {..<length items} \<and>
     (\<forall>(i, v) \<in> set (p_futures s). v = work (items ! i)) \<and>
     length (p_running s) \<le> jobs \<and>
     p_next s \<le> length items \<and>
     p_out s = map work (take (p_next s) items) \<and>
     (\<forall>k. 0 < k \<and> k < p_next s \<longrightarrow> \<not> stop (map work (take k items))) \<and>
     (p_open s \<longrightarrow>
        set (p_pending s @ p_running s @ map fst (p_futures s)) = {..<length items} \<and>
        (0 < p_next s \<longrightarrow> \<not> stop (p_out s))) \<and>
     (\<not> p_open s \<longrightarrow>
        p_pending s = [] \<and> (p_next s = length items \<or> 0 < p_next s \<and> stop (p_out s)))"

lemma pool_inv_init: "pool_inv jobs items work stop (pool_init items)"
  by (auto simp: pool_inv_def pool_init_def)

lemma inv_start:
  assumes "pool_inv jobs items work stop s" "p_pending s \<noteq> []" "length (p_running s) < jobs"
  shows "pool_inv jobs items work stop (do_start s)"
  using assms by (cases "p_pending s") (auto simp: pool_inv_def do_start_def)

lemma inv_finish:
  assumes "pool_inv jobs items work stop s" "i \<in> set (p_running s)"
  shows "pool_inv jobs items work stop (do_finish items work i s)"
proof -
  have d: "distinct (p_running s)" using assms(1) by (auto simp: pool_inv_def)
  then have "set (remove1 i (p_running s)) = set (p_running s) - {i}" by simp
  with assms d show ?thesis
    by (auto simp: pool_inv_def do_finish_def length_remove1)
qed

lemma inv_yield:
  assumes inv: "pool_inv jobs items work stop s" and "p_open s" and n: "p_next s < length items"
    and v: "map_of (p_futures s) (p_next s) = Some v"
  shows "pool_inv jobs items work stop (do_yield stop v s)"
proof -
  have "v = work (items ! p_next s)"
    using inv map_of_SomeD[OF v] by (auto simp: pool_inv_def)
  then have out: "p_out s @ [v] = map work (take (Suc (p_next s)) items)"
    using inv n by (simp add: pool_inv_def take_Suc_conv_app_nth)
  have "\<not> stop (map work (take k items))" if "0 < k" "k < Suc (p_next s)" for k
  proof (cases "k = p_next s")
    case True
    with inv assms(2) that show ?thesis by (auto simp: pool_inv_def)
  next
    case False
    with inv that show ?thesis by (auto simp: pool_inv_def)
  qed
  with inv assms(2) n out show ?thesis
    by (auto simp: pool_inv_def do_yield_def Let_def)
qed

lemma inv_close:
  "pool_inv jobs items work stop s \<Longrightarrow> p_next s = length items \<Longrightarrow>
   pool_inv jobs items work stop (do_close s)"
  by (auto simp: pool_inv_def do_close_def)

lemma pool_step_inv:
  "pool_step jobs items work stop s t \<Longrightarrow> pool_inv jobs items work stop s \<Longrightarrow>
   pool_inv jobs items work stop t"
  by (auto elim!: pool_stepE intro: inv_start inv_finish inv_yield inv_close)

lemma pool_reach_inv: "pool_reach jobs items work stop s \<Longrightarrow> pool_inv jobs items work stop s"
  by (induction rule: pool_reach.induct) (auto intro: pool_inv_init pool_step_inv)

text \<open>A state of an open pool is never stuck: either a worker can move or the next future is
  resolved, because every item is queued, running or done.\<close>

lemma pool_progress:
  assumes inv: "pool_inv jobs items work stop s" and "0 < jobs" "p_open s"
  shows "enabled jobs items s \<noteq> []"
proof (cases "p_next s = length items")
  case True
  then show ?thesis using assms(3) by (simp add: enabled_def)
next
  case False
  with inv have "p_next s \<in> set (p_pending s @ p_running s @ map fst (p_futures s))"
    using assms(3) by (auto simp: pool_inv_def)
  then consider "p_pending s \<noteq> []" "p_running s = []" | "p_running s \<noteq> []"
    | "p_next s \<in> fst ` set (p_futures s)"
    by (cases "p_running s"; cases "p_pending s") auto
  then show ?thesis
  proof cases
    case 3
    then have "map_of (p_futures s) (p_next s) \<noteq> None" by (simp add: map_of_eq_None_iff)
    with inv False assms(3) show ?thesis by (auto simp: enabled_def pool_inv_def)
  qed (use assms(2) in \<open>auto simp: enabled_def\<close>)
qed

section \<open>The serial loop in closed form\<close>

lemma serial_no_stop:
  assumes "\<And>k. 0 < k \<Longrightarrow> k \<le> length items \<Longrightarrow> \<not> stop (out @ map work (take k items))"
  shows "serial stop work out items = out @ map work items"
  using assms
proof (induction items arbitrary: out)
  case Nil
  then show ?case by simp
next
  case (Cons x xs)
  have "\<not> stop (out @ [work x])" using Cons.prems[of 1] by simp
  moreover have "serial stop work (out @ [work x]) xs = (out @ [work x]) @ map work xs"
  proof (rule Cons.IH)
    fix k assume "0 < k" "k \<le> length xs"
    then show "\<not> stop ((out @ [work x]) @ map work (take k xs))"
      using Cons.prems[of "Suc k"] by simp
  qed
  ultimately show ?case by simp
qed

lemma serial_stop_at:
  assumes "0 < n" "n \<le> length items" "stop (out @ map work (take n items))"
    and "\<And>k. 0 < k \<Longrightarrow> k < n \<Longrightarrow> \<not> stop (out @ map work (take k items))"
  shows "serial stop work out items = out @ map work (take n items)"
  using assms
proof (induction items arbitrary: out n)
  case Nil
  then show ?case by simp
next
  case (Cons x xs)
  show ?case
  proof (cases "n = 1")
    case True
    with Cons.prems(3) show ?thesis by simp
  next
    case False
    then obtain m where m: "n = Suc m" "0 < m" using Cons.prems(1) by (cases n) auto
    have no: "\<not> stop (out @ [work x])" using Cons.prems(4)[of 1] m by simp
    have "serial stop work (out @ [work x]) xs = (out @ [work x]) @ map work (take m xs)"
    proof (rule Cons.IH)
      fix k assume "0 < k" "k < m"
      then show "\<not> stop ((out @ [work x]) @ map work (take k xs))"
        using Cons.prems(4)[of "Suc k"] m by simp
    qed (use Cons.prems m in auto)
    with no m show ?thesis by simp
  qed
qed

text \<open>A closed pool has yielded what the serial loop yields.\<close>

lemma closed_pool_serial:
  assumes inv: "pool_inv jobs items work stop s" and "\<not> p_open s"
  shows "p_out s = serial stop work [] items"
proof -
  have out: "p_out s = map work (take (p_next s) items)"
    and earlier: "\<And>k. 0 < k \<Longrightarrow> k < p_next s \<Longrightarrow> \<not> stop (map work (take k items))"
    and le: "p_next s \<le> length items"
    and fin: "p_next s = length items \<or> 0 < p_next s \<and> stop (p_out s)"
    using assms by (auto simp: pool_inv_def)
  show ?thesis
  proof (cases "0 < p_next s \<and> stop (p_out s)")
    case True
    then show ?thesis
      using serial_stop_at[of "p_next s" items stop "[]" work] out le earlier by simp
  next
    case False
    with fin have n: "p_next s = length items" by blast
    have "\<not> stop ([] @ map work (take k items))" if "0 < k" "k \<le> length items" for k
      using that False out n earlier[of k] by (cases "k = length items") auto
    then have "serial stop work [] items = map work items"
      using serial_no_stop[of items stop "[]" work] by simp
    with out n show ?thesis by simp
  qed
qed

lemma pool_exec_reach:
  "pool_reach jobs items work stop s \<Longrightarrow>
   pool_reach jobs items work stop (pool_exec jobs items work stop sched k s) \<and>
   enabled jobs items (pool_exec jobs items work stop sched k s) = []"
proof (induction jobs items work stop sched k s rule: pool_exec.induct)
  case (1 jobs items work stop sched k s)
  show ?case
  proof (cases "enabled jobs items s = []")
    case True
    with "1.prems" show ?thesis by (simp add: pool_exec.simps[of jobs items work stop sched k s])
  next
    case False
    have "pool_reach jobs items work stop (do_move items work stop (chosen jobs items sched k s) s)"
      using "1.prems" enabled_step[OF chosen_enabled[OF False]] by (rule pool_reach.step)
    with "1.IH" False show ?thesis
      by (simp add: pool_exec.simps[of jobs items work stop sched k s])
  qed
qed

lemma map_ordered_serial: "map_ordered sched jobs items work stop = serial stop work [] items"
proof (cases "jobs \<le> 1 \<or> length items \<le> 1")
  case True
  then show ?thesis by (auto simp: map_ordered_def)
next
  case False
  let ?s = "pool_exec jobs items work stop sched 0 (pool_init items)"
  have r: "pool_reach jobs items work stop ?s" and e: "enabled jobs items ?s = []"
    using pool_exec_reach[OF pool_reach.init] by blast+
  have inv: "pool_inv jobs items work stop ?s" using r by (rule pool_reach_inv)
  have "\<not> p_open ?s" using pool_progress[OF inv] e False by auto
  with inv False show ?thesis by (simp add: map_ordered_def closed_pool_serial)
qed

section \<open>The contract its callers rely on\<close>

text \<open>What \<^verbatim>\<open>_run_arch\<close> needs of the mapper is that it is the serial loop; the consequences it
  uses are proved here once.\<close>

locale ordered_mapper =
  fixes mapper :: "nat \<Rightarrow> 'a list \<Rightarrow> ('a \<Rightarrow> 'b) \<Rightarrow> ('b list \<Rightarrow> bool) \<Rightarrow> 'b list"
  assumes mapper_serial: "mapper jobs items work stop = serial stop work [] items"
begin

lemma mapper_all: "mapper jobs items work (\<lambda>_. False) = map work items"
  using serial_no_stop[of items "\<lambda>_. False" "[]" work] by (simp add: mapper_serial)

lemma mapper_jobs: "mapper jobs items work stop = mapper 1 items work stop"
  by (simp add: mapper_serial)

lemma serial_until_bad:
  "serial (\<lambda>ys. bad (last ys)) work out items =
     out @ (case dropWhile (\<lambda>x. \<not> bad (work x)) items of
              [] \<Rightarrow> map work items
            | x # _ \<Rightarrow> map work (takeWhile (\<lambda>x. \<not> bad (work x)) items) @ [work x])"
  by (induction items arbitrary: out) 
    (auto split: list.splits, metis dropWhile_eq_Nil_conv list.distinct(1))

text \<open>A consumer that breaks at the first bad result receives the good ones before it, in item
  order, and that one.\<close>

lemma mapper_first_bad:
  "mapper jobs items work (\<lambda>ys. bad (last ys)) =
     (case dropWhile (\<lambda>x. \<not> bad (work x)) items of
        [] \<Rightarrow> map work items
      | x # _ \<Rightarrow> map work (takeWhile (\<lambda>x. \<not> bad (work x)) items) @ [work x])"
  by (simp add: mapper_serial serial_until_bad)

lemma mapper_first_bad_good:
  "list_all (\<lambda>x. \<not> bad (work x)) items \<Longrightarrow> mapper jobs items work (\<lambda>ys. bad (last ys)) = map work items"
  by (simp add: mapper_first_bad list_all_iff split: list.split)
    (metis dropWhile_eq_Nil_conv list.distinct(1))

end

interpretation pool_mapper: ordered_mapper "map_ordered sched" for sched
  by unfold_locales (rule map_ordered_serial)

section \<open>Properties\<close>

text \<open>C3: the parallel mapper is the serial loop. Whatever the number of jobs and whatever the
  schedule of the workers, what the consumer receives, up to the point where it breaks off, is the
  list the inline loop yields: completion order never shows.\<close>

theorem map_ordered_is_serial:
  "map_ordered sched jobs items work stop = serial stop work [] items"
  by (rule pool_mapper.mapper_serial)

text \<open>C4: in every reachable state of the pool, under any interleaving, what has been yielded is a
  prefix of the results in item order, no more than \<open>jobs\<close> workers are busy, no item is worked on
  twice, and once the consumer has left no queued item remains to be started.\<close>

theorem pool_safe:
  assumes "pool_reach jobs items work stop s"
  shows "prefix (p_out s) (map work items) \<and> length (p_running s) \<le> jobs
    \<and> distinct (p_running s @ map fst (p_futures s)) \<and> (\<not> p_open s \<longrightarrow> p_pending s = [])"
proof -
  have inv: "pool_inv jobs items work stop s" using assms by (rule pool_reach_inv)
  then have "map work items = p_out s @ map work (drop (p_next s) items)"
    by (auto simp: pool_inv_def simp flip: map_append)
  with inv show ?thesis by (auto simp: pool_inv_def)
qed

text \<open>A run in which the second item's worker is ahead of the first.\<close>

definition pool_example :: "nat pool" where
  "pool_example =
     do_finish [5, 6, 7] (\<lambda>n. n * n) 1 (do_start (do_start (pool_init [5 :: nat, 6, 7])))"

theorem pool_safe_witness:
  "p_out pool_example = [] \<and> map_of (p_futures pool_example) 1 = Some 36
   \<and> prefix (p_out pool_example) [25, 36, 49 :: nat] \<and> length (p_running pool_example) \<le> 2"
proof -
  let ?s0 = "pool_init [5 :: nat, 6, 7] :: nat pool"
  let ?step = "pool_step 2 [5 :: nat, 6, 7] (\<lambda>n. n * n) (\<lambda>_. False)"
  have "?step ?s0 (do_start ?s0)"
    by (rule pool_step.start) (simp_all add: pool_init_def upt_rec)
  moreover have "?step (do_start ?s0) (do_start (do_start ?s0))"
    by (rule pool_step.start) (simp_all add: pool_init_def do_start_def upt_rec)
  moreover have "?step (do_start (do_start ?s0)) pool_example"
    unfolding pool_example_def
    by (rule pool_step.finish) (simp add: pool_init_def do_start_def upt_rec)
  ultimately have "pool_reach 2 [5 :: nat, 6, 7] (\<lambda>n. n * n) (\<lambda>_. False) pool_example"
    by (blast intro: pool_reach.intros)
  from pool_safe[OF this] show ?thesis
    by (simp add: pool_example_def do_finish_def do_start_def pool_init_def upt_rec)
qed

text \<open>C5: the pool never deadlocks and never runs on. A reachable state from which no move is
  possible has no worker left and has handed the consumer exactly the serial loop's results; and
  since each move uses up something finite, no run is infinite.\<close>

theorem pool_live:
  assumes "pool_reach jobs items work stop s" and "0 < jobs"
  shows "((\<forall>t. \<not> pool_step jobs items work stop s t) \<longrightarrow>
      p_running s = [] \<and> p_out s = serial stop work [] items)
    \<and> \<not> (\<exists>f. f 0 = s \<and> (\<forall>i. pool_step jobs items work stop (f i) (f (Suc i))))"
proof (intro conjI impI notI)
  have inv: "pool_inv jobs items work stop s" using assms(1) by (rule pool_reach_inv)
  assume "\<forall>t. \<not> pool_step jobs items work stop s t"
  then have none: "enabled jobs items s = []"
    using enabled_step[of _ jobs items s work stop] by (cases "enabled jobs items s") auto
  then show "p_running s = []" by (simp add: enabled_def)
  from none pool_progress[OF inv assms(2)] have "\<not> p_open s" by blast
  then show "p_out s = serial stop work [] items"
    using closed_pool_serial[OF inv] by blast
next
  assume "\<exists>f. f 0 = s \<and> (\<forall>i. pool_step jobs items work stop (f i) (f (Suc i)))"
  then obtain f where "\<And>i. pool_step jobs items work stop (f i) (f (Suc i))" by blast
  then have "\<forall>i. (pool_measure items (f (Suc i)), pool_measure items (f i)) \<in> less_than"
    by (metis less_than_iff step_decreases)
  then have "\<exists>g. \<forall>i. (g (Suc i), g i) \<in> less_than"
    by (rule exI[where x = "\<lambda>i. pool_measure items (f i)"])
  then show False
    using wf_less_than unfolding wf_iff_no_infinite_down_chain by blast
qed

text \<open>The pool run to its end under one schedule: no move is left, and the theorem says what was
  yielded.\<close>

theorem pool_live_witness:
  "p_out (pool_exec 2 [5 :: nat, 6, 7] (\<lambda>n. n * n) (\<lambda>_. False) (\<lambda>k. k) 0 (pool_init [5 :: nat, 6, 7]))
     = [25, 36, 49 :: nat]"
proof -
  let ?s = "pool_exec 2 [5 :: nat, 6, 7] (\<lambda>n. n * n) (\<lambda>_. False) (\<lambda>k. k) 0 (pool_init [5 :: nat, 6, 7])"
  have r: "pool_reach 2 [5 :: nat, 6, 7] (\<lambda>n. n * n) (\<lambda>_. False) ?s"
    and e: "enabled 2 [5 :: nat, 6, 7] ?s = []"
    using pool_exec_reach[OF pool_reach.init] by blast+
  have "\<forall>t. \<not> pool_step 2 [5 :: nat, 6, 7] (\<lambda>n. n * n) (\<lambda>_. False) ?s t"
    using e by (auto dest: step_enabled)
  with pool_live[OF r] show ?thesis by simp
qed

end
