(* ===== verification/Seam_Scan.thy ===== *)
theory Seam_Scan
  imports Py_Path "HOL-Library.List_Lexorder" "HOL-Library.Char_ord"
begin

text \<open>
  The seam check of \<^verbatim>\<open>src/tools/sos_runner.py\<close>: \<^verbatim>\<open>ARCH_WORDS\<close>,
  \<^verbatim>\<open>_is_english_embedding\<close>, \<^verbatim>\<open>_sources_under\<close> and \<^verbatim>\<open>_check_arch_free\<close>, which fails the
  run when the name of an architecture appears in the arch-free kernel. The file system is a
  parameter: which paths are files, what \<^verbatim>\<open>os.walk\<close> lists below a directory, and the text of a
  file. Lines are read as ASCII, as the string layer says.
\<close>

definition ARCH_FREE_DIRS :: "string \<Rightarrow> string list" where
  "ARCH_FREE_DIRS r = [path_join r [''kernel'', ''core''], path_join r [''kernel'', ''main.saw'']]"

definition ARCH_WORDS :: "string list" where
  "ARCH_WORDS =
     [''riscv'', ''rv32'', ''rv64'', ''aarch64'', ''arm64'', ''armv8'',
      ''mcause'', ''mepc'', ''mtval'', ''mstatus'', ''mscratch'', ''mtvec'', ''ecall'', ''pmp'',
      ''sifive'', ''ns16550'', ''csr'', ''m-mode'', ''u-mode'',
      ''esr_el'', ''elr_el'', ''far_el'', ''vbar'', ''ttbr'', ''sctlr'', ''tcr_el'', ''mair'',
      ''pl011'', ''psci'', ''semihost'', '' svc '', ''el0'', ''el1'',
      ''plic'', ''clint'', ''gicd'', ''gicc'', ''gicv'', ''sgir'',
      ''mtime'', ''cntp'', ''cntfrq'', ''sstc'']"

text \<open>A slice outside the line is the empty string, and \<^verbatim>\<open>"".isalpha()\<close> is false.\<close>

definition is_english_embedding :: "string \<Rightarrow> string \<Rightarrow> nat \<Rightarrow> bool" where
  "is_english_embedding line token at =
     (let before = (if 0 < at then is_alpha (line ! (at - 1)) else False);
          after_index = at + length token;
          after = (if after_index < length line then is_alpha (line ! after_index) else False)
      in before \<and> after)"

text \<open>The \<^verbatim>\<open>while\<close> loop over the occurrences of a word: true when one of them is reported.\<close>

function leak_from :: "string \<Rightarrow> string \<Rightarrow> nat \<Rightarrow> bool" where
  "leak_from low word start =
     (case str_find low word start of
        None \<Rightarrow> False
      | Some at \<Rightarrow> if \<not> is_english_embedding low word at then True else leak_from low word (at + 1))"
  by pat_completeness auto
termination
proof (relation "measure (\<lambda>(low, word, start). Suc (length low) - start)")
  fix low word :: string and start at :: nat
  assume "str_find low word start = Some at"
  then have "start \<le> at" "at \<le> length low"
    using occurs_at_bound[of low word at] by (auto simp: str_find_Some)
  then show "((low, word, at + 1), low, word, start)
      \<in> measure (\<lambda>(low, word, start). Suc (length low) - start)"
    by simp
qed simp

declare leak_from.simps [simp del]

definition line_leaks :: "string \<Rightarrow> string list" where
  "line_leaks line = filter (\<lambda>w. leak_from (str_lower line) w 0) ARCH_WORDS"

definition scan_line :: "string \<Rightarrow> nat \<Rightarrow> string \<Rightarrow> string list" where
  "scan_line rel lineno line =
     map (\<lambda>w. rel @ '':'' @ show_nat lineno @ '': '' @ py_repr w @ '' in: '' @ str_strip line) (line_leaks line)"

definition scan_text :: "string \<Rightarrow> string \<Rightarrow> string list" where
  "scan_text rel body =
     concat (map (\<lambda>(n, line). scan_line rel n line) (enumerate_from 1 (file_lines body)))"

definition sources_under ::
  "(string \<Rightarrow> bool) \<Rightarrow> (string \<Rightarrow> (string \<times> string list) list) \<Rightarrow> string \<Rightarrow> string list"
where
  "sources_under isfile walk path =
     (if isfile path then [path]
      else concat (map (\<lambda>(root, files).
             map (py_join root) (filter (\<lambda>n. ends_with n ''.saw'') (sort files))) (walk path)))"

definition arch_free_sources ::
  "(string \<Rightarrow> bool) \<Rightarrow> (string \<Rightarrow> (string \<times> string list) list) \<Rightarrow> string \<Rightarrow> string list"
where
  "arch_free_sources isfile walk r = concat (map (sources_under isfile walk) (ARCH_FREE_DIRS r))"

text \<open>The verdict and the lines written to the error stream (the colours are left out).\<close>

definition check_arch_free ::
  "(string \<Rightarrow> bool) \<Rightarrow> (string \<Rightarrow> (string \<times> string list) list) \<Rightarrow> (string \<Rightarrow> string) \<Rightarrow>
   string \<Rightarrow> string \<Rightarrow> string list \<times> bool"
where
  "check_arch_free isfile walk read cwd r =
     (let bad = concat (map (\<lambda>src. scan_text (relpath cwd src r) (read src))
                  (arch_free_sources isfile walk r))
      in if bad \<noteq> []
         then (''sos-test: architecture names in the arch-free kernel'' # map (\<lambda>l. ''  '' @ l) bad
               @ [''  (design 162 unit 1: kcore reaches the machine through `hal` only)''], False)
         else ([], True))"

section \<open>What the scan finds\<close>

lemma leak_from_iff:
  "leak_from low word start \<longleftrightarrow>
     (\<exists>i\<ge>start. occurs_at low word i \<and> \<not> is_english_embedding low word i)"
proof (induction low word start rule: leak_from.induct)
  case (1 low word start)
  show ?case
  proof (cases "str_find low word start")
    case None
    then have "\<not> leak_from low word start" by (simp add: leak_from.simps[of low word start])
    with None show ?thesis by (auto simp: str_find_None)
  next
    case (Some at)
    then have at: "start \<le> at" "occurs_at low word at"
      "\<And>j. start \<le> j \<Longrightarrow> j < at \<Longrightarrow> \<not> occurs_at low word j"
      by (auto simp: str_find_Some)
    show ?thesis
    proof (cases "is_english_embedding low word at")
      case False
      with Some at show ?thesis by (auto simp: leak_from.simps[of low word start])
    next
      case True
      then have "leak_from low word start \<longleftrightarrow>
          (\<exists>i\<ge>at + 1. occurs_at low word i \<and> \<not> is_english_embedding low word i)"
        using "1.IH"[OF Some] Some by (simp add: leak_from.simps[of low word start])
      also have "\<dots> \<longleftrightarrow> (\<exists>i\<ge>start. occurs_at low word i \<and> \<not> is_english_embedding low word i)"
        using True at by (metis Suc_eq_plus1 Suc_leD Suc_leI le_neq_implies_less le_trans not_le)
      finally show ?thesis .
    qed
  qed
qed

text \<open>C32: a word leaks from a line exactly when the lower-cased line holds an occurrence of it that
  is not buried in a longer word, that is, without a letter on both of its sides. The loop stops at
  the first such occurrence and skips the buried ones, wherever they are.\<close>

theorem line_leaks_iff:
  "w \<in> set (line_leaks line) \<longleftrightarrow>
     w \<in> set ARCH_WORDS \<and>
     (\<exists>i. occurs_at (str_lower line) w i \<and>
        \<not> (0 < i \<and> is_alpha (str_lower line ! (i - 1)) \<and>
           i + length w < length line \<and> is_alpha (str_lower line ! (i + length w))))"
  by (auto simp: line_leaks_def leak_from_iff is_english_embedding_def Let_def)

lemma scan_text_Nil: "scan_text rel body = [] \<longleftrightarrow> (\<forall>line \<in> set (file_lines body). line_leaks line = [])"
proof -
  have "set (file_lines body) = snd ` set (enumerate_from 1 (file_lines body))"
    by (metis list.set_map map_snd_enumerate_from)
  then show ?thesis by (auto simp: scan_text_def scan_line_def)
qed

text \<open>C31: the seam check passes exactly when no line of any source of the arch-free kernel leaks a
  word; it writes nothing when it passes and reports when it fails.\<close>

theorem check_arch_free_iff:
  "(snd (check_arch_free isfile walk read cwd r) \<longleftrightarrow>
     list_all (\<lambda>src. list_all (\<lambda>line. line_leaks line = []) (file_lines (read src)))
       (arch_free_sources isfile walk r))
   \<and> (snd (check_arch_free isfile walk read cwd r) \<longleftrightarrow>
        fst (check_arch_free isfile walk read cwd r) = [])"
proof -
  let ?bad = "concat (map (\<lambda>src. scan_text (relpath cwd src r) (read src)) (arch_free_sources isfile walk r))"
  have "?bad = [] \<longleftrightarrow> list_all (\<lambda>src. list_all (\<lambda>line. line_leaks line = []) (file_lines (read src)))
      (arch_free_sources isfile walk r)"
    by (auto simp: scan_text_Nil list_all_iff)
  then show ?thesis by (auto simp: check_arch_free_def Let_def)
qed

text \<open>The scan polices dependencies and not vocabulary: an English word that merely contains a
  token passes, the same token at either end of an identifier does not.\<close>

theorem seam_examples:
  "line_leaks ''// a duplicate, explicit implicit complication'' = []
   \<and> line_leaks ''let x = PLIC_BASE'' = [''plic'']
   \<and> line_leaks ''duplicates of the plic'' = [''plic'']
   \<and> line_leaks ''mtimecmp csrw'' = [''csr'', ''mtime'']"
  by code_simp

end
