(* ===== verification/Test_Packages.thy ===== *)
theory Test_Packages
  imports Arch_Table
begin

text \<open>
  The package directories of \<^verbatim>\<open>src/tools/sos_runner.py\<close>: the root server, and one package
  under \<^verbatim>\<open>tests/\<close> for every root server and child image a case boots.
\<close>

definition ROOT_PKG :: "string \<Rightarrow> string" where
  "ROOT_PKG r = py_join r ''root''"

definition FAULT_ROOT_PKG :: "string \<Rightarrow> string" where
  "FAULT_ROOT_PKG r = py_join (TESTS_DIR r) ''faulting-root''"

definition THREAD_BASICS_PKG :: "string \<Rightarrow> string" where
  "THREAD_BASICS_PKG r = py_join (TESTS_DIR r) ''thread-basics''"

definition THREAD_PREEMPT_PKG :: "string \<Rightarrow> string" where
  "THREAD_PREEMPT_PKG r = py_join (TESTS_DIR r) ''thread-preempt''"

definition EVENT_BASICS_PKG :: "string \<Rightarrow> string" where
  "EVENT_BASICS_PKG r = py_join (TESTS_DIR r) ''event-basics''"

definition EVENT_WAKE_PKG :: "string \<Rightarrow> string" where
  "EVENT_WAKE_PKG r = py_join (TESTS_DIR r) ''event-wake''"

definition EVENT_CONSUME_PKG :: "string \<Rightarrow> string" where
  "EVENT_CONSUME_PKG r = py_join (TESTS_DIR r) ''event-consume''"

definition EVENT_CONSUME_WAKE_PKG :: "string \<Rightarrow> string" where
  "EVENT_CONSUME_WAKE_PKG r = py_join (TESTS_DIR r) ''event-consume-wake''"

definition EVENT_DUPKEY_PKG :: "string \<Rightarrow> string" where
  "EVENT_DUPKEY_PKG r = py_join (TESTS_DIR r) ''event-dupkey''"

definition UART_ECHO_NS16550_PKG :: "string \<Rightarrow> string" where
  "UART_ECHO_NS16550_PKG r = py_join (TESTS_DIR r) ''uart-echo-ns16550''"

definition UART_ECHO_PL011_PKG :: "string \<Rightarrow> string" where
  "UART_ECHO_PL011_PKG r = py_join (TESTS_DIR r) ''uart-echo-pl011''"

definition IRQ_BADLINE_PKG :: "string \<Rightarrow> string" where
  "IRQ_BADLINE_PKG r = py_join (TESTS_DIR r) ''irq-badline''"

definition IRQ_EARLYACK_PKG :: "string \<Rightarrow> string" where
  "IRQ_EARLYACK_PKG r = py_join (TESTS_DIR r) ''irq-earlyack''"

definition WAIT_DEADLOCK_PKG :: "string \<Rightarrow> string" where
  "WAIT_DEADLOCK_PKG r = py_join (TESTS_DIR r) ''wait-deadlock''"

definition PROCESS_LIFECYCLE_PKG :: "string \<Rightarrow> string" where
  "PROCESS_LIFECYCLE_PKG r = py_join (TESTS_DIR r) ''process-lifecycle''"

definition PROCESS_ISOLATION_PKG :: "string \<Rightarrow> string" where
  "PROCESS_ISOLATION_PKG r = py_join (TESTS_DIR r) ''process-isolation''"

definition PROCESS_BADIMAGE_PKG :: "string \<Rightarrow> string" where
  "PROCESS_BADIMAGE_PKG r = py_join (TESTS_DIR r) ''process-badimage''"

definition PROCESS_DOUBLESTART_PKG :: "string \<Rightarrow> string" where
  "PROCESS_DOUBLESTART_PKG r = py_join (TESTS_DIR r) ''process-doublestart''"

definition PROCESS_BOOTDRAIN_PKG :: "string \<Rightarrow> string" where
  "PROCESS_BOOTDRAIN_PKG r = py_join (TESTS_DIR r) ''process-bootdrain''"

definition CHILD_FAULT_PKG :: "string \<Rightarrow> string" where
  "CHILD_FAULT_PKG r = py_join (TESTS_DIR r) ''child-fault''"

definition CHILD_POKE_PKG :: "string \<Rightarrow> string" where
  "CHILD_POKE_PKG r = py_join (TESTS_DIR r) ''child-poke''"

definition HANDLE_REMINT_PKG :: "string \<Rightarrow> string" where
  "HANDLE_REMINT_PKG r = py_join (TESTS_DIR r) ''handle-remint''"

definition HANDLE_RELEASE_UNGATED_PKG :: "string \<Rightarrow> string" where
  "HANDLE_RELEASE_UNGATED_PKG r = py_join (TESTS_DIR r) ''handle-release-ungated''"

definition HANDLE_RELEASE_NOTHING_PKG :: "string \<Rightarrow> string" where
  "HANDLE_RELEASE_NOTHING_PKG r = py_join (TESTS_DIR r) ''handle-release-nothing''"

definition HANDLE_RELEASE_TWICE_PKG :: "string \<Rightarrow> string" where
  "HANDLE_RELEASE_TWICE_PKG r = py_join (TESTS_DIR r) ''handle-release-twice''"

definition HANDLE_MALFORMED_WORD_PKG :: "string \<Rightarrow> string" where
  "HANDLE_MALFORMED_WORD_PKG r = py_join (TESTS_DIR r) ''handle-malformed-word''"

definition HANDLE_DROP_RELEASE_PKG :: "string \<Rightarrow> string" where
  "HANDLE_DROP_RELEASE_PKG r = py_join (TESTS_DIR r) ''handle-drop-release''"

definition PROCESS_RECLAIM_PKG :: "string \<Rightarrow> string" where
  "PROCESS_RECLAIM_PKG r = py_join (TESTS_DIR r) ''process-reclaim''"

definition GIVE_BOOT_DRAIN_PKG :: "string \<Rightarrow> string" where
  "GIVE_BOOT_DRAIN_PKG r = py_join (TESTS_DIR r) ''give-boot-drain''"

definition GIVE_DUPLICATE_TAG_PKG :: "string \<Rightarrow> string" where
  "GIVE_DUPLICATE_TAG_PKG r = py_join (TESTS_DIR r) ''give-duplicate-tag''"

definition GIVE_AFTER_START_PKG :: "string \<Rightarrow> string" where
  "GIVE_AFTER_START_PKG r = py_join (TESTS_DIR r) ''give-after-start''"

definition GIVE_NO_TRANSFER_PKG :: "string \<Rightarrow> string" where
  "GIVE_NO_TRANSFER_PKG r = py_join (TESTS_DIR r) ''give-no-transfer''"

definition START_BAD_TAG_PKG :: "string \<Rightarrow> string" where
  "START_BAD_TAG_PKG r = py_join (TESTS_DIR r) ''start-bad-tag''"

definition GIVE_WORD_DEAD_PKG :: "string \<Rightarrow> string" where
  "GIVE_WORD_DEAD_PKG r = py_join (TESTS_DIR r) ''give-word-dead''"

definition MINT_REVOKED_PKG :: "string \<Rightarrow> string" where
  "MINT_REVOKED_PKG r = py_join (TESTS_DIR r) ''mint-revoked''"

definition CHILD_NO_SHUTDOWN_PKG :: "string \<Rightarrow> string" where
  "CHILD_NO_SHUTDOWN_PKG r = py_join (TESTS_DIR r) ''child-no-shutdown''"

definition CHILD_DRAIN_PKG :: "string \<Rightarrow> string" where
  "CHILD_DRAIN_PKG r = py_join (TESTS_DIR r) ''child-drain''"

definition CHILD_OVERSTEPS_PKG :: "string \<Rightarrow> string" where
  "CHILD_OVERSTEPS_PKG r = py_join (TESTS_DIR r) ''child-oversteps''"

definition MEMORY_SPLIT_PKG :: "string \<Rightarrow> string" where
  "MEMORY_SPLIT_PKG r = py_join (TESTS_DIR r) ''memory-split''"

definition MAP_BASICS_PKG :: "string \<Rightarrow> string" where
  "MAP_BASICS_PKG r = py_join (TESTS_DIR r) ''map-basics''"

definition MAP_UNMAP_PKG :: "string \<Rightarrow> string" where
  "MAP_UNMAP_PKG r = py_join (TESTS_DIR r) ''map-unmap''"

definition MAP_INTO_CHILD_PKG :: "string \<Rightarrow> string" where
  "MAP_INTO_CHILD_PKG r = py_join (TESTS_DIR r) ''map-into-child''"

definition IOMEMORY_CARVE_PKG :: "string \<Rightarrow> string" where
  "IOMEMORY_CARVE_PKG r = py_join (TESTS_DIR r) ''iomemory-carve''"

definition CHILD_TOUCH_PKG :: "string \<Rightarrow> string" where
  "CHILD_TOUCH_PKG r = py_join (TESTS_DIR r) ''child-touch''"

definition QUOTA_EXCEEDED_PKG :: "string \<Rightarrow> string" where
  "QUOTA_EXCEEDED_PKG r = py_join (TESTS_DIR r) ''quota-exceeded''"

definition QUOTA_VS_WALL_PKG :: "string \<Rightarrow> string" where
  "QUOTA_VS_WALL_PKG r = py_join (TESTS_DIR r) ''quota-vs-wall''"

definition REFCOUNT_FREE_PKG :: "string \<Rightarrow> string" where
  "REFCOUNT_FREE_PKG r = py_join (TESTS_DIR r) ''refcount-free''"

definition INTERRUPT_UNBIND_PKG :: "string \<Rightarrow> string" where
  "INTERRUPT_UNBIND_PKG r = py_join (TESTS_DIR r) ''interrupt-unbind''"

definition MAPPING_SLOT_FREE_PKG :: "string \<Rightarrow> string" where
  "MAPPING_SLOT_FREE_PKG r = py_join (TESTS_DIR r) ''mapping-slot-free''"

definition MEMORY_RECYCLE_PKG :: "string \<Rightarrow> string" where
  "MEMORY_RECYCLE_PKG r = py_join (TESTS_DIR r) ''memory-recycle''"

definition SLAB_DONATE_PKG :: "string \<Rightarrow> string" where
  "SLAB_DONATE_PKG r = py_join (TESTS_DIR r) ''slab-donate''"

definition SLAB_DONATE_SHARED_PKG :: "string \<Rightarrow> string" where
  "SLAB_DONATE_SHARED_PKG r = py_join (TESTS_DIR r) ''slab-donate-shared''"

definition THREAD_DONATE_PKG :: "string \<Rightarrow> string" where
  "THREAD_DONATE_PKG r = py_join (TESTS_DIR r) ''thread-donate''"

definition PIPE_DONATE_PKG :: "string \<Rightarrow> string" where
  "PIPE_DONATE_PKG r = py_join (TESTS_DIR r) ''pipe-donate''"

definition SLAB_DONATE_MAPPED_PKG :: "string \<Rightarrow> string" where
  "SLAB_DONATE_MAPPED_PKG r = py_join (TESTS_DIR r) ''slab-donate-mapped''"

definition SLAB_DONATE_MAPPED_CHILD_PKG :: "string \<Rightarrow> string" where
  "SLAB_DONATE_MAPPED_CHILD_PKG r = py_join (TESTS_DIR r) ''child-donor''"

definition SLAB_DONATE_NODES_PKG :: "string \<Rightarrow> string" where
  "SLAB_DONATE_NODES_PKG r = py_join (TESTS_DIR r) ''slab-donate-free-nodes''"

definition PROCESS_DONATE_PKG :: "string \<Rightarrow> string" where
  "PROCESS_DONATE_PKG r = py_join (TESTS_DIR r) ''process-donate''"

definition ECHO_CHILD_PKG :: "string \<Rightarrow> string" where
  "ECHO_CHILD_PKG r = py_join (TESTS_DIR r) ''echo-child''"

definition ECHO_CHILD2_PKG :: "string \<Rightarrow> string" where
  "ECHO_CHILD2_PKG r = py_join (TESTS_DIR r) ''echo-child2''"

definition ECHO_CHILD3_PKG :: "string \<Rightarrow> string" where
  "ECHO_CHILD3_PKG r = py_join (TESTS_DIR r) ''echo-child3''"

definition CHILD_QUOTA_PKG :: "string \<Rightarrow> string" where
  "CHILD_QUOTA_PKG r = py_join (TESTS_DIR r) ''child-quota''"

definition CHILD_MAPWALL_PKG :: "string \<Rightarrow> string" where
  "CHILD_MAPWALL_PKG r = py_join (TESTS_DIR r) ''child-mapwall''"

definition DEATH_NOTIFY_PKG :: "string \<Rightarrow> string" where
  "DEATH_NOTIFY_PKG r = py_join (TESTS_DIR r) ''death-notify''"

definition DEATH_FAULT_PKG :: "string \<Rightarrow> string" where
  "DEATH_FAULT_PKG r = py_join (TESTS_DIR r) ''death-fault''"

definition DEATH_LATE_ATTACH_PKG :: "string \<Rightarrow> string" where
  "DEATH_LATE_ATTACH_PKG r = py_join (TESTS_DIR r) ''death-late-attach''"

definition CHILD_BYE_PKG :: "string \<Rightarrow> string" where
  "CHILD_BYE_PKG r = py_join (TESTS_DIR r) ''child-bye''"

definition DRIVER_CHILD_PKG :: "string \<Rightarrow> string" where
  "DRIVER_CHILD_PKG r = py_join (TESTS_DIR r) ''driver-child''"

definition CHILD_ECHO_NS16550_PKG :: "string \<Rightarrow> string" where
  "CHILD_ECHO_NS16550_PKG r = py_join (TESTS_DIR r) ''child-echo-ns16550''"

definition CHILD_ECHO_PL011_PKG :: "string \<Rightarrow> string" where
  "CHILD_ECHO_PL011_PKG r = py_join (TESTS_DIR r) ''child-echo-pl011''"

definition SHARE_DOUBLE_MAP_PKG :: "string \<Rightarrow> string" where
  "SHARE_DOUBLE_MAP_PKG r = py_join (TESTS_DIR r) ''share-double-map''"

definition MAP_PLACED_PKG :: "string \<Rightarrow> string" where
  "MAP_PLACED_PKG r = py_join (TESTS_DIR r) ''map-placed''"

definition CHILD_PLACED_PKG :: "string \<Rightarrow> string" where
  "CHILD_PLACED_PKG r = py_join (TESTS_DIR r) ''child-placed''"

definition CHILD_SHARE_PKG :: "string \<Rightarrow> string" where
  "CHILD_SHARE_PKG r = py_join (TESTS_DIR r) ''child-share''"

definition MAP_EXEC_GATED_PKG :: "string \<Rightarrow> string" where
  "MAP_EXEC_GATED_PKG r = py_join (TESTS_DIR r) ''map-exec-gated''"

definition MAP_WX_REFUSED_PKG :: "string \<Rightarrow> string" where
  "MAP_WX_REFUSED_PKG r = py_join (TESTS_DIR r) ''map-wx-refused''"

definition WAITER_REVOKED_PKG :: "string \<Rightarrow> string" where
  "WAITER_REVOKED_PKG r = py_join (TESTS_DIR r) ''waiter-revoked''"

definition PIPE_BASICS_PKG :: "string \<Rightarrow> string" where
  "PIPE_BASICS_PKG r = py_join (TESTS_DIR r) ''pipe-basics''"

definition PIPE_PEER_GONE_PKG :: "string \<Rightarrow> string" where
  "PIPE_PEER_GONE_PKG r = py_join (TESTS_DIR r) ''pipe-peer-gone''"

definition PIPE_CHILD_PKG :: "string \<Rightarrow> string" where
  "PIPE_CHILD_PKG r = py_join (TESTS_DIR r) ''pipe-child''"

definition CHILD_POST_PKG :: "string \<Rightarrow> string" where
  "CHILD_POST_PKG r = py_join (TESTS_DIR r) ''child-post''"

definition PIPE_NO_POST_PKG :: "string \<Rightarrow> string" where
  "PIPE_NO_POST_PKG r = py_join (TESTS_DIR r) ''pipe-no-post''"

definition PIPE_OVERSIZED_PKG :: "string \<Rightarrow> string" where
  "PIPE_OVERSIZED_PKG r = py_join (TESTS_DIR r) ''pipe-oversized''"

definition PIPE_ONESHOT_PKG :: "string \<Rightarrow> string" where
  "PIPE_ONESHOT_PKG r = py_join (TESTS_DIR r) ''pipe-oneshot''"

definition PIPE_ABANDON_PKG :: "string \<Rightarrow> string" where
  "PIPE_ABANDON_PKG r = py_join (TESTS_DIR r) ''pipe-abandon''"

definition PIPE_DELEGATE_PKG :: "string \<Rightarrow> string" where
  "PIPE_DELEGATE_PKG r = py_join (TESTS_DIR r) ''pipe-delegate''"

definition CHILD_REPLY_PKG :: "string \<Rightarrow> string" where
  "CHILD_REPLY_PKG r = py_join (TESTS_DIR r) ''child-reply''"

definition PIPE_NO_REPLY_PKG :: "string \<Rightarrow> string" where
  "PIPE_NO_REPLY_PKG r = py_join (TESTS_DIR r) ''pipe-no-reply''"

definition PIPE_BIG_REPLY_PKG :: "string \<Rightarrow> string" where
  "PIPE_BIG_REPLY_PKG r = py_join (TESTS_DIR r) ''pipe-big-reply''"

definition PIPE_DEAD_CLAIM_PKG :: "string \<Rightarrow> string" where
  "PIPE_DEAD_CLAIM_PKG r = py_join (TESTS_DIR r) ''pipe-dead-claim''"

definition PIPE_WAIT_REPLY_PKG :: "string \<Rightarrow> string" where
  "PIPE_WAIT_REPLY_PKG r = py_join (TESTS_DIR r) ''pipe-wait-reply''"

definition PIPE_WAIT_GIVE_PKG :: "string \<Rightarrow> string" where
  "PIPE_WAIT_GIVE_PKG r = py_join (TESTS_DIR r) ''pipe-wait-give''"

definition PIPE_WAIT_ROOM_PKG :: "string \<Rightarrow> string" where
  "PIPE_WAIT_ROOM_PKG r = py_join (TESTS_DIR r) ''pipe-wait-room''"

definition PIPE_WAIT_SERVER_PKG :: "string \<Rightarrow> string" where
  "PIPE_WAIT_SERVER_PKG r = py_join (TESTS_DIR r) ''pipe-wait-server''"

definition PIPE_SEND_MANUAL_PKG :: "string \<Rightarrow> string" where
  "PIPE_SEND_MANUAL_PKG r = py_join (TESTS_DIR r) ''pipe-send-manual''"

definition CHILD_SERVER_PKG :: "string \<Rightarrow> string" where
  "CHILD_SERVER_PKG r = py_join (TESTS_DIR r) ''child-server''"

definition PIPE_NO_WAIT_PKG :: "string \<Rightarrow> string" where
  "PIPE_NO_WAIT_PKG r = py_join (TESTS_DIR r) ''pipe-no-wait''"

definition PIPE_BAD_MODE_PKG :: "string \<Rightarrow> string" where
  "PIPE_BAD_MODE_PKG r = py_join (TESTS_DIR r) ''pipe-bad-mode''"

definition PROCESS_STATS_PKG :: "string \<Rightarrow> string" where
  "PROCESS_STATS_PKG r = py_join (TESTS_DIR r) ''process-stats''"

definition CHILD_STATS_PKG :: "string \<Rightarrow> string" where
  "CHILD_STATS_PKG r = py_join (TESTS_DIR r) ''child-stats''"

definition PIPE_PINGPONG_PKG :: "string \<Rightarrow> string" where
  "PIPE_PINGPONG_PKG r = py_join (TESTS_DIR r) ''pipe-pingpong''"

definition CHILD_PINGPONG_PKG :: "string \<Rightarrow> string" where
  "CHILD_PINGPONG_PKG r = py_join (TESTS_DIR r) ''child-pingpong''"

definition PIPE_CALL_ABANDON_PKG :: "string \<Rightarrow> string" where
  "PIPE_CALL_ABANDON_PKG r = py_join (TESTS_DIR r) ''pipe-call-abandon''"

definition CHILD_CALLER_PKG :: "string \<Rightarrow> string" where
  "CHILD_CALLER_PKG r = py_join (TESTS_DIR r) ''child-caller''"

definition PIPE_CALL_ORPHAN_PKG :: "string \<Rightarrow> string" where
  "PIPE_CALL_ORPHAN_PKG r = py_join (TESTS_DIR r) ''pipe-call-orphan''"

definition CHILD_ORPHAN_PKG :: "string \<Rightarrow> string" where
  "CHILD_ORPHAN_PKG r = py_join (TESTS_DIR r) ''child-orphan''"

definition PIPE_RESOLVE_ORPHAN_PKG :: "string \<Rightarrow> string" where
  "PIPE_RESOLVE_ORPHAN_PKG r = py_join (TESTS_DIR r) ''pipe-resolve-orphan''"

definition CHILD_RESOLVER_PKG :: "string \<Rightarrow> string" where
  "CHILD_RESOLVER_PKG r = py_join (TESTS_DIR r) ''child-resolver''"

definition PIPE_NO_CALL_PKG :: "string \<Rightarrow> string" where
  "PIPE_NO_CALL_PKG r = py_join (TESTS_DIR r) ''pipe-no-call''"

definition PIPE_CALL_OVERSIZED_PKG :: "string \<Rightarrow> string" where
  "PIPE_CALL_OVERSIZED_PKG r = py_join (TESTS_DIR r) ''pipe-call-oversized''"

definition PIPE_REPLY_WAIT_DEAD_PKG :: "string \<Rightarrow> string" where
  "PIPE_REPLY_WAIT_DEAD_PKG r = py_join (TESTS_DIR r) ''pipe-reply-wait-dead''"

definition PIPE_HANDLES_PKG :: "string \<Rightarrow> string" where
  "PIPE_HANDLES_PKG r = py_join (TESTS_DIR r) ''pipe-handles''"

definition PIPE_DELEGATE_MSG_PKG :: "string \<Rightarrow> string" where
  "PIPE_DELEGATE_MSG_PKG r = py_join (TESTS_DIR r) ''pipe-delegate-msg''"

definition CHILD_HANDLES_PKG :: "string \<Rightarrow> string" where
  "CHILD_HANDLES_PKG r = py_join (TESTS_DIR r) ''child-handles''"

definition CHILD_SENDER_PKG :: "string \<Rightarrow> string" where
  "CHILD_SENDER_PKG r = py_join (TESTS_DIR r) ''child-sender''"

definition PIPE_SEND_EXIT_PKG :: "string \<Rightarrow> string" where
  "PIPE_SEND_EXIT_PKG r = py_join (TESTS_DIR r) ''pipe-send-exit''"

definition PIPE_TABLE_FULL_PKG :: "string \<Rightarrow> string" where
  "PIPE_TABLE_FULL_PKG r = py_join (TESTS_DIR r) ''pipe-table-full''"

definition PIPE_CQ_PKG :: "string \<Rightarrow> string" where
  "PIPE_CQ_PKG r = py_join (TESTS_DIR r) ''pipe-cq''"

definition PIPE_RESOLVE_PARK_PKG :: "string \<Rightarrow> string" where
  "PIPE_RESOLVE_PARK_PKG r = py_join (TESTS_DIR r) ''pipe-resolve-park''"

definition GIVE_KEEP_MASK_PKG :: "string \<Rightarrow> string" where
  "GIVE_KEEP_MASK_PKG r = py_join (TESTS_DIR r) ''give-keep-mask''"

definition CHILD_NARROW_PKG :: "string \<Rightarrow> string" where
  "CHILD_NARROW_PKG r = py_join (TESTS_DIR r) ''child-narrow''"

definition UART_SERVICE_PKG :: "string \<Rightarrow> string" where
  "UART_SERVICE_PKG r = py_join (TESTS_DIR r) ''uart-service''"

definition UART_CANCEL_PKG :: "string \<Rightarrow> string" where
  "UART_CANCEL_PKG r = py_join (TESTS_DIR r) ''uart-cancel''"

definition SVC_UART_NS16550_PKG :: "string \<Rightarrow> string" where
  "SVC_UART_NS16550_PKG r = py_join (TESTS_DIR r) ''svc-uart-ns16550''"

definition SVC_UART_PL011_PKG :: "string \<Rightarrow> string" where
  "SVC_UART_PL011_PKG r = py_join (TESTS_DIR r) ''svc-uart-pl011''"

definition SVC_CLIENT_PKG :: "string \<Rightarrow> string" where
  "SVC_CLIENT_PKG r = py_join (TESTS_DIR r) ''svc-client''"

definition DELEGATE_3P_PKG :: "string \<Rightarrow> string" where
  "DELEGATE_3P_PKG r = py_join (TESTS_DIR r) ''delegate-3p''"

definition CHILD_FORWARD_PKG :: "string \<Rightarrow> string" where
  "CHILD_FORWARD_PKG r = py_join (TESTS_DIR r) ''child-forward''"

definition CHILD_FAR_PKG :: "string \<Rightarrow> string" where
  "CHILD_FAR_PKG r = py_join (TESTS_DIR r) ''child-far''"

definition CLOCK_BASICS_PKG :: "string \<Rightarrow> string" where
  "CLOCK_BASICS_PKG r = py_join (TESTS_DIR r) ''clock-basics''"

definition TIMER_ONESHOT_PKG :: "string \<Rightarrow> string" where
  "TIMER_ONESHOT_PKG r = py_join (TESTS_DIR r) ''timer-oneshot''"

definition TIMER_INTERVAL_PKG :: "string \<Rightarrow> string" where
  "TIMER_INTERVAL_PKG r = py_join (TESTS_DIR r) ''timer-interval''"

definition TIMER_DEADLOCK_PKG :: "string \<Rightarrow> string" where
  "TIMER_DEADLOCK_PKG r = py_join (TESTS_DIR r) ''timer-deadlock''"

definition TIMER_BADCLOCK_PKG :: "string \<Rightarrow> string" where
  "TIMER_BADCLOCK_PKG r = py_join (TESTS_DIR r) ''timer-badclock''"

definition TIMER_BADRECORD_PKG :: "string \<Rightarrow> string" where
  "TIMER_BADRECORD_PKG r = py_join (TESTS_DIR r) ''timer-badrecord''"

definition TIER_WORD_PKG :: "string \<Rightarrow> string" where
  "TIER_WORD_PKG r = py_join (TESTS_DIR r) ''tier-word''"

definition STATS_REGION_PKG :: "string \<Rightarrow> string" where
  "STATS_REGION_PKG r = py_join (TESTS_DIR r) ''stats-region''"

definition STATS_READER_PKG :: "string \<Rightarrow> string" where
  "STATS_READER_PKG r = py_join (TESTS_DIR r) ''stats-reader''"

definition STATS_REGION_RO_PKG :: "string \<Rightarrow> string" where
  "STATS_REGION_RO_PKG r = py_join (TESTS_DIR r) ''stats-region-ro''"

definition ARENA_SMALL_PKG :: "string \<Rightarrow> string" where
  "ARENA_SMALL_PKG r = py_join (TESTS_DIR r) ''arena-small''"

definition C_HELLO_PKG :: "string \<Rightarrow> string" where
  "C_HELLO_PKG r = py_join (TESTS_DIR r) ''c-hello''"

definition C_CHILD_PKG :: "string \<Rightarrow> string" where
  "C_CHILD_PKG r = py_join (TESTS_DIR r) ''c-child''"

end
