(* ===== verification/Case_Table_A.thy ===== *)
theory Case_Table_A
  imports Case_Model Test_Packages
begin

text \<open>
  \<^verbatim>\<open>TEST_CASES\<close> of \<^verbatim>\<open>src/tools/sos_runner.py\<close>, entries 1 to 34 of 134, in table order:
  one definition per entry, with the keys the entry writes in the order it writes them.
\<close>

definition case_no_root_image :: "string \<Rightarrow> test_case" where
  "case_no_root_image r = blank_case\<lparr>
     c_name := ''no_root_image'',
     c_src := py_join (KERNEL_DIR r) ''main.saw'',
     c_expect_out := Strings
       [''{banner}'',
        ''bad root image: no root image appended''],
     c_expect_clean_exit := False\<rparr>"

definition case_trap_fault :: "string \<Rightarrow> test_case" where
  "case_trap_fault r = blank_case\<lparr>
     c_name := ''trap_fault'',
     c_src := py_join (TESTS_DIR r) ''trap.saw'',
     c_expect_out := NoOutput,
     c_expect_clean_exit := False\<rparr>"

definition case_panic_seam :: "string \<Rightarrow> test_case" where
  "case_panic_seam r = blank_case\<lparr>
     c_name := ''panic_seam'',
     c_src := py_join (TESTS_DIR r) ''panic.saw'',
     c_expect_out := OneString ''SOS M0: deliberate panic'',
     c_expect_clean_exit := False\<rparr>"

definition case_panic_from_check :: "string \<Rightarrow> test_case" where
  "case_panic_from_check r = blank_case\<lparr>
     c_name := ''panic_from_check'',
     c_src := py_join (TESTS_DIR r) ''panic_from_check.saw'',
     c_expect_out := Strings
       [''panic at '',
        ''vector.saw:'',
        ''Vector.[]: index out of range''],
     c_expect_clean_exit := False\<rparr>"

definition case_task_dump :: "string \<Rightarrow> test_case" where
  "case_task_dump r = blank_case\<lparr>
     c_name := ''task_dump'',
     c_src := py_join (TESTS_DIR r) ''taskdump.saw'',
     c_csrc := Some ''taskdump_stubs.c'',
     c_expect_out := Strings
       [''saw tasks: 2 live (unsynchronized snapshot)'',
        ''at taskdump.saw:93 in knap'',
        ''at taskdump.saw:98 in ksleeper'',
        ''panic at taskdump.saw:114: SOS task dump: deliberate panic'',
        ''saw tasks: 1 live (as-of panic, unsynchronized)'',
        ''at taskdump.saw:93 in knap'',
        ''at taskdump.saw:98 in ksleeper''],
     c_expect_clean_exit := False\<rparr>"

definition case_task_dump_empty :: "string \<Rightarrow> test_case" where
  "case_task_dump_empty r = blank_case\<lparr>
     c_name := ''task_dump_empty'',
     c_src := py_join (TESTS_DIR r) ''taskdump_empty.saw'',
     c_expect_out := Strings
       [''saw tasks: none live'',
        ''panic at taskdump_empty.saw:21: SOS task dump: no tasks here''],
     c_expect_clean_exit := False\<rparr>"

definition case_umode_syscall :: "string \<Rightarrow> test_case" where
  "case_umode_syscall r = blank_case\<lparr>
     c_name := ''umode_syscall'',
     c_src := py_join (TESTS_DIR r) ''umode.saw'',
     c_asm := Some ''payload_ok.S'',
     c_expect_out := Strings
       [''SOS M1: entering U-mode'',
        ''SOS-U''],
     c_expect_clean_exit := True\<rparr>"

definition case_umode_access_fault :: "string \<Rightarrow> test_case" where
  "case_umode_access_fault r = blank_case\<lparr>
     c_name := ''umode_access_fault'',
     c_tier := Some TIER_ISOLATED,
     c_tier_reason := Some ''a U-mode store into kernel .text must FAULT; a flat platform permits it and the line never appears'',
     c_src := py_join (TESTS_DIR r) ''umode.saw'',
     c_asm := Some ''payload_fault.S'',
     c_expect_out := OneString ''fault store-access-fault'',
     c_expect_clean_exit := False\<rparr>"

definition case_umode_bad_calls :: "string \<Rightarrow> test_case" where
  "case_umode_bad_calls r = blank_case\<lparr>
     c_name := ''umode_bad_calls'',
     c_src := py_join (TESTS_DIR r) ''umode.saw'',
     c_asm := Some ''payload_badcall.S'',
     c_expect_out := Strings
       [''SOS M1: entering U-mode'',
        ''!'',
        ''SOS: process fault: bad op'',
        ''SOS: process teardown handles={three} threads={one}''],
     c_expect_clean_exit := False,
     c_expect_status := Some EXIT_PROCESS_FAULT\<rparr>"

definition case_timer_tick :: "string \<Rightarrow> test_case" where
  "case_timer_tick r = blank_case\<lparr>
     c_name := ''timer_tick'',
     c_src := py_join (TESTS_DIR r) ''timer.saw'',
     c_asm := Some ''payload_spin.S'',
     c_expect_out := Strings
       [''SOS M2: timer armed'',
        ''SOS M2: entering U-mode'',
        ''SOS: timer tick {one} at '',
        ''SOS: timer tick {two} at ''],
     c_expect_clean_exit := True\<rparr>"

definition case_timer_masked_in_kernel :: "string \<Rightarrow> test_case" where
  "case_timer_masked_in_kernel r = blank_case\<lparr>
     c_name := ''timer_masked_in_kernel'',
     c_src := py_join (TESTS_DIR r) ''timer_mask.saw'',
     c_asm := Some ''payload_spin.S'',
     c_expect_out := Strings
       [''SOS M2: kernel section begin'',
        ''SOS M2: kernel section end, timer expired, ticks taken={zero}'',
        ''SOS M2: entering U-mode'',
        ''SOS: timer tick {one} at ''],
     c_expect_clean_exit := True\<rparr>"

definition case_external_irq :: "string \<Rightarrow> test_case" where
  "case_external_irq r = blank_case\<lparr>
     c_name := ''external_irq'',
     c_src := py_join (TESTS_DIR r) ''extirq.saw'',
     c_asm := Some ''payload_spin.S'',
     c_expect_out := Strings
       [''SOS M2: raised external irq {irq_line}'',
        ''SOS M2: entering U-mode'',
        ''SOS: external irq {irq_line}''],
     c_expect_clean_exit := True\<rparr>"

definition case_preempt_tick :: "string \<Rightarrow> test_case" where
  "case_preempt_tick r = blank_case\<lparr>
     c_name := ''preempt_tick'',
     c_src := py_join (TESTS_DIR r) ''preempt_tick.saw'',
     c_asm := Some ''payload_spin.S'',
     c_expect_out := Strings
       [''SOS M3: kernel section begin'',
        ''SOS: timer tick {one} at {one}'',
        ''SOS M3: kernel section end, ticks taken={one}'',
        ''SOS M3: entering U-mode''],
     c_expect_clean_exit := True\<rparr>"

definition case_preempt_extirq :: "string \<Rightarrow> test_case" where
  "case_preempt_extirq r = blank_case\<lparr>
     c_name := ''preempt_extirq'',
     c_src := py_join (TESTS_DIR r) ''preempt_extirq.saw'',
     c_asm := Some ''payload_spin.S'',
     c_expect_out := Strings
       [''SOS M3: raised external irq {irq_line}'',
        ''SOS M3: kernel section begin'',
        ''SOS: external irq {irq_line}'',
        ''SOS M3: kernel section end'',
        ''SOS M3: entering U-mode''],
     c_expect_clean_exit := True\<rparr>"

definition case_root_image_load :: "string \<Rightarrow> test_case" where
  "case_root_image_load r = blank_case\<lparr>
     c_name := ''root_image_load'',
     c_src := py_join (KERNEL_DIR r) ''main.saw'',
     c_asm := Some ''payload_sosimg.S'',
     c_expect_out := Strings
       [''{banner}'',
        ''root image ok segments={one} entry={entry} prio={prio}'',
        ''SOS-R''],
     c_expect_clean_exit := True\<rparr>"

definition case_root_image_bad_magic :: "string \<Rightarrow> test_case" where
  "case_root_image_bad_magic r = blank_case\<lparr>
     c_name := ''root_image_bad_magic'',
     c_src := py_join (KERNEL_DIR r) ''main.saw'',
     c_asm := Some ''payload_badmagic.S'',
     c_expect_out := OneString ''bad root image: bad magic'',
     c_expect_clean_exit := False\<rparr>"

definition case_root_image_bad_version :: "string \<Rightarrow> test_case" where
  "case_root_image_bad_version r = blank_case\<lparr>
     c_name := ''root_image_bad_version'',
     c_src := py_join (KERNEL_DIR r) ''main.saw'',
     c_asm := Some ''payload_badversion.S'',
     c_expect_out := OneString ''bad root image: unsupported version'',
     c_expect_clean_exit := False\<rparr>"

definition case_root_image_wrong_arch :: "string \<Rightarrow> test_case" where
  "case_root_image_wrong_arch r = blank_case\<lparr>
     c_name := ''root_image_wrong_arch'',
     c_src := py_join (KERNEL_DIR r) ''main.saw'',
     c_asm := Some ''payload_wrongarch.S'',
     c_expect_out := OneString ''bad root image: image is for another architecture'',
     c_expect_clean_exit := False\<rparr>"

definition case_root_image_bad_segment :: "string \<Rightarrow> test_case" where
  "case_root_image_bad_segment r = blank_case\<lparr>
     c_name := ''root_image_bad_segment'',
     c_src := py_join (KERNEL_DIR r) ''main.saw'',
     c_asm := Some ''payload_badsegment.S'',
     c_expect_out := OneString ''bad root image: segment loads below the root region'',
     c_expect_clean_exit := False\<rparr>"

definition case_root_server_boot :: "string \<Rightarrow> test_case" where
  "case_root_server_boot r = blank_case\<lparr>
     c_name := ''root_server_boot'',
     c_src := py_join (KERNEL_DIR r) ''main.saw'',
     c_root_pkg := Some (ROOT_PKG r),
     c_expect_out := Strings
       [''{banner}'',
        ''root image ok segments={two}'',
        ''prio={prio}'',
        ''SOS root: hello from U-mode via a System op'',
        ''SOS root: boot handle 1''],
     c_expect_clean_exit := True\<rparr>"

definition case_thread_basics :: "string \<Rightarrow> test_case" where
  "case_thread_basics r = blank_case\<lparr>
     c_name := ''thread_basics'',
     c_src := py_join (KERNEL_DIR r) ''main.saw'',
     c_root_pkg := Some (THREAD_BASICS_PKG r),
     c_expect_out := Strings
       [''{banner}'',
        ''SOS threads: two workers, status word 0'',
        ''ABABABAB'',
        ''SOS threads: joined a=11 b=22'',
        ''SOS: process teardown handles={ten} threads={three} events={zero} waiters={zero}''],
     c_expect_clean_exit := True\<rparr>"

definition case_thread_preempt :: "string \<Rightarrow> test_case" where
  "case_thread_preempt r = blank_case\<lparr>
     c_name := ''thread_preempt'',
     c_src := py_join (TESTS_DIR r) ''threads_timer.saw'',
     c_root_pkg := Some (THREAD_PREEMPT_PKG r),
     c_strip_kernel_lines := True,
     c_overlapping_matches := True,
     c_expect_out := Strings
       [''SOS M2: preemptive kernel up on'',
        ''AB'',
        ''BA'',
        ''AB'',
        ''SOS preempt: joined a=33 b=44''],
     c_expect_clean_exit := True\<rparr>"

definition case_umode_bad_handle :: "string \<Rightarrow> test_case" where
  "case_umode_bad_handle r = blank_case\<lparr>
     c_name := ''umode_bad_handle'',
     c_src := py_join (TESTS_DIR r) ''umode.saw'',
     c_asm := Some ''payload_badhandle.S'',
     c_expect_out := Strings
       [''SOS M1: entering U-mode'',
        ''SOS: process fault: bad handle'',
        ''SOS: process teardown handles={three} threads={one}''],
     c_expect_clean_exit := False,
     c_expect_status := Some EXIT_PROCESS_FAULT\<rparr>"

definition case_event_basics :: "string \<Rightarrow> test_case" where
  "case_event_basics r = blank_case\<lparr>
     c_name := ''event_basics'',
     c_src := py_join (KERNEL_DIR r) ''main.saw'',
     c_root_pkg := Some (EVENT_BASICS_PKG r),
     c_expect_out := Strings
       [''{banner}'',
        ''SOS events: signal-then-wait key=11 at-wait=4 after=0'',
        ''SOS events: second key=22 at-wait=8 after=0'',
        ''SOS events: or key=11 at-wait=3 after=0'',
        ''SOS events: detached word=8'',
        ''SOS events: counting key=33 at-wait=5 after=0 saturated=1'',
        ''SOS events: done'',
        ''SOS: process teardown handles={eight} threads={one} events={three} waiters={one}''],
     c_expect_clean_exit := True\<rparr>"

definition case_event_wake :: "string \<Rightarrow> test_case" where
  "case_event_wake r = blank_case\<lparr>
     c_name := ''event_wake'',
     c_src := py_join (KERNEL_DIR r) ''main.saw'',
     c_root_pkg := Some (EVENT_WAKE_PKG r),
     c_expect_out := Strings
       [''{banner}'',
        ''SOS wake: worker started, parking'',
        ''SOS wake: worker signalling'',
        ''SOS wake: woke key=77 at-wait=1 after=4'',
        ''SOS wake: joined worker=99''],
     c_expect_clean_exit := True\<rparr>"

definition case_umode_not_waitable :: "string \<Rightarrow> test_case" where
  "case_umode_not_waitable r = blank_case\<lparr>
     c_name := ''umode_not_waitable'',
     c_src := py_join (TESTS_DIR r) ''umode.saw'',
     c_asm := Some ''payload_notwaitable.S'',
     c_expect_out := Strings
       [''SOS M1: entering U-mode'',
        ''SOS: process fault: not a waitable'',
        ''SOS: process teardown handles={four} threads={one} events={zero} waiters={one}''],
     c_expect_clean_exit := False,
     c_expect_status := Some EXIT_PROCESS_FAULT\<rparr>"

definition case_event_dupkey :: "string \<Rightarrow> test_case" where
  "case_event_dupkey r = blank_case\<lparr>
     c_name := ''event_dupkey'',
     c_src := py_join (KERNEL_DIR r) ''main.saw'',
     c_root_pkg := Some (EVENT_DUPKEY_PKG r),
     c_expect_out := Strings
       [''{banner}'',
        ''SOS dupkey: first attach ok'',
        ''SOS: process fault: an attachment already uses that key'',
        ''SOS: process teardown handles={seven} threads={one} events={two} waiters={one}''],
     c_expect_clean_exit := False,
     c_expect_status := Some EXIT_PROCESS_FAULT\<rparr>"

definition case_umode_bad_wait_buffer :: "string \<Rightarrow> test_case" where
  "case_umode_bad_wait_buffer r = blank_case\<lparr>
     c_name := ''umode_bad_wait_buffer'',
     c_src := py_join (TESTS_DIR r) ''umode.saw'',
     c_asm := Some ''payload_badbuffer.S'',
     c_expect_out := Strings
       [''SOS M1: entering U-mode'',
        (''SOS: process fault: buffer is outside the process'' @ [CHR 0x27] @ ''s memory''),
        ''SOS: process teardown handles={four} threads={one} events={zero} waiters={one}''],
     c_expect_clean_exit := False,
     c_expect_status := Some EXIT_PROCESS_FAULT\<rparr>"

definition case_umode_misaligned_wait_buffer :: "string \<Rightarrow> test_case" where
  "case_umode_misaligned_wait_buffer r = blank_case\<lparr>
     c_name := ''umode_misaligned_wait_buffer'',
     c_src := py_join (TESTS_DIR r) ''umode.saw'',
     c_asm := Some ''payload_misalignbuf.S'',
     c_expect_out := Strings
       [''SOS M1: entering U-mode'',
        ''SOS: process fault: buffer is not word-aligned'',
        ''SOS: process teardown handles={four} threads={one} events={zero} waiters={one}''],
     c_expect_clean_exit := False,
     c_expect_status := Some EXIT_PROCESS_FAULT\<rparr>"

definition case_uart_echo_ns16550 :: "string \<Rightarrow> test_case" where
  "case_uart_echo_ns16550 r = blank_case\<lparr>
     c_name := ''uart_echo_ns16550'',
     c_arches := Some [''riscv32'', ''riscv32-flat''],
     c_src := py_join (KERNEL_DIR r) ''main.saw'',
     c_root_pkg := Some (UART_ECHO_NS16550_PKG r),
     c_device := True,
     c_stdin := Some ECHO_INPUT,
     c_expect_out := Strings
       [''{banner}'',
        ''root image ok segments={two}'',
        ''SOS: boot regions={one}'',
        ''SOS: console handover'',
        ''SOS echo: window mapped'',
        ''SOS echo: driver up'',
        ECHO_INPUT,
        ''SOS echo: done 4 bytes on line 10''],
     c_expect_clean_exit := True\<rparr>"

definition case_uart_echo_pl011 :: "string \<Rightarrow> test_case" where
  "case_uart_echo_pl011 r = blank_case\<lparr>
     c_name := ''uart_echo_pl011'',
     c_arches := Some [''arm64''],
     c_src := py_join (KERNEL_DIR r) ''main.saw'',
     c_root_pkg := Some (UART_ECHO_PL011_PKG r),
     c_device := True,
     c_stdin := Some ECHO_INPUT,
     c_expect_out := Strings
       [''{banner}'',
        ''root image ok segments={two}'',
        ''SOS: boot regions={one}'',
        ''SOS: console handover'',
        ''SOS echo: window mapped'',
        ''SOS echo: driver up'',
        ECHO_INPUT,
        ''SOS echo: done 4 bytes on line 33''],
     c_expect_clean_exit := True\<rparr>"

definition case_irq_bad_line :: "string \<Rightarrow> test_case" where
  "case_irq_bad_line r = blank_case\<lparr>
     c_name := ''irq_bad_line'',
     c_src := py_join (KERNEL_DIR r) ''main.saw'',
     c_root_pkg := Some (IRQ_BADLINE_PKG r),
     c_expect_out := Strings
       [''{banner}'',
        ''SOS badline: binding a line this board lacks'',
        ''SOS: process fault: argument outside its domain'',
        ''SOS: process teardown handles={four} threads={one} events={zero} waiters={zero} interrupts={zero}''],
     c_expect_clean_exit := False,
     c_expect_status := Some EXIT_PROCESS_FAULT\<rparr>"

definition case_irq_early_ack :: "string \<Rightarrow> test_case" where
  "case_irq_early_ack r = blank_case\<lparr>
     c_name := ''irq_early_ack'',
     c_src := py_join (KERNEL_DIR r) ''main.saw'',
     c_root_pkg := Some (IRQ_EARLYACK_PKG r),
     c_expect_out := Strings
       [''{banner}'',
        ''SOS earlyack: bound, acking without a fire'',
        ''SOS: process fault: object in the wrong state'',
        ''SOS: process teardown handles={five} threads={one} events={zero} waiters={zero} interrupts={one}''],
     c_expect_clean_exit := False,
     c_expect_status := Some EXIT_PROCESS_FAULT\<rparr>"

definition case_wait_deadlock :: "string \<Rightarrow> test_case" where
  "case_wait_deadlock r = blank_case\<lparr>
     c_name := ''wait_deadlock'',
     c_src := py_join (KERNEL_DIR r) ''main.saw'',
     c_root_pkg := Some (WAIT_DEADLOCK_PKG r),
     c_expect_out := Strings
       [''{banner}'',
        ''SOS deadlock: waiting for a signal nobody sends'',
        ''SOS: process fault: every thread blocked'',
        ''SOS: process teardown handles={six} threads={one} events={one} waiters={one} interrupts={zero}''],
     c_expect_clean_exit := False,
     c_expect_status := Some EXIT_PROCESS_FAULT\<rparr>"

definition table_A :: "string \<Rightarrow> test_case list" where
  "table_A r =
     [case_no_root_image r,
      case_trap_fault r,
      case_panic_seam r,
      case_panic_from_check r,
      case_task_dump r,
      case_task_dump_empty r,
      case_umode_syscall r,
      case_umode_access_fault r,
      case_umode_bad_calls r,
      case_timer_tick r,
      case_timer_masked_in_kernel r,
      case_external_irq r,
      case_preempt_tick r,
      case_preempt_extirq r,
      case_root_image_load r,
      case_root_image_bad_magic r,
      case_root_image_bad_version r,
      case_root_image_wrong_arch r,
      case_root_image_bad_segment r,
      case_root_server_boot r,
      case_thread_basics r,
      case_thread_preempt r,
      case_umode_bad_handle r,
      case_event_basics r,
      case_event_wake r,
      case_umode_not_waitable r,
      case_event_dupkey r,
      case_umode_bad_wait_buffer r,
      case_umode_misaligned_wait_buffer r,
      case_uart_echo_ns16550 r,
      case_uart_echo_pl011 r,
      case_irq_bad_line r,
      case_irq_early_ack r,
      case_wait_deadlock r]"

lemmas case_defs_A =
  case_no_root_image_def
  case_trap_fault_def
  case_panic_seam_def
  case_panic_from_check_def
  case_task_dump_def
  case_task_dump_empty_def
  case_umode_syscall_def
  case_umode_access_fault_def
  case_umode_bad_calls_def
  case_timer_tick_def
  case_timer_masked_in_kernel_def
  case_external_irq_def
  case_preempt_tick_def
  case_preempt_extirq_def
  case_root_image_load_def
  case_root_image_bad_magic_def
  case_root_image_bad_version_def
  case_root_image_wrong_arch_def
  case_root_image_bad_segment_def
  case_root_server_boot_def
  case_thread_basics_def
  case_thread_preempt_def
  case_umode_bad_handle_def
  case_event_basics_def
  case_event_wake_def
  case_umode_not_waitable_def
  case_event_dupkey_def
  case_umode_bad_wait_buffer_def
  case_umode_misaligned_wait_buffer_def
  case_uart_echo_ns16550_def
  case_uart_echo_pl011_def
  case_irq_bad_line_def
  case_irq_early_ack_def
  case_wait_deadlock_def

section \<open>Evaluation\<close>

lemma shape_table_A: "map case_shape (table_A r) = map case_shape (table_A [])"
  by (simp add: table_A_def case_defs_A blank_case_def case_shape_def)

lemma wf_closed_A: "list_all case_wf (table_A [])"
  by code_simp

lemma wf_table_A: "list_all case_wf (table_A r)"
  using list_all_shape_cong[where P = case_wf, OF shape_table_A case_wf_shape] wf_closed_A by blast

lemma names_A:
  "map c_name (table_A r) =
     [''no_root_image'',
      ''trap_fault'',
      ''panic_seam'',
      ''panic_from_check'',
      ''task_dump'',
      ''task_dump_empty'',
      ''umode_syscall'',
      ''umode_access_fault'',
      ''umode_bad_calls'',
      ''timer_tick'',
      ''timer_masked_in_kernel'',
      ''external_irq'',
      ''preempt_tick'',
      ''preempt_extirq'',
      ''root_image_load'',
      ''root_image_bad_magic'',
      ''root_image_bad_version'',
      ''root_image_wrong_arch'',
      ''root_image_bad_segment'',
      ''root_server_boot'',
      ''thread_basics'',
      ''thread_preempt'',
      ''umode_bad_handle'',
      ''event_basics'',
      ''event_wake'',
      ''umode_not_waitable'',
      ''event_dupkey'',
      ''umode_bad_wait_buffer'',
      ''umode_misaligned_wait_buffer'',
      ''uart_echo_ns16550'',
      ''uart_echo_pl011'',
      ''irq_bad_line'',
      ''irq_early_ack'',
      ''wait_deadlock'']"
  by (simp add: table_A_def case_defs_A blank_case_def)

end
