(* ===== verification/Case_Table_B.thy ===== *)
theory Case_Table_B
  imports Case_Model Test_Packages
begin

text \<open>
  \<^verbatim>\<open>TEST_CASES\<close> of \<^verbatim>\<open>src/tools/sos_runner.py\<close>, entries 35 to 68 of 134, in table order:
  one definition per entry, with the keys the entry writes in the order it writes them.
\<close>

definition case_clock_basics :: "string \<Rightarrow> test_case" where
  "case_clock_basics r = blank_case\<lparr>
     c_name := ''clock_basics'',
     c_src := py_join (KERNEL_DIR r) ''main.saw'',
     c_root_pkg := Some (CLOCK_BASICS_PKG r),
     c_expect_out := Strings
       [''{banner}'',
        ''SOS clock: minted=1 differs=1'',
        ''SOS clock: monotonic=1'',
        ''SOS clock: advanced=1 spanned=1'',
        ''SOS clock: disarm_unarmed=1'',
        ''SOS clock: done'',
        ''SOS: process teardown handles={eight} threads={one} events={zero} waiters={zero} interrupts={zero} timers={one}''],
     c_expect_clean_exit := True\<rparr>"

definition case_timer_oneshot :: "string \<Rightarrow> test_case" where
  "case_timer_oneshot r = blank_case\<lparr>
     c_name := ''timer_oneshot'',
     c_src := py_join (KERNEL_DIR r) ''main.saw'',
     c_root_pkg := Some (TIMER_ONESHOT_PKG r),
     c_expect_out := Strings
       [''{banner}'',
        ''SOS oneshot: parking on a timer'',
        ''SOS oneshot: woke key=55 fires=1 slept=1'',
        ''SOS oneshot: rearmed woke fires=1'',
        ''SOS oneshot: done'',
        ''SOS: process teardown handles={seven} threads={one} events={zero} waiters={one} interrupts={zero} timers={one}''],
     c_expect_clean_exit := True\<rparr>"

definition case_timer_interval :: "string \<Rightarrow> test_case" where
  "case_timer_interval r = blank_case\<lparr>
     c_name := ''timer_interval'',
     c_src := py_join (KERNEL_DIR r) ''main.saw'',
     c_root_pkg := Some (TIMER_INTERVAL_PKG r),
     c_expect_out := Strings
       [''{banner}'',
        ''SOS interval: tick one fires='',
        ''SOS interval: tick two fires='',
        ''ackfree=1'',
        ''SOS interval: coalesced=1'',
        ''SOS interval: drained fires=1'',
        ''SOS interval: done'',
        ''SOS: process teardown handles={seven} threads={one} events={zero} waiters={one} interrupts={zero} timers={one}''],
     c_expect_clean_exit := True\<rparr>"

definition case_timer_deadlock :: "string \<Rightarrow> test_case" where
  "case_timer_deadlock r = blank_case\<lparr>
     c_name := ''timer_deadlock'',
     c_src := py_join (KERNEL_DIR r) ''main.saw'',
     c_root_pkg := Some (TIMER_DEADLOCK_PKG r),
     c_expect_out := Strings
       [''{banner}'',
        ''SOS timerdead: waiting on a timer nobody armed'',
        ''SOS: process fault: every thread blocked'',
        ''SOS: process teardown handles={seven} threads={one} events={zero} waiters={one} interrupts={zero} timers={one}''],
     c_expect_clean_exit := False,
     c_expect_status := Some EXIT_PROCESS_FAULT\<rparr>"

definition case_timer_badclock :: "string \<Rightarrow> test_case" where
  "case_timer_badclock r = blank_case\<lparr>
     c_name := ''timer_badclock'',
     c_src := py_join (KERNEL_DIR r) ''main.saw'',
     c_root_pkg := Some (TIMER_BADCLOCK_PKG r),
     c_expect_out := Strings
       [''{banner}'',
        ''SOS badclock: asking for a domain that does not exist'',
        ''SOS: process fault: argument outside its domain'',
        ''SOS: process teardown handles={three} threads={one} events={zero} waiters={zero} interrupts={zero} timers={zero}''],
     c_expect_clean_exit := False,
     c_expect_status := Some EXIT_PROCESS_FAULT\<rparr>"

definition case_timer_badrecord :: "string \<Rightarrow> test_case" where
  "case_timer_badrecord r = blank_case\<lparr>
     c_name := ''timer_badrecord'',
     c_src := py_join (KERNEL_DIR r) ''main.saw'',
     c_root_pkg := Some (TIMER_BADRECORD_PKG r),
     c_expect_out := Strings
       [''{banner}'',
        ''SOS badrecord: arming with a short record'',
        ''SOS: process fault: argument outside its domain'',
        ''SOS: process teardown handles={five} threads={one} events={zero} waiters={zero} interrupts={zero} timers={one}''],
     c_expect_clean_exit := False,
     c_expect_status := Some EXIT_PROCESS_FAULT\<rparr>"

definition case_event_consume :: "string \<Rightarrow> test_case" where
  "case_event_consume r = blank_case\<lparr>
     c_name := ''event_consume'',
     c_src := py_join (KERNEL_DIR r) ''main.saw'',
     c_root_pkg := Some (EVENT_CONSUME_PKG r),
     c_expect_out := Strings
       [''{banner}'',
        ''SOS consume: or key=11 at-wait=3 after=0'',
        ''SOS consume: newbits key=11 at-wait=8 after=0'',
        ''SOS consume: sum key=22 at-wait=3 after=0'',
        ''SOS consume: done'',
        ''SOS: process teardown handles={seven} threads={one} events={two} waiters={one}''],
     c_expect_clean_exit := True\<rparr>"

definition case_event_consume_wake :: "string \<Rightarrow> test_case" where
  "case_event_consume_wake r = blank_case\<lparr>
     c_name := ''event_consume_wake'',
     c_src := py_join (KERNEL_DIR r) ''main.saw'',
     c_root_pkg := Some (EVENT_CONSUME_WAKE_PKG r),
     c_expect_out := Strings
       [''{banner}'',
        ''SOS consumewake: initial parking'',
        ''SOS consumewake: worker signalling'',
        ''SOS consumewake: woke first key=41 at-wait=5 after=0'',
        ''SOS consumewake: worker second signal'',
        ''SOS consumewake: woke second key=41 at-wait=2'',
        ''SOS consumewake: joined worker=99'',
        ''events={two} waiters={two}''],
     c_expect_clean_exit := True\<rparr>"

definition case_root_server_oversteps :: "string \<Rightarrow> test_case" where
  "case_root_server_oversteps r = blank_case\<lparr>
     c_name := ''root_server_oversteps'',
     c_tier := Some TIER_ISOLATED,
     c_tier_reason := Some ''root reaching into kernel memory must FAULT; a flat platform lets the store land'',
     c_src := py_join (KERNEL_DIR r) ''main.saw'',
     c_root_pkg := Some (FAULT_ROOT_PKG r),
     c_expect_out := Strings
       [''SOS root: reaching for the kernel'',
        ''fault store-access-fault''],
     c_expect_clean_exit := False\<rparr>"

definition case_process_lifecycle :: "string \<Rightarrow> test_case" where
  "case_process_lifecycle r = blank_case\<lparr>
     c_name := ''process_lifecycle'',
     c_src := py_join (KERNEL_DIR r) ''main.saw'',
     c_root_pkg := Some (PROCESS_LIFECYCLE_PKG r),
     c_children := [CHILD_FAULT_PKG r],
     c_expect_out := Strings
       [''{banner}'',
        ''SOS: boot regions={two}'',
        ''SOS lifecycle: boot regions tag0=0 tag1=1'',
        ''SOS lifecycle: created'',
        ''SOS lifecycle: started'',
        ''SOS: process fault: bad handle process={one}'',
        ''SOS: process teardown handles={zero} threads={one} events={zero} waiters={zero} interrupts={zero} timers={zero} process={one}'',
        ''SOS lifecycle: root survived child status=131073'',
        ''SOS lifecycle: done''],
     c_expect_clean_exit := True\<rparr>"

definition case_process_isolation :: "string \<Rightarrow> test_case" where
  "case_process_isolation r = blank_case\<lparr>
     c_name := ''process_isolation'',
     c_tier := Some TIER_ISOLATED,
     c_tier_reason := Some (''peer isolation is the property the Flat tier disclaims BY NAME (design 19) '' @ em_dash @ '' the child'' @ [CHR 0x27] @ ''s poke would land''),
     c_src := py_join (KERNEL_DIR r) ''main.saw'',
     c_root_pkg := Some (PROCESS_ISOLATION_PKG r),
     c_children := [CHILD_POKE_PKG r],
     c_expect_out := Strings
       [''{banner}'',
        ''SOS isolation: started'',
        ''SOS: fault '',
        ''SOS: process teardown handles={zero} threads={one} events={zero} waiters={zero} interrupts={zero} timers={zero} process={one}'',
        ''SOS isolation: root survived child status=131072'',
        ''SOS isolation: child syscalls=0 faults=1'',
        ''SOS isolation: done''],
     c_expect_clean_exit := True\<rparr>"

definition case_process_badimage :: "string \<Rightarrow> test_case" where
  "case_process_badimage r = blank_case\<lparr>
     c_name := ''process_badimage'',
     c_src := py_join (KERNEL_DIR r) ''main.saw'',
     c_root_pkg := Some (PROCESS_BADIMAGE_PKG r),
     c_children := [CHILD_FAULT_PKG r],
     c_expect_out := Strings
       [''{banner}'',
        ''SOS badimage: create refused: not a loadable process image'',
        ''SOS badimage: still running, exiting clean''],
     c_expect_clean_exit := True\<rparr>"

definition case_process_doublestart :: "string \<Rightarrow> test_case" where
  "case_process_doublestart r = blank_case\<lparr>
     c_name := ''process_doublestart'',
     c_src := py_join (KERNEL_DIR r) ''main.saw'',
     c_root_pkg := Some (PROCESS_DOUBLESTART_PKG r),
     c_children := [CHILD_FAULT_PKG r],
     c_expect_out := Strings
       [''{banner}'',
        ''SOS doublestart: started once'',
        ''SOS: process fault: object in the wrong state process={zero}'',
        ''SOS: process teardown handles=''],
     c_expect_clean_exit := False,
     c_expect_status := Some EXIT_PROCESS_FAULT\<rparr>"

definition case_process_bootdrain :: "string \<Rightarrow> test_case" where
  "case_process_bootdrain r = blank_case\<lparr>
     c_name := ''process_bootdrain'',
     c_src := py_join (KERNEL_DIR r) ''main.saw'',
     c_root_pkg := Some (PROCESS_BOOTDRAIN_PKG r),
     c_children := [CHILD_FAULT_PKG r],
     c_expect_out := Strings
       [''{banner}'',
        ''SOS: boot regions={two}'',
        ''SOS bootdrain: n=2 tags=1 kinds=0'',
        ''SOS bootdrain: exhausted, and still exhausted'',
        ''SOS bootdrain: done''],
     c_expect_clean_exit := True\<rparr>"

definition case_handle_remint :: "string \<Rightarrow> test_case" where
  "case_handle_remint r = blank_case\<lparr>
     c_name := ''handle_remint'',
     c_src := py_join (KERNEL_DIR r) ''main.saw'',
     c_root_pkg := Some (HANDLE_REMINT_PKG r),
     c_expect_out := Strings
       [''{banner}'',
        ''SOS remint: differs=1 reused=1'',
        ''SOS remint: using the word we gave back'',
        ''SOS: process fault: bad handle process={zero}'',
        ''SOS: process teardown handles={five} threads={one} events={zero} waiters={zero} interrupts={zero} timers={zero} process={zero}''],
     c_expect_clean_exit := False,
     c_expect_status := Some EXIT_PROCESS_FAULT\<rparr>"

definition case_handle_release_ungated :: "string \<Rightarrow> test_case" where
  "case_handle_release_ungated r = blank_case\<lparr>
     c_name := ''handle_release_ungated'',
     c_src := py_join (KERNEL_DIR r) ''main.saw'',
     c_root_pkg := Some (HANDLE_RELEASE_UNGATED_PKG r),
     c_expect_out := Strings
       [''{banner}'',
        ''SOS release: ungated=1 refilled=1'',
        ''SOS release: done'',
        ''SOS: process teardown handles={five} threads={one} events={zero} waiters={zero} interrupts={zero} timers={zero} process={zero}''],
     c_expect_clean_exit := True\<rparr>"

definition case_handle_release_nothing :: "string \<Rightarrow> test_case" where
  "case_handle_release_nothing r = blank_case\<lparr>
     c_name := ''handle_release_nothing'',
     c_src := py_join (KERNEL_DIR r) ''main.saw'',
     c_root_pkg := Some (HANDLE_RELEASE_NOTHING_PKG r),
     c_expect_out := Strings
       [''{banner}'',
        ''SOS releasenothing: releasing a word that names nothing'',
        ''SOS: process fault: bad handle process={zero}'',
        ''SOS: process teardown handles={three} threads={one} events={zero} waiters={zero} interrupts={zero} timers={zero} process={zero}''],
     c_expect_clean_exit := False,
     c_expect_status := Some EXIT_PROCESS_FAULT\<rparr>"

definition case_handle_release_twice :: "string \<Rightarrow> test_case" where
  "case_handle_release_twice r = blank_case\<lparr>
     c_name := ''handle_release_twice'',
     c_src := py_join (KERNEL_DIR r) ''main.saw'',
     c_root_pkg := Some (HANDLE_RELEASE_TWICE_PKG r),
     c_expect_out := Strings
       [''{banner}'',
        ''SOS releasetwice: first release ok=1'',
        ''SOS releasetwice: releasing the same word again'',
        ''SOS: process fault: bad handle process={zero}'',
        ''SOS: process teardown handles={three} threads={one} events={zero} waiters={zero} interrupts={zero} timers={zero} process={zero}''],
     c_expect_clean_exit := False,
     c_expect_status := Some EXIT_PROCESS_FAULT\<rparr>"

definition case_handle_malformed_word :: "string \<Rightarrow> test_case" where
  "case_handle_malformed_word r = blank_case\<lparr>
     c_name := ''handle_malformed_word'',
     c_src := py_join (KERNEL_DIR r) ''main.saw'',
     c_root_pkg := Some (HANDLE_MALFORMED_WORD_PKG r),
     c_expect_out := Strings
       [''{banner}'',
        ''SOS malformed: releasing a word whose index field is zero'',
        ''SOS: process fault: bad handle process={zero}'',
        ''SOS: process teardown handles={three} threads={one} events={zero} waiters={zero} interrupts={zero} timers={zero} process={zero}''],
     c_expect_clean_exit := False,
     c_expect_status := Some EXIT_PROCESS_FAULT\<rparr>"

definition case_handle_drop_release :: "string \<Rightarrow> test_case" where
  "case_handle_drop_release r = blank_case\<lparr>
     c_name := ''handle_drop_release'',
     c_src := py_join (KERNEL_DIR r) ''main.saw'',
     c_root_pkg := Some (HANDLE_DROP_RELEASE_PKG r),
     c_expect_out := Strings
       [''{banner}'',
        ''SOS droprelease: scoped=3 kept=1'',
        ''SOS droprelease: done'',
        ''SOS: process teardown handles={five} threads={one} events={zero} waiters={zero} interrupts={zero} timers={zero} process={zero}''],
     c_expect_clean_exit := True\<rparr>"

definition case_process_reclaim :: "string \<Rightarrow> test_case" where
  "case_process_reclaim r = blank_case\<lparr>
     c_name := ''process_reclaim'',
     c_src := py_join (KERNEL_DIR r) ''main.saw'',
     c_root_pkg := Some (PROCESS_RECLAIM_PKG r),
     c_children := [CHILD_FAULT_PKG r],
     c_expect_out := Strings
       [''{banner}'',
        ''SOS: boot regions={two}'',
        ''SOS reclaim: started'',
        ''SOS: process fault: bad handle process={one}'',
        ''SOS: process teardown handles={zero} threads={one} events={zero} waiters={zero} interrupts={zero} timers={zero} process={one}'',
        ''SOS reclaim: refused_before=1 reclaimed_after=1'',
        ''SOS reclaim: done''],
     c_expect_clean_exit := True\<rparr>"

definition case_give_boot_drain :: "string \<Rightarrow> test_case" where
  "case_give_boot_drain r = blank_case\<lparr>
     c_name := ''give_boot_drain'',
     c_src := py_join (KERNEL_DIR r) ''main.saw'',
     c_root_pkg := Some (GIVE_BOOT_DRAIN_PKG r),
     c_children := [CHILD_DRAIN_PKG r],
     c_expect_out := Strings
       [''{banner}'',
        ''SOS: boot regions={two}'',
        ''SOS givedrain: created'',
        ''SOS givedrain: minted a masked System'',
        ''SOS givedrain: gave 7 3 5'',
        ''SOS givedrain: started'',
        ''SOS childdrain: n=2 tags=35 kinds=0'',
        ''SOS: process exit: code={two} process={one}'',
        ''SOS: process teardown handles={two} threads={one} events={zero} waiters={zero} interrupts={zero} timers={zero} process={one}'',
        ''SOS givedrain: root observed child status=65538'',
        ''SOS givedrain: done''],
     c_expect_clean_exit := True\<rparr>"

definition case_give_duplicate_tag :: "string \<Rightarrow> test_case" where
  "case_give_duplicate_tag r = blank_case\<lparr>
     c_name := ''give_duplicate_tag'',
     c_src := py_join (KERNEL_DIR r) ''main.saw'',
     c_root_pkg := Some (GIVE_DUPLICATE_TAG_PKG r),
     c_children := [CHILD_FAULT_PKG r],
     c_expect_out := Strings
       [''{banner}'',
        ''SOS givedup: first give ok'',
        ''SOS: process fault: an attachment already uses that key process={zero}'',
        ''SOS: process teardown handles=''],
     c_expect_clean_exit := False,
     c_expect_status := Some EXIT_PROCESS_FAULT\<rparr>"

definition case_give_after_start :: "string \<Rightarrow> test_case" where
  "case_give_after_start r = blank_case\<lparr>
     c_name := ''give_after_start'',
     c_src := py_join (KERNEL_DIR r) ''main.saw'',
     c_root_pkg := Some (GIVE_AFTER_START_PKG r),
     c_children := [CHILD_FAULT_PKG r],
     c_expect_out := Strings
       [''{banner}'',
        ''SOS giveafter: started'',
        ''SOS: process fault: object in the wrong state process={zero}'',
        ''SOS: process teardown handles=''],
     c_expect_clean_exit := False,
     c_expect_status := Some EXIT_PROCESS_FAULT\<rparr>"

definition case_give_no_transfer :: "string \<Rightarrow> test_case" where
  "case_give_no_transfer r = blank_case\<lparr>
     c_name := ''give_no_transfer'',
     c_src := py_join (KERNEL_DIR r) ''main.saw'',
     c_root_pkg := Some (GIVE_NO_TRANSFER_PKG r),
     c_children := [CHILD_FAULT_PKG r],
     c_expect_out := Strings
       [''{banner}'',
        ''SOS notransfer: minted without Transfer'',
        ''SOS: process fault: access denied process={zero}'',
        ''SOS: process teardown handles=''],
     c_expect_clean_exit := False,
     c_expect_status := Some EXIT_PROCESS_FAULT\<rparr>"

definition case_start_bad_tag :: "string \<Rightarrow> test_case" where
  "case_start_bad_tag r = blank_case\<lparr>
     c_name := ''start_bad_tag'',
     c_src := py_join (KERNEL_DIR r) ''main.saw'',
     c_root_pkg := Some (START_BAD_TAG_PKG r),
     c_children := [CHILD_FAULT_PKG r],
     c_expect_out := Strings
       [''{banner}'',
        ''SOS badtag: gave tag 3'',
        ''SOS: process fault: argument outside its domain process={zero}'',
        ''SOS: process teardown handles=''],
     c_expect_clean_exit := False,
     c_expect_status := Some EXIT_PROCESS_FAULT\<rparr>"

definition case_give_word_dead :: "string \<Rightarrow> test_case" where
  "case_give_word_dead r = blank_case\<lparr>
     c_name := ''give_word_dead'',
     c_src := py_join (KERNEL_DIR r) ''main.saw'',
     c_root_pkg := Some (GIVE_WORD_DEAD_PKG r),
     c_children := [CHILD_FAULT_PKG r],
     c_expect_out := Strings
       [''{banner}'',
        ''SOS worddead: gave the region, ok=1'',
        ''SOS worddead: using the word we gave away'',
        ''SOS: process fault: bad handle process={zero}'',
        ''SOS: process teardown handles=''],
     c_expect_clean_exit := False,
     c_expect_status := Some EXIT_PROCESS_FAULT\<rparr>"

definition case_mint_revoked :: "string \<Rightarrow> test_case" where
  "case_mint_revoked r = blank_case\<lparr>
     c_name := ''mint_revoked'',
     c_src := py_join (KERNEL_DIR r) ''main.saw'',
     c_root_pkg := Some (MINT_REVOKED_PKG r),
     c_expect_out := Strings
       [''{banner}'',
        ''SOS mintrevoked: minted without Mint'',
        ''SOS: process fault: access denied process={zero}'',
        ''SOS: process teardown handles=''],
     c_expect_clean_exit := False,
     c_expect_status := Some EXIT_PROCESS_FAULT\<rparr>"

definition case_child_no_shutdown :: "string \<Rightarrow> test_case" where
  "case_child_no_shutdown r = blank_case\<lparr>
     c_name := ''child_no_shutdown'',
     c_src := py_join (KERNEL_DIR r) ''main.saw'',
     c_root_pkg := Some (CHILD_NO_SHUTDOWN_PKG r),
     c_children := [CHILD_OVERSTEPS_PKG r],
     c_expect_out := Strings
       [''{banner}'',
        ''SOS noshutdown: started a child that may print and not stop the machine'',
        ''SOS childover: I can print, so Debug travelled'',
        ''SOS childover: now trying to stop the machine'',
        ''SOS: process fault: access denied process={one}'',
        ''SOS: process teardown handles={one} threads={one} events={zero} waiters={zero} interrupts={zero} timers={zero} process={one}'',
        ''SOS noshutdown: root survived child status=131075'',
        ''SOS noshutdown: done''],
     c_expect_clean_exit := True\<rparr>"

definition case_memory_split :: "string \<Rightarrow> test_case" where
  "case_memory_split r = blank_case\<lparr>
     c_name := ''memory_split'',
     c_src := py_join (KERNEL_DIR r) ''main.saw'',
     c_root_pkg := Some (MEMORY_SPLIT_PKG r),
     c_pool := True,
     c_expect_out := Strings
       [''{banner}'',
        ''SOS: boot regions={one}'',
        ''SOS split: a=170 b=187 a-again=170'',
        ''SOS split: cuts=20 refused=0'',
        ''SOS split: asking for more than is left'',
        ''SOS: process fault: argument outside its domain'',
        ''SOS: process teardown''],
     c_expect_clean_exit := False,
     c_expect_status := Some EXIT_PROCESS_FAULT\<rparr>"

definition case_map_basics :: "string \<Rightarrow> test_case" where
  "case_map_basics r = blank_case\<lparr>
     c_name := ''map_basics'',
     c_src := py_join (KERNEL_DIR r) ''main.saw'',
     c_root_pkg := Some (MAP_BASICS_PKG r),
     c_pool := True,
     c_expect_out := Strings
       [''{banner}'',
        ''SOS: boot regions={one}'',
        ''SOS mapbasics: wrote 0x5a read 90'',
        ''SOS mapbasics: double-mapped read-only'',
        ''SOS mapbasics: still 90'',
        ''SOS mapbasics: done''],
     c_expect_clean_exit := True\<rparr>"

definition case_map_unmap :: "string \<Rightarrow> test_case" where
  "case_map_unmap r = blank_case\<lparr>
     c_name := ''map_unmap'',
     c_tier := Some TIER_ISOLATED,
     c_tier_reason := Some (''unmap'' @ [CHR 0x27] @ ''s revocation half is the other property Flat disclaims by name '' @ em_dash @ '' the touch after unmap would succeed''),
     c_src := py_join (KERNEL_DIR r) ''main.saw'',
     c_root_pkg := Some (MAP_UNMAP_PKG r),
     c_pool := True,
     c_expect_out := Strings
       [''{banner}'',
        ''SOS: boot regions={one}'',
        ''SOS mapunmap: wrote 0x77 read 119'',
        ''SOS mapunmap: unmapped'',
        ''SOS: fault ''],
     c_expect_clean_exit := False\<rparr>"

definition case_map_into_child :: "string \<Rightarrow> test_case" where
  "case_map_into_child r = blank_case\<lparr>
     c_name := ''map_into_child'',
     c_src := py_join (KERNEL_DIR r) ''main.saw'',
     c_root_pkg := Some (MAP_INTO_CHILD_PKG r),
     c_children := [CHILD_TOUCH_PKG r],
     c_pool := True,
     c_expect_out := Strings
       [''{banner}'',
        ''SOS: boot regions={three}'',
        ''SOS mapchild: created'',
        ''SOS mapchild: mapped a page into it'',
        ''SOS mapchild: started'',
        ''SOS childtouch: wrote 60 read 60'',
        ''SOS: process exit: code={touch_mark} process={one}'',
        ''SOS mapchild: root observed child status=65596'',
        ''SOS mapchild: done''],
     c_expect_clean_exit := True\<rparr>"

definition case_iomemory_carve :: "string \<Rightarrow> test_case" where
  "case_iomemory_carve r = blank_case\<lparr>
     c_name := ''iomemory_carve'',
     c_src := py_join (KERNEL_DIR r) ''main.saw'',
     c_root_pkg := Some (IOMEMORY_CARVE_PKG r),
     c_device := True,
     c_expect_out := Strings
       [''{banner}'',
        ''SOS: boot regions={one}'',
        ''SOS carve: carved twice'',
        ''SOS carve: mapped'',
        ''SOS carve: asking for a window this board cannot grant'',
        ''SOS: process fault: argument outside its domain'',
        ''SOS: process teardown''],
     c_expect_clean_exit := False,
     c_expect_status := Some EXIT_PROCESS_FAULT\<rparr>"

definition table_B :: "string \<Rightarrow> test_case list" where
  "table_B r =
     [case_clock_basics r,
      case_timer_oneshot r,
      case_timer_interval r,
      case_timer_deadlock r,
      case_timer_badclock r,
      case_timer_badrecord r,
      case_event_consume r,
      case_event_consume_wake r,
      case_root_server_oversteps r,
      case_process_lifecycle r,
      case_process_isolation r,
      case_process_badimage r,
      case_process_doublestart r,
      case_process_bootdrain r,
      case_handle_remint r,
      case_handle_release_ungated r,
      case_handle_release_nothing r,
      case_handle_release_twice r,
      case_handle_malformed_word r,
      case_handle_drop_release r,
      case_process_reclaim r,
      case_give_boot_drain r,
      case_give_duplicate_tag r,
      case_give_after_start r,
      case_give_no_transfer r,
      case_start_bad_tag r,
      case_give_word_dead r,
      case_mint_revoked r,
      case_child_no_shutdown r,
      case_memory_split r,
      case_map_basics r,
      case_map_unmap r,
      case_map_into_child r,
      case_iomemory_carve r]"

lemmas case_defs_B =
  case_clock_basics_def
  case_timer_oneshot_def
  case_timer_interval_def
  case_timer_deadlock_def
  case_timer_badclock_def
  case_timer_badrecord_def
  case_event_consume_def
  case_event_consume_wake_def
  case_root_server_oversteps_def
  case_process_lifecycle_def
  case_process_isolation_def
  case_process_badimage_def
  case_process_doublestart_def
  case_process_bootdrain_def
  case_handle_remint_def
  case_handle_release_ungated_def
  case_handle_release_nothing_def
  case_handle_release_twice_def
  case_handle_malformed_word_def
  case_handle_drop_release_def
  case_process_reclaim_def
  case_give_boot_drain_def
  case_give_duplicate_tag_def
  case_give_after_start_def
  case_give_no_transfer_def
  case_start_bad_tag_def
  case_give_word_dead_def
  case_mint_revoked_def
  case_child_no_shutdown_def
  case_memory_split_def
  case_map_basics_def
  case_map_unmap_def
  case_map_into_child_def
  case_iomemory_carve_def

section \<open>Evaluation\<close>

lemma shape_table_B: "map case_shape (table_B r) = map case_shape (table_B [])"
  by (simp add: table_B_def case_defs_B blank_case_def case_shape_def)

lemma wf_closed_B: "list_all case_wf (table_B [])"
  by code_simp

lemma wf_table_B: "list_all case_wf (table_B r)"
  using list_all_shape_cong[where P = case_wf, OF shape_table_B case_wf_shape] wf_closed_B by blast

lemma names_B:
  "map c_name (table_B r) =
     [''clock_basics'',
      ''timer_oneshot'',
      ''timer_interval'',
      ''timer_deadlock'',
      ''timer_badclock'',
      ''timer_badrecord'',
      ''event_consume'',
      ''event_consume_wake'',
      ''root_server_oversteps'',
      ''process_lifecycle'',
      ''process_isolation'',
      ''process_badimage'',
      ''process_doublestart'',
      ''process_bootdrain'',
      ''handle_remint'',
      ''handle_release_ungated'',
      ''handle_release_nothing'',
      ''handle_release_twice'',
      ''handle_malformed_word'',
      ''handle_drop_release'',
      ''process_reclaim'',
      ''give_boot_drain'',
      ''give_duplicate_tag'',
      ''give_after_start'',
      ''give_no_transfer'',
      ''start_bad_tag'',
      ''give_word_dead'',
      ''mint_revoked'',
      ''child_no_shutdown'',
      ''memory_split'',
      ''map_basics'',
      ''map_unmap'',
      ''map_into_child'',
      ''iomemory_carve'']"
  by (simp add: table_B_def case_defs_B blank_case_def)

end
