(* ===== verification/Case_Table_C.thy ===== *)
theory Case_Table_C
  imports Case_Model Test_Packages
begin

text \<open>
  \<^verbatim>\<open>TEST_CASES\<close> of \<^verbatim>\<open>src/tools/sos_runner.py\<close>, entries 69 to 102 of 134, in table order:
  one definition per entry, with the keys the entry writes in the order it writes them.
\<close>

definition case_refcount_free :: "string \<Rightarrow> test_case" where
  "case_refcount_free r = blank_case\<lparr>
     c_name := ''refcount_free'',
     c_src := py_join (KERNEL_DIR r) ''main.saw'',
     c_root_pkg := Some (REFCOUNT_FREE_PKG r),
     c_expect_out := Strings
       [''{banner}'',
        ''SOS refcount: sibling word=42'',
        ''SOS refcount: attached key=77 word=9'',
        ''SOS refcount: done'',
        ''SOS: process teardown handles={five} threads={one} events={zero} waiters={one} interrupts={zero} timers={zero} process={zero}''],
     c_expect_clean_exit := True\<rparr>"

definition case_interrupt_unbind :: "string \<Rightarrow> test_case" where
  "case_interrupt_unbind r = blank_case\<lparr>
     c_name := ''interrupt_unbind'',
     c_src := py_join (KERNEL_DIR r) ''main.saw'',
     c_root_pkg := Some (INTERRUPT_UNBIND_PKG r),
     c_expect_out := Strings
       [''{banner}'',
        ''SOS irqunbind: bound line 5'',
        ''SOS irqunbind: rebound=1'',
        ''SOS: process teardown handles={five} threads={one} events={zero} waiters={zero} interrupts={one} timers={zero} process={zero}''],
     c_expect_clean_exit := True\<rparr>"

definition case_mapping_slot_free :: "string \<Rightarrow> test_case" where
  "case_mapping_slot_free r = blank_case\<lparr>
     c_name := ''mapping_slot_free'',
     c_src := py_join (KERNEL_DIR r) ''main.saw'',
     c_root_pkg := Some (MAPPING_SLOT_FREE_PKG r),
     c_pool := True,
     c_expect_out := Strings
       [''{banner}'',
        ''SOS: boot regions={one}'',
        ''SOS mapfree: rounds=12 refused=0'',
        ''SOS mapfree: husk wrote 94 read 94'',
        ''SOS mapfree: recycled read 94'',
        ''SOS mapfree: done'',
        ''SOS: process teardown''],
     c_expect_clean_exit := True\<rparr>"

definition case_quota_exceeded :: "string \<Rightarrow> test_case" where
  "case_quota_exceeded r = blank_case\<lparr>
     c_name := ''quota_exceeded'',
     c_src := py_join (KERNEL_DIR r) ''main.saw'',
     c_root_pkg := Some (QUOTA_EXCEEDED_PKG r),
     c_children := [CHILD_QUOTA_PKG r],
     c_expect_out := Strings
       [''{banner}'',
        ''SOS: boot regions={two}'',
        ''SOS quotaex: created'',
        ''SOS quotaex: started'',
        ''SOS childquota: made=4 quota=1 resumed=1'',
        ''SOS: process exit: code={four} process={one}'',
        ''SOS: process teardown handles={five} threads={one} events={three} waiters={zero} interrupts={zero} timers={zero} process={one}'',
        ''SOS quotaex: root observed child status=65540'',
        ''SOS quotaex: done''],
     c_expect_clean_exit := True\<rparr>"

definition case_quota_vs_wall :: "string \<Rightarrow> test_case" where
  "case_quota_vs_wall r = blank_case\<lparr>
     c_name := ''quota_vs_wall'',
     c_src := py_join (KERNEL_DIR r) ''main.saw'',
     c_root_pkg := Some (QUOTA_VS_WALL_PKG r),
     c_children := [CHILD_MAPWALL_PKG r],
     c_pool := True,
     c_expect_out := Strings
       [''{banner}'',
        ''SOS: boot regions={three}'',
        ''SOS quotawall: created'',
        ''SOS quotawall: gave a page'',
        ''SOS quotawall: started'',
        ''SOS childmapwall: maps=2 quota=1'',
        ''SOS: process exit: code={two} process={one}'',
        ''SOS quotawall: root observed child status=65538'',
        ''SOS quotawall: done''],
     c_expect_clean_exit := True\<rparr>"

definition case_death_notify :: "string \<Rightarrow> test_case" where
  "case_death_notify r = blank_case\<lparr>
     c_name := ''death_notify'',
     c_src := py_join (KERNEL_DIR r) ''main.saw'',
     c_root_pkg := Some (DEATH_NOTIFY_PKG r),
     c_children := [CHILD_BYE_PKG r],
     c_expect_out := Strings
       [''{banner}'',
        ''SOS: boot regions={two}'',
        ''SOS deathnotify: started'',
        ''SOS bye: exiting'',
        ''SOS: process exit: code={five} process={one}'',
        ''SOS: process teardown handles={two} threads={one} events={zero} waiters={zero} interrupts={zero} timers={zero} process={one}'',
        ''SOS deathnotify: woke key=44 status=65541'',
        ''SOS deathnotify: done''],
     c_expect_clean_exit := True\<rparr>"

definition case_death_fault :: "string \<Rightarrow> test_case" where
  "case_death_fault r = blank_case\<lparr>
     c_name := ''death_fault'',
     c_src := py_join (KERNEL_DIR r) ''main.saw'',
     c_root_pkg := Some (DEATH_FAULT_PKG r),
     c_children := [CHILD_FAULT_PKG r],
     c_expect_out := Strings
       [''{banner}'',
        ''SOS: boot regions={two}'',
        ''SOS deathfault: started'',
        ''SOS: process fault: bad handle process={one}'',
        ''SOS: process teardown handles={zero} threads={one} events={zero} waiters={zero} interrupts={zero} timers={zero} process={one}'',
        ''SOS deathfault: woke key=45 status=131073'',
        ''SOS deathfault: child syscalls=1 faults=0'',
        ''SOS deathfault: done''],
     c_expect_clean_exit := True\<rparr>"

definition case_death_late_attach :: "string \<Rightarrow> test_case" where
  "case_death_late_attach r = blank_case\<lparr>
     c_name := ''death_late_attach'',
     c_src := py_join (KERNEL_DIR r) ''main.saw'',
     c_root_pkg := Some (DEATH_LATE_ATTACH_PKG r),
     c_children := [CHILD_BYE_PKG r],
     c_expect_out := Strings
       [''{banner}'',
        ''SOS: boot regions={two}'',
        ''SOS deathlate: started'',
        ''SOS bye: exiting'',
        ''SOS: process exit: code={five} process={one}'',
        ''SOS: process teardown handles={two} threads={one} events={zero} waiters={zero} interrupts={zero} timers={zero} process={one}'',
        ''SOS deathlate: first=65541 second=65541'',
        ''SOS deathlate: held=1 freed=1'',
        ''SOS deathlate: done''],
     c_expect_clean_exit := True\<rparr>"

definition case_child_echo_ns16550 :: "string \<Rightarrow> test_case" where
  "case_child_echo_ns16550 r = blank_case\<lparr>
     c_name := ''child_echo_ns16550'',
     c_arches := Some [''riscv32'', ''riscv32-flat''],
     c_src := py_join (KERNEL_DIR r) ''main.saw'',
     c_root_pkg := Some (DRIVER_CHILD_PKG r),
     c_children := [CHILD_ECHO_NS16550_PKG r],
     c_device := True,
     c_stdin := Some ECHO_INPUT,
     c_expect_out := Strings
       [''{banner}'',
        ''root image ok segments={two}'',
        ''SOS: boot regions={three}'',
        ''SOS: console handover'',
        ''SOS driverchild: created'',
        ''SOS driverchild: gave the window'',
        ''SOS driverchild: started'',
        ''SOS echo: window mapped'',
        ''SOS echo: driver up'',
        ECHO_INPUT,
        ''SOS echo: done 4 bytes on line 10'',
        ''SOS: process teardown handles={six} threads={one} events={zero} waiters={one} interrupts={one} timers={zero} process={one}'',
        ''SOS driverchild: root observed child status=65536'',
        ''SOS driverchild: done''],
     c_expect_clean_exit := True\<rparr>"

definition case_child_echo_pl011 :: "string \<Rightarrow> test_case" where
  "case_child_echo_pl011 r = blank_case\<lparr>
     c_name := ''child_echo_pl011'',
     c_arches := Some [''arm64''],
     c_src := py_join (KERNEL_DIR r) ''main.saw'',
     c_root_pkg := Some (DRIVER_CHILD_PKG r),
     c_children := [CHILD_ECHO_PL011_PKG r],
     c_device := True,
     c_stdin := Some ECHO_INPUT,
     c_expect_out := Strings
       [''{banner}'',
        ''root image ok segments={two}'',
        ''SOS: boot regions={three}'',
        ''SOS: console handover'',
        ''SOS driverchild: created'',
        ''SOS driverchild: gave the window'',
        ''SOS driverchild: started'',
        ''SOS echo: window mapped'',
        ''SOS echo: driver up'',
        ECHO_INPUT,
        ''SOS echo: done 4 bytes on line 33'',
        ''SOS: process teardown handles={six} threads={one} events={zero} waiters={one} interrupts={one} timers={zero} process={one}'',
        ''SOS driverchild: root observed child status=65536'',
        ''SOS driverchild: done''],
     c_expect_clean_exit := True\<rparr>"

definition case_share_double_map :: "string \<Rightarrow> test_case" where
  "case_share_double_map r = blank_case\<lparr>
     c_name := ''share_double_map'',
     c_src := py_join (KERNEL_DIR r) ''main.saw'',
     c_root_pkg := Some (SHARE_DOUBLE_MAP_PKG r),
     c_children := [CHILD_SHARE_PKG r],
     c_pool := True,
     c_expect_out := Strings
       [''{banner}'',
        ''SOS: boot regions={three}'',
        ''SOS sharemap: created'',
        ''SOS sharemap: mapped into both'',
        ''SOS sharemap: wrote 165'',
        ''SOS sharemap: started'',
        ''SOS childshare: saw 165 wrote 90'',
        ''SOS: process exit: code={share_mark} process={one}'',
        ''SOS: process teardown handles={two} threads={one} events={zero} waiters={zero} interrupts={zero} timers={zero} process={one}'',
        ''SOS sharemap: root observed child status=65701'',
        ''SOS sharemap: read back 90'',
        ''SOS sharemap: done''],
     c_expect_clean_exit := True\<rparr>"

definition case_map_exec_gated :: "string \<Rightarrow> test_case" where
  "case_map_exec_gated r = blank_case\<lparr>
     c_name := ''map_exec_gated'',
     c_src := py_join (KERNEL_DIR r) ''main.saw'',
     c_root_pkg := Some (MAP_EXEC_GATED_PKG r),
     c_pool := True,
     c_expect_out := Strings
       [''{banner}'',
        ''SOS: boot regions={one}'',
        ''SOS execgate: mapped executable'',
        ''SOS execgate: minted a sibling without MapExecute'',
        ''SOS execgate: the sibling maps read-write'',
        ''SOS execgate: asking for execute through it'',
        ''SOS: process fault: access denied'',
        ''SOS: process teardown handles={nine} threads={one} events={zero} waiters={zero} interrupts={zero} timers={zero} process={zero}''],
     c_expect_clean_exit := False,
     c_expect_status := Some EXIT_PROCESS_FAULT\<rparr>"

definition case_map_wx_refused :: "string \<Rightarrow> test_case" where
  "case_map_wx_refused r = blank_case\<lparr>
     c_name := ''map_wx_refused'',
     c_src := py_join (KERNEL_DIR r) ''main.saw'',
     c_root_pkg := Some (MAP_WX_REFUSED_PKG r),
     c_pool := True,
     c_expect_out := Strings
       [''{banner}'',
        ''SOS: boot regions={one}'',
        ''SOS mapwx: read-write here, wrote 107 read 107'',
        ''SOS mapwx: read-execute there: one region, two rows'',
        ''SOS mapwx: asking for write and execute in one row'',
        ''SOS: process fault: argument outside its domain'',
        ''SOS: process teardown handles={eight} threads={one} events={zero} waiters={zero} interrupts={zero} timers={zero} process={zero}''],
     c_expect_clean_exit := False,
     c_expect_status := Some EXIT_PROCESS_FAULT\<rparr>"

definition case_waiter_revoked :: "string \<Rightarrow> test_case" where
  "case_waiter_revoked r = blank_case\<lparr>
     c_name := ''waiter_revoked'',
     c_src := py_join (KERNEL_DIR r) ''main.saw'',
     c_root_pkg := Some (WAITER_REVOKED_PKG r),
     c_expect_out := Strings
       [''{banner}'',
        ''SOS revoked: a parking'',
        ''SOS revoked: b parking'',
        ''SOS revoked: sibling released, nobody woke'',
        ''SOS revoked: b woke: what this call was waiting for is gone'',
        ''SOS revoked: a woke: what this call was waiting for is gone'',
        ''SOS revoked: joined a=41 b=42'',
        ''events={zero} waiters={zero} interrupts={zero} timers={zero}''],
     c_expect_clean_exit := True\<rparr>"

definition case_pipe_basics :: "string \<Rightarrow> test_case" where
  "case_pipe_basics r = blank_case\<lparr>
     c_name := ''pipe_basics'',
     c_src := py_join (KERNEL_DIR r) ''main.saw'',
     c_root_pkg := Some (PIPE_BASICS_PKG r),
     c_expect_out := Strings
       [''{banner}'',
        ''SOS pipebasics: created'',
        ''SOS pipebasics: round trip len=3 b=65,66,67'',
        ''SOS pipebasics: fifo order=123'',
        ''SOS pipebasics: empty message len=0'',
        ''SOS pipebasics: ring depth=16'',
        ''SOS pipebasics: drained=16'',
        ''SOS pipebasics: take empty is none'',
        ''SOS pipebasics: done''],
     c_expect_clean_exit := True\<rparr>"

definition case_pipe_peer_gone :: "string \<Rightarrow> test_case" where
  "case_pipe_peer_gone r = blank_case\<lparr>
     c_name := ''pipe_peer_gone'',
     c_src := py_join (KERNEL_DIR r) ''main.saw'',
     c_root_pkg := Some (PIPE_PEER_GONE_PKG r),
     c_expect_out := Strings
       [''{banner}'',
        ''SOS peergone: outlet dropped'',
        ''SOS peergone: post says the other end of this connection is gone'',
        ''SOS peergone: staged 2'',
        ''SOS peergone: inlet dropped'',
        ''SOS peergone: drained a=7 b=8'',
        ''SOS peergone: take says the other end of this connection is gone'',
        ''SOS peergone: again says the other end of this connection is gone'',
        ''SOS peergone: done''],
     c_expect_clean_exit := True\<rparr>"

definition case_pipe_child :: "string \<Rightarrow> test_case" where
  "case_pipe_child r = blank_case\<lparr>
     c_name := ''pipe_child'',
     c_src := py_join (KERNEL_DIR r) ''main.saw'',
     c_root_pkg := Some (PIPE_CHILD_PKG r),
     c_children := [CHILD_POST_PKG r],
     c_expect_out := Strings
       [''{banner}'',
        ''SOS: boot regions={two}'',
        ''SOS pipechild: created'',
        ''SOS pipechild: gave the inlet'',
        ''SOS pipechild: started'',
        ''SOS childpost: posted'',
        ''SOS: process exit: code={four} process={one}'',
        ''SOS: process teardown handles={two} threads={one} events={zero} waiters={zero} interrupts={zero} timers={zero} process={one}'',
        ''SOS pipechild: received len=4 b=80,73,80,69'',
        ''SOS pipechild: done''],
     c_expect_clean_exit := True\<rparr>"

definition case_pipe_no_post :: "string \<Rightarrow> test_case" where
  "case_pipe_no_post r = blank_case\<lparr>
     c_name := ''pipe_no_post'',
     c_src := py_join (KERNEL_DIR r) ''main.saw'',
     c_root_pkg := Some (PIPE_NO_POST_PKG r),
     c_expect_out := Strings
       [''{banner}'',
        ''SOS nopost: minted without Post'',
        ''SOS: process fault: access denied process={zero}'',
        ''SOS: process teardown handles=''],
     c_expect_clean_exit := False,
     c_expect_status := Some EXIT_PROCESS_FAULT\<rparr>"

definition case_pipe_oversized :: "string \<Rightarrow> test_case" where
  "case_pipe_oversized r = blank_case\<lparr>
     c_name := ''pipe_oversized'',
     c_src := py_join (KERNEL_DIR r) ''main.saw'',
     c_root_pkg := Some (PIPE_OVERSIZED_PKG r),
     c_expect_out := Strings
       [''{banner}'',
        ''SOS oversized: asking for 129'',
        ''SOS: process fault: argument outside its domain process={zero}'',
        ''SOS: process teardown handles=''],
     c_expect_clean_exit := False,
     c_expect_status := Some EXIT_PROCESS_FAULT\<rparr>"

definition case_pipe_oneshot :: "string \<Rightarrow> test_case" where
  "case_pipe_oneshot r = blank_case\<lparr>
     c_name := ''pipe_oneshot'',
     c_src := py_join (KERNEL_DIR r) ''main.saw'',
     c_root_pkg := Some (PIPE_ONESHOT_PKG r),
     c_expect_out := Strings
       [''{banner}'',
        ''SOS oneshot: created'',
        ''SOS oneshot: request len=3 b=65,66,67'',
        ''SOS oneshot: pending is not ready'',
        ''SOS oneshot: reply len=2 b=90,89'',
        ''SOS oneshot: zero reply len=0'',
        ''SOS oneshot: the exchange cost 5 traps'',
        ''SOS oneshot: fifo replies a=11 b=22 c=33'',
        ''SOS oneshot: depth with one in flight=15'',
        ''SOS oneshot: depth settled=16'',
        ''SOS oneshot: done''],
     c_expect_clean_exit := True\<rparr>"

definition case_pipe_abandon :: "string \<Rightarrow> test_case" where
  "case_pipe_abandon r = blank_case\<lparr>
     c_name := ''pipe_abandon'',
     c_src := py_join (KERNEL_DIR r) ''main.saw'',
     c_root_pkg := Some (PIPE_ABANDON_PKG r),
     c_expect_out := Strings
       [''{banner}'',
        ''SOS abandon: created'',
        ''SOS abandon: reply says the other end of this connection is gone'',
        ''SOS abandon: resolve says the other end of this connection is gone'',
        ''SOS abandon: staged claim says the other end of this connection is gone'',
        ''SOS abandon: done''],
     c_expect_clean_exit := True\<rparr>"

definition case_pipe_delegate :: "string \<Rightarrow> test_case" where
  "case_pipe_delegate r = blank_case\<lparr>
     c_name := ''pipe_delegate'',
     c_src := py_join (KERNEL_DIR r) ''main.saw'',
     c_root_pkg := Some (PIPE_DELEGATE_PKG r),
     c_children := [CHILD_REPLY_PKG r],
     c_expect_out := Strings
       [''{banner}'',
        ''SOS: boot regions={two}'',
        ''SOS delegate: created'',
        ''SOS delegate: gave the request'',
        ''SOS childreply: replied'',
        ''SOS: process exit: code={four} process={one}'',
        ''SOS: process teardown handles={two} threads={one} events={zero} waiters={zero} interrupts={zero} timers={zero} process={one}'',
        ''SOS delegate: reply len=4 b=68,79,78,69'',
        ''SOS delegate: done''],
     c_expect_clean_exit := True\<rparr>"

definition case_pipe_no_reply :: "string \<Rightarrow> test_case" where
  "case_pipe_no_reply r = blank_case\<lparr>
     c_name := ''pipe_no_reply'',
     c_src := py_join (KERNEL_DIR r) ''main.saw'',
     c_root_pkg := Some (PIPE_NO_REPLY_PKG r),
     c_expect_out := Strings
       [''{banner}'',
        ''SOS noreply: minting a sibling of an obligation'',
        ''SOS: process fault: access denied process={zero}'',
        ''SOS: process teardown handles=''],
     c_expect_clean_exit := False,
     c_expect_status := Some EXIT_PROCESS_FAULT\<rparr>"

definition case_pipe_big_reply :: "string \<Rightarrow> test_case" where
  "case_pipe_big_reply r = blank_case\<lparr>
     c_name := ''pipe_big_reply'',
     c_src := py_join (KERNEL_DIR r) ''main.saw'',
     c_root_pkg := Some (PIPE_BIG_REPLY_PKG r),
     c_expect_out := Strings
       [''{banner}'',
        ''SOS bigreply: asking for 129'',
        ''SOS: process fault: argument outside its domain process={zero}'',
        ''SOS: process teardown handles=''],
     c_expect_clean_exit := False,
     c_expect_status := Some EXIT_PROCESS_FAULT\<rparr>"

definition case_pipe_dead_claim :: "string \<Rightarrow> test_case" where
  "case_pipe_dead_claim r = blank_case\<lparr>
     c_name := ''pipe_dead_claim'',
     c_src := py_join (KERNEL_DIR r) ''main.saw'',
     c_root_pkg := Some (PIPE_DEAD_CLAIM_PKG r),
     c_expect_out := Strings
       [''{banner}'',
        ''SOS deadclaim: the server let its obligation go'',
        ''SOS deadclaim: ready says the other end of this connection is gone'',
        ''SOS deadclaim: claim dropped unresolved'',
        ''SOS deadclaim: minting a sibling of a one-shot'',
        ''SOS: process fault: access denied process={zero}'',
        ''SOS: process teardown handles=''],
     c_expect_clean_exit := False,
     c_expect_status := Some EXIT_PROCESS_FAULT\<rparr>"

definition case_pipe_wait_reply :: "string \<Rightarrow> test_case" where
  "case_pipe_wait_reply r = blank_case\<lparr>
     c_name := ''pipe_wait_reply'',
     c_src := py_join (KERNEL_DIR r) ''main.saw'',
     c_root_pkg := Some (PIPE_WAIT_REPLY_PKG r),
     c_expect_out := Strings
       [''{banner}'',
        ''SOS waitreply: created'',
        ''SOS waitreply: reply len=2 b=90,89'',
        ''SOS waitreply: after delivery the other end of this connection is gone'',
        ''SOS waitreply: keyed a=11 b=22'',
        ''SOS waitreply: done''],
     c_expect_clean_exit := True\<rparr>"

definition case_pipe_wait_give :: "string \<Rightarrow> test_case" where
  "case_pipe_wait_give r = blank_case\<lparr>
     c_name := ''pipe_wait_give'',
     c_src := py_join (KERNEL_DIR r) ''main.saw'',
     c_root_pkg := Some (PIPE_WAIT_GIVE_PKG r),
     c_expect_out := Strings
       [''{banner}'',
        ''SOS waitgive: created'',
        ''SOS waitgive: given reply len=1 b=7'',
        ''SOS waitgive: depth after delivery=16'',
        ''SOS waitgive: cancelled reply says the other end of this connection is gone'',
        ''SOS waitgive: done''],
     c_expect_clean_exit := True\<rparr>"

definition case_pipe_wait_room :: "string \<Rightarrow> test_case" where
  "case_pipe_wait_room r = blank_case\<lparr>
     c_name := ''pipe_wait_room'',
     c_src := py_join (KERNEL_DIR r) ''main.saw'',
     c_root_pkg := Some (PIPE_WAIT_ROOM_PKG r),
     c_expect_out := Strings
       [''{banner}'',
        ''SOS waitroom: created'',
        ''SOS waitroom: filled=16 then room says there is space'',
        ''SOS waitroom: room says the peer is gone'',
        ''SOS waitroom: done''],
     c_expect_clean_exit := True\<rparr>"

definition case_pipe_wait_server :: "string \<Rightarrow> test_case" where
  "case_pipe_wait_server r = blank_case\<lparr>
     c_name := ''pipe_wait_server'',
     c_src := py_join (KERNEL_DIR r) ''main.saw'',
     c_root_pkg := Some (PIPE_WAIT_SERVER_PKG r),
     c_expect_out := Strings
       [''{banner}'',
        ''SOS waitserver: created'',
        ''SOS waitserver: readable says a message'',
        ''SOS waitserver: readable says the peer is gone'',
        ''SOS waitserver: abandoned'',
        ''SOS waitserver: done''],
     c_expect_clean_exit := True\<rparr>"

definition case_pipe_send_manual :: "string \<Rightarrow> test_case" where
  "case_pipe_send_manual r = blank_case\<lparr>
     c_name := ''pipe_send_manual'',
     c_src := py_join (KERNEL_DIR r) ''main.saw'',
     c_root_pkg := Some (PIPE_SEND_MANUAL_PKG r),
     c_children := [CHILD_SERVER_PKG r],
     c_expect_out := Strings
       [''{banner}'',
        ''SOS: boot regions={two}'',
        ''SOS sendmanual: gave the outlet'',
        ''SOS childserver: replied'',
        ''SOS sendmanual: reply len=4 b=80,79,78,71'',
        ''SOS sendmanual: the round trip cost 4 traps'',
        ''SOS: process exit: code={four} process={one}'',
        ''SOS: process teardown handles={four} threads={one} events={zero} waiters={one} interrupts={zero} timers={zero} process={one}'',
        ''SOS sendmanual: fused reply len=4 b=80,79,78,71'',
        ''SOS sendmanual: ops manual=3 fused=1'',
        ''SOS sendmanual: filled=16 then room says there is space'',
        ''SOS sendmanual: timed out'',
        ''SOS sendmanual: after cancel the other end of this connection is gone'',
        ''SOS sendmanual: done''],
     c_expect_clean_exit := True\<rparr>"

definition case_pipe_no_wait :: "string \<Rightarrow> test_case" where
  "case_pipe_no_wait r = blank_case\<lparr>
     c_name := ''pipe_no_wait'',
     c_src := py_join (KERNEL_DIR r) ''main.saw'',
     c_root_pkg := Some (PIPE_NO_WAIT_PKG r),
     c_expect_out := Strings
       [''{banner}'',
        ''SOS nowait: minted without Wait'',
        ''SOS: process fault: access denied process={zero}'',
        ''SOS: process teardown handles=''],
     c_expect_clean_exit := False,
     c_expect_status := Some EXIT_PROCESS_FAULT\<rparr>"

definition case_pipe_bad_mode :: "string \<Rightarrow> test_case" where
  "case_pipe_bad_mode r = blank_case\<lparr>
     c_name := ''pipe_bad_mode'',
     c_src := py_join (KERNEL_DIR r) ''main.saw'',
     c_root_pkg := Some (PIPE_BAD_MODE_PKG r),
     c_expect_out := Strings
       [''{banner}'',
        ''SOS badmode: asking for flags 4'',
        ''SOS: process fault: argument outside its domain process={zero}'',
        ''SOS: process teardown handles=''],
     c_expect_clean_exit := False,
     c_expect_status := Some EXIT_PROCESS_FAULT\<rparr>"

definition case_process_stats :: "string \<Rightarrow> test_case" where
  "case_process_stats r = blank_case\<lparr>
     c_name := ''process_stats'',
     c_src := py_join (KERNEL_DIR r) ''main.saw'',
     c_root_pkg := Some (PROCESS_STATS_PKG r),
     c_children := [CHILD_STATS_PKG r],
     c_expect_out := Strings
       [''{banner}'',
        ''SOS: boot regions={two}'',
        ''SOS stats: self delta=9 over 8 probes'',
        ''SOS: process exit: code={seven} process={one}'',
        ''SOS stats: child syscalls=8 faults=0'',
        ''SOS stats: minted without Stats'',
        ''SOS: process fault: access denied process={zero}'',
        ''SOS: process teardown handles=''],
     c_expect_clean_exit := False,
     c_expect_status := Some EXIT_PROCESS_FAULT\<rparr>"

definition case_pipe_pingpong :: "string \<Rightarrow> test_case" where
  "case_pipe_pingpong r = blank_case\<lparr>
     c_name := ''pipe_pingpong'',
     c_src := py_join (KERNEL_DIR r) ''main.saw'',
     c_root_pkg := Some (PIPE_PINGPONG_PKG r),
     c_children := [CHILD_PINGPONG_PKG r],
     c_expect_out := Strings
       [''{banner}'',
        ''SOS: boot regions={two}'',
        ''SOS: process exit: code={pingpong_mark} process={one}'',
        ''SOS pingpong: served=8 last request b=7,80,73,78'',
        ''SOS pingpong: client traps=11 for 8 round trips'',
        ''SOS pingpong: server traps=18 for 8 messages'',
        ''SOS pingpong: per RPC client=1 server=2''],
     c_expect_clean_exit := True\<rparr>"

definition table_C :: "string \<Rightarrow> test_case list" where
  "table_C r =
     [case_refcount_free r,
      case_interrupt_unbind r,
      case_mapping_slot_free r,
      case_quota_exceeded r,
      case_quota_vs_wall r,
      case_death_notify r,
      case_death_fault r,
      case_death_late_attach r,
      case_child_echo_ns16550 r,
      case_child_echo_pl011 r,
      case_share_double_map r,
      case_map_exec_gated r,
      case_map_wx_refused r,
      case_waiter_revoked r,
      case_pipe_basics r,
      case_pipe_peer_gone r,
      case_pipe_child r,
      case_pipe_no_post r,
      case_pipe_oversized r,
      case_pipe_oneshot r,
      case_pipe_abandon r,
      case_pipe_delegate r,
      case_pipe_no_reply r,
      case_pipe_big_reply r,
      case_pipe_dead_claim r,
      case_pipe_wait_reply r,
      case_pipe_wait_give r,
      case_pipe_wait_room r,
      case_pipe_wait_server r,
      case_pipe_send_manual r,
      case_pipe_no_wait r,
      case_pipe_bad_mode r,
      case_process_stats r,
      case_pipe_pingpong r]"

lemmas case_defs_C =
  case_refcount_free_def
  case_interrupt_unbind_def
  case_mapping_slot_free_def
  case_quota_exceeded_def
  case_quota_vs_wall_def
  case_death_notify_def
  case_death_fault_def
  case_death_late_attach_def
  case_child_echo_ns16550_def
  case_child_echo_pl011_def
  case_share_double_map_def
  case_map_exec_gated_def
  case_map_wx_refused_def
  case_waiter_revoked_def
  case_pipe_basics_def
  case_pipe_peer_gone_def
  case_pipe_child_def
  case_pipe_no_post_def
  case_pipe_oversized_def
  case_pipe_oneshot_def
  case_pipe_abandon_def
  case_pipe_delegate_def
  case_pipe_no_reply_def
  case_pipe_big_reply_def
  case_pipe_dead_claim_def
  case_pipe_wait_reply_def
  case_pipe_wait_give_def
  case_pipe_wait_room_def
  case_pipe_wait_server_def
  case_pipe_send_manual_def
  case_pipe_no_wait_def
  case_pipe_bad_mode_def
  case_process_stats_def
  case_pipe_pingpong_def

section \<open>Evaluation\<close>

lemma shape_table_C: "map case_shape (table_C r) = map case_shape (table_C [])"
  by (simp add: table_C_def case_defs_C blank_case_def case_shape_def)

lemma wf_closed_C: "list_all case_wf (table_C [])"
  by code_simp

lemma wf_table_C: "list_all case_wf (table_C r)"
  using list_all_shape_cong[where P = case_wf, OF shape_table_C case_wf_shape] wf_closed_C by blast

lemma names_C:
  "map c_name (table_C r) =
     [''refcount_free'',
      ''interrupt_unbind'',
      ''mapping_slot_free'',
      ''quota_exceeded'',
      ''quota_vs_wall'',
      ''death_notify'',
      ''death_fault'',
      ''death_late_attach'',
      ''child_echo_ns16550'',
      ''child_echo_pl011'',
      ''share_double_map'',
      ''map_exec_gated'',
      ''map_wx_refused'',
      ''waiter_revoked'',
      ''pipe_basics'',
      ''pipe_peer_gone'',
      ''pipe_child'',
      ''pipe_no_post'',
      ''pipe_oversized'',
      ''pipe_oneshot'',
      ''pipe_abandon'',
      ''pipe_delegate'',
      ''pipe_no_reply'',
      ''pipe_big_reply'',
      ''pipe_dead_claim'',
      ''pipe_wait_reply'',
      ''pipe_wait_give'',
      ''pipe_wait_room'',
      ''pipe_wait_server'',
      ''pipe_send_manual'',
      ''pipe_no_wait'',
      ''pipe_bad_mode'',
      ''process_stats'',
      ''pipe_pingpong'']"
  by (simp add: table_C_def case_defs_C blank_case_def)

end
