(* ===== verification/Case_Table_D.thy ===== *)
theory Case_Table_D
  imports Case_Model Test_Packages
begin

text \<open>
  \<^verbatim>\<open>TEST_CASES\<close> of \<^verbatim>\<open>src/tools/sos_runner.py\<close>, entries 103 to 134 of 134, in table order:
  one definition per entry, with the keys the entry writes in the order it writes them.
\<close>

definition case_pipe_call_abandon :: "string \<Rightarrow> test_case" where
  "case_pipe_call_abandon r = blank_case\<lparr>
     c_name := ''pipe_call_abandon'',
     c_src := py_join (KERNEL_DIR r) ''main.saw'',
     c_root_pkg := Some (PIPE_CALL_ABANDON_PKG r),
     c_children := [CHILD_CALLER_PKG r],
     c_expect_out := Strings
       [''{banner}'',
        ''SOS: boot regions={two}'',
        ''SOS childcaller: calling'',
        ''SOS callabandon: dropped the obligation'',
        ''SOS callabandon: closed the server end'',
        ''SOS: process exit: code={caller_mark} process={one}'',
        ''SOS callabandon: child said both were closed''],
     c_expect_clean_exit := True\<rparr>"

definition case_pipe_call_orphan :: "string \<Rightarrow> test_case" where
  "case_pipe_call_orphan r = blank_case\<lparr>
     c_name := ''pipe_call_orphan'',
     c_src := py_join (KERNEL_DIR r) ''main.saw'',
     c_root_pkg := Some (PIPE_CALL_ORPHAN_PKG r),
     c_children := [CHILD_ORPHAN_PKG r],
     c_expect_out := Strings
       [''{banner}'',
        ''SOS: boot regions={two}'',
        ''SOS callorphan: two calls in flight'',
        ''SOS callorphan: answered one'',
        ''SOS: process exit: code={orphan_mark} process={one}'',
        ''SOS callorphan: the orphaned claim answers the other end of this connection is gone''],
     c_expect_clean_exit := True\<rparr>"

definition case_pipe_no_call :: "string \<Rightarrow> test_case" where
  "case_pipe_no_call r = blank_case\<lparr>
     c_name := ''pipe_no_call'',
     c_src := py_join (KERNEL_DIR r) ''main.saw'',
     c_root_pkg := Some (PIPE_NO_CALL_PKG r),
     c_expect_out := Strings
       [''{banner}'',
        ''SOS nocall: minted without Post'',
        ''SOS: process fault: access denied process={zero}''],
     c_expect_clean_exit := False,
     c_expect_status := Some EXIT_PROCESS_FAULT\<rparr>"

definition case_pipe_call_oversized :: "string \<Rightarrow> test_case" where
  "case_pipe_call_oversized r = blank_case\<lparr>
     c_name := ''pipe_call_oversized'',
     c_src := py_join (KERNEL_DIR r) ''main.saw'',
     c_root_pkg := Some (PIPE_CALL_OVERSIZED_PKG r),
     c_expect_out := Strings
       [''{banner}'',
        ''SOS calloversized: calling with 129 bytes'',
        ''SOS: process fault: argument outside its domain process={zero}''],
     c_expect_clean_exit := False,
     c_expect_status := Some EXIT_PROCESS_FAULT\<rparr>"

definition case_pipe_reply_wait_dead :: "string \<Rightarrow> test_case" where
  "case_pipe_reply_wait_dead r = blank_case\<lparr>
     c_name := ''pipe_reply_wait_dead'',
     c_src := py_join (KERNEL_DIR r) ''main.saw'',
     c_root_pkg := Some (PIPE_REPLY_WAIT_DEAD_PKG r),
     c_expect_out := Strings
       [''{banner}'',
        ''SOS replywaitdead: the client let its claim go'',
        ''SOS replywaitdead: reply_wait says the reply did not land: the other end of this connection is gone'',
        ''SOS replywaitdead: done''],
     c_expect_clean_exit := True\<rparr>"

definition case_pipe_send_exit :: "string \<Rightarrow> test_case" where
  "case_pipe_send_exit r = blank_case\<lparr>
     c_name := ''pipe_send_exit'',
     c_src := py_join (KERNEL_DIR r) ''main.saw'',
     c_root_pkg := Some (PIPE_SEND_EXIT_PKG r),
     c_children := [CHILD_SENDER_PKG r],
     c_expect_out := Strings
       [''{banner}'',
        ''SOS: boot regions={two}'',
        ''SOS sendexit: created'',
        ''SOS: process teardown handles={two} threads={one} events={zero} waiters={zero} interrupts={zero} timers={zero} process={one}'',
        ''SOS sendexit: the sender is gone'',
        (''SOS sendexit: the dead sender'' @ [CHR 0x27] @ ''s capability still works'')],
     c_expect_clean_exit := True\<rparr>"

definition case_pipe_table_full :: "string \<Rightarrow> test_case" where
  "case_pipe_table_full r = blank_case\<lparr>
     c_name := ''pipe_table_full'',
     c_src := py_join (KERNEL_DIR r) ''main.saw'',
     c_root_pkg := Some (PIPE_TABLE_FULL_PKG r),
     c_expect_out := Strings
       [''{banner}'',
        ''SOS tablefull: probes=7 of 7'',
        ''SOS tablefull: one free slot is not enough, two deliver both''],
     c_expect_clean_exit := True\<rparr>"

definition case_pipe_handles :: "string \<Rightarrow> test_case" where
  "case_pipe_handles r = blank_case\<lparr>
     c_name := ''pipe_handles'',
     c_src := py_join (KERNEL_DIR r) ''main.saw'',
     c_root_pkg := Some (PIPE_HANDLES_PKG r),
     c_children := [CHILD_HANDLES_PKG r],
     c_expect_out := Strings
       [''{banner}'',
        ''SOS: boot regions={two}'',
        (''SOS handles: the post moved the entry and the take was the child'' @ [CHR 0x27] @ ''s''),
        ''SOS handles: the answer came back through the subscription''],
     c_expect_clean_exit := True\<rparr>"

definition case_pipe_delegate_msg :: "string \<Rightarrow> test_case" where
  "case_pipe_delegate_msg r = blank_case\<lparr>
     c_name := ''pipe_delegate_msg'',
     c_src := py_join (KERNEL_DIR r) ''main.saw'',
     c_root_pkg := Some (PIPE_DELEGATE_MSG_PKG r),
     c_children := [CHILD_HANDLES_PKG r],
     c_expect_out := Strings
       [''{banner}'',
        ''SOS: boot regions={two}'',
        ''SOS delegatemsg: forwarded the obligation'',
        ''SOS delegatemsg: reply len=4 b=68,79,78,69'',
        ''SOS delegatemsg: the answer came from a process root never told about the pipe'',
        ''SOS delegatemsg: the reply carried an end back''],
     c_expect_clean_exit := True\<rparr>"

definition case_pipe_cq :: "string \<Rightarrow> test_case" where
  "case_pipe_cq r = blank_case\<lparr>
     c_name := ''pipe_cq'',
     c_src := py_join (KERNEL_DIR r) ''main.saw'',
     c_root_pkg := Some (PIPE_CQ_PKG r),
     c_children := [CHILD_PINGPONG_PKG r],
     c_expect_out := Strings
       [''{banner}'',
        ''SOS: boot regions={two}'',
        ''SOS cq: served=8 last request b=7,80,73,78'',
        ''SOS cq: server traps=10 for 8 messages'',
        ''SOS cq: per RPC client=1 server=1'',
        ''SOS cq: the delivery was the take''],
     c_expect_clean_exit := True\<rparr>"

definition case_give_keep_mask :: "string \<Rightarrow> test_case" where
  "case_give_keep_mask r = blank_case\<lparr>
     c_name := ''give_keep_mask'',
     c_src := py_join (KERNEL_DIR r) ''main.saw'',
     c_root_pkg := Some (GIVE_KEEP_MASK_PKG r),
     c_children := [CHILD_NARROW_PKG r],
     c_expect_out := Strings
       [''{banner}'',
        ''SOS: boot regions={two}'',
        ''SOS childnarrow: posted through the wide end'',
        ''SOS keepmask: a bit the source lacks was ignored, not refused'',
        ''SOS keepmask: the narrowed end could not post'',
        ''SOS keepmask: derived a Process handle without Stats'',
        ''SOS: process fault: access denied process={zero}''],
     c_expect_clean_exit := False,
     c_expect_status := Some EXIT_PROCESS_FAULT\<rparr>"

definition case_pipe_resolve_park :: "string \<Rightarrow> test_case" where
  "case_pipe_resolve_park r = blank_case\<lparr>
     c_name := ''pipe_resolve_park'',
     c_src := py_join (KERNEL_DIR r) ''main.saw'',
     c_root_pkg := Some (PIPE_RESOLVE_PARK_PKG r),
     c_children := [CHILD_SERVER_PKG r],
     c_expect_out := Strings
       [''{banner}'',
        ''SOS: boot regions={two}'',
        ''SOS resolvepark: gave the outlet'',
        ''SOS childserver: replied'',
        ''SOS resolvepark: reply len=4 b=80,79,78,71'',
        ''SOS resolvepark: fused reply len=4 b=80,79,78,71'',
        ''SOS resolvepark: ops resolve=2 fused=1'',
        ''SOS resolvepark: done''],
     c_expect_clean_exit := True\<rparr>"

definition case_pipe_resolve_orphan :: "string \<Rightarrow> test_case" where
  "case_pipe_resolve_orphan r = blank_case\<lparr>
     c_name := ''pipe_resolve_orphan'',
     c_src := py_join (KERNEL_DIR r) ''main.saw'',
     c_root_pkg := Some (PIPE_RESOLVE_ORPHAN_PKG r),
     c_children := [CHILD_RESOLVER_PKG r],
     c_expect_out := Strings
       [''{banner}'',
        ''SOS: boot regions={two}'',
        ''SOS resolveorphan: two resolves in flight'',
        ''SOS resolveorphan: answered one'',
        ''SOS: process exit: code={resolve_orphan_mark} process={one}'',
        ''SOS resolveorphan: the orphaned claim answers the other end of this connection is gone''],
     c_expect_clean_exit := True\<rparr>"

definition case_uart_service_ns16550 :: "string \<Rightarrow> test_case" where
  "case_uart_service_ns16550 r = blank_case\<lparr>
     c_name := ''uart_service_ns16550'',
     c_arches := Some [''riscv32'', ''riscv32-flat''],
     c_src := py_join (KERNEL_DIR r) ''main.saw'',
     c_root_pkg := Some (UART_SERVICE_PKG r),
     c_children := [SVC_UART_NS16550_PKG r, SVC_CLIENT_PKG r],
     c_device := True,
     c_stdin := Some ECHO_INPUT,
     c_expect_out := Strings
       [''{banner}'',
        ''root image ok segments={two}'',
        ''SOS: boot regions={five}'',
        ''SOS: console handover'',
        ''SOS uartsvc: created'',
        ''SOS uartsvc: driver started'',
        ''SOS uartsvc: read posted'',
        ''SOS uartsvc: client started'',
        ECHO_INPUT,
        ''SOS uartsvc: root wrote this line through the driver'',
        ''SOS uartsvc: and root does not hold the device'',
        (''SOS uartsvc: root'' @ [CHR 0x27] @ ''s claim answered byte 90''),
        ''SOS uartsvc: client traps=13 for 3 reads and 3 writes'',
        ''SOS uartsvc drv: served=13 abandoned=0 dropped=0'',
        ''SOS uartsvc drv: after the mark answered=2 discarded=2 traps=7'',
        ''SOS uartsvc drv: one trap per answered message, two per discarded'',
        ''SOS uartsvc: the driver served two clients and ended clean'',
        ''SOS uartsvc: done''],
     c_expect_clean_exit := True\<rparr>"

definition case_uart_service_pl011 :: "string \<Rightarrow> test_case" where
  "case_uart_service_pl011 r = blank_case\<lparr>
     c_name := ''uart_service_pl011'',
     c_arches := Some [''arm64''],
     c_src := py_join (KERNEL_DIR r) ''main.saw'',
     c_root_pkg := Some (UART_SERVICE_PKG r),
     c_children := [SVC_UART_PL011_PKG r, SVC_CLIENT_PKG r],
     c_device := True,
     c_stdin := Some ECHO_INPUT,
     c_expect_out := Strings
       [''{banner}'',
        ''root image ok segments={two}'',
        ''SOS: boot regions={five}'',
        ''SOS: console handover'',
        ''SOS uartsvc: created'',
        ''SOS uartsvc: driver started'',
        ''SOS uartsvc: read posted'',
        ''SOS uartsvc: client started'',
        ECHO_INPUT,
        ''SOS uartsvc: root wrote this line through the driver'',
        ''SOS uartsvc: and root does not hold the device'',
        (''SOS uartsvc: root'' @ [CHR 0x27] @ ''s claim answered byte 90''),
        ''SOS uartsvc: client traps=13 for 3 reads and 3 writes'',
        ''SOS uartsvc drv: served=13 abandoned=0 dropped=0'',
        ''SOS uartsvc drv: after the mark answered=2 discarded=2 traps=7'',
        ''SOS uartsvc drv: one trap per answered message, two per discarded'',
        ''SOS uartsvc: the driver served two clients and ended clean'',
        ''SOS uartsvc: done''],
     c_expect_clean_exit := True\<rparr>"

definition case_uart_cancel_ns16550 :: "string \<Rightarrow> test_case" where
  "case_uart_cancel_ns16550 r = blank_case\<lparr>
     c_name := ''uart_cancel_ns16550'',
     c_arches := Some [''riscv32'', ''riscv32-flat''],
     c_src := py_join (KERNEL_DIR r) ''main.saw'',
     c_root_pkg := Some (UART_CANCEL_PKG r),
     c_children := [SVC_UART_NS16550_PKG r],
     c_device := True,
     c_expect_out := Strings
       [''{banner}'',
        ''SOS: boot regions={three}'',
        ''SOS: console handover'',
        ''SOS uartcancel: driver started'',
        ''SOS uartcancel: read posted'',
        ''SOS uartcancel: timed out'',
        ''SOS uartcancel: claim dropped'',
        ''SOS uartcancel: root wrote this line through the driver'',
        ''SOS uartcancel: one dead read did not wedge it'',
        ''SOS uartsvc drv: served=5 abandoned=1 dropped=0'',
        ''SOS uartsvc drv: after the mark answered=2 discarded=2 traps=7'',
        ''SOS uartsvc drv: one trap per answered message, two per discarded'',
        ''SOS uartcancel: done''],
     c_expect_clean_exit := True\<rparr>"

definition case_uart_cancel_pl011 :: "string \<Rightarrow> test_case" where
  "case_uart_cancel_pl011 r = blank_case\<lparr>
     c_name := ''uart_cancel_pl011'',
     c_arches := Some [''arm64''],
     c_src := py_join (KERNEL_DIR r) ''main.saw'',
     c_root_pkg := Some (UART_CANCEL_PKG r),
     c_children := [SVC_UART_PL011_PKG r],
     c_device := True,
     c_expect_out := Strings
       [''{banner}'',
        ''SOS: boot regions={three}'',
        ''SOS: console handover'',
        ''SOS uartcancel: driver started'',
        ''SOS uartcancel: read posted'',
        ''SOS uartcancel: timed out'',
        ''SOS uartcancel: claim dropped'',
        ''SOS uartcancel: root wrote this line through the driver'',
        ''SOS uartcancel: one dead read did not wedge it'',
        ''SOS uartsvc drv: served=5 abandoned=1 dropped=0'',
        ''SOS uartsvc drv: after the mark answered=2 discarded=2 traps=7'',
        ''SOS uartsvc drv: one trap per answered message, two per discarded'',
        ''SOS uartcancel: done''],
     c_expect_clean_exit := True\<rparr>"

definition case_pipe_delegate_3p :: "string \<Rightarrow> test_case" where
  "case_pipe_delegate_3p r = blank_case\<lparr>
     c_name := ''pipe_delegate_3p'',
     c_src := py_join (KERNEL_DIR r) ''main.saw'',
     c_root_pkg := Some (DELEGATE_3P_PKG r),
     c_children := [CHILD_FORWARD_PKG r, CHILD_FAR_PKG r],
     c_expect_out := Strings
       [''{banner}'',
        ''SOS: boot regions={four}'',
        ''SOS delegate3p: created'',
        ''SOS delegate3p: started far and middle'',
        ''SOS delegate3p: reply len=4 b=68,79,78,69'',
        ''SOS delegate3p: the answer crossed three processes'',
        ''SOS delegate3p: middle=65607 far=65617'',
        ''SOS delegate3p: done''],
     c_expect_clean_exit := True\<rparr>"

definition case_memory_recycle :: "string \<Rightarrow> test_case" where
  "case_memory_recycle r = blank_case\<lparr>
     c_name := ''memory_recycle'',
     c_src := py_join (KERNEL_DIR r) ''main.saw'',
     c_root_pkg := Some (MEMORY_RECYCLE_PKG r),
     c_children := [CHILD_TOUCH_PKG r],
     c_pool := True,
     c_expect_out := Strings
       [''{banner}'',
        ''SOS: boot regions={three}'',
        ''SOS recycle: quarters=4'',
        ''SOS recycle: whole=1'',
        ''SOS childtouch: wrote 60 read 60'',
        ''SOS: process exit: code={touch_mark} process={one}'',
        ''SOS recycle: reused read 60'',
        ''SOS recycle: done''],
     c_expect_clean_exit := True\<rparr>"

definition case_slab_donate :: "string \<Rightarrow> test_case" where
  "case_slab_donate r = blank_case\<lparr>
     c_name := ''slab_donate'',
     c_src := py_join (KERNEL_DIR r) ''main.saw'',
     c_root_pkg := Some (SLAB_DONATE_PKG r),
     c_pool := True,
     c_expect_out := Strings
       [''{banner}'',
        ''SOS: boot regions={one}'',
        ''SOS slabdonate: floor=4 fifth refused: out of kernel objects'',
        ''SOS slabdonate: donated a page of waiters'',
        ''SOS slabdonate: fifth waiter created'',
        ''SOS slabdonate: extent waiter woke key=77 word=4'',
        ''SOS slabdonate: done''],
     c_expect_clean_exit := True\<rparr>"

definition case_slab_donate_shared :: "string \<Rightarrow> test_case" where
  "case_slab_donate_shared r = blank_case\<lparr>
     c_name := ''slab_donate_shared'',
     c_src := py_join (KERNEL_DIR r) ''main.saw'',
     c_root_pkg := Some (SLAB_DONATE_SHARED_PKG r),
     c_pool := True,
     c_expect_out := Strings
       [''{banner}'',
        ''SOS: boot regions={one}'',
        ''SOS slabshared: minted a sibling'',
        ''SOS: process fault: object in the wrong state process={zero}'',
        ''SOS: process teardown handles=''],
     c_expect_clean_exit := False,
     c_expect_status := Some EXIT_PROCESS_FAULT\<rparr>"

definition case_map_placed :: "string \<Rightarrow> test_case" where
  "case_map_placed r = blank_case\<lparr>
     c_name := ''map_placed'',
     c_src := py_join (KERNEL_DIR r) ''main.saw'',
     c_root_pkg := Some (MAP_PLACED_PKG r),
     c_children := [CHILD_PLACED_PKG r],
     c_pool := True,
     c_arches := Some [''arm64''],
     c_expect_out := Strings
       [''{banner}'',
        ''SOS placed: created'',
        ''SOS placed: spacer at 1076101120'',
        ''SOS placed: root sees 1076105216'',
        ''SOS placed: wrote 195'',
        ''SOS placed: gave the region'',
        ''SOS placed: started'',
        ''SOS childplaced: mapped at 1076101120'',
        ''SOS childplaced: saw 195 wrote 45'',
        ''SOS placed: root observed child status=65731'',
        ''SOS placed: read back 45'',
        ''SOS placed: done''],
     c_expect_clean_exit := True\<rparr>"

definition case_thread_donate :: "string \<Rightarrow> test_case" where
  "case_thread_donate r = blank_case\<lparr>
     c_name := ''thread_donate'',
     c_src := py_join (KERNEL_DIR r) ''main.saw'',
     c_root_pkg := Some (THREAD_DONATE_PKG r),
     c_pool := True,
     c_expect_out := Strings
       [''{banner}'',
        ''SOS: boot regions={one}'',
        ''SOS threaddonate: floor=8 ninth refused: out of kernel objects'',
        ''SOS threaddonate: donated a page of threads'',
        ''SOS threaddonate: extent thread created'',
        ''TTT'',
        ''SOS threaddonate: extent thread joined code=33'',
        ''SOS threaddonate: done''],
     c_expect_clean_exit := True\<rparr>"

definition case_pipe_donate :: "string \<Rightarrow> test_case" where
  "case_pipe_donate r = blank_case\<lparr>
     c_name := ''pipe_donate'',
     c_src := py_join (KERNEL_DIR r) ''main.saw'',
     c_root_pkg := Some (PIPE_DONATE_PKG r),
     c_pool := True,
     c_expect_out := Strings
       [''{banner}'',
        ''SOS: boot regions={one}'',
        ''SOS pipedonate: floor=4 fifth refused: out of kernel objects'',
        ''SOS pipedonate: donated a region of pipes'',
        ''SOS pipedonate: fifth connection created'',
        ''SOS pipedonate: server took len=5 byte0=80'',
        ''SOS pipedonate: client resolved len=3 byte0=90'',
        ''SOS pipedonate: done''],
     c_expect_clean_exit := True\<rparr>"

definition case_slab_donate_mapped :: "string \<Rightarrow> test_case" where
  "case_slab_donate_mapped r = blank_case\<lparr>
     c_name := ''slab_donate_mapped'',
     c_src := py_join (KERNEL_DIR r) ''main.saw'',
     c_root_pkg := Some (SLAB_DONATE_MAPPED_PKG r),
     c_children := [SLAB_DONATE_MAPPED_CHILD_PKG r],
     c_pool := True,
     c_expect_out := Strings
       [''{banner}'',
        ''SOS: boot regions={three}'',
        ''SOS slabmapped: stamped witness=165'',
        ''SOS donor: donating a mapped region'',
        ''SOS: process fault: object in the wrong state process={one}'',
        ''SOS: process teardown handles={three} threads={one} events={zero} waiters={zero} interrupts={zero} timers={zero} process={one}'',
        ''SOS slabmapped: child faulted status=131077'',
        ''SOS slabmapped: witness still 165'',
        ''SOS slabmapped: done''],
     c_expect_clean_exit := True\<rparr>"

definition case_slab_donate_free_nodes :: "string \<Rightarrow> test_case" where
  "case_slab_donate_free_nodes r = blank_case\<lparr>
     c_name := ''slab_donate_free_nodes'',
     c_src := py_join (KERNEL_DIR r) ''main.saw'',
     c_root_pkg := Some (SLAB_DONATE_NODES_PKG r),
     c_pool := True,
     c_arches := Some [''riscv32'', ''riscv32-flat''],
     c_expect_out := Strings
       [''{banner}'',
        ''SOS: boot regions={one}'',
        ''SOS slabnodes: pool trimmed to the construction'',
        ''SOS slabnodes: fragmented holes=32'',
        ''SOS slabnodes: released one more past the node slab'',
        ''SOS slabnodes: donated a page of free ranges'',
        ''SOS slabnodes: the range came back'',
        ''SOS: process fault: argument outside its domain process={zero}'',
        ''SOS: process teardown handles=''],
     c_expect_clean_exit := False,
     c_expect_status := Some EXIT_PROCESS_FAULT\<rparr>"

definition case_process_donate :: "string \<Rightarrow> test_case" where
  "case_process_donate r = blank_case\<lparr>
     c_name := ''process_donate'',
     c_src := py_join (KERNEL_DIR r) ''main.saw'',
     c_root_pkg := Some (PROCESS_DONATE_PKG r),
     c_children := [ECHO_CHILD_PKG r, ECHO_CHILD2_PKG r, ECHO_CHILD3_PKG r],
     c_expect_out := Strings
       [''{banner}'',
        ''SOS: boot regions={six}'',
        ''SOS procdonate: floor=3 third child refused: out of kernel objects'',
        ''SOS procdonate: donated a region of process slots'',
        ''SOS procdonate: third child created past the floor'',
        ''SOS procdonate: started three children'',
        ''SOS echo0: alive'',
        ''SOS echo1: alive'',
        ''SOS echo2: alive'',
        ''SOS procdonate: exits a=65577 b=65578 c=65579'',
        ''SOS procdonate: donated slot reused d=65579'',
        ''SOS procdonate: done''],
     c_expect_clean_exit := True\<rparr>"

definition case_tier_word :: "string \<Rightarrow> test_case" where
  "case_tier_word r = blank_case\<lparr>
     c_name := ''tier_word'',
     c_src := py_join (KERNEL_DIR r) ''main.saw'',
     c_root_pkg := Some (TIER_WORD_PKG r),
     c_expect_out := Strings
       [''{banner}'',
        ''SOS tier: {tier}'',
        ''SOS tier: stable'',
        ''SOS tier: kernel boundary intact'',
        ''SOS: process fault: access denied process={zero}'',
        ''SOS: process teardown handles=''],
     c_expect_clean_exit := False,
     c_expect_status := Some EXIT_PROCESS_FAULT\<rparr>"

definition case_stats_region :: "string \<Rightarrow> test_case" where
  "case_stats_region r = blank_case\<lparr>
     c_name := ''stats_region'',
     c_src := py_join (KERNEL_DIR r) ''main.saw'',
     c_root_pkg := Some (STATS_REGION_PKG r),
     c_children := [STATS_READER_PKG r],
     c_expect_out := Strings
       [''{banner}'',
        ''SOS: boot regions={two}'',
        ''SOS statsregion: self row 0'',
        ''SOS statsregion: region delta 8'',
        ''SOS statsregion: op agrees'',
        ''SOS statsreader: my row 1'',
        ''SOS statsreader: launcher busier'',
        ''SOS statsregion: child exit 65578'',
        ''SOS statsregion: unmapped'',
        ''SOS statsregion: done''],
     c_expect_clean_exit := True\<rparr>"

definition case_stats_region_ro :: "string \<Rightarrow> test_case" where
  "case_stats_region_ro r = blank_case\<lparr>
     c_name := ''stats_region_ro'',
     c_tier := Some TIER_ISOLATED,
     c_tier_reason := Some (''a store into the kernel'' @ [CHR 0x27] @ ''s read-only counter page must FAULT; a flat platform lets the write land''),
     c_src := py_join (KERNEL_DIR r) ''main.saw'',
     c_root_pkg := Some (STATS_REGION_RO_PKG r),
     c_expect_out := Strings
       [''{banner}'',
        ''SOS statsro: read ok'',
        ''SOS statsro: writing'',
        ''SOS: fault ''],
     c_expect_clean_exit := False\<rparr>"

definition case_arena_small :: "string \<Rightarrow> test_case" where
  "case_arena_small r = blank_case\<lparr>
     c_name := ''arena_small'',
     c_src := py_join (KERNEL_DIR r) ''main.saw'',
     c_root_pkg := Some (ARENA_SMALL_PKG r),
     c_expect_out := Strings
       [''{banner}'',
        ''SOS arenasmall: 2 KiB ok'',
        ''SOS arenasmall: asking 16 KiB'',
        ''sos: out of arena memory''],
     c_expect_clean_exit := False,
     c_expect_status := Some EXIT_ARENA_EXHAUSTED\<rparr>"

definition case_c_hello :: "string \<Rightarrow> test_case" where
  "case_c_hello r = blank_case\<lparr>
     c_name := ''c_hello'',
     c_src := py_join (KERNEL_DIR r) ''main.saw'',
     c_root_pkg := Some (C_HELLO_PKG r),
     c_children := [C_CHILD_PKG r],
     c_expect_out := Strings
       [''{banner}'',
        ''SOS: boot regions={two}'',
        ''SOS chello: started'',
        ''SOS cchild: hello from freestanding C'',
        ''SOS cchild: wrote 38 bytes'',
        ''SOS chello: woke status=65591'',
        ''SOS chello: done''],
     c_expect_clean_exit := True\<rparr>"

definition table_D :: "string \<Rightarrow> test_case list" where
  "table_D r =
     [case_pipe_call_abandon r,
      case_pipe_call_orphan r,
      case_pipe_no_call r,
      case_pipe_call_oversized r,
      case_pipe_reply_wait_dead r,
      case_pipe_send_exit r,
      case_pipe_table_full r,
      case_pipe_handles r,
      case_pipe_delegate_msg r,
      case_pipe_cq r,
      case_give_keep_mask r,
      case_pipe_resolve_park r,
      case_pipe_resolve_orphan r,
      case_uart_service_ns16550 r,
      case_uart_service_pl011 r,
      case_uart_cancel_ns16550 r,
      case_uart_cancel_pl011 r,
      case_pipe_delegate_3p r,
      case_memory_recycle r,
      case_slab_donate r,
      case_slab_donate_shared r,
      case_map_placed r,
      case_thread_donate r,
      case_pipe_donate r,
      case_slab_donate_mapped r,
      case_slab_donate_free_nodes r,
      case_process_donate r,
      case_tier_word r,
      case_stats_region r,
      case_stats_region_ro r,
      case_arena_small r,
      case_c_hello r]"

lemmas case_defs_D =
  case_pipe_call_abandon_def
  case_pipe_call_orphan_def
  case_pipe_no_call_def
  case_pipe_call_oversized_def
  case_pipe_reply_wait_dead_def
  case_pipe_send_exit_def
  case_pipe_table_full_def
  case_pipe_handles_def
  case_pipe_delegate_msg_def
  case_pipe_cq_def
  case_give_keep_mask_def
  case_pipe_resolve_park_def
  case_pipe_resolve_orphan_def
  case_uart_service_ns16550_def
  case_uart_service_pl011_def
  case_uart_cancel_ns16550_def
  case_uart_cancel_pl011_def
  case_pipe_delegate_3p_def
  case_memory_recycle_def
  case_slab_donate_def
  case_slab_donate_shared_def
  case_map_placed_def
  case_thread_donate_def
  case_pipe_donate_def
  case_slab_donate_mapped_def
  case_slab_donate_free_nodes_def
  case_process_donate_def
  case_tier_word_def
  case_stats_region_def
  case_stats_region_ro_def
  case_arena_small_def
  case_c_hello_def

section \<open>Evaluation\<close>

lemma shape_table_D: "map case_shape (table_D r) = map case_shape (table_D [])"
  by (simp add: table_D_def case_defs_D blank_case_def case_shape_def)

lemma wf_closed_D: "list_all case_wf (table_D [])"
  by code_simp

lemma wf_table_D: "list_all case_wf (table_D r)"
  using list_all_shape_cong[where P = case_wf, OF shape_table_D case_wf_shape] wf_closed_D by blast

lemma names_D:
  "map c_name (table_D r) =
     [''pipe_call_abandon'',
      ''pipe_call_orphan'',
      ''pipe_no_call'',
      ''pipe_call_oversized'',
      ''pipe_reply_wait_dead'',
      ''pipe_send_exit'',
      ''pipe_table_full'',
      ''pipe_handles'',
      ''pipe_delegate_msg'',
      ''pipe_cq'',
      ''give_keep_mask'',
      ''pipe_resolve_park'',
      ''pipe_resolve_orphan'',
      ''uart_service_ns16550'',
      ''uart_service_pl011'',
      ''uart_cancel_ns16550'',
      ''uart_cancel_pl011'',
      ''pipe_delegate_3p'',
      ''memory_recycle'',
      ''slab_donate'',
      ''slab_donate_shared'',
      ''map_placed'',
      ''thread_donate'',
      ''pipe_donate'',
      ''slab_donate_mapped'',
      ''slab_donate_free_nodes'',
      ''process_donate'',
      ''tier_word'',
      ''stats_region'',
      ''stats_region_ro'',
      ''arena_small'',
      ''c_hello'']"
  by (simp add: table_D_def case_defs_D blank_case_def)

end
