(* ===== verification/Case_Table.thy ===== *)
theory Case_Table
  imports Case_Table_A Case_Table_B Case_Table_C Case_Table_D
begin

text \<open>
  The table \<^verbatim>\<open>TEST_CASES\<close> of \<^verbatim>\<open>src/tools/sos_runner.py\<close>, in its order, put together from its four
  parts, and what holds of the table as a whole: every entry is well formed and the names stay distinct
  when hyphens and underscores are identified.
\<close>

definition TEST_CASES :: "string \<Rightarrow> test_case list" where
  "TEST_CASES r = table_A r @ table_B r @ table_C r @ table_D r"

lemma TEST_CASES_shape: "map case_shape (TEST_CASES r) = map case_shape (TEST_CASES [])"
  unfolding TEST_CASES_def map_append
  by (simp only: shape_table_A[of r] shape_table_B[of r] shape_table_C[of r] shape_table_D[of r])

lemma TEST_CASES_names: "map c_name (TEST_CASES r) = map c_name (TEST_CASES [])"
proof -
  have "map c_name cs = map c_name (map case_shape cs)" for cs by simp
  then show ?thesis using TEST_CASES_shape[of r] by metis
qed

lemma TEST_CASES_ok: "c \<in> set (TEST_CASES r) \<Longrightarrow> case_wf c"
  using wf_table_A[of r] wf_table_B[of r] wf_table_C[of r] wf_table_D[of r]
  by (auto simp: TEST_CASES_def list_all_iff)

lemma no_hyphen_names: "list_all (\<lambda>c. CHR ''-'' \<notin> set (c_name c)) (TEST_CASES r)"
  using TEST_CASES_ok by (force simp: list_all_iff case_wf_def name_ok_def is_alpha_def is_digit_def)

text \<open>Counting the cases by a property of the shape.\<close>

lemma length_filter_shape:
  assumes "\<And>c. P (case_shape c) = P c"
  shows "length (filter P (TEST_CASES r)) = length (filter P (TEST_CASES []))"
proof -
  have "length (filter P cs) = length (filter P (map case_shape cs))" for cs
    by (induction cs) (simp_all add: assms)
  then show ?thesis using TEST_CASES_shape[of r] by metis
qed


lemma distinct_names: "distinct (map c_name (TEST_CASES r))"
  unfolding TEST_CASES_def map_append names_A names_B names_C names_D
  by (simp add: list_eq_if del: list.inject)

text \<open>No two entries of the table share a name, so no two cases share an artifact, and a name given
  on the command line means one case.\<close>

theorem table_names_distinct:
  "distinct (map c_name (TEST_CASES r)) \<and> length (TEST_CASES r) = 134"
proof
  show "distinct (map c_name (TEST_CASES r))" by (rule distinct_names)
  have "length (map c_name (TEST_CASES r)) = 134"
    unfolding TEST_CASES_def map_append names_A names_B names_C names_D by simp
  then show "length (TEST_CASES r) = 134" by simp
qed

text \<open>What decides where a case runs: the architectures it names and the tier it needs.\<close>

definition case_key :: "test_case \<Rightarrow> string list option \<times> string option" where
  "case_key c = (c_arches c, c_tier c)"

lemma keys_A:
  "map case_key (table_A r) =
     [(None, None), (None, None), (None, None), (None, None), (None, None), (None, None),
      (None, None), (None, Some TIER_ISOLATED), (None, None), (None, None), (None, None),
      (None, None), (None, None), (None, None), (None, None), (None, None), (None, None),
      (None, None), (None, None), (None, None), (None, None), (None, None), (None, None),
      (None, None), (None, None), (None, None), (None, None), (None, None), (None, None),
      (Some [''riscv32'', ''riscv32-flat''], None), (Some [''arm64''], None), (None, None),
      (None, None), (None, None)]"
  by (simp add: table_A_def case_defs_A blank_case_def case_key_def)

lemma keys_B:
  "map case_key (table_B r) =
     [(None, None), (None, None), (None, None), (None, None), (None, None), (None, None),
      (None, None), (None, None), (None, Some TIER_ISOLATED), (None, None),
      (None, Some TIER_ISOLATED), (None, None), (None, None), (None, None), (None, None),
      (None, None), (None, None), (None, None), (None, None), (None, None), (None, None),
      (None, None), (None, None), (None, None), (None, None), (None, None), (None, None),
      (None, None), (None, None), (None, None), (None, None), (None, Some TIER_ISOLATED),
      (None, None), (None, None)]"
  by (simp add: table_B_def case_defs_B blank_case_def case_key_def)

lemma keys_C:
  "map case_key (table_C r) =
     [(None, None), (None, None), (None, None), (None, None), (None, None), (None, None),
      (None, None), (None, None), (Some [''riscv32'', ''riscv32-flat''], None),
      (Some [''arm64''], None), (None, None), (None, None), (None, None), (None, None),
      (None, None), (None, None), (None, None), (None, None), (None, None), (None, None),
      (None, None), (None, None), (None, None), (None, None), (None, None), (None, None),
      (None, None), (None, None), (None, None), (None, None), (None, None), (None, None),
      (None, None), (None, None)]"
  by (simp add: table_C_def case_defs_C blank_case_def case_key_def)

lemma keys_D:
  "map case_key (table_D r) =
     [(None, None), (None, None), (None, None), (None, None), (None, None), (None, None),
      (None, None), (None, None), (None, None), (None, None), (None, None), (None, None),
      (None, None), (Some [''riscv32'', ''riscv32-flat''], None), (Some [''arm64''], None),
      (Some [''riscv32'', ''riscv32-flat''], None), (Some [''arm64''], None), (None, None),
      (None, None), (None, None), (None, None), (Some [''arm64''], None), (None, None),
      (None, None), (None, None), (Some [''riscv32'', ''riscv32-flat''], None), (None, None),
      (None, None), (None, None), (None, Some TIER_ISOLATED), (None, None), (None, None)]"
  by (simp add: table_D_def case_defs_D blank_case_def case_key_def)


end
