(* ===== verification/Run_Suite.thy ===== *)
theory Run_Suite
  imports Build_Pipeline Transcript_Check Map_Ordered Seam_Scan Case_Table
begin

text \<open>
  Running the suite, from \<^verbatim>\<open>src/tools/sos_runner.py\<close>: the cases of one architecture (\<^verbatim>\<open>_run_arch\<close>) and
  the command for the QEMU boards (\<^verbatim>\<open>main\<close>): choosing architectures and cases, probing the tools,
  building Blade, running each architecture and the exit status.

  A stage of concurrent units (package builds, then cases) is \<open>pooled\<close>: the results are handed to the
  consumer by \<^const>\<open>map_ordered\<close> under an arbitrary schedule, and the units see the files as if they ran
  in list order. That is what the separation of their artifacts justifies (\<open>case_builds_isolated\<close> of
  Build_Pipeline); a unit that the consumer never receives leaves nothing behind here, as with one job.
\<close>

section \<open>What the harness runs on\<close>

text \<open>Beside the host: the emulator, the schedule of the worker pool, the directory walk, the spelling
  suggestions of \<^verbatim>\<open>difflib\<close>, and the repository's root.\<close>

record runner =
  x_host :: host
  x_emu :: emulator
  x_sched :: "nat \<Rightarrow> nat"
  x_walk :: "fs \<Rightarrow> string \<Rightarrow> (string \<times> string list) list"
  x_close :: "string \<Rightarrow> string list \<Rightarrow> string list"
  x_root :: string

section \<open>Stages of concurrent units\<close>

fun unit_results :: "('a \<Rightarrow> 'b io) \<Rightarrow> 'a list \<Rightarrow> world \<Rightarrow> 'b res list \<times> world" where
  "unit_results f [] w = ([], w)"
| "unit_results f (x # xs) w =
     (case f x w of (y, w1) \<Rightarrow> (case unit_results f xs w1 of (ys, w2) \<Rightarrow> (y # ys, w2)))"

text \<open>The consumer breaks off at a result that is an exception, or one it does not want.\<close>

definition breaks :: "('b \<Rightarrow> bool) \<Rightarrow> 'b res \<Rightarrow> bool" where
  "breaks bad y = (case y of Inl e \<Rightarrow> True | Inr v \<Rightarrow> bad v)"

definition pooled :: "(nat \<Rightarrow> nat) \<Rightarrow> nat \<Rightarrow> ('b \<Rightarrow> bool) \<Rightarrow> ('a \<Rightarrow> 'b io) \<Rightarrow> 'a list \<Rightarrow> 'b res list io" where
  "pooled sched jobs bad f items =
     (\<lambda>w. let rs = fst (unit_results f items w);
              seen = map_ordered sched jobs [0..<length items] (\<lambda>i. rs ! i) (\<lambda>out. breaks bad (last out))
          in (Inr seen, snd (unit_results f (take (length seen) items) w)))"

section \<open>The cases of an architecture\<close>

definition applies :: "arch \<Rightarrow> test_case \<Rightarrow> bool" where
  "applies a c \<longleftrightarrow> a_name a \<in> set (dict_get (c_arches c) [a_name a])"

definition tier_fits :: "arch \<Rightarrow> test_case \<Rightarrow> bool" where
  "tier_fits a c \<longleftrightarrow> (case c_tier c of None \<Rightarrow> True | Some need \<Rightarrow> need = a_tier a)"

fun split_tier :: "arch \<Rightarrow> test_case list \<Rightarrow> test_case list \<times> test_case list" where
  "split_tier a [] = ([], [])"
| "split_tier a (c # cs) =
     (case split_tier a cs of
        (runnable, excluded) \<Rightarrow>
          if tier_fits a c then (c # runnable, excluded) else (runnable, c # excluded))"

definition runnable_cases :: "arch \<Rightarrow> test_case list \<Rightarrow> test_case list" where
  "runnable_cases a selected = fst (split_tier a (filter (applies a) selected))"

definition excluded_cases :: "arch \<Rightarrow> test_case list \<Rightarrow> test_case list" where
  "excluded_cases a selected = snd (split_tier a (filter (applies a) selected))"

definition root_packages :: "test_case list \<Rightarrow> string list" where
  "root_packages cases =
     dedup_acc []
       (concat (map (\<lambda>c. (case given (c_root_pkg c) of Some p \<Rightarrow> [p] | None \<Rightarrow> []) @ c_children c) cases))"

section \<open>One package, one case\<close>

text \<open>A package build hands back its error as a value; the size is that of the image file.\<close>

definition build_pkg ::
  "host \<Rightarrow> string \<Rightarrow> toolchain \<Rightarrow> string \<Rightarrow> arch \<Rightarrow> string \<Rightarrow> string \<Rightarrow> (string + string \<times> nat) io"
where
  "build_pkg h r t blade_bin a clang pkg =
     catch_tool
       (bind (build_root_image h t blade_bin pkg a clang) (\<lambda>img.
        bind get_fs (\<lambda>fs.
        case map_of fs img of
          None \<Rightarrow> raise (OSError img)
        | Some body \<Rightarrow> ret (Inr (relpath (h_cwd h) img r, length body)))))
       (\<lambda>e. ret (Inl e))"

text \<open>The images a case boots with, looked up after the package builds.\<close>

definition with_images :: "arch \<Rightarrow> test_case \<Rightarrow> test_case io" where
  "with_images a c =
     bind (case given (c_root_pkg c) of
             None \<Rightarrow> ret (c_root_image c)
           | Some pkg \<Rightarrow> bind (root_image_path pkg a) (\<lambda>img. ret ((a_name a, img) # c_root_image c))) (\<lambda>roots.
     bind (if c_children c = [] then ret (c_child_images c)
           else bind (map_io (\<lambda>k. root_image_path k a) (c_children c))
                  (\<lambda>imgs. ret ((a_name a, imgs) # c_child_images c))) (\<lambda>kids.
     ret (c\<lparr>c_root_image := roots, c_child_images := kids\<rparr>)))"

type_synonym verdict = "bool \<times> string \<times> string list"

definition run_case ::
  "host \<Rightarrow> emulator \<Rightarrow> string \<Rightarrow> toolchain \<Rightarrow> arch \<Rightarrow> string \<Rightarrow> string list \<Rightarrow> string \<Rightarrow> string \<Rightarrow>
   test_case \<Rightarrow> verdict io"
where
  "run_case h emu r t a qemu shared_objs lld clang c =
     bind (catch_tool (bind (build_elf h r t c a shared_objs lld clang) (\<lambda>elf. ret (Inr elf)))
                      (\<lambda>e. ret (Inl e)))
       (\<lambda>built. case built of
          Inl e \<Rightarrow> ret (False, CROSS (h_tty h) @ '' '' @ c_name c @ ''  (build error)'',
                        map (\<lambda>line. ''    '' @ line) (str_splitlines e))
        | Inr elf \<Rightarrow>
            bind get_fs (\<lambda>fs.
            case run_qemu emu fs qemu a elf (c_stdin c) of (status, out, timed_out) \<Rightarrow>
            bind (of_res (check c a status out timed_out)) (\<lambda>(ok, reason).
            ret (if ok then (True, CHECK (h_tty h) @ '' '' @ c_name c, [])
                 else (False, CROSS (h_tty h) @ '' '' @ c_name c @ ''  ('' @ reason @ '')'', [])))))"

section \<open>One architecture\<close>

fun print_packages :: "(string + string \<times> nat) res list \<Rightarrow> string option io" where
  "print_packages [] = ret None"
| "print_packages (Inl e # rest) = raise e"
| "print_packages (Inr (Inl err) # rest) = ret (Some err)"
| "print_packages (Inr (Inr (rel, sz)) # rest) =
     bind (print_out (''  '' @ rel @ ''  ('' @ show_nat sz @ '' bytes)'')) (\<lambda>_. print_packages rest)"

text \<open>The package stage: the error of the first package that fails, in list order.\<close>

definition build_packages ::
  "runner \<Rightarrow> toolchain \<Rightarrow> string \<Rightarrow> arch \<Rightarrow> string \<Rightarrow> nat \<Rightarrow> string list \<Rightarrow> string option io"
where
  "build_packages x t blade_bin a clang jobs pkgs =
     (if pkgs = [] then ret None
      else bind (pooled (x_sched x) jobs (\<lambda>v. case v of Inl _ \<Rightarrow> True | Inr _ \<Rightarrow> False)
                   (build_pkg (x_host x) (x_root x) t blade_bin a clang) pkgs) print_packages)"

definition excluded_line :: "test_case \<Rightarrow> string res" where
  "excluded_line c =
     (case c_tier_reason c of
        None \<Rightarrow> Inl (KeyError ''tier_reason'')
      | Some reason \<Rightarrow> Inr (''    - '' @ c_name c @ '': '' @ reason))"

definition print_excluded_case :: "test_case \<Rightarrow> unit io" where
  "print_excluded_case c = bind (of_res (excluded_line c)) print_out"

definition print_excluded :: "arch \<Rightarrow> test_case list \<Rightarrow> unit io" where
  "print_excluded a excluded =
     (if excluded = [] then ret ()
      else bind (print_out (''  tier '' @ a_tier a @ '': '' @ show_nat (length excluded) @ '' isolation '' @
                   (if length excluded = 1 then ''proof'' else ''proofs'') @
                   '' excluded (this platform cannot deny, and says so)''))
             (\<lambda>_. each print_excluded_case excluded))"

fun report :: "nat \<Rightarrow> nat \<Rightarrow> nat \<Rightarrow> nat \<Rightarrow> verdict res list \<Rightarrow> (nat \<times> nat) io" where
  "report n i passed failed [] = ret (passed, failed)"
| "report n i passed failed (Inl e # rest) = raise e"
| "report n i passed failed (Inr (ok, headline, detail) # rest) =
     bind (print_out (''['' @ show_nat i @ ''/'' @ show_nat n @ ''] '' @ headline)) (\<lambda>_.
     bind (each print_out detail) (\<lambda>_.
     report n (i + 1) (if ok then passed + 1 else passed) (if ok then failed else failed + 1) rest))"

text \<open>The cases, once the shared objects and the packages are there.\<close>

definition run_cases ::
  "runner \<Rightarrow> toolchain \<Rightarrow> arch \<Rightarrow> string \<Rightarrow> string \<Rightarrow> string \<Rightarrow> string list \<Rightarrow> nat \<Rightarrow> test_case list \<Rightarrow>
   test_case list \<Rightarrow> (nat \<times> nat) io"
where
  "run_cases x t a qemu lld clang shared_objs jobs cases excluded =
     bind (print_excluded a excluded) (\<lambda>_.
     bind (pooled (x_sched x) jobs (\<lambda>_. False)
             (run_case (x_host x) (x_emu x) (x_root x) t a qemu shared_objs lld clang) cases) (\<lambda>seen.
     bind (report (length cases) 1 0 0 seen) (\<lambda>counts.
     bind (print_out []) (\<lambda>_.
     ret counts))))"

definition build_hal :: "runner \<Rightarrow> arch \<Rightarrow> string \<Rightarrow> string list option io" where
  "build_hal x a clang =
     catch_tool (bind (build_shared (x_host x) (x_root x) a clang) (\<lambda>objs. ret (Some objs)))
       (\<lambda>e. bind (print_err (CROSS (h_tty (x_host x)) @ '' failed to build the '' @ a_name a @
                              '' kernel HAL / runtime support'' @ nl @ e)) (\<lambda>_. ret None))"

text \<open>The packages and the cases, over the shared objects; a package that fails ends the architecture.\<close>

definition run_built ::
  "runner \<Rightarrow> toolchain \<Rightarrow> arch \<Rightarrow> string \<Rightarrow> string \<Rightarrow> string \<Rightarrow> string \<Rightarrow> test_case list \<Rightarrow> nat \<Rightarrow> string list \<Rightarrow>
   (nat \<times> nat) io"
where
  "run_built x t a qemu lld clang blade_bin selected jobs shared_objs =
     (let cases = runnable_cases a selected in
      bind (build_packages x t blade_bin a clang jobs (root_packages cases)) (\<lambda>build_error.
      case build_error of
        Some e \<Rightarrow>
          bind (print_err (CROSS (h_tty (x_host x)) @ '' failed to build a '' @ a_name a @ '' root image'' @ nl @ e))
            (\<lambda>_. ret (0, length cases))
      | None \<Rightarrow>
          bind (map_io (with_images a) cases) (\<lambda>ready.
          run_cases x t a qemu lld clang shared_objs jobs ready (excluded_cases a selected))))"

definition arch_header :: "bool \<Rightarrow> arch \<Rightarrow> string \<Rightarrow> string" where
  "arch_header tty a qemu =
     BOLD tty @ a_name a @ RESET tty @ ''  ('' @ a_triple a @ '', '' @ basename qemu @ '' `virt`)''"

definition run_arch ::
  "runner \<Rightarrow> toolchain \<Rightarrow> arch \<Rightarrow> string \<Rightarrow> string \<Rightarrow> string \<Rightarrow> string \<Rightarrow> test_case list \<Rightarrow> nat \<Rightarrow> (nat \<times> nat) io"
where
  "run_arch x t a qemu lld clang blade_bin selected jobs =
     bind (print_out (arch_header (h_tty (x_host x)) a qemu)) (\<lambda>_.
     bind (build_hal x a clang) (\<lambda>shared.
     case shared of
       None \<Rightarrow> ret (0, length (runnable_cases a selected))
     | Some shared_objs \<Rightarrow> run_built x t a qemu lld clang blade_bin selected jobs shared_objs))"

section \<open>The command\<close>

record args =
  arg_arch :: "string option"
  arg_cases :: "string list"
  arg_jobs :: int
  arg_board :: string

definition norm_name :: "string \<Rightarrow> string" where
  "norm_name s = str_replace_char (CHR ''-'') (CHR ''_'') s"

text \<open>The names of all the \<^verbatim>\<open>--case\<close> options, split at commas.\<close>

definition wanted_names :: "string list \<Rightarrow> string list" where
  "wanted_names values =
     concat (map (\<lambda>v. map (\<lambda>w. norm_name (str_strip w))
               (filter (\<lambda>w. str_strip w \<noteq> []) (str_split_char (CHR '','') v))) values)"

definition by_name :: "test_case list \<Rightarrow> string \<Rightarrow> test_case option" where
  "by_name table n = map_of (rev (map (\<lambda>c. (norm_name (c_name c), c)) table)) n"

text \<open>The selected cases, or the names that are not in the table.\<close>

definition select_cases :: "test_case list \<Rightarrow> string list \<Rightarrow> string list + test_case list" where
  "select_cases table values =
     (if values = [] then Inr table
      else let wants = wanted_names values;
               unknown = filter (\<lambda>w. by_name table w = None) wants
           in if unknown \<noteq> [] then Inl unknown
              else Inr (map (\<lambda>w. the (by_name table w)) (dedup_acc [] wants)))"

definition print_unknown :: "runner \<Rightarrow> string \<Rightarrow> unit io" where
  "print_unknown x w =
     (let tty = h_tty (x_host x);
          close = x_close x w (map (\<lambda>c. norm_name (c_name c)) (TEST_CASES (x_root x)))
      in print_err (RED tty @ ''unknown --case '' @ py_repr w @
           (if close \<noteq> [] then '' (did you mean: '' @ str_join '', '' close @ ''?)'' else []) @ RESET tty))"

definition exit :: "int \<Rightarrow> 'a io" where
  "exit n = raise (SystemExit n)"

definition select_arches :: "runner \<Rightarrow> args \<Rightarrow> arch list io" where
  "select_arches x args =
     (let r = x_root x; tty = h_tty (x_host x) in
      case given (arg_arch args) of
        None \<Rightarrow> ret (ARCHES r)
      | Some name \<Rightarrow>
          let arches = filter (\<lambda>a. a_name a = name) (ARCHES r) in
          if arches = [] then
            bind (print_err (RED tty @ ''unknown --arch '' @ py_repr name @ ''; known: '' @
                             str_join '', '' (map a_name (ARCHES r)) @ RESET tty)) (\<lambda>_. exit 2)
          else ret arches)"

text \<open>\<^verbatim>\<open>tc()\<close>: a refusal is printed and ends the run, the notes are printed once.\<close>

definition tc :: "runner \<Rightarrow> toolchain io" where
  "tc x =
     (let h = x_host x in
      bind (catch (resolve h (h_env h) (x_root x) False)
              (\<lambda>e. case e of ToolchainError m \<Rightarrow> bind (print_err (red_error m)) (\<lambda>_. exit 1) | _ \<Rightarrow> raise e)) (\<lambda>t.
      bind (each print_out (tc_notes t)) (\<lambda>_. ret t)))"

text \<open>Blade is built when a selected case needs it; the toolchain is resolved either way.\<close>

definition needs_blade :: "test_case list \<Rightarrow> bool" where
  "needs_blade cases \<longleftrightarrow> list_ex (\<lambda>c. given (c_root_pkg c) \<noteq> None \<or> c_children c \<noteq> []) cases"

definition prepare_blade :: "runner \<Rightarrow> test_case list \<Rightarrow> (toolchain \<times> string) io" where
  "prepare_blade x cases =
     (let h = x_host x; tty = h_tty h in
      if needs_blade cases then
        bind (print_out (BOLD tty @ ''building blade'' @ RESET tty)) (\<lambda>_.
        bind (tc x) (\<lambda>t.
        bind (catch_tool (build_blade h t (path_join (x_root x) [''.build'', ''sos-host'']))
                (\<lambda>e. bind (print_err (CROSS tty @ '' failed to build blade'' @ nl @ e)) (\<lambda>_. exit 1))) (\<lambda>blade_bin.
        bind (print_out []) (\<lambda>_.
        ret (t, blade_bin)))))
      else bind (tc x) (\<lambda>t. ret (t, [])))"

fun run_arches ::
  "runner \<Rightarrow> toolchain \<Rightarrow> (arch \<times> string) list \<Rightarrow> string \<Rightarrow> string \<Rightarrow> string \<Rightarrow> test_case list \<Rightarrow> nat \<Rightarrow> (nat \<times> nat) list io"
where
  "run_arches x t [] lld clang blade_bin selected jobs = ret []"
| "run_arches x t ((a, qemu) # rest) lld clang blade_bin selected jobs =
     bind (run_arch x t a qemu lld clang blade_bin selected jobs) (\<lambda>counts.
     bind (run_arches x t rest lld clang blade_bin selected jobs) (\<lambda>more.
     ret (counts # more)))"

definition rule_line :: string where
  "rule_line = replicate 60 (CHR ''='')"

definition summary :: "runner \<Rightarrow> arch list \<Rightarrow> (nat \<times> nat) list \<Rightarrow> unit io" where
  "summary x arches counts =
     (let tty = h_tty (x_host x); passed = sum_list (map fst counts); failed = sum_list (map snd counts) in
      bind (print_out rule_line) (\<lambda>_.
      if failed = 0 then
        bind (print_out (GREEN tty @ BOLD tty @ ''ALL SOS TESTS PASSED'' @ RESET tty @ '' ('' @ show_nat passed @
                         '' passed across '' @ str_join '' + '' (map a_name arches) @ '')'')) (\<lambda>_.
        bind (print_out rule_line) (\<lambda>_. exit 0))
      else
        bind (print_out (RED tty @ BOLD tty @ ''SOS TESTS FAILED'' @ RESET tty @ '' ('' @ show_nat passed @
                         '' passed, '' @ show_nat failed @ '' failed)'')) (\<lambda>_.
        bind (print_out rule_line) (\<lambda>_. exit 1))))"

definition print_tools :: "runner \<Rightarrow> arch list \<Rightarrow> tools \<Rightarrow> unit io" where
  "print_tools x arches ts =
     (let tty = h_tty (x_host x) in
      bind (print_out (BOLD tty @ ''SOS QEMU tests'' @ RESET tty)) (\<lambda>_.
      bind (print_out (''  clang: '' @ or_else (t_clang ts) [])) (\<lambda>_.
      bind (print_out (''  lld  : '' @ or_else (t_lld ts) [])) (\<lambda>_.
      bind (each (\<lambda>q. print_out (''  qemu : '' @ q))
              (dedup_acc [] (map (\<lambda>a. or_else (dict_get (map_of (t_qemus ts) (a_name a)) None) []) arches))) (\<lambda>_.
      print_out [])))))"

definition seam_check :: "runner \<Rightarrow> unit io" where
  "seam_check x =
     bind get_fs (\<lambda>fs.
     case check_arch_free (fs_isfile fs) (x_walk x fs) (\<lambda>p. dict_get (map_of fs p) []) (h_cwd (x_host x)) (x_root x) of
       (lines, ok) \<Rightarrow> bind (each print_err lines) (\<lambda>_. if ok then ret () else exit 1))"

text \<open>The run once architectures and cases are chosen.\<close>

definition run_selected :: "runner \<Rightarrow> arch list \<Rightarrow> test_case list \<Rightarrow> nat \<Rightarrow> unit io" where
  "run_selected x arches selected jobs =
     bind (probe_tools (x_host x) (x_root x) arches) (\<lambda>ts.
     bind (seam_check x) (\<lambda>_.
     bind (print_tools x arches ts) (\<lambda>_.
     bind (prepare_blade x selected) (\<lambda>(t, blade_bin).
     bind (run_arches x t
             (map (\<lambda>a. (a, or_else (dict_get (map_of (t_qemus ts) (a_name a)) None) [])) arches)
             (or_else (t_lld ts) []) (or_else (t_clang ts) []) blade_bin selected jobs) (\<lambda>counts.
     summary x arches counts)))))"

definition virt_main :: "runner \<Rightarrow> args \<Rightarrow> unit io" where
  "virt_main x args =
     (let tty = h_tty (x_host x) in
      if arg_jobs args < 1 then
        bind (print_err (RED tty @ ''-j must be at least 1 (got '' @ show_int (arg_jobs args) @ '')'' @ RESET tty))
          (\<lambda>_. exit 2)
      else
        bind (select_arches x args) (\<lambda>arches.
        case select_cases (TEST_CASES (x_root x)) (arg_cases args) of
          Inl unknown \<Rightarrow> bind (each (print_unknown x) unknown) (\<lambda>_. exit 2)
        | Inr selected \<Rightarrow> run_selected x arches selected (nat (arg_jobs args))))"


section \<open>Stages, without the pool\<close>

text \<open>The stage as one loop over the units, with no pool and no schedule.\<close>

definition stage :: "('b \<Rightarrow> bool) \<Rightarrow> ('a \<Rightarrow> 'b io) \<Rightarrow> 'a list \<Rightarrow> 'b res list io" where
  "stage bad f items =
     (\<lambda>w. let rs = fst (unit_results f items w);
              seen = serial (\<lambda>out. breaks bad (last out)) (\<lambda>i. rs ! i) [] [0..<length items]
          in (Inr seen, snd (unit_results f (take (length seen) items) w)))"

lemma pooled_stage: "pooled sched jobs bad f items = stage bad f items"
  by (simp add: pooled_def stage_def pool_mapper.mapper_serial)

lemma length_unit_results [simp]: "length (fst (unit_results f items w)) = length items"
  by (induction items arbitrary: w) (auto split: prod.splits, metis fst_conv)

lemma map_nth_results:
  "map ((!) (fst (unit_results f items w))) [0..<length items] = fst (unit_results f items w)"
  using map_nth[of "fst (unit_results f items w)"] by simp

lemma stage_no_break:
  assumes "list_all (\<lambda>y. \<not> breaks bad y) (fst (unit_results f items w))"
  shows "stage bad f items w = (Inr (fst (unit_results f items w)), snd (unit_results f items w))"
proof -
  let ?rs = "fst (unit_results f items w)"
  have "list_all (\<lambda>i. \<not> breaks bad (?rs ! i)) [0..<length items]"
    using assms by (auto simp: list_all_length)
  then have "serial (\<lambda>out. breaks bad (last out)) (\<lambda>i. ?rs ! i) [] [0..<length items] = map (\<lambda>i. ?rs ! i) [0..<length ?rs]"
    using pool_mapper.mapper_first_bad_good[of "breaks bad" "\<lambda>i. ?rs ! i" "[0..<length items]"]
    by (simp add: pool_mapper.mapper_serial)
  then show ?thesis by (simp add: stage_def map_nth_results Let_def)
qed

text \<open>What the consumer receives is a prefix of all results, and it is all of them unless its last element
  made it break off.\<close>

lemma serial_prefix:
  "prefix (serial stop g out xs) (out @ map g xs)"
proof (induction xs arbitrary: out)
  case Nil
  show ?case by simp
next
  case (Cons x xs)
  from Cons.IH[of "out @ [g x]"] show ?case by simp
qed

lemma serial_end:
  "length (serial (\<lambda>ys. b (last ys)) g out xs) = length out + length xs \<or>
   (serial (\<lambda>ys. b (last ys)) g out xs \<noteq> [] \<and> b (last (serial (\<lambda>ys. b (last ys)) g out xs)))"
proof (induction xs arbitrary: out)
  case Nil
  show ?case by simp
next
  case (Cons x xs)
  from Cons.IH[of "out @ [g x]"] show ?case by simp
qed

lemma stage_result:
  assumes "fst (stage bad f items w) = Inr seen"
  shows "prefix seen (fst (unit_results f items w)) \<and> (length seen = length items \<or> seen \<noteq> [] \<and> breaks bad (last seen))"
proof -
  let ?rs = "fst (unit_results f items w)"
  have seen: "seen = serial (\<lambda>out. breaks bad (last out)) ((!) ?rs) [] [0..<length items]"
    using assms by (simp add: stage_def Let_def)
  from serial_prefix[of "\<lambda>out. breaks bad (last out)" "(!) ?rs" "[]" "[0..<length items]"]
    serial_end[of "breaks bad" "(!) ?rs" "[]" "[0..<length items]"]
  show ?thesis unfolding seen map_nth_results append.left_neutral by simp
qed

section \<open>Counting the verdicts\<close>

definition verdict_line :: "nat \<Rightarrow> nat \<times> verdict \<Rightarrow> string list" where
  "verdict_line n p =
     (case p of (i, (ok, headline, detail)) \<Rightarrow>
        (''['' @ show_nat i @ ''/'' @ show_nat n @ ''] '' @ headline) # detail)"

definition report_lines :: "nat \<Rightarrow> verdict list \<Rightarrow> string list" where
  "report_lines n vs = concat (map (verdict_line n) (enumerate_from 1 vs))"

lemma each_print_out: "each print_out ls w = (Inr (), w\<lparr>w_out := w_out w @ ls\<rparr>)"
  by (induction ls arbitrary: w) auto

lemma report_all:
  "report n i p f (map Inr vs) w =
     (Inr (p + length (filter fst vs), f + length (filter (\<lambda>v. \<not> fst v) vs)),
      w\<lparr>w_out := w_out w @ concat (map (verdict_line n) (enumerate_from i vs))\<rparr>)"
  by (induction vs arbitrary: i p f w)
     (auto simp: verdict_line_def bind_apply each_print_out split: prod.splits)

lemma report_counts:
  "report n i p f seen w = (Inr (p', f'), w') \<Longrightarrow> p' + f' = p + f + length seen \<and> (\<forall>y \<in> set seen. \<exists>v. y = Inr v)"
proof (induction seen arbitrary: i p f w)
  case Nil
  then show ?case by simp
next
  case (Cons y seen)
  then obtain ok hd det where y: "y = Inr (ok, hd, det)" by (cases y) auto
  from Cons.prems have "\<exists>w1. report n (i + 1) (if ok then p + 1 else p) (if ok then f else f + 1) seen w1 = (Inr (p', f'), w')"
    by (auto simp: y bind_apply each_print_out)
  then show ?case using Cons.IH by (fastforce simp: y split: if_splits)
qed

lemma length_map_io: "map_io f xs w = (Inr ys, w') \<Longrightarrow> length ys = length xs"
  by (induction xs arbitrary: ys w) (auto simp: bind_Inr)

lemma run_cases_count:
  assumes "run_cases x t a qemu lld clang objs jobs cases excluded w = (Inr (p, f), w')"
  shows "p + f = length cases"
proof -
  let ?f = "run_case (x_host x) (x_emu x) (x_root x) t a qemu objs lld clang"
  obtain seen w1 w2 where s: "stage (\<lambda>_. False) ?f cases w1 = (Inr seen, w2)"
    and r: "\<exists>w3. report (length cases) 1 0 0 seen w2 = (Inr (p, f), w3)"
    using assms unfolding run_cases_def pooled_stage by (auto simp: bind_Inr)
  from r report_counts have c: "p + f = length seen" "\<forall>y \<in> set seen. \<exists>v. y = Inr v" by fastforce+
  from stage_result[of "\<lambda>_. False" ?f cases w1 seen] s
  have "length seen = length cases \<or> seen \<noteq> [] \<and> breaks (\<lambda>_. False) (last seen)" by simp
  moreover have "\<not> breaks (\<lambda>_. False) (last seen)" if "seen \<noteq> []"
    using c(2) last_in_set[OF that] by (auto simp: breaks_def)
  ultimately show ?thesis using c(1) by auto
qed

lemma split_tier_eq: "split_tier a cs = (filter (tier_fits a) cs, filter (\<lambda>c. \<not> tier_fits a c) cs)"
  by (induction cs) auto

lemma runnable_eq: "runnable_cases a cs = filter (\<lambda>c. applies a c \<and> tier_fits a c) cs"
  by (simp add: runnable_cases_def split_tier_eq conj_commute)

lemma excluded_eq: "excluded_cases a cs = filter (\<lambda>c. applies a c \<and> \<not> tier_fits a c) cs"
  by (simp add: excluded_cases_def split_tier_eq conj_commute)

section \<open>Jobs and schedule do not show\<close>

lemma build_packages_jobs:
  "build_packages (x\<lparr>x_sched := s\<rparr>) t bl a clang j pkgs = build_packages x t bl a clang j' pkgs"
  by (simp add: build_packages_def pooled_stage)

lemma run_cases_jobs:
  "run_cases (x\<lparr>x_sched := s\<rparr>) t a qemu lld clang objs j cases ex = run_cases x t a qemu lld clang objs j' cases ex"
  by (simp add: run_cases_def pooled_stage)

lemma run_arch_jobs:
  "run_arch (x\<lparr>x_sched := s\<rparr>) t a qemu lld clang bl sel j = run_arch x t a qemu lld clang bl sel j'"
  unfolding run_arch_def run_built_def build_hal_def Let_def build_packages_jobs[where j = j and j' = j']
    run_cases_jobs[where j = j and j' = j']
  by simp

lemma run_arches_jobs:
  "run_arches (x\<lparr>x_sched := s\<rparr>) t as lld clang bl sel j = run_arches x t as lld clang bl sel j'"
  by (induction x t as lld clang bl sel j rule: run_arches.induct)
     (simp_all only: run_arches.simps run_arch_jobs[where j' = j'])

lemma run_selected_jobs: "run_selected (x\<lparr>x_sched := s\<rparr>) arches sel j = run_selected x arches sel j'"
proof -
  have tc: "tc (x\<lparr>x_sched := s\<rparr>) = tc x" by (simp add: tc_def)
  have "seam_check (x\<lparr>x_sched := s\<rparr>) = seam_check x" "print_tools (x\<lparr>x_sched := s\<rparr>) = print_tools x"
    "summary (x\<lparr>x_sched := s\<rparr>) = summary x" "prepare_blade (x\<lparr>x_sched := s\<rparr>) = prepare_blade x"
    by (simp_all add: seam_check_def print_tools_def summary_def prepare_blade_def tc Let_def fun_eq_iff)
  then show ?thesis unfolding run_selected_def run_arches_jobs[where j = j and j' = j'] by simp
qed


lemma run_arch_total:
  assumes "run_arch x t a qemu lld clang blade_bin selected jobs w = (Inr (p, f), w')"
  shows "p + f = length (runnable_cases a selected)"
  using assms unfolding run_arch_def run_built_def Let_def
  by (auto simp: bind_Inr split: option.splits dest!: run_cases_count length_map_io)

text \<open>C24: The counts of an architecture add up: whenever running it returns, and on every path on which it
  gives up early, the passed and the failed cases together are exactly the cases that apply to the
  architecture and whose tier it offers.\<close>

theorem run_arch_counts:
  assumes "run_arch x t a qemu lld clang blade_bin selected jobs w = (Inr (p, f), w')"
  shows "p + f = length (filter (\<lambda>c. applies a c \<and> tier_fits a c) selected)"
  using run_arch_total[OF assms] by (simp add: runnable_eq)

text \<open>The report of the cases of an architecture is their verdicts in list order. If no case raises,
  what is printed after the list of the excluded cases is one numbered line per case, each followed by
  the details of its verdict, then an empty line; and the counts are those of the verdicts.\<close>

theorem run_cases_report:
  assumes "print_excluded a excluded w = (Inr (), w1)"
    and "unit_results (run_case (x_host x) (x_emu x) (x_root x) t a qemu objs lld clang) cases w1 = (map Inr vs, w2)"
  shows "run_cases x t a qemu lld clang objs jobs cases excluded w =
    (Inr (length (filter fst vs), length (filter (\<lambda>v. \<not> fst v) vs)),
     w2\<lparr>w_out := w_out w2 @ report_lines (length cases) vs @ [[]]\<rparr>)"
proof -
  have "list_all (\<lambda>y. \<not> breaks (\<lambda>_. False) y) (map Inr vs :: verdict res list)"
    by (simp add: breaks_def list_all_iff)
  then have "stage (\<lambda>_. False) (run_case (x_host x) (x_emu x) (x_root x) t a qemu objs lld clang) cases w1 = (Inr (map Inr vs), w2)"
    using stage_no_break[of "\<lambda>_. False" "run_case (x_host x) (x_emu x) (x_root x) t a qemu objs lld clang" cases w1] assms(2)
    by simp
  then show ?thesis
    by (simp add: run_cases_def pooled_stage bind_apply[of "print_excluded a excluded"] assms(1)
        bind_apply[of "stage _ _ _"] bind_apply[of "report _ _ _ _ _"] report_all report_lines_def)
qed

section \<open>Choosing cases\<close>

definition named :: "test_case \<Rightarrow> string" where
  "named c = norm_name (c_name c)"

lemma norm_id: "CHR ''-'' \<notin> set s \<Longrightarrow> norm_name s = s"
  by (induction s) (auto simp: norm_name_def str_replace_char_def)

lemma table_norm: "map named (TEST_CASES r) = map c_name (TEST_CASES r)"
  using no_hyphen_names[of r] by (auto simp: list_all_iff named_def norm_id)

lemma by_name_iff:
  assumes "distinct (map named table)"
  shows "by_name table n = Some c \<longleftrightarrow> c \<in> set table \<and> named c = n"
proof -
  have d: "distinct (map fst (rev (map (\<lambda>c. (norm_name (c_name c), c)) table)))"
    using assms by (simp add: rev_map[symmetric] comp_def named_def[abs_def])
  show ?thesis
    unfolding by_name_def map_of_eq_Some_iff[OF d] by (auto simp: named_def)
qed

lemma by_name_None:
  assumes "distinct (map named table)"
  shows "by_name table n = None \<longleftrightarrow> n \<notin> named ` set table"
proof -
  have "by_name table n = None \<longleftrightarrow> \<not> (\<exists>c. by_name table n = Some c)" by simp
  then show ?thesis unfolding by_name_iff[OF assms] by auto
qed

text \<open>C29: The \<^verbatim>\<open>--case\<close> options select what they name. Without one every case runs. With some, the run is
  refused exactly when a name is not in the table, and otherwise the selected cases are those named, each
  once and in the order of first mention, with hyphens and underscores interchangeable.\<close>

theorem select_cases_exact:
  "(case select_cases (TEST_CASES r) values of
      Inl unknown \<Rightarrow> unknown \<noteq> [] \<and> unknown = filter (\<lambda>w. w \<notin> c_name ` set (TEST_CASES r)) (wanted_names values)
    | Inr cs \<Rightarrow>
        if values = [] then cs = TEST_CASES r
        else set (wanted_names values) \<subseteq> c_name ` set (TEST_CASES r) \<and>
             map c_name cs = dedup_acc [] (wanted_names values) \<and> set cs \<subseteq> set (TEST_CASES r) \<and> distinct cs)"
proof -
  let ?T = "TEST_CASES r" and ?w = "wanted_names values"
  have d: "distinct (map named ?T)" unfolding table_norm by (rule distinct_names)
  have im: "named ` set ?T = c_name ` set ?T" using table_norm[of r] by (metis list.set_map)
  note none = by_name_None[OF d, unfolded im]
  have nm: "c \<in> set ?T \<Longrightarrow> named c = c_name c" for c using table_norm[of r] by (simp add: map_eq_conv)
  show ?thesis
  proof (cases "values = []")
    case True
    then show ?thesis by (simp add: select_cases_def)
  next
    case vals: False
    show ?thesis
    proof (cases "filter (\<lambda>w. by_name ?T w = None) ?w = []")
      case False
      then show ?thesis using vals by (simp add: select_cases_def Let_def none)
    next
      case True
      let ?cs = "map (\<lambda>w. the (by_name ?T w)) (dedup_acc [] ?w)"
      have sel: "select_cases ?T values = Inr ?cs" using True vals by (simp add: select_cases_def Let_def)
      have known: "\<exists>c. by_name ?T n = Some c \<and> c \<in> set ?T \<and> c_name c = n" if "n \<in> set ?w" for n
      proof -
        have "by_name ?T n \<noteq> None" using True that by (auto simp: filter_empty_conv)
        then obtain c where "by_name ?T n = Some c" by blast
        then show ?thesis using by_name_iff[OF d, of n c] nm by auto
      qed
      have sub: "set ?w \<subseteq> c_name ` set ?T" using True by (auto simp: filter_empty_conv none)
      have names: "map c_name ?cs = dedup_acc [] ?w"
        by (rule map_idI[THEN trans[OF map_map]]) (use known in \<open>fastforce simp: set_dedup_acc\<close>)
      have "distinct (map c_name ?cs)" unfolding names by (rule distinct_dedup_acc)
      then have "distinct ?cs" by (rule distinct_map[THEN iffD1, THEN conjunct1])
      moreover have "set ?cs \<subseteq> set ?T" using known by (fastforce simp: set_dedup_acc)
      ultimately show ?thesis using sel names sub vals by simp
    qed
  qed
qed


lemma run_arch_no_hal:
  assumes "\<And>w. \<exists>m w1. build_shared (x_host x) (x_root x) a clang w = (Inl (ToolError m), w1)"
  shows "\<exists>w'. run_arch x t a qemu lld clang bl selected jobs w = (Inr (0, length (runnable_cases a selected)), w')"
proof -
  have "\<exists>w1. build_hal x a clang w = (Inr None, w1)" for w
  proof -
    obtain m w1 where "build_shared (x_host x) (x_root x) a clang w = (Inl (ToolError m), w1)" using assms by blast
    then show ?thesis by (simp add: build_hal_def catch_tool_def catch_def bind_apply)
  qed
  from this[of "w\<lparr>w_out := w_out w @ [arch_header (h_tty (x_host x)) a qemu]\<rparr>"] show ?thesis
    by (auto simp: run_arch_def bind_apply)
qed

text \<open>A host on which every program succeeds, and an emulator on which every kernel prints the same line
  and stops cleanly.\<close>

definition runner_ex :: runner where
  "runner_ex =
     \<lparr>x_host = host_ex\<lparr>h_exec := exec_o\<rparr>, x_emu = (\<lambda>argv feed fs. Exited 0 ''SOS: up''), x_sched = (\<lambda>k. k),
      x_walk = (\<lambda>fs p. []), x_close = (\<lambda>w ws. []), x_root = ''/r''\<rparr>"

definition case_up :: test_case where
  "case_up = blank_case\<lparr>c_name := ''up'', c_src := ''/r/kernel/main.saw'', c_expect_out := OneString ''up'',
                        c_expect_clean_exit := True\<rparr>"

definition case_down :: test_case where
  "case_down = blank_case\<lparr>c_name := ''down'', c_src := ''/r/kernel/main.saw'', c_expect_out := OneString ''down'',
                          c_expect_clean_exit := True\<rparr>"


definition broken_ex :: runner where
  "broken_ex = runner_ex\<lparr>x_host := host_ex\<lparr>h_exec := (\<lambda>c fs. (Some (1, [], ''no such option''), fs))\<rparr>\<rparr>"

lemma broken_hal: "\<exists>m w1. build_shared (x_host broken_ex) r a clang w = (Inl (ToolError m), w1)"
  by (simp add: build_shared_def Let_def bind_apply run_def run_in_def run_proc_def broken_ex_def runner_ex_def raise_def)

theorem run_arch_counts_witness:
  "\<exists>w'. run_arch broken_ex tc_ex (arch_riscv32 ''/r'') ''/q'' ''/l'' ''/c'' [] [case_up, case_down] 2 (world_ex []) = (Inr (0, 2), w') \<and>
     0 + 2 = length (filter (\<lambda>c. applies (arch_riscv32 ''/r'') c \<and> tier_fits (arch_riscv32 ''/r'') c) [case_up, case_down])"
proof -
  let ?a = "arch_riscv32 ''/r''"
  have two: "length (runnable_cases ?a [case_up, case_down]) = 2" by code_simp
  obtain w' where w': "run_arch broken_ex tc_ex ?a ''/q'' ''/l'' ''/c'' [] [case_up, case_down] 2 (world_ex []) = (Inr (0, 2), w')"
    using run_arch_no_hal[OF broken_hal, of tc_ex ?a "''/q''" "''/l''" "''/c''" "[]" "[case_up, case_down]" 2 "world_ex []"]
    unfolding two by blast
  show ?thesis using run_arch_counts[OF w'] w' by blast
qed

theorem run_cases_report_witness:
  "\<exists>w'. run_cases runner_ex tc_ex (arch_riscv32 ''/r'') ''/q'' ''/l'' ''/c'' [] 2 [case_up, case_down] [] (world_ex []) = (Inr (1, 1), w')
     \<and> (\<exists>why. suffix [''[1/2] '' @ [CHR 0xE2, CHR 0x9C, CHR 0x93] @ '' up'', ''[2/2] '' @ [CHR 0xE2, CHR 0x9C, CHR 0x97] @ '' down  ('' @ why @ '')'', []]
          (w_out w'))"
proof -
  let ?u = "unit_results (run_case (x_host runner_ex) (x_emu runner_ex) (x_root runner_ex) tc_ex (arch_riscv32 ''/r'') ''/q'' [] ''/l'' ''/c'')
              [case_up, case_down] (world_ex [])"
  let ?why = "''missing expected output '' @ py_repr ''down'' @ '' (got '' @ py_repr ''SOS: up'' @ '')''"
  let ?vs = "[(True, [CHR 0xE2, CHR 0x9C, CHR 0x93] @ '' up'', []),
              (False, [CHR 0xE2, CHR 0x9C, CHR 0x97] @ '' down  ('' @ ?why @ '')'', [])]"
  have "fst ?u = map Inr ?vs" by code_simp
  then obtain w2 where u: "?u = (map Inr ?vs, w2)" by (metis prod.collapse)
  have e: "print_excluded (arch_riscv32 ''/r'') [] (world_ex []) = (Inr (), world_ex [])" by (simp add: print_excluded_def)
  have l: "report_lines (length [case_up, case_down]) ?vs @ [[]]
      = [''[1/2] '' @ [CHR 0xE2, CHR 0x9C, CHR 0x93] @ '' up'', ''[2/2] '' @ [CHR 0xE2, CHR 0x9C, CHR 0x97] @ '' down  ('' @ ?why @ '')'', []]"
    by code_simp
  have c: "length (filter fst ?vs) = 1" "length (filter (\<lambda>v. \<not> fst v) ?vs) = 1" by simp_all
  from run_cases_report[OF e u, of 2] show ?thesis
    unfolding l c by (intro exI[of _ "w2\<lparr>w_out := w_out w2 @ _\<rparr>"] exI[of _ ?why] conjI) (auto simp: suffix_def)
qed


end
