(* ===== verification/Suite_Table.thy ===== *)
theory Suite_Table
  imports Run_Suite
begin

text \<open>
  The table \<^verbatim>\<open>TEST_CASES\<close> run by \<^verbatim>\<open>_run_arch\<close> of \<^verbatim>\<open>src/tools/sos_runner.py\<close>: how many cases each profile
  runs and excludes, that no entry can make the judging or the staging of a case fail, and that an excluded
  case is always printed.
\<close>

section \<open>The table on the three profiles\<close>

lemma applies_shape: "applies a (case_shape c) = applies a c"
  by (simp add: applies_def)

lemma tier_fits_shape: "tier_fits a (case_shape c) = tier_fits a c"
  by (simp add: tier_fits_def)

lemma applies_root: "a_name a = a_name b \<Longrightarrow> applies a = applies b"
  by (simp add: applies_def fun_eq_iff)

lemma profile_root:
  "a_name (arch_riscv32 r) = ''riscv32''" "a_name (arch_arm64 r) = ''arm64''" "a_name (arch_riscv32_flat r) = ''riscv32-flat''"
  "a_tier (arch_riscv32 r) = TIER_ISOLATED" "a_tier (arch_arm64 r) = TIER_ISOLATED" "a_tier (arch_riscv32_flat r) = TIER_FLAT"
  by (simp_all add: arch_defs)

text \<open>The number of cases of one of the parts of the table that run, and that are excluded.\<close>

definition tally :: "string \<Rightarrow> string \<Rightarrow> test_case list \<Rightarrow> nat \<times> nat" where
  "tally name tier cs =
     (length (filter (\<lambda>c. name \<in> set (dict_get (c_arches c) [name]) \<and> (c_tier c = None \<or> c_tier c = Some tier)) cs),
      length (filter (\<lambda>c. name \<in> set (dict_get (c_arches c) [name]) \<and> \<not> (c_tier c = None \<or> c_tier c = Some tier)) cs))"

lemma tally_append: "tally n t (xs @ ys) = (fst (tally n t xs) + fst (tally n t ys), snd (tally n t xs) + snd (tally n t ys))"
  by (simp add: tally_def)

lemma tally_cases: "(length (runnable_cases a cs), length (excluded_cases a cs)) = tally (a_name a) (a_tier a) cs"
proof -
  have "tier_fits a = (\<lambda>c. c_tier c = None \<or> c_tier c = Some (a_tier a))"
    by (simp add: tier_fits_def fun_eq_iff split: option.splits)
  then show ?thesis by (simp add: tally_def runnable_eq excluded_eq applies_def)
qed

definition key_tally :: "string \<Rightarrow> string \<Rightarrow> (string list option \<times> string option) list \<Rightarrow> nat \<times> nat" where
  "key_tally name tier ks =
     (length (filter (\<lambda>(as, t). name \<in> set (dict_get as [name]) \<and> (t = None \<or> t = Some tier)) ks),
      length (filter (\<lambda>(as, t). name \<in> set (dict_get as [name]) \<and> \<not> (t = None \<or> t = Some tier)) ks))"

lemma tally_keys: "tally n t cs = key_tally n t (map case_key cs)"
  by (induction cs) (auto simp: tally_def key_tally_def case_key_def)

lemma tally_parts:
  "tally ''riscv32'' TIER_ISOLATED (table_A r) = (33, 0)"
  "tally ''arm64'' TIER_ISOLATED (table_A r) = (33, 0)"
  "tally ''riscv32-flat'' TIER_FLAT (table_A r) = (32, 1)"
  "tally ''riscv32'' TIER_ISOLATED (table_B r) = (34, 0)"
  "tally ''arm64'' TIER_ISOLATED (table_B r) = (34, 0)"
  "tally ''riscv32-flat'' TIER_FLAT (table_B r) = (31, 3)"
  "tally ''riscv32'' TIER_ISOLATED (table_C r) = (33, 0)"
  "tally ''arm64'' TIER_ISOLATED (table_C r) = (33, 0)"
  "tally ''riscv32-flat'' TIER_FLAT (table_C r) = (33, 0)"
  "tally ''riscv32'' TIER_ISOLATED (table_D r) = (29, 0)"
  "tally ''arm64'' TIER_ISOLATED (table_D r) = (29, 0)"
  "tally ''riscv32-flat'' TIER_FLAT (table_D r) = (28, 1)"
  unfolding tally_keys keys_A keys_B keys_C keys_D
  by (simp_all add: key_tally_def TIER_ISOLATED_def TIER_FLAT_def)

lemma tallies:
  "tally ''riscv32'' TIER_ISOLATED (TEST_CASES r) = (129, 0)"
  "tally ''arm64'' TIER_ISOLATED (TEST_CASES r) = (129, 0)"
  "tally ''riscv32-flat'' TIER_FLAT (TEST_CASES r) = (124, 5)"
  unfolding TEST_CASES_def by (simp_all add: tally_append tally_parts)


lemma match_formats:
  assumes "list_all (\<lambda>s. formats (map fst fmt) s) ws"
  shows "\<exists>v. match_in_order fmt out hay one cur ws = Inr v"
  using assms
proof (induction ws arbitrary: cur)
  case Nil
  show ?case by simp
next
  case (Cons w ws)
  then obtain s where "str_format fmt w = Inr s" by (auto simp: formats_str_format)
  with Cons show ?case by (auto split: option.splits)
qed

lemma check_total:
  assumes "expects_ok c"
  shows "\<exists>v. check c a status out timed_out = Inr v"
proof -
  have "list_all (\<lambda>s. formats (map fst (expectations a)) s) (expect_strings (c_expect_out c))"
    using assms by (auto simp: expects_ok_def expectations_keys list_all_iff)
  from match_formats[OF this, of out "haystack c out" "c_overlapping_matches c" 0]
  show ?thesis
    by (cases "c_expect_out c") (auto simp: check_def check_output_def split: option.splits)
qed

text \<open>C25: No entry of the table can make the judging of a run or the staging of its regions fail: whatever the
  emulator printed and however it ended, \<^verbatim>\<open>_check\<close> answers with a verdict on every profile, and the region
  rows of the entry are never refused.\<close>

theorem table_cases_safe:
  assumes "c \<in> set (TEST_CASES r)"
  shows "(\<exists>v. check c a status out timed_out = Inr v) \<and> (\<exists>rows. region_rows c a = Inr rows)"
proof -
  have "case_wf c" using TEST_CASES_ok[OF assms] .
  then have "expects_ok c" "regions_ok c" by (simp_all add: case_wf_def)
  then show ?thesis
    using check_total[of c a status out timed_out] by (auto simp: region_rows_def regions_ok_def Let_def)
qed

lemma table_D_nonempty: "case_c_hello r \<in> set (TEST_CASES r)"
  by (simp add: TEST_CASES_def table_D_def)

theorem table_cases_safe_witness:
  "\<exists>v. check (case_c_hello ''/r'') (arch_arm64 ''/r'') None ''garbage'' False = Inr v"
  using table_cases_safe[OF table_D_nonempty, of "''/r''" "arch_arm64 ''/r''" None "''garbage''" False] by blast

section \<open>Nothing is skipped silently\<close>

named_theorems keep_rules \<open>what a computation over the host leaves printed\<close>

definition printed :: "string \<Rightarrow> world \<Rightarrow> bool" where
  "printed l w \<longleftrightarrow> l \<in> set (w_out w)"

lemma keeps_basic [keep_rules]:
  "keeps (printed l) (ret x)" "keeps (printed l) (raise e)" "keeps (printed l) (of_res y)" "keeps (printed l) get_fs"
  "keeps (printed l) (upd_fs f)" "keeps (printed l) (print_out s)" "keeps (printed l) (print_err s)"
  by (simp_all add: keeps_def printed_def)

lemmas [keep_rules] = keeps_bind keeps_each keeps_map_io

lemma keeps_catch [keep_rules]: "keeps P m \<Longrightarrow> (\<And>e. keeps P (k e)) \<Longrightarrow> keeps P (catch m k)"
  unfolding keeps_def catch_def by (auto split: prod.splits sum.splits)

lemma keeps_run_proc [keep_rules]: "keeps (printed l) (run_proc h c)"
  by (auto simp: keeps_def run_proc_def printed_def split: prod.splits option.splits)

lemma keeps_run_in [keep_rules]: "keeps (printed l) (run_in h argv cwd env)" "keeps (printed l) (run h argv)"
  unfolding run_def run_in_def by (auto intro!: keep_rules split: prod.splits)

lemma keeps_steps [keep_rules]:
  "keeps (printed l) (copyfile s d)"
  "keeps (printed l) (csrc_step h r c a clang)"
  "keeps (printed l) (asm_step h r c a clang)"
  "keeps (printed l) (root_step h r c a clang)"
  "keeps (printed l) (regions_step h r c a clang)"
proof -
  show cp: "keeps (printed l) (copyfile s d)" for s d
    unfolding copyfile_def by (auto intro!: keep_rules split: option.splits)
  show "keeps (printed l) (csrc_step h r c a clang)" "keeps (printed l) (asm_step h r c a clang)"
    unfolding csrc_step_def asm_step_def Let_def by (auto intro!: keep_rules split: option.splits)
  show "keeps (printed l) (root_step h r c a clang)"
    unfolding root_step_def stitch_root_image_def Let_def by (auto intro!: keep_rules cp split: option.splits)
  show "keeps (printed l) (regions_step h r c a clang)"
    unfolding regions_step_def stitch_regions_def Let_def by (auto intro!: keep_rules cp)
qed

lemma keeps_run_case [keep_rules]: "keeps (printed l) (run_case h emu r t a qemu objs lld clang c)"
  unfolding run_case_def build_elf_def Let_def catch_tool_def
  by (auto intro!: keep_rules split: sum.splits prod.splits exc.splits)

lemma keeps_unit_results:
  "(\<And>i. keeps P (f i)) \<Longrightarrow> P w \<Longrightarrow> P (snd (unit_results f items w))"
proof (induction items arbitrary: w)
  case Nil
  then show ?case by simp
next
  case (Cons i items)
  then have "P (snd (f i w))" by (simp add: keeps_def)
  then show ?case using Cons.IH[OF Cons.prems(1), of "snd (f i w)"] by (auto split: prod.splits)
qed

lemma keeps_stage [keep_rules]: "(\<And>i. keeps P (f i)) \<Longrightarrow> keeps P (stage bad f items)"
proof -
  assume f: "\<And>i. keeps P (f i)"
  have "P (snd (stage bad f items w))" if "P w" for w
    unfolding stage_def Let_def snd_conv by (rule keeps_unit_results[OF f that])
  then show ?thesis by (simp add: keeps_def)
qed

lemma keeps_report [keep_rules]: "keeps (printed l) (report n i p f seen)"
proof (induction n i p f seen rule: report.induct)
  case (1 n i p f)
  show ?case unfolding report.simps by (intro keep_rules)
next
  case (2 n i p f e rest)
  show ?case unfolding report.simps by (intro keep_rules)
next
  case (3 n i p f ok headline detail rest)
  then show ?case unfolding report.simps by (intro keep_rules)
qed

definition excluded_text :: "test_case \<Rightarrow> string" where
  "excluded_text c = ''    - '' @ c_name c @ '': '' @ the (c_tier_reason c)"

lemma print_excluded_case_eq:
  "print_excluded_case c w =
     (if c_tier_reason c = None then (Inl (KeyError ''tier_reason''), w)
      else (Inr (), w\<lparr>w_out := w_out w @ [excluded_text c]\<rparr>))"
  by (auto simp: print_excluded_case_def excluded_line_def excluded_text_def bind_apply)

lemma each_prints:
  "each print_excluded_case cs w = (Inr (), w') \<Longrightarrow> w' = w\<lparr>w_out := w_out w @ map excluded_text cs\<rparr>"
proof (induction cs arbitrary: w)
  case Nil
  then show ?case by simp
next
  case (Cons c cs)
  then have "each print_excluded_case cs (w\<lparr>w_out := w_out w @ [excluded_text c]\<rparr>) = (Inr (), w')"
    by (auto simp: bind_apply print_excluded_case_eq[of c] split: if_splits)
  from Cons.IH[OF this] show ?case by simp
qed

lemma print_excluded_lines:
  assumes "print_excluded a ex w = (Inr (), w')" "c \<in> set ex"
  shows "printed (excluded_text c) w'"
proof -
  obtain w1 where "each print_excluded_case ex w1 = (Inr (), w')"
    using assms by (auto simp: print_excluded_def split: if_splits)
  from each_prints[OF this] assms(2) show ?thesis by (auto simp: printed_def)
qed

lemma run_cases_excluded:
  assumes "run_cases x t a qemu lld clang objs jobs cases ex w = (Inr pf, w')" "c \<in> set ex"
  shows "printed (excluded_text c) w'"
proof -
  let ?rest = "bind (stage (\<lambda>_. False) (run_case (x_host x) (x_emu x) (x_root x) t a qemu objs lld clang) cases) (\<lambda>seen.
     bind (report (length cases) 1 0 0 seen) (\<lambda>counts. bind (print_out []) (\<lambda>_. ret counts)))"
  obtain u w1 where p0: "print_excluded a ex w = (Inr u, w1)" and r: "?rest w1 = (Inr pf, w')"
    using assms(1) unfolding run_cases_def pooled_stage bind_Inr[of "print_excluded a ex"] by blast
  have p: "print_excluded a ex w = (Inr (), w1)" using p0 by simp
  have "keeps (printed (excluded_text c)) ?rest" by (intro keep_rules)
  from keepsD[OF this print_excluded_lines[OF p assms(2)] r] show ?thesis .
qed

end
