(* ===== verification/Suite_Exit.thy ===== *)
theory Suite_Exit
  imports Suite_Table
begin

text \<open>
  The exit status of \<^verbatim>\<open>main\<close> of \<^verbatim>\<open>src/tools/sos_runner.py\<close>: which exceptions the steps of a run can end in, and
  what a run that ends with status 0 has done.
\<close>

section \<open>The exit status\<close>

text \<open>No step before the summary ends the run with status 0.\<close>

definition not_exit0 :: "exc \<Rightarrow> bool" where
  "not_exit0 e \<longleftrightarrow> e \<noteq> SystemExit 0"

lemma not_exit0_simps [simp]:
  "not_exit0 (ToolError m)" "not_exit0 (ToolchainError m)" "not_exit0 (KeyError k)" "not_exit0 IndexError"
  "not_exit0 (ValueError m)" "not_exit0 (OSError p)" "not_exit0 (SystemExit 1)" "not_exit0 (SystemExit 2)"
  by (simp_all add: not_exit0_def)

lemma errs_catch [errs_rules]: "(\<And>e. errs P (k e)) \<Longrightarrow> errs P (catch m k)"
  unfolding errs_def catch_def by (auto split: prod.splits sum.splits)

lemma errs_catch_tool: "errs P m \<Longrightarrow> (\<And>e. errs P (k e)) \<Longrightarrow> errs P (catch_tool m k)"
  unfolding catch_tool_def errs_def catch_def raise_def
  by (auto split: prod.splits sum.splits exc.splits)

lemma errs_run [errs_rules]: "errs not_exit0 (run_in h argv cwd env)" "errs not_exit0 (run h argv)"
  unfolding run_def run_in_def by (auto intro!: errs_rules split: prod.splits)

lemma str_format_exc: "str_format kv s = Inl e \<Longrightarrow> not_exit0 e"
proof (induction kv s arbitrary: e rule: str_format.induct)
  case (1 kv)
  then show ?case by simp
next
  case (2 kv c cs)
  have m: "map_sum id f x = Inl e \<longleftrightarrow> x = Inl e" for f :: "string \<Rightarrow> string" and x :: "string res" and e
    by (cases x) auto
  show ?case
  proof (cases "c = CHR ''{''")
    case True
    with 2 show ?thesis
      by (auto simp: str_format.simps(2) m split: list.splits option.splits if_splits simp del: take_field.simps)
  next
    case False
    with 2 show ?thesis
      by (auto simp: str_format.simps(2) m split: list.splits if_splits)
  qed
qed

lemma match_exc: "match_in_order fmt out hay one cur ws = Inl e \<Longrightarrow> not_exit0 e"
  by (induction ws arbitrary: cur) (auto dest: str_format_exc split: sum.splits option.splits)

lemma check_exc: "check c a st out to = Inl e \<Longrightarrow> not_exit0 e"
  by (auto simp: check_def check_output_def dest: match_exc str_format_exc split: if_splits sum.splits option.splits expect_out.splits)

lemma regions_text_exc: "regions_text c a = Inl e \<Longrightarrow> not_exit0 e"
proof -
  assume "regions_text c a = Inl e"
  then have "region_rows c a = Inl e" unfolding regions_text_def by (cases "region_rows c a") auto
  then show ?thesis by (auto simp: region_rows_def Let_def split: if_splits)
qed

lemma child_image_exc: "child_image c a i = Inl e \<Longrightarrow> not_exit0 e"
  by (auto simp: child_image_def split: option.splits if_splits)

lemma module_exc: "module_path_arg t n = Inl e \<Longrightarrow> not_exit0 e" "blade_package_dir t = Inl e \<Longrightarrow> not_exit0 e"
proof -
  have r: "require_root t what = Inl e \<Longrightarrow> not_exit0 e" for what e
    by (auto simp: require_root_def split: option.splits if_splits)
  have m: "map_sum id f x = Inl e \<longleftrightarrow> x = Inl e" for f :: "string \<Rightarrow> string" and x :: "string res" and e
    by (cases x) auto
  show "module_path_arg t n = Inl e \<Longrightarrow> not_exit0 e"
    by (auto simp: module_path_arg_def module_source_def m dest: r split: option.splits)
  show "blade_package_dir t = Inl e \<Longrightarrow> not_exit0 e"
    by (auto simp: blade_package_dir_def m dest: r)
qed

lemma errs_copyfile [errs_rules]: "errs not_exit0 (copyfile s d)"
  unfolding copyfile_def by (auto intro!: errs_rules split: option.splits)

lemma errs_build_elf: "errs not_exit0 (build_elf h r t c a objs lld clang)"
  unfolding build_elf_def csrc_step_def asm_step_def root_step_def regions_step_def stitch_root_image_def
    stitch_regions_def Let_def
  by (auto intro!: errs_rules errs_of_res intro: module_exc regions_text_exc child_image_exc split: option.splits)

lemma errs_run_case: "errs not_exit0 (run_case h emu r t a qemu objs lld clang c)"
proof -
  have "errs not_exit0 (catch_tool (bind (build_elf h r t c a objs lld clang) (\<lambda>elf. ret (Inr elf))) (\<lambda>e. ret (Inl e)))"
    by (intro errs_catch_tool errs_bind errs_build_elf errs_basic)
  moreover have "errs not_exit0 (of_res (check c a st out late))" for st out late
    by (rule errs_of_res) (rule check_exc)
  ultimately show ?thesis
    unfolding run_case_def by (auto intro!: errs_bind errs_basic split: sum.splits prod.splits)
qed

lemma unit_results_exc:
  "(\<And>i. errs P (f i)) \<Longrightarrow> Inl e \<in> set (fst (unit_results f items w)) \<Longrightarrow> P e"
proof (induction items arbitrary: w)
  case Nil
  then show ?case by simp
next
  case (Cons i items)
  obtain y w1 where y: "f i w = (y, w1)" by fastforce
  obtain ys w2 where ys: "unit_results f items w1 = (ys, w2)" by fastforce
  from Cons.prems(2) y ys have "y = Inl e \<or> Inl e \<in> set (fst (unit_results f items w1))" by auto
  then show ?case using Cons.IH[OF Cons.prems(1)] errsD[OF Cons.prems(1)] y by blast
qed

lemma stage_exc:
  assumes "\<And>i. errs P (f i)" "stage bad f items w = (Inr seen, w')" "Inl e \<in> set seen"
  shows "P e"
  using stage_result[of bad f items w seen] assms unit_results_exc[OF assms(1), where e = e and items = items and w = w] set_mono_prefix
  by fastforce

lemma report_exc: "report n i p f seen w = (Inl e, w') \<Longrightarrow> Inl e \<in> set seen"
proof (induction n i p f seen arbitrary: w rule: report.induct)
  case (3 n i p f ok headline detail rest)
  then show ?case by (auto simp: bind_apply each_print_out split: if_splits)
qed auto

lemma print_packages_exc: "print_packages seen w = (Inl e, w') \<Longrightarrow> Inl e \<in> set seen"
  by (induction seen arbitrary: w rule: print_packages.induct) auto

lemma stage_ok: "\<exists>seen w'. stage bad f items w = (Inr seen, w')"
  by (simp add: stage_def Let_def)

lemma errs_stage:
  assumes "\<And>i. errs P (f i)" "\<And>seen w e w'. k seen w = (Inl e, w') \<Longrightarrow> P e \<or> Inl e \<in> set seen"
  shows "errs P (bind (stage bad f items) k)"
  unfolding errs_def
proof (intro allI impI)
  fix w e w'
  assume b: "bind (stage bad f items) k w = (Inl e, w')"
  obtain seen w1 where s: "stage bad f items w = (Inr seen, w1)" using stage_ok by blast
  with b have "k seen w1 = (Inl e, w')" by (simp add: bind_apply)
  with assms(2) stage_exc[OF assms(1) s] show "P e" by blast
qed

lemma the_image_exc: "the_image d imgs = Inl e \<Longrightarrow> not_exit0 e"
  by (auto simp: the_image_def split: if_splits)

lemma errs_build_root_image: "errs not_exit0 (build_root_image h t bl pkg a clang)"
  unfolding build_root_image_def sweep_images_def remove_file_def Let_def
  by (auto intro!: errs_rules errs_of_res intro: the_image_exc)

lemma errs_build_pkg: "errs not_exit0 (build_pkg h r t bl a clang pkg)"
  unfolding build_pkg_def
  by (intro errs_catch_tool errs_bind errs_build_root_image errs_basic)
     (auto intro: errs_basic errs_raise split: option.splits)

lemma errs_build_shared: "errs not_exit0 (build_shared h r a clang)"
  unfolding build_shared_def Let_def by (auto intro!: errs_rules)

lemma errs_with_images: "errs not_exit0 (with_images a c)"
  unfolding with_images_def root_image_path_def Let_def
  by (auto intro!: errs_rules split: option.splits list.splits)

lemma errs_print_excluded: "errs not_exit0 (print_excluded a ex)"
proof -
  have "errs not_exit0 (print_excluded_case c)" for c
    by (simp add: errs_def print_excluded_case_eq)
  then show ?thesis unfolding print_excluded_def by (auto intro!: errs_bind errs_each errs_basic)
qed

lemma errs_run_cases: "errs not_exit0 (run_cases x t a qemu lld clang objs jobs cases ex)"
  unfolding run_cases_def pooled_stage
proof (intro errs_bind[OF errs_print_excluded] errs_stage errs_run_case)
  fix seen w e w'
  assume "bind (report (length cases) 1 0 0 seen) (\<lambda>counts. bind (print_out []) (\<lambda>_. ret counts)) w = (Inl e, w')"
  then show "not_exit0 e \<or> Inl e \<in> set seen" by (auto simp: bind_Inl dest: report_exc)
qed

lemma errs_build_packages: "errs not_exit0 (build_packages x t bl a clang jobs pkgs)"
proof -
  have "errs not_exit0 (bind (stage bad (build_pkg (x_host x) (x_root x) t bl a clang) pkgs) print_packages)" for bad
    by (rule errs_stage) (auto intro: errs_build_pkg dest: print_packages_exc)
  then show ?thesis unfolding build_packages_def pooled_stage by (auto intro: errs_basic)
qed

lemma errs_run_arch: "errs not_exit0 (run_arch x t a qemu lld clang bl sel jobs)"
proof -
  have hal: "errs not_exit0 (build_hal x a clang)"
    unfolding build_hal_def by (intro errs_catch_tool errs_bind errs_build_shared errs_basic)
  have built: "errs not_exit0 (run_built x t a qemu lld clang bl sel jobs objs)" for objs
    unfolding run_built_def Let_def
    by (auto intro!: errs_bind errs_build_packages errs_basic errs_map_io errs_with_images errs_run_cases split: option.splits)
  show ?thesis
    unfolding run_arch_def by (auto intro!: errs_bind errs_basic hal built split: option.splits)
qed

lemma errs_run_arches: "errs not_exit0 (run_arches x t as lld clang bl sel jobs)"
proof (induction as)
  case Nil
  show ?case unfolding run_arches.simps by (rule errs_basic)
next
  case (Cons p as)
  show ?case
    by (cases p, hypsubst, unfold run_arches.simps, intro errs_bind errs_run_arch Cons errs_basic)
qed

lemma errs_tc: "errs not_exit0 (tc x)"
proof -
  have "resolver_exc e \<Longrightarrow> not_exit0 e" for e by (cases e) (auto simp: resolver_exc_def)
  then have "errs not_exit0 (resolve (x_host x) (h_env (x_host x)) (x_root x) False)"
    using errs_resolve[of "x_host x" "h_env (x_host x)" "x_root x" False] by (auto simp: errs_def)
  then have "errs not_exit0 (catch (resolve (x_host x) (h_env (x_host x)) (x_root x) False)
      (\<lambda>e. case e of ToolchainError m \<Rightarrow> bind (print_err (red_error m)) (\<lambda>_. exit 1) | _ \<Rightarrow> raise e))"
    unfolding errs_def catch_def exit_def
    by (auto split: prod.splits sum.splits exc.splits)
  then show ?thesis
    unfolding tc_def Let_def by (auto intro!: errs_bind errs_each errs_basic)
qed

lemma errs_prepare_blade: "errs not_exit0 (prepare_blade x cases)"
proof -
  have bb: "errs not_exit0 (build_blade h t d)" for h t d
    unfolding build_blade_def Let_def
    by (auto intro!: errs_rules errs_of_res intro: module_exc split: option.splits)
  show ?thesis
    unfolding prepare_blade_def Let_def exit_def
    by (auto intro!: errs_bind errs_basic errs_tc errs_catch_tool bb errs_raise)
qed

lemma errs_first_clang: "errs not_exit0 (first_clang h r arches cands)"
proof -
  have probe: "errs not_exit0 (probe_arches h r p arches)" for p
  proof (induction arches)
    case Nil
    show ?case unfolding probe_arches.simps by (rule errs_basic)
  next
    case (Cons a as)
    have "errs not_exit0 (if ok then probe_arches h r p as else ret False)" for ok
      using Cons by (simp add: errs_basic del: io_simps)
    then show ?case unfolding probe_arches.simps
      by (intro errs_bind errs_catch_tool errs_run errs_basic)
  qed
  show ?thesis
  proof (induction cands)
    case Nil
    show ?case unfolding first_clang.simps by (rule errs_basic)
  next
    case (Cons c cs)
    then have "errs not_exit0 (case candidate_path h fs c of None \<Rightarrow> first_clang h r arches cs
        | Some p \<Rightarrow> bind (probe_arches h r p arches) (\<lambda>ok. if ok then ret (Some p) else first_clang h r arches cs))" for fs
      by (auto intro!: errs_bind probe errs_basic split: option.splits)
    then show ?case unfolding first_clang.simps by (intro errs_bind errs_basic)
  qed
qed

lemma errs_probe_tools: "errs not_exit0 (probe_tools h r arches)"
proof -
  have hint: "errs not_exit0 (print_hint tool)" for tool
    unfolding print_hint_def by (auto intro!: errs_bind errs_basic errs_of_res split: option.splits)
  show ?thesis
    unfolding probe_tools_def find_clang_def Let_def
    by (auto intro!: errs_bind errs_first_clang errs_basic errs_each hint errs_raise)
qed

lemma errs_seam_check: "errs not_exit0 (seam_check x)"
  unfolding seam_check_def exit_def by (auto intro!: errs_bind errs_each errs_basic errs_raise split: prod.splits)

lemma errs_print_tools: "errs not_exit0 (print_tools x arches ts)"
  unfolding print_tools_def Let_def by (auto intro!: errs_bind errs_each errs_basic)

lemma summary_exit: "summary x arches counts w = (r, w') \<Longrightarrow> r = Inl (SystemExit (if sum_list (map snd counts) = 0 then 0 else 1))"
  by (auto simp: summary_def Let_def exit_def bind_apply split: if_splits)

lemma run_arches_counts:
  "run_arches x t (map (\<lambda>a. (a, q a)) arches) lld clang bl sel jobs w = (Inr counts, w') \<Longrightarrow>
     list_all2 (\<lambda>a (p, f). p + f = length (runnable_cases a sel)) arches counts"
proof (induction arches arbitrary: counts w)
  case Nil
  then show ?case by simp
next
  case (Cons a arches)
  then obtain pf w1 more where one: "run_arch x t a (q a) lld clang bl sel jobs w = (Inr pf, w1)"
    and rest: "run_arches x t (map (\<lambda>a. (a, q a)) arches) lld clang bl sel jobs w1 = (Inr more, w')"
    and c: "counts = pf # more"
    by (auto simp: bind_Inr)
  obtain p f where pf: "pf = (p, f)" by (cases pf)
  have "p + f = length (runnable_cases a sel)"
    using one unfolding pf by (rule run_arch_total)
  then show ?case using Cons.IH[OF rest] by (simp add: c pf)
qed


lemma exit0_step:
  assumes "bind m k w = (Inl (SystemExit 0), w')" "errs not_exit0 m"
  obtains a w1 where "m w = (Inr a, w1)" "k a w1 = (Inl (SystemExit 0), w')"
proof -
  have "m w \<noteq> (Inl (SystemExit 0), w')" using errsD[OF assms(2), of w "SystemExit 0" w'] by (auto simp: not_exit0_def)
  then show ?thesis using assms(1) that unfolding bind_Inl by blast
qed

lemma exit2_not_0:
  assumes "errs not_exit0 m"
  shows "bind m (\<lambda>_. exit 2) w \<noteq> (Inl (SystemExit 0), w')"
proof
  assume "bind m (\<lambda>_. exit 2) w = (Inl (SystemExit 0), w')"
  from exit0_step[OF this assms] show False by (auto simp: exit_def)
qed

lemma virt_main_exit0:
  assumes "virt_main x args w = (Inl (SystemExit 0), w')"
  obtains arches selected wa where "select_arches x args w = (Inr arches, wa)"
    "select_cases (TEST_CASES (x_root x)) (arg_cases args) = Inr selected"
    "run_selected x arches selected (nat (arg_jobs args)) wa = (Inl (SystemExit 0), w')"
proof -
  have sa: "errs not_exit0 (select_arches x args)"
    unfolding select_arches_def Let_def exit_def by (auto intro!: errs_bind errs_basic errs_raise split: option.splits)
  have pu: "errs not_exit0 (each (print_unknown x) u)" for u
    unfolding print_unknown_def Let_def by (intro errs_each errs_basic)
  have jobs: "\<not> arg_jobs args < 1"
  proof
    assume j: "arg_jobs args < 1"
    show False using assms unfolding virt_main_def Let_def if_P[OF j] by (rule exit2_not_0[OF errs_basic(5), THEN notE])
  qed
  let ?k = "\<lambda>arches. case select_cases (TEST_CASES (x_root x)) (arg_cases args) of
          Inl unknown \<Rightarrow> bind (each (print_unknown x) unknown) (\<lambda>_. exit 2)
        | Inr selected \<Rightarrow> run_selected x arches selected (nat (arg_jobs args))"
  have "bind (select_arches x args) ?k w = (Inl (SystemExit 0), w')"
    using assms unfolding virt_main_def Let_def if_not_P[OF jobs] .
  then obtain arches wa where a: "select_arches x args w = (Inr arches, wa)" and k: "?k arches wa = (Inl (SystemExit 0), w')"
    using sa by (rule exit0_step)
  show ?thesis
  proof (cases "select_cases (TEST_CASES (x_root x)) (arg_cases args)")
    case (Inl u)
    with k have "bind (each (print_unknown x) u) (\<lambda>_. exit 2 :: unit io) wa = (Inl (SystemExit 0), w')" by simp
    then show ?thesis by (rule exit2_not_0[OF pu, THEN notE])
  next
    case (Inr selected)
    with k a that show ?thesis by simp
  qed
qed

lemma run_selected_exit0:
  assumes "run_selected x arches sel jobs w = (Inl (SystemExit 0), w')"
  shows "\<exists>(ts :: tools) t bl w4 counts w5.
    run_arches x t (map (\<lambda>a. (a, or_else (dict_get (map_of (t_qemus ts) (a_name a)) None) [])) arches)
       (or_else (t_lld ts) []) (or_else (t_clang ts) []) bl sel jobs w4 = (Inr counts, w5) \<and>
    sum_list (map snd counts) = 0"
proof -
  let ?q = "\<lambda>ts. map (\<lambda>a. (a, or_else (dict_get (map_of (t_qemus ts) (a_name a)) None) [])) arches"
  let ?k4 = "\<lambda>ts (t, bl). bind (run_arches x t (?q ts) (or_else (t_lld ts) []) (or_else (t_clang ts) []) bl sel jobs) (summary x arches)"
  let ?k3 = "\<lambda>ts _. bind (prepare_blade x sel) (?k4 ts)" and ?k2 = "\<lambda>ts _. bind (print_tools x arches ts) (\<lambda>_. bind (prepare_blade x sel) (?k4 ts))"
  let ?k1 = "\<lambda>ts. bind (seam_check x) (\<lambda>_. bind (print_tools x arches ts) (\<lambda>_. bind (prepare_blade x sel) (?k4 ts)))"
  have "bind (probe_tools (x_host x) (x_root x) arches) ?k1 w = (Inl (SystemExit 0), w')"
    using assms unfolding run_selected_def .
  then obtain ts w1 where "?k1 ts w1 = (Inl (SystemExit 0), w')" using errs_probe_tools by (rule exit0_step)
  then obtain u w2 where "?k2 ts u w2 = (Inl (SystemExit 0), w')" using errs_seam_check by (rule exit0_step)
  then obtain u' w3 where "?k3 ts u' w3 = (Inl (SystemExit 0), w')" using errs_print_tools by (rule exit0_step)
  then obtain tb w4 where tb: "?k4 ts tb w4 = (Inl (SystemExit 0), w')" using errs_prepare_blade by (rule exit0_step)
  obtain t bl where "tb = (t, bl)" by (cases tb)
  with tb have "bind (run_arches x t (?q ts) (or_else (t_lld ts) []) (or_else (t_clang ts) []) bl sel jobs) (summary x arches) w4
      = (Inl (SystemExit 0), w')" by simp
  then obtain counts w5 where
    r: "run_arches x t (?q ts) (or_else (t_lld ts) []) (or_else (t_clang ts) []) bl sel jobs w4 = (Inr counts, w5)"
    and s: "summary x arches counts w5 = (Inl (SystemExit 0), w')"
    using errs_run_arches by (rule exit0_step)
  from summary_exit[OF s] have "sum_list (map snd counts) = 0" by (auto split: if_splits)
  with r show ?thesis by (intro exI conjI)
qed

end
