(* ===== verification/Suite_Runs.thy ===== *)
theory Suite_Runs
  imports Suite_Exit
begin

text \<open>Whole runs of \<^verbatim>\<open>main\<close> on the \<^verbatim>\<open>virt\<close> board: what an exit status of 0 says, what it does not say,
  and that no excluded case is silent. The concrete runs are on a host whose programs exit as a predicate
  on their command lines says and write no file.\<close>

section \<open>Two runs\<close>

text \<open>\<open>gives fs m y\<close>: on files \<open>fs\<close> the step answers \<open>y\<close> and leaves the files.\<close>

definition gives :: "fs \<Rightarrow> 'a io \<Rightarrow> 'a \<Rightarrow> bool" where
  "gives fs m y \<longleftrightarrow> (\<forall>w. w_fs w = fs \<longrightarrow> (\<exists>w'. m w = (Inr y, w') \<and> w_fs w' = fs))"

named_theorems gives_rules \<open>steps that succeed without touching a file\<close>

lemma gives_bind: "gives fs m y \<Longrightarrow> gives fs (k y) z \<Longrightarrow> gives fs (bind m k) z"
  unfolding gives_def bind_apply by fastforce

lemma gives_basic [gives_rules]:
  "gives fs (ret y) y" "gives fs (print_out s) ()" "gives fs (print_err s) ()" "gives fs get_fs fs" "gives fs (of_res (Inr y)) y"
  by (simp_all add: gives_def)

lemma gives_catch [gives_rules]: "gives fs m y \<Longrightarrow> gives fs (catch m k) y" "gives fs m y \<Longrightarrow> gives fs (catch_tool m k') y"
  unfolding gives_def catch_tool_def catch_def by fastforce+

lemma gives_each [gives_rules]:
  assumes "\<And>x. x \<in> set xs \<Longrightarrow> gives fs (f x) ()"
  shows "gives fs (each f xs) ()"
  using assms
proof (induction xs)
  case Nil
  show ?case unfolding each.simps by (rule gives_basic)
next
  case (Cons x xs)
  have "gives fs (f x) ()" by (rule Cons.prems) simp
  moreover have "gives fs (each f xs) ()" by (rule Cons.IH) (simp add: Cons.prems)
  ultimately show ?case unfolding each.simps by (rule gives_bind)
qed

lemma gives_stage_one:
  assumes "gives fs (f c) y" "\<not> bad y"
  shows "gives fs (stage bad f [c]) [Inr y]"
  unfolding gives_def
proof (intro allI impI)
  fix w :: world
  assume "w_fs w = fs"
  then obtain w' where w': "f c w = (Inr y, w')" "w_fs w' = fs" using assms(1) by (auto simp: gives_def)
  then have "unit_results f [c] w = ([Inr y], w')" by simp
  with stage_no_break[of bad f "[c]" w] assms(2) w'(2) show "\<exists>w'. stage bad f [c] w = (Inr [Inr y], w') \<and> w_fs w' = fs"
    by (simp add: breaks_def)
qed

text \<open>A host with a checkout at \<^verbatim>\<open>/s\<close> whose programs do what \<open>ok\<close> says and write nothing.\<close>

definition quiet_host :: "(cmd \<Rightarrow> bool) \<Rightarrow> host" where
  "quiet_host ok =
     host_ex\<lparr>h_env := [(''SAWLANG_ROOT'', ''/s'')],
             h_exec := (\<lambda>c fs. (Some (if ok c then 0 else 1, [], []), fs))\<rparr>"

definition quiet_runner :: "(cmd \<Rightarrow> bool) \<Rightarrow> runner" where
  "quiet_runner ok =
     \<lparr>x_host = quiet_host ok, x_emu = (\<lambda>argv feed fs. Exited 1 ''SOS M0: deliberate panic''), x_sched = (\<lambda>k. k),
      x_walk = (\<lambda>fs p. []), x_close = (\<lambda>w ws. []), x_root = ''/r''\<rparr>"

definition quiet_fs :: fs where
  "quiet_fs = [(''/s/sawc/sawc.py'', [])]"

lemma gives_run [gives_rules]:
  "ok \<lparr>cmd_argv = argv, cmd_cwd = None, cmd_env = h_env (quiet_host ok)\<rparr> \<Longrightarrow> gives fs (run (quiet_host ok) argv) ()"
  by (auto simp: gives_def run_def run_in_def run_proc_def bind_apply quiet_host_def)

definition probe_cmd :: "(cmd \<Rightarrow> bool) \<Rightarrow> string \<Rightarrow> string \<Rightarrow> arch \<Rightarrow> cmd" where
  "probe_cmd ok r p a =
     \<lparr>cmd_argv = cc a p @ [''-nostdlib'', ''-c'', py_join (d_hal_board (arch_dirs r a)) ''boot.S'',
       ''-o'', py_join (d_build (arch_dirs r a)) ''_probe.o''], cmd_cwd = None, cmd_env = h_env (quiet_host ok)\<rparr>"

lemma quiet_probe_arches:
  assumes "\<forall>a \<in> set arches. ok (probe_cmd ok r p a)"
  shows "gives fs (probe_arches (quiet_host ok) r p arches) True"
  using assms
proof (induction arches)
  case Nil
  show ?case unfolding probe_arches.simps by (rule gives_basic)
next
  case (Cons a as)
  then show ?case
    unfolding probe_arches.simps
    by (intro gives_bind[where y = True] gives_catch gives_bind[where y = "()"] gives_run gives_basic)
       (auto simp: probe_cmd_def)
qed

lemma quiet_find_clang:
  assumes "\<forall>a \<in> set arches. ok (probe_cmd ok r ''/usr/bin/clang'' a)"
  shows "gives fs (find_clang (quiet_host ok) r arches) (Some ''/usr/bin/clang'')"
proof -
  have e: "env_named (h_env (quiet_host ok)) ''SOS_CLANG'' = None"
    by (simp add: env_named_def quiet_host_def)
  have c: "candidate_path (quiet_host ok) fs ''clang'' = Some ''/usr/bin/clang''"
    by (simp add: candidate_path_def which_tool_def quiet_host_def host_ex_def given_def)
  show ?thesis
    unfolding find_clang_def e option.case append.left_neutral first_clang.simps
    by (rule gives_bind[where y = fs], rule gives_basic, unfold c option.case,
        rule gives_bind[where y = True], rule quiet_probe_arches[OF assms], unfold if_True, rule gives_basic)
qed

definition quiet_tools :: "arch list \<Rightarrow> tools" where
  "quiet_tools arches =
     \<lparr>t_qemus = map (\<lambda>a. (a_name a, Some (''/usr/bin/'' @ a_qemu a))) arches, t_lld = Some ''/usr/bin/ld.lld'',
      t_clang = Some ''/usr/bin/clang''\<rparr>"

lemma quiet_probe_tools:
  assumes "\<forall>a \<in> set arches. ok (probe_cmd ok r ''/usr/bin/clang'' a)"
    and "missing_tools arches (quiet_tools arches) = []"
  shows "gives fs (probe_tools (quiet_host ok) r arches) (quiet_tools arches)"
proof -
  have t: "\<lparr>t_qemus = map (\<lambda>a. (a_name a, which_tool (quiet_host ok) (a_qemu a) (h_env (quiet_host ok)))) arches,
       t_lld = which_tool (quiet_host ok) ''ld.lld'' (h_env (quiet_host ok)), t_clang = Some ''/usr/bin/clang''\<rparr> = quiet_tools arches"
    by (simp add: quiet_tools_def which_tool_def quiet_host_def host_ex_def)
  show ?thesis
    unfolding probe_tools_def
    by (rule gives_bind, rule quiet_find_clang[OF assms(1)]) (simp only: t assms(2) Let_def, simp add: gives_def)
qed

lemma quiet_seam: "gives quiet_fs (seam_check (quiet_runner ok)) ()"
proof -
  have "check_arch_free (fs_isfile quiet_fs) (x_walk (quiet_runner ok) quiet_fs) f c ''/r'' = ([], True)" for f c
    by (simp add: check_arch_free_def arch_free_sources_def ARCH_FREE_DIRS_def sources_under_def quiet_fs_def fs_isfile_def
        quiet_runner_def path_join_def py_join_def is_abs_def)
  then show ?thesis by (auto simp: gives_def seam_check_def quiet_runner_def)
qed

definition quiet_tc :: toolchain where
  "quiet_tc = \<lparr>sawc_argv = [''/usr/bin/python3'', ''/s/sawc/sawc.py''], tc_source = ''SAWLANG_ROOT'', tc_root = Some ''/s'',
               tc_blade_bin = None, tc_notes = []\<rparr>"

lemma quiet_resolve: "gives quiet_fs (resolve (quiet_host ok) (h_env (quiet_host ok)) ''/r'' False) quiet_tc"
proof -
  have p: "read_pin quiet_fs ''/r'' = Inr None" by code_simp
  have e: "h_env (quiet_host ok) = [(''SAWLANG_ROOT'', ''/s'')]" "h_cwd (quiet_host ok) = ''/cwd''"
      "h_python (quiet_host ok) = ''/usr/bin/python3''"
    by (simp_all add: quiet_host_def host_ex_def)
  have ex: "expanduser hm ''/s'' = ''/s''" for hm by (simp add: expanduser_def)
  have ab: "abspath ''/cwd'' ''/s'' = ''/s''" by code_simp
  have l: "looks_like_sawlang quiet_fs ''/s''" by code_simp
  have n: "env_named [(''SAWLANG_ROOT'', ''/s'')] ''SAWLANG_ROOT'' = Some ''/s''"
    "env_named [(''SAWLANG_ROOT'', ''/s'')] ''SAWC'' = None" "env_named [(''SAWLANG_ROOT'', ''/s'')] ''BLADE'' = None"
    by (simp_all add: env_named_def)
  have r: "resolve_root (quiet_host ok) quiet_fs (h_env (quiet_host ok)) ''/r'' = Inr (Some ''/s'')"
    by (simp add: resolve_root_def e ex ab l n)
  have s: "sawc_from_root (quiet_host ok) quiet_fs ''/s'' = [''/usr/bin/python3'', ''/s/sawc/sawc.py'']"
    by (simp add: sawc_from_root_def e quiet_fs_def fs_isfile_def path_join_def py_join_def is_abs_def)
  have "resolve_rest (quiet_host ok) quiet_fs (h_env (quiet_host ok)) ''/r'' False None (Some ''/s'') = ret quiet_tc"
    by (simp add: resolve_rest_def step1_argv_def step1_toolchain_def named_sources_def e n s quiet_tc_def)
  then show ?thesis
    by (simp add: gives_def resolve_def p r)
qed

lemma quiet_blade:
  assumes "\<not> needs_blade cs"
  shows "gives quiet_fs (prepare_blade (quiet_runner ok) cs) (quiet_tc, [])"
proof -
  have f: "x_host (quiet_runner ok) = quiet_host ok" "x_root (quiet_runner ok) = ''/r''" by (simp_all add: quiet_runner_def)
  have "gives quiet_fs (tc (quiet_runner ok)) quiet_tc"
    unfolding tc_def Let_def f by (intro gives_bind[where y = quiet_tc] gives_catch quiet_resolve gives_bind[where y = "()"] gives_rules)
  then show ?thesis
    using assms unfolding prepare_blade_def Let_def
    by (simp only: if_False) (intro gives_bind[where y = quiet_tc] gives_basic)
qed

lemma quiet_print_tools: "gives fs (print_tools x arches ts) ()"
proof -
  have "gives fs (each (\<lambda>q. print_out (''  qemu : '' @ q)) qs) ()" for qs
    by (intro gives_each gives_basic)
  then show ?thesis unfolding print_tools_def Let_def by (intro gives_bind[where y = "()"] gives_basic)
qed

lemma select_one:
  assumes "c \<in> set (TEST_CASES r)" "wanted_names [v] = [c_name c]"
  shows "select_cases (TEST_CASES r) [v] = Inr [c]"
proof -
  have d: "distinct (map named (TEST_CASES r))" unfolding table_norm by (rule distinct_names)
  have "named c = c_name c" using table_norm[of r] assms(1) by (simp add: map_eq_conv)
  then have "by_name (TEST_CASES r) (c_name c) = Some c" using by_name_iff[OF d] assms(1) by simp
  then show ?thesis using assms(2) by (simp add: select_cases_def Let_def)
qed

lemma run_selected_one:
  assumes "gives fs (probe_tools (x_host x) (x_root x) [a]) ts" "gives fs (seam_check x) ()"
    "gives fs (prepare_blade x sel) (t, bl)"
    and run: "\<And>w. w_fs w = fs \<Longrightarrow> \<exists>w'. run_arch x t a (or_else (dict_get (map_of (t_qemus ts) (a_name a)) None) [])
       (or_else (t_lld ts) []) (or_else (t_clang ts) []) bl sel jobs w = (Inr (p, 0), w')"
    and w: "w_fs w = fs"
  shows "\<exists>w'. run_selected x [a] sel jobs w = (Inl (SystemExit 0), w')"
proof -
  let ?q = "or_else (dict_get (map_of (t_qemus ts) (a_name a)) None) []"
  obtain w1 where w1: "probe_tools (x_host x) (x_root x) [a] w = (Inr ts, w1)" "w_fs w1 = fs"
    using assms(1) w by (auto simp: gives_def)
  obtain w2 where w2: "seam_check x w1 = (Inr (), w2)" "w_fs w2 = fs" using assms(2) w1 by (auto simp: gives_def)
  obtain w3 where w3: "print_tools x [a] ts w2 = (Inr (), w3)" "w_fs w3 = fs"
    using quiet_print_tools[of fs x "[a]" ts] w2 by (auto simp: gives_def)
  obtain w4 where w4: "prepare_blade x sel w3 = (Inr (t, bl), w4)" "w_fs w4 = fs" using assms(3) w3 by (auto simp: gives_def)
  obtain w5 where "run_arch x t a ?q (or_else (t_lld ts) []) (or_else (t_clang ts) []) bl sel jobs w4 = (Inr (p, 0), w5)"
    using run w4 by blast
  then have w5: "run_arches x t [(a, ?q)] (or_else (t_lld ts) []) (or_else (t_clang ts) []) bl sel jobs w4 = (Inr [(p, 0)], w5)"
    by (simp add: bind_apply)
  obtain y w6 where s: "summary x [a] [(p, 0)] w5 = (y, w6)" by fastforce
  from summary_exit[OF s] have "y = Inl (SystemExit 0)" by simp
  then show ?thesis
    unfolding run_selected_def bind_apply using w1 w2 w3 w4 w5 s by simp
qed

text \<open>A run of one case, with the HAL of its profile building or not.\<close>

definition one_case :: "string \<Rightarrow> string \<Rightarrow> args" where
  "one_case arch v = \<lparr>arg_arch = Some arch, arg_cases = [v], arg_jobs = 4, arg_board = ''virt''\<rparr>"

lemma one_case_run:
  assumes "filter (\<lambda>a. a_name a = name) (ARCHES ''/r'') = [a]" "name \<noteq> []"
    and "c \<in> set (TEST_CASES ''/r'')" "wanted_names [v] = [c_name c]" "\<not> needs_blade [c]"
    and "ok (probe_cmd ok ''/r'' ''/usr/bin/clang'' a)" "missing_tools [a] (quiet_tools [a]) = []"
    and "\<And>w. w_fs w = quiet_fs \<Longrightarrow> \<exists>w'. run_arch (quiet_runner ok) quiet_tc a (''/usr/bin/'' @ a_qemu a) ''/usr/bin/ld.lld''
       ''/usr/bin/clang'' [] [c] 4 w = (Inr (p, 0), w')"
  shows "\<exists>w'. virt_main (quiet_runner ok) (one_case name v) (world_ex quiet_fs) = (Inl (SystemExit 0), w')"
proof -
  have f: "x_host (quiet_runner ok) = quiet_host ok" "x_root (quiet_runner ok) = ''/r''" by (simp_all add: quiet_runner_def)
  have a: "select_arches (quiet_runner ok) (one_case name v) = ret [a]"
    using assms(1,2) by (simp add: select_arches_def one_case_def given_def f)
  have s: "select_cases (TEST_CASES ''/r'') [v] = Inr [c]" using assms(3,4) by (rule select_one)
  have q: "or_else (dict_get (map_of (t_qemus (quiet_tools [a])) (a_name a)) None) [] = ''/usr/bin/'' @ a_qemu a"
    "or_else (t_lld (quiet_tools [a])) [] = ''/usr/bin/ld.lld''" "or_else (t_clang (quiet_tools [a])) [] = ''/usr/bin/clang''"
    by (simp_all add: quiet_tools_def or_else_def)
  have "\<exists>w'. run_selected (quiet_runner ok) [a] [c] 4 (world_ex quiet_fs) = (Inl (SystemExit 0), w')"
  proof (rule run_selected_one)
    show "gives quiet_fs (probe_tools (x_host (quiet_runner ok)) (x_root (quiet_runner ok)) [a]) (quiet_tools [a])"
      unfolding f by (rule quiet_probe_tools) (use assms(6,7) in simp_all)
    show "gives quiet_fs (seam_check (quiet_runner ok)) ()" by (rule quiet_seam)
    show "gives quiet_fs (prepare_blade (quiet_runner ok) [c]) (quiet_tc, [])" using assms(5) by (rule quiet_blade)
    show "w_fs (world_ex quiet_fs) = quiet_fs" by (simp add: world_ex_def)
  qed (use assms(8) in \<open>simp add: q\<close>)
  moreover have "arg_jobs (one_case name v) = 4" "arg_cases (one_case name v) = [v]" by (simp_all add: one_case_def)
  ultimately show ?thesis by (simp add: virt_main_def a f s)
qed


text \<open>A run in which a case is built, boots and passes.\<close>

lemma quiet_print_excluded:
  assumes "\<And>c. c \<in> set ex \<Longrightarrow> c_tier_reason c \<noteq> None"
  shows "gives fs (print_excluded a ex) ()"
proof -
  have e: "gives fs (each print_excluded_case ex) ()"
    by (rule gives_each) (simp add: gives_def print_excluded_case_eq assms)
  show ?thesis
  proof (cases "ex = []")
    case True
    then show ?thesis unfolding print_excluded_def by (simp add: gives_def)
  next
    case False
    then show ?thesis unfolding print_excluded_def if_not_P[OF False] by (intro gives_bind[OF gives_basic(2) e])
  qed
qed

lemma gives_map_io: "list_all2 (\<lambda>x y. gives fs (f x) y) xs ys \<Longrightarrow> gives fs (map_io f xs) ys"
proof (induction xs ys rule: list_all2_induct)
  case Nil
  show ?case unfolding map_io.simps by (rule gives_basic)
next
  case (Cons x xs y ys)
  show ?case unfolding map_io.simps
    by (rule gives_bind[OF Cons(1)], rule gives_bind[OF Cons(3)], rule gives_basic)
qed

lemma quiet_run: "gives fs (run (quiet_host (\<lambda>_. True)) argv) ()"
  by (rule gives_run) simp

lemma quiet_hal: "\<exists>objs. gives fs (build_hal (quiet_runner (\<lambda>_. True)) a clang) (Some objs)"
proof -
  have f: "x_host (quiet_runner (\<lambda>_. True)) = quiet_host (\<lambda>_. True)" by (simp add: quiet_runner_def)
  have "\<exists>objs. gives fs (build_shared (quiet_host (\<lambda>_. True)) r a clang) objs" for r
    unfolding build_shared_def Let_def
    by (intro exI gives_bind[OF quiet_run] gives_bind[OF gives_map_io[where ys = "map (asm_object (d_build (arch_dirs r a))) (a_hal_asm a)"]]
         gives_bind[where y = "()"] gives_each gives_basic)
       (auto simp: list_all2_conv_all_nth intro!: gives_bind[OF quiet_run] gives_basic quiet_run split: prod.splits)
  then obtain objs where "gives fs (build_shared (quiet_host (\<lambda>_. True)) (x_root (quiet_runner (\<lambda>_. True))) a clang) objs" by blast
  then show ?thesis
    unfolding build_hal_def f
    by (intro exI[of _ objs] gives_catch gives_bind[where y = objs] gives_basic) simp
qed

lemma panic_seam_arch:
  assumes run: "runnable_cases a sel = [case_panic_seam ''/r'']"
    and reasons: "\<And>c. c \<in> set (excluded_cases a sel) \<Longrightarrow> c_tier_reason c \<noteq> None"
    and chk: "check (case_panic_seam ''/r'') a (Some 1) ''SOS M0: deliberate panic'' False = Inr (True, [])"
  shows "gives quiet_fs (run_arch (quiet_runner (\<lambda>_. True)) quiet_tc a q l cl [] sel 4) (1, 0)"
proof -
  let ?c = "case_panic_seam ''/r''" and ?x = "quiet_runner (\<lambda>_. True)" and ?h = "quiet_host (\<lambda>_. True)"
  have f: "x_host ?x = ?h" "x_root ?x = ''/r''" by (simp_all add: quiet_runner_def)
  have rp: "root_packages [?c] = []" by code_simp
  have fields: "c_csrc ?c = None" "c_asm ?c = None" "c_root_pkg ?c = None" "\<not> wants_regions ?c" "c_children ?c = []" "c_stdin ?c = None"
    by (simp_all add: case_panic_seam_def blank_case_def wants_regions_def)
  have imgs: "with_images a ?c = ret ?c"
    by (simp add: with_images_def fields given_def fun_eq_iff)
  obtain m where m: "module_path_arg quiet_tc ''imgformat'' = Inr m"
    by (simp add: module_path_arg_def module_source_def MODULE_DIRS_def require_root_def quiet_tc_def)
  have steps: "csrc_step h r ?c a cl = ret []" "asm_step h r ?c a cl = ret []" "root_step h r ?c a cl = ret []" "regions_step h r ?c a cl = ret []"
    for h r by (simp_all add: csrc_step_def asm_step_def root_step_def regions_step_def fields given_def)
  obtain objs where hal: "gives quiet_fs (build_hal ?x a cl) (Some objs)" using quiet_hal by blast
  obtain e where e: "gives quiet_fs (build_elf ?h ''/r'' quiet_tc ?c a objs l cl) e"
    unfolding build_elf_def Let_def m steps
    by atomize_elim (rule exI, (rule gives_bind[OF gives_basic(5)] gives_bind[OF quiet_run] gives_bind[OF gives_basic(1)])+, rule gives_basic)
  have b: "gives quiet_fs (catch_tool (bind (build_elf ?h ''/r'' quiet_tc ?c a objs l cl) (\<lambda>elf. ret (Inr elf))) (\<lambda>e. ret (Inl e))) (Inr e)"
    by (intro gives_catch gives_bind[OF e] gives_basic)
  have emu: "run_qemu (x_emu ?x) fs q a e None = (Some 1, ''SOS M0: deliberate panic'', False)" for fs
    by (simp add: run_qemu_def quiet_runner_def)
  obtain hd where one: "gives quiet_fs (run_case ?h (x_emu ?x) ''/r'' quiet_tc a q objs l cl ?c) (True, hd, [])"
    unfolding run_case_def
    by atomize_elim (rule exI, rule gives_bind[OF b], unfold sum.case, rule gives_bind[OF gives_basic(4)], unfold fields emu prod.case chk,
        rule gives_bind[OF gives_basic(5)], unfold prod.case if_True, rule gives_basic)
  have rep: "gives quiet_fs (report (length [?c]) 1 0 0 [Inr (True, hd, [])]) (1, 0)"
    by (simp add: gives_def report_all[of _ _ _ _ "[(True, hd, [])]", simplified])
  have stg: "gives quiet_fs (stage (\<lambda>_. False) (run_case ?h (x_emu ?x) ''/r'' quiet_tc a q objs l cl) [?c]) [Inr (True, hd, [])]"
    by (rule gives_stage_one) (use one in simp_all)
  have cases: "gives quiet_fs (run_cases ?x quiet_tc a q l cl objs 4 [?c] (excluded_cases a sel)) (1, 0)"
    unfolding run_cases_def pooled_stage f
    by (rule gives_bind[OF quiet_print_excluded[OF reasons]], assumption, rule gives_bind[OF stg], rule gives_bind[OF rep], rule gives_bind[OF gives_basic(2)], rule gives_basic)
  have built: "gives quiet_fs (run_built ?x quiet_tc a q l cl [] sel 4 objs) (1, 0)"
    unfolding run_built_def Let_def run rp build_packages_def
    by (simp only: if_True simp_thms, rule gives_bind[OF gives_basic(1)], unfold option.case map_io.simps imgs,
        rule gives_bind[where y = "[?c]"], intro gives_bind[where y = ?c] gives_bind[where y = "[]"] gives_basic, rule cases)
  show ?thesis
    unfolding run_arch_def
    by (rule gives_bind[OF gives_basic(2)], rule gives_bind[OF hal], unfold option.case, rule built)
qed



text \<open>C26: No case is skipped silently. Whenever an architecture reports at least one passed case, every
  selected case that applies to it but needs a tier it does not offer has been printed by name with its
  reason.\<close>

theorem excluded_reported:
  assumes "run_arch x t a qemu lld clang blade_bin selected jobs w = (Inr (p, f), w')" "p \<noteq> 0"
    and "c \<in> set selected" "applies a c" "\<not> tier_fits a c"
  shows "excluded_text c \<in> set (w_out w')"
proof -
  have c: "c \<in> set (excluded_cases a selected)" using assms(3-5) by (simp add: excluded_eq)
  obtain objs ready w1 where "run_cases x t a qemu lld clang objs jobs ready (excluded_cases a selected) w1 = (Inr (p, f), w')"
    using assms(1,2) unfolding run_arch_def run_built_def Let_def
    by (auto simp: bind_Inr split: option.splits)
  from run_cases_excluded[OF this c] show ?thesis by (simp add: printed_def)
qed

theorem excluded_reported_witness:
  "let a = arch_riscv32_flat ''/r''; sel = [case_panic_seam ''/r'', case_umode_access_fault ''/r'']; c = case_umode_access_fault ''/r'' in
   \<exists>w'. run_arch (quiet_runner (\<lambda>_. True)) quiet_tc a ''qemu'' ''lld'' ''clang'' [] sel 4 (world_ex quiet_fs) = (Inr (1, 0), w') \<and>
     excluded_text c \<in> set (w_out w')"
proof -
  let ?a = "arch_riscv32_flat ''/r''" and ?sel = "[case_panic_seam ''/r'', case_umode_access_fault ''/r'']"
  have run: "runnable_cases ?a ?sel = [case_panic_seam ''/r'']" by code_simp
  have chk: "check (case_panic_seam ''/r'') ?a (Some 1) ''SOS M0: deliberate panic'' False = Inr (True, [])" by code_simp
  have ex: "excluded_cases ?a ?sel = [case_umode_access_fault ''/r'']" by code_simp
  have re: "c_tier_reason (case_umode_access_fault ''/r'') \<noteq> None" by (simp add: case_umode_access_fault_def)
  have "w_fs (world_ex quiet_fs) = quiet_fs" by (simp add: world_ex_def)
  then obtain w' where r: "run_arch (quiet_runner (\<lambda>_. True)) quiet_tc ?a ''qemu'' ''lld'' ''clang'' [] ?sel 4 (world_ex quiet_fs) = (Inr (1, 0), w')"
    using panic_seam_arch[OF run _ chk, of "''qemu''" "''lld''" "''clang''"] ex re unfolding gives_def by fastforce
  have c: "applies ?a (case_umode_access_fault ''/r'')" "\<not> tier_fits ?a (case_umode_access_fault ''/r'')" by (code_simp, code_simp)
  from excluded_reported[OF r _ _ c] r show ?thesis by auto
qed


end
