(* ===== verification/C3_Board.thy ===== *)
theory C3_Board
  imports Run_Suite
begin

text \<open>
  The \<^verbatim>\<open>esp32c3\<close> board section of \<^verbatim>\<open>main\<close> in \<^verbatim>\<open>src/tools/sos_runner.py\<close>: the smoke run that is not
  part of the gate. It builds a flash image per case, boots it under a machine-local emulator and reads the
  console until the kernel's halt line. The last definition is \<^verbatim>\<open>main\<close> itself, which goes to this section
  or to the \<^verbatim>\<open>virt\<close> run of \<open>Run_Suite\<close>.

  The directory listing \<^verbatim>\<open>glob\<close> and the emulator are parameters. The emulator is what the reading loop
  observes of it: a sequence of polls, each with the clock. The loop has no bound of its own but the clock, so
  the model reads at most \<open>b_fuel\<close> polls; \<open>c3_console_returns\<close> shows that enough of them always suffice.
\<close>

section \<open>Constants\<close>

definition C3_HAL :: "string \<Rightarrow> string" where
  "C3_HAL r = py_join (HAL_DIR r) ''riscv32-esp32c3''"

definition C3_BUILD :: "string \<Rightarrow> string" where
  "C3_BUILD r = path_join r [''.build'', ''esp32c3'', ''sos'']"

definition C3_TRIPLE :: string where
  "C3_TRIPLE = ''riscv32-unknown-none-elf''"

definition C3_FEATURES :: string where
  "C3_FEATURES = ''+m,+c''"

definition C3_ESP_TRIPLE :: string where
  "C3_ESP_TRIPLE = ''riscv32-esp-unknown-elf''"

definition C3_MARCH :: string where
  "C3_MARCH = ''-march=rv32imc_zicsr_zifencei''"

definition C3_MABI :: string where
  "C3_MABI = ''-mabi=ilp32''"

definition C3_FLASH_BYTES :: nat where
  "C3_FLASH_BYTES = 4 * 1024 * 1024"

definition C3_MAGIC :: nat where
  "C3_MAGIC = 0xAEDB041D"

definition C3_CHILD_BASE :: nat where
  "C3_CHILD_BASE = 0x403C5000"

definition C3_CHILD_LEN :: nat where
  "C3_CHILD_LEN = 0x17000"

definition C3_HALT :: string where
  "C3_HALT = ''SOS-C3: halt''"

definition C3_TIMEOUT_S :: nat where
  "C3_TIMEOUT_S = 20"

definition C3_BANNER :: string where
  "C3_BANNER = ''SOS M1: kernel up on riscv32 (ESP32-C3)''"

definition C3_ROM :: string where
  "C3_ROM = ''ESP-ROM:esp32c3-api1-20210207''"

section \<open>The board\<close>

text \<open>One pass of a reading loop: the clock its condition reads (in milliseconds), what \<^verbatim>\<open>select\<close> and
  \<^verbatim>\<open>os.read\<close> give (nothing ready, or a chunk, empty at the end of the stream), whether \<^verbatim>\<open>proc.poll()\<close>
  says the emulator is gone, and the clock after the read.\<close>

record poll =
  p_now :: int
  p_data :: "string option"
  p_exited :: bool
  p_then :: int

record board =
  b_glob :: "string \<Rightarrow> string list"
  b_start :: int
  b_polls :: "string list \<Rightarrow> fs \<Rightarrow> nat \<Rightarrow> poll"
  b_fuel :: nat

section \<open>Tools and compiles\<close>

definition c3_tool :: "runner \<Rightarrow> board \<Rightarrow> string \<Rightarrow> string \<Rightarrow> string \<Rightarrow> string io" where
  "c3_tool x b pattern what hint =
     (let tty = h_tty (x_host x) in
      case rev (sort (b_glob b (expanduser (h_home (x_host x)) pattern))) of
        [] \<Rightarrow> bind (print_err (RED tty @ ''no '' @ what @ '' found at '' @ pattern @ RESET tty)) (\<lambda>_.
              bind (print_err (''  '' @ hint)) (\<lambda>_. exit 2))
      | newest # _ \<Rightarrow> ret newest)"

text \<open>The dictionary handed to \<^verbatim>\<open>_build_root_image\<close> has a name and a triple only; \<open>root_image_triple\<close>
  shows that the image depends on no other field.\<close>

definition c3_arch :: arch where
  "c3_arch =
     \<lparr>a_name = ''riscv32-esp32c3'', a_triple = C3_TRIPLE, a_qemu = [], a_tier = [], a_qemu_args = [], a_cc_args = [],
      a_features = None, a_hal_native = [], a_hal_modules = [], a_hal_asm = [], a_hal_board = None, a_tests_arch = None,
      a_build_tag = None, a_banner_arch = None, a_hex_width = 0, a_root_entry = 0, a_child_region_base = 0,
      a_selftest_line = 0, a_pool_base = 0, a_pool_len = 0, a_device_base = 0, a_device_len = 0\<rparr>"

definition c3_cc :: "host \<Rightarrow> string \<Rightarrow> string \<Rightarrow> string \<Rightarrow> string list \<Rightarrow> string io" where
  "c3_cc h clang src obj extra =
     bind (run h ([clang, ''--target='' @ C3_ESP_TRIPLE, C3_MARCH, C3_MABI, ''-nostdlib'', ''-ffreestanding''] @ extra @
                  [''-c'', src, ''-o'', obj])) (\<lambda>_. ret obj)"

definition c3_payload_text :: "string \<Rightarrow> string" where
  "c3_payload_text sosimg =
     ''/* GENERATED by tools/sos_runner.py --board esp32c3 */'' @ nl @
     ''    .section .payload, '' @ dq @ ''ax'' @ dq @ '', @progbits'' @ nl @
     ''    .balign 16'' @ nl @
     ''    .incbin '' @ dq @ sosimg @ dq @ nl"

definition c3_payload_stub :: "host \<Rightarrow> string \<Rightarrow> string \<Rightarrow> string \<Rightarrow> string \<Rightarrow> string io" where
  "c3_payload_stub h r clang name sosimg =
     (let stub_s = py_join (C3_BUILD r) (name @ ''.rootimg.S'') in
      bind (upd_fs (fs_write stub_s (c3_payload_text sosimg))) (\<lambda>_.
      c3_cc h clang stub_s (py_join (C3_BUILD r) (name @ ''.rootimg.o'')) []))"

section \<open>The region table of a board case\<close>

text \<open>A row: base expression, length expression, kind.\<close>

definition c3_rows :: "nat \<Rightarrow> (string \<times> string \<times> nat) list" where
  "c3_rows n =
     map (\<lambda>i. (''_sos_child'' @ show_nat i @ ''_start'',
               ''_sos_child'' @ show_nat i @ ''_end - _sos_child'' @ show_nat i @ ''_start'', REGION_KIND_RAM)) [0..<n] @
     map (\<lambda>i. (hash_x (C3_CHILD_BASE + i * C3_CHILD_LEN), hash_x C3_CHILD_LEN, REGION_KIND_RAM)) [0..<n]"

definition c3_childimg_lines :: "string list \<Rightarrow> string list" where
  "c3_childimg_lines imgs =
     [''/* GENERATED by tools/sos_runner.py --board esp32c3 */'',
      ''    .section .childimg, '' @ dq @ ''a'' @ dq @ '', @progbits'', ''    .balign 16''] @
     concat (map (\<lambda>(i, img).
       [''_sos_child'' @ show_nat i @ ''_start:'', ''    .incbin '' @ dq @ img @ dq,
        ''_sos_child'' @ show_nat i @ ''_end:'', ''    .balign 16'']) (enumerate_from 0 imgs))"

definition c3_row_lines :: "nat \<times> string \<times> string \<times> nat \<Rightarrow> string list" where
  "c3_row_lines = (\<lambda>(i, base, len, kind).
     [''    /* row '' @ show_nat i @ '' */'', ''    .4byte '' @ base, ''    .4byte 0'', ''    .4byte '' @ len, ''    .4byte 0'',
      ''    .byte  '' @ show_nat kind, ''    .byte  0, 0, 0, 0, 0, 0, 0''])"

definition c3_regions_lines :: "(string \<times> string \<times> nat) list \<Rightarrow> string list" where
  "c3_regions_lines rows =
     [[], ''    .section .regions, '' @ dq @ ''a'' @ dq @ '', @progbits'', ''    .balign 8'',
      ''    .4byte '' @ fmt_0x 8 REGION_TABLE_MAGIC,
      ''    .2byte '' @ show_nat REGION_TABLE_VERSION,
      ''    .byte  '' @ show_nat (length rows),
      ''    .byte  0''] @
     concat (map c3_row_lines (enumerate_from 0 rows))"

definition c3_regions_stub :: "host \<Rightarrow> string \<Rightarrow> string \<Rightarrow> string \<Rightarrow> string list \<Rightarrow> string io" where
  "c3_regions_stub h r clang name imgs =
     (let stub_s = py_join (C3_BUILD r) (name @ ''.regions.S'');
          body = str_join nl (c3_childimg_lines imgs @ c3_regions_lines (c3_rows (length imgs))) @ nl in
      bind (upd_fs (fs_write stub_s body)) (\<lambda>_.
      c3_cc h clang stub_s (py_join (C3_BUILD r) (name @ ''.regions.o'')) []))"

section \<open>The flash image\<close>

definition file_bytes :: "string \<Rightarrow> bytes" where
  "file_bytes s = map of_char s"

definition no_magic_text :: "string \<Rightarrow> nat \<Rightarrow> nat \<Rightarrow> string" where
  "no_magic_text name m0 m1 =
     name @ '': flash image lacks the direct-boot magic (read '' @ fmt_0x 8 m0 @ '' '' @ fmt_0x 8 m1 @
     '', want '' @ fmt_0x 8 C3_MAGIC @ '' twice) '' @ em_dash @ '' check .magic in hal/riscv32-esp32c3/kernel/esp32c3.ld''"

text \<open>The checks on the flattened image, and the image padded to the size of the flash.\<close>

definition flash_of :: "string \<Rightarrow> string \<Rightarrow> string res" where
  "flash_of name img =
     (case struct_unpack_from ''II'' (file_bytes img) 0 of
        Inl e \<Rightarrow> Inl e
      | Inr [m0, m1] \<Rightarrow>
          if m0 \<noteq> C3_MAGIC \<or> m1 \<noteq> C3_MAGIC then Inl (ToolError (no_magic_text name m0 m1))
          else if C3_FLASH_BYTES < length img
          then Inl (ToolError (name @ '': image is '' @ show_nat (length img) @ '' bytes, flash is '' @
                               show_nat C3_FLASH_BYTES))
          else Inr (img @ replicate (C3_FLASH_BYTES - length img) (CHR 0xFF))
      | Inr _ \<Rightarrow> Inl (ValueError ''unpack''))"

definition read_file :: "string \<Rightarrow> string io" where
  "read_file p = bind get_fs (\<lambda>fs. case map_of fs p of None \<Rightarrow> raise (OSError p) | Some v \<Rightarrow> ret v)"

definition c3_flash_image :: "host \<Rightarrow> string \<Rightarrow> string \<Rightarrow> string \<Rightarrow> string \<Rightarrow> string list \<Rightarrow> (string \<times> nat) io" where
  "c3_flash_image h r lld objcopy name objs =
     (let elf = py_join (C3_BUILD r) (name @ ''.elf''); raw = py_join (C3_BUILD r) (name @ ''.bin'');
          flash = py_join (C3_BUILD r) (name @ ''.flash.bin'') in
      bind (run h ([lld, ''-T'', path_join (C3_HAL r) [''kernel'', ''esp32c3.ld''], ''--gc-sections'', ''-o'', elf] @ objs)) (\<lambda>_.
      bind (run h [objcopy, ''-O'', ''binary'', elf, raw]) (\<lambda>_.
      bind (read_file raw) (\<lambda>img.
      bind (of_res (flash_of name img)) (\<lambda>padded.
      bind (upd_fs (fs_write flash padded)) (\<lambda>_.
      ret (flash, length img)))))))"

section \<open>Reading the console\<close>

text \<open>Both loops get a bound on their passes and answer \<open>None\<close> when it runs out; \<open>n\<close> is the poll that is
  next. Draining polls on until its own deadline or the end of the stream.\<close>

fun c3_drain :: "nat \<Rightarrow> (nat \<Rightarrow> poll) \<Rightarrow> int \<Rightarrow> nat \<Rightarrow> string \<Rightarrow> string option" where
  "c3_drain 0 m limit n out = None"
| "c3_drain (Suc k) m limit n out =
     (if p_now (m n) < limit
      then (case p_data (m n) of
              None \<Rightarrow> c3_drain k m limit (Suc n) out
            | Some got \<Rightarrow> if got = [] then Some out else c3_drain k m limit (Suc n) (out @ got))
      else Some out)"

fun c3_collect :: "nat \<Rightarrow> (nat \<Rightarrow> poll) \<Rightarrow> int \<Rightarrow> nat \<Rightarrow> string \<Rightarrow> (string \<times> bool) option" where
  "c3_collect 0 m deadline n out = None"
| "c3_collect (Suc k) m deadline n out =
     (if p_now (m n) < deadline
      then (case p_data (m n) of
              Some chunk \<Rightarrow>
                if chunk = [] then Some (out, False)
                else if str_in C3_HALT (out @ chunk)
                then map_option (\<lambda>all. (all, True)) (c3_drain k m (p_then (m n) + 300) (Suc n) (out @ chunk))
                else c3_collect k m deadline (Suc n) (out @ chunk)
            | None \<Rightarrow> if p_exited (m n) then Some (out, False) else c3_collect k m deadline (Suc n) out)
      else Some (out, False))"

definition c3_console :: "nat \<Rightarrow> (nat \<Rightarrow> poll) \<Rightarrow> int \<Rightarrow> (string \<times> bool) option" where
  "c3_console k m start = c3_collect k m (start + 1000 * int C3_TIMEOUT_S) 0 []"

definition c3_qemu_argv :: "string \<Rightarrow> string \<Rightarrow> string list" where
  "c3_qemu_argv qemu flash =
     [qemu, ''-machine'', ''esp32c3'', ''-nographic'', ''-drive'', ''file='' @ flash @ '',if=mtd,format=raw'']"

definition c3_run :: "board \<Rightarrow> string \<Rightarrow> string \<Rightarrow> (string \<times> bool) io" where
  "c3_run b qemu flash =
     bind get_fs (\<lambda>fs.
     case c3_console (b_fuel b) (b_polls b (c3_qemu_argv qemu flash) fs) (b_start b) of
       None \<Rightarrow> raise StillRunning
     | Some r \<Rightarrow> ret r)"

section \<open>The smoke list\<close>

record c3_case =
  k_name :: string
  k_root_pkg :: "string option"
  k_children :: "string list"
  k_expect :: "string list"

definition c3_boot :: c3_case where
  "c3_boot =
     \<lparr>k_name = ''boot'', k_root_pkg = None, k_children = [],
      k_expect = [C3_ROM, C3_BANNER, ''SOS: bad root image: no root image appended'', ''SOS-C3: halt fail code=0x00000004'']\<rparr>"

definition c3_timer :: "string \<Rightarrow> c3_case" where
  "c3_timer r =
     \<lparr>k_name = ''timer'', k_root_pkg = Some (py_join (TESTS_DIR r) ''c3-timer''), k_children = [],
      k_expect = [C3_ROM, C3_BANNER, ''SOS c3timer: arming'', ''SOS c3timer: tick 1 key=37 fires=1'',
        ''SOS c3timer: tick 2 key=37 fires=1'', ''SOS c3timer: tick 3 key=37 fires=1'',
        ''SOS c3timer: tick 4 key=37 fires=1'', ''SOS c3timer: tick 5 key=37 fires=1'',
        ''SOS c3timer: done ticks=5 slept=1'', ''SOS-C3: halt pass'']\<rparr>"

definition c3_isolation :: "string \<Rightarrow> c3_case" where
  "c3_isolation r =
     \<lparr>k_name = ''isolation'', k_root_pkg = Some (py_join (TESTS_DIR r) ''c3-isolation''),
      k_children = [py_join (TESTS_DIR r) ''c3-child-poke''],
      k_expect = [C3_ROM, C3_BANNER, ''SOS c3iso: started'', ''SOS: fault '',
        ''SOS c3iso: root survived child status=131072'', ''SOS c3iso: child syscalls=0 faults=1'',
        ''SOS c3iso: done'', ''SOS-C3: halt pass'']\<rparr>"

definition c3_cases :: "string \<Rightarrow> c3_case list" where
  "c3_cases r = [c3_boot, c3_timer r, c3_isolation r]"

section \<open>Building, booting and judging a case\<close>

definition c3_root_objs ::
  "host \<Rightarrow> string \<Rightarrow> toolchain \<Rightarrow> string \<Rightarrow> string \<Rightarrow> c3_case \<Rightarrow> string list io"
where
  "c3_root_objs h r t blade_bin clang k =
     (case given (k_root_pkg k) of
        None \<Rightarrow> ret []
      | Some pkg \<Rightarrow>
          bind (build_root_image h t blade_bin pkg c3_arch clang) (\<lambda>img.
          bind (c3_payload_stub h r clang (k_name k) img) (\<lambda>obj. ret [obj])))"

definition c3_child_objs ::
  "host \<Rightarrow> string \<Rightarrow> toolchain \<Rightarrow> string \<Rightarrow> string \<Rightarrow> c3_case \<Rightarrow> string list io"
where
  "c3_child_objs h r t blade_bin clang k =
     (if k_children k = [] then ret []
      else bind (map_io (\<lambda>pkg. build_root_image h t blade_bin pkg c3_arch clang) (k_children k)) (\<lambda>imgs.
           bind (c3_regions_stub h r clang (k_name k) imgs) (\<lambda>obj. ret [obj])))"

record c3_tools =
  c3_qemu :: string
  c3_clang :: string
  c3_lld :: string
  c3_objcopy :: string

text \<open>The body of the \<^verbatim>\<open>try\<close>: the size of the image, the transcript and whether the kernel halted.\<close>

definition c3_boot_case ::
  "runner \<Rightarrow> board \<Rightarrow> toolchain \<Rightarrow> c3_tools \<Rightarrow> string \<Rightarrow> string list \<Rightarrow> c3_case \<Rightarrow> (nat \<times> string \<times> bool) io"
where
  "c3_boot_case x b t ts blade_bin objs k =
     (let h = x_host x; r = x_root x in
      bind (c3_root_objs h r t blade_bin (c3_clang ts) k) (\<lambda>root.
      bind (c3_child_objs h r t blade_bin (c3_clang ts) k) (\<lambda>regions.
      bind (c3_flash_image h r (c3_lld ts) (c3_objcopy ts) (k_name k) (objs @ root @ regions)) (\<lambda>(flash, bytes_n).
      bind (c3_run b (c3_qemu ts) flash) (\<lambda>(out, halted).
      ret (bytes_n, out, halted))))))"

fun c3_missing :: "string \<Rightarrow> nat \<Rightarrow> string list \<Rightarrow> string option" where
  "c3_missing out cursor [] = None"
| "c3_missing out cursor (w # ws) =
     (case str_find out w cursor of None \<Rightarrow> Some w | Some at \<Rightarrow> c3_missing out (at + length w) ws)"

definition c3_passed :: "c3_case \<Rightarrow> string \<Rightarrow> bool \<Rightarrow> bool" where
  "c3_passed k out halted \<longleftrightarrow> c3_missing out 0 (k_expect k) = None \<and> halted"

definition c3_head :: "nat \<Rightarrow> nat \<Rightarrow> string \<Rightarrow> c3_case \<Rightarrow> string" where
  "c3_head i n mark k = ''['' @ show_nat i @ ''/'' @ show_nat n @ ''] '' @ mark @ '' '' @ k_name k"

definition c3_report :: "bool \<Rightarrow> nat \<Rightarrow> nat \<Rightarrow> c3_case \<Rightarrow> nat \<Rightarrow> string \<Rightarrow> bool \<Rightarrow> string list" where
  "c3_report tty i n k bytes_n out halted =
     (let missing = c3_missing out 0 (k_expect k) in
      if missing = None \<and> halted
      then [c3_head i n (CHECK tty) k @ ''  ('' @ show_nat bytes_n @ '' bytes of flash)'']
      else [c3_head i n (CROSS tty) k] @
           (if halted then [] else [''    the kernel never halted within '' @ show_nat C3_TIMEOUT_S @ ''s'']) @
           (case missing of None \<Rightarrow> [] | Some w \<Rightarrow> [''    expected and not found, in order: '' @ py_repr w]) @
           [''    --- console ---''] @ map (\<lambda>line. ''    '' @ line) (str_splitlines out) @ [''    --- end ---''])"

text \<open>One pass of the loop over the cases: was the case counted as failed?\<close>

definition c3_one ::
  "runner \<Rightarrow> board \<Rightarrow> toolchain \<Rightarrow> c3_tools \<Rightarrow> string \<Rightarrow> string list \<Rightarrow> nat \<Rightarrow> nat \<times> c3_case \<Rightarrow> bool io"
where
  "c3_one x b t ts blade_bin objs n = (\<lambda>(i, k).
     let tty = h_tty (x_host x) in
     bind (catch_tool (bind (c3_boot_case x b t ts blade_bin objs k) (\<lambda>r. ret (Inr r))) (\<lambda>e. ret (Inl e))) (\<lambda>r.
     case r of
       Inl e \<Rightarrow> bind (print_out (c3_head i n (CROSS tty) k)) (\<lambda>_. bind (print_out (''    '' @ e)) (\<lambda>_. ret True))
     | Inr (bytes_n, out, halted) \<Rightarrow>
         bind (each print_out (c3_report tty i n k bytes_n out halted)) (\<lambda>_. ret (\<not> c3_passed k out halted))))"

definition c3_summary :: "bool \<Rightarrow> nat \<Rightarrow> nat \<Rightarrow> unit io" where
  "c3_summary tty failed n =
     bind (each print_out
       [[], rule_line,
        if failed \<noteq> 0
        then RED tty @ ''SOS ESP32-C3 SMOKE FAILED'' @ RESET tty @ '' ('' @ show_nat failed @ '' of '' @ show_nat n @ '')''
        else GREEN tty @ ''ESP32-C3 SMOKE PASSED'' @ RESET tty @ '' ('' @ show_nat n @ '' cases)'',
        rule_line]) (\<lambda>_. exit (if failed \<noteq> 0 then 1 else 0))"

section \<open>The section as a whole, and \<open>main\<close>\<close>

definition c3_find_tools :: "runner \<Rightarrow> board \<Rightarrow> c3_tools io" where
  "c3_find_tools x b =
     bind (c3_tool x b ''~/.espressif/tools/qemu-riscv32/*/qemu/bin/qemu-system-riscv32'' ''Espressif QEMU''
             ''install it with the ESP-IDF tools installer; this target is machine-local and NON-GATING, so its absence breaks nothing else'') (\<lambda>qemu.
     bind (c3_tool x b ''~/.espressif/tools/esp-clang/*/esp-clang/bin/clang'' ''esp-clang''
             (''the C3 build needs the no-A multilib row (rv32imc_zicsr_zifencei); see hal/riscv32-esp32c3/ABI.md '' @
              [CHR 0xC2, CHR 0xA7] @ ''3'')) (\<lambda>clang.
     ret \<lparr>c3_qemu = qemu, c3_clang = clang, c3_lld = py_join (dirname clang) ''ld.lld'',
          c3_objcopy = py_join (dirname clang) ''llvm-objcopy''\<rparr>))"

definition c3_intro :: "bool \<Rightarrow> c3_tools \<Rightarrow> string list" where
  "c3_intro tty ts =
     [BOLD tty @ ''SOS ESP32-C3 board smoke'' @ RESET tty @ '' (design 20, NON-GATING)'',
      ''  qemu   '' @ c3_qemu ts,
      ''  clang  '' @ c3_clang ts,
      ''  target '' @ C3_TRIPLE @ '' --target-features '' @ C3_FEATURES @ '' ('' @
        drop (length ''-march='') C3_MARCH @ '' '' @ em_dash @ '' no A extension)'']"

definition c3_shared :: "host \<Rightarrow> string \<Rightarrow> string \<Rightarrow> string list io" where
  "c3_shared h r clang =
     map_io (\<lambda>(src, obj, extra). c3_cc h clang src (py_join (C3_BUILD r) obj) extra)
       [(path_join (C3_HAL r) [''kernel'', ''boot.S''], ''boot.o'', []),
        (path_join (RV32_COMMON_DIR r) [''kernel'', ''trap.S''], ''trap.o'', []),
        (path_join (RV32_COMMON_DIR r) [''kernel'', ''sink.c''], ''sink.o'', [''-O2'']),
        (py_join (RT_COMMON_C_DIR r) ''support.c'', ''support.o'', [''-O2''])]"

definition c3_kernel :: "host \<Rightarrow> string \<Rightarrow> toolchain \<Rightarrow> string io" where
  "c3_kernel h r t =
     (let kobj = py_join (C3_BUILD r) ''kernel.o'' in
      bind (of_res (module_path_arg t ''imgformat'')) (\<lambda>imgformat.
      bind (run h (sawc t @ [py_join (KERNEL_DIR r) ''main.saw'', ''-o'', kobj, ''-Oz'', ''--freestanding'', ''--no-hidden-alloc'',
                    ''--runtime-provider'', ''--target'', C3_TRIPLE, ''--target-features'', C3_FEATURES,
                    ''--module-path'', CORE_MODULE r, ''--module-path'', ''hal='' @ py_join (C3_HAL r) ''kernel'',
                    ''--module-path'', RV32_CORE_MODULE r, ''--module-path'', imgformat,
                    ''--module-path'', SOSRT_MODULE r, ''--module-path'', SOSABI_MODULE r])) (\<lambda>_.
      ret kobj)))"

definition c3_main :: "runner \<Rightarrow> board \<Rightarrow> unit io" where
  "c3_main x b =
     (let h = x_host x; r = x_root x; tty = h_tty h; cases = c3_cases r in
      bind (c3_find_tools x b) (\<lambda>ts.
      bind (each print_out (c3_intro tty ts)) (\<lambda>_.
      bind (tc x) (\<lambda>t.
      bind (build_blade h t (C3_BUILD r)) (\<lambda>blade_bin.
      bind (c3_shared h r (c3_clang ts)) (\<lambda>shared.
      bind (c3_kernel h r t) (\<lambda>kobj.
      bind (map_io (c3_one x b t ts blade_bin (shared @ [kobj]) (length cases)) (enumerate_from 1 cases)) (\<lambda>failures.
      c3_summary tty (length (filter id failures)) (length cases)))))))))"

definition main :: "runner \<Rightarrow> board \<Rightarrow> args \<Rightarrow> unit io" where
  "main x b args =
     (let tty = h_tty (x_host x) in
      if arg_board args \<noteq> ''virt'' then
        if arg_board args \<noteq> ''esp32c3'' then
          bind (print_err (RED tty @ ''unknown --board '' @ py_repr (arg_board args) @ ''; known: virt, esp32c3'' @ RESET tty))
            (\<lambda>_. exit 2)
        else c3_main x b
      else virt_main x args)"

section \<open>What the section relies on\<close>

text \<open>A root image depends on the triple of the profile only.\<close>

lemma root_image_triple:
  "a_triple a = a_triple a' \<Longrightarrow> build_root_image h t bl pkg a clang = build_root_image h t bl pkg a' clang"
  by (simp add: build_root_image_def image_dir_def blade_argv_def)

text \<open>A row of this section is, but for its comment, a row of the shared emitter on a 32-bit profile.\<close>

lemma c3_row_lines_emit:
  "a_hex_width a = 8 \<Longrightarrow> c3_row_lines (i, base, len, kind) = (''    /* row '' @ show_nat i @ '' */'') # emit_row a base len kind"
  by (simp add: c3_row_lines_def emit_row_def emit_word64_def)

lemma c3_rows_bytes:
  assumes "data_directives asm" "literals val" "a_hex_width a = 8"
    and "list_all (\<lambda>(b, l, k). row_fits a val ([], b, l, k)) rows"
  shows "assemble asm val (concat (map c3_row_lines (enumerate_from n rows)))
    = concat (map (\<lambda>(b, l, k). region_row_bytes (val b, val l, k)) rows)"
  using assms(4)
proof (induction rows arbitrary: n)
  case Nil
  show ?case by simp
next
  case (Cons rw rows)
  obtain b l k where rw: "rw = (b, l, k)" by (cases rw) auto
  have "asm val (''    /* '' @ (''row '' @ show_nat n @ '' */'')) = []"
    using assms(1) unfolding data_directives_def by blast
  moreover have "assemble asm val (emit_row a b l k) = region_row_bytes (val b, val l, k)"
    using row_bytes[OF assms(1,2), of a "([], b, l, k)"] Cons.prems rw by (simp add: resolved_def)
  ultimately show ?case
    using Cons.IH[of "Suc n"] Cons.prems by (simp add: rw c3_row_lines_emit[OF assms(3)])
qed

lemma c3_table_assembles:
  assumes "data_directives asm" "literals val" "a_hex_width a = 8"
    and "list_all (\<lambda>(b, l, k). row_fits a val ([], b, l, k)) rows" "length rows < 256"
  shows "assemble asm val (c3_regions_lines rows) = region_table_bytes (map (\<lambda>(b, l, k). (val b, val l, k)) rows)"
proof -
  have "concat (map (\<lambda>(b, l, k). region_row_bytes (val b, val l, k)) rows)
      = concat (map region_row_bytes (map (\<lambda>(b, l, k). (val b, val l, k)) rows))"
    by (simp add: comp_def case_prod_unfold)
  then show ?thesis
    using table_header_bytes[OF assms(1,2), of "length rows"] c3_rows_bytes[OF assms(1-4), of 0]
    by (simp add: c3_regions_lines_def region_table_bytes_def del: region_row_bytes.simps)
qed

definition blob_start :: "(string \<Rightarrow> nat) \<Rightarrow> nat \<Rightarrow> nat" where
  "blob_start val i = val (''_sos_child'' @ show_nat i @ ''_start'')"

definition blob_len :: "(string \<Rightarrow> nat) \<Rightarrow> nat \<Rightarrow> nat" where
  "blob_len val i = val (''_sos_child'' @ show_nat i @ ''_end - _sos_child'' @ show_nat i @ ''_start'')"

text \<open>C16: The board's own region table is the same wire format as the gate's. For any assembler that treats the
  data directives as documented and any link that puts the child images below 4 GiB, the section assembles to
  the version 2 table with one row per child image, then one destination of 92 KiB per child, in the order of
  the children.\<close>

theorem c3_table_bytes:
  assumes "data_directives asm" "literals val" "n < 128"
    and "\<forall>i < n. blob_start val i < 2 ^ 32 \<and> blob_len val i < 2 ^ 32"
  shows "assemble asm val (c3_regions_lines (c3_rows n)) =
    region_table_bytes
      (map (\<lambda>i. (blob_start val i, blob_len val i, 0)) [0..<n] @
       map (\<lambda>i. (C3_CHILD_BASE + i * C3_CHILD_LEN, C3_CHILD_LEN, 0)) [0..<n])"
proof -
  let ?a = "arch_riscv32 []"
  have w: "a_hex_width ?a = 8" "addr_bytes ?a = 4" by (simp_all add: arch_riscv32_def addr_bytes_def)
  have hex: "val (hash_x m) = m" for m using assms(2) by (simp add: literals_def)
  have small: "C3_CHILD_BASE + i * C3_CHILD_LEN < 2 ^ 32" if "i < n" for i
    using that assms(3) by (simp add: C3_CHILD_BASE_def C3_CHILD_LEN_def)
  have "list_all (\<lambda>(b, l, k). row_fits ?a val ([], b, l, k)) (c3_rows n)"
    using assms(4) small
    by (auto simp: c3_rows_def list_all_iff row_fits_def w hex blob_start_def blob_len_def REGION_KIND_RAM_def C3_CHILD_LEN_def)
  moreover have "length (c3_rows n) < 256" using assms(3) by (simp add: c3_rows_def)
  ultimately show ?thesis
    using c3_table_assembles[OF assms(1,2) w(1), of "c3_rows n"]
    by (simp add: c3_rows_def hex blob_start_def blob_len_def REGION_KIND_RAM_def comp_def)
qed

theorem c3_table_bytes_witness:
  "assemble gas_ref link_ref (c3_regions_lines (c3_rows 1)) =
     region_table_bytes [(0x80210000, 1234, 0), (0x403C5000, 0x17000, 0)]"
proof -
  have z: "show_nat 0 = ''0''" by code_simp
  have b: "blob_start link_ref 0 = 0x80210000" "blob_len link_ref 0 = 1234" by (simp_all add: blob_start_def blob_len_def link_ref_def z)
  show ?thesis
    using c3_table_bytes[OF gas_ref_directives link_ref_literals, of 1] by (simp add: b C3_CHILD_BASE_def C3_CHILD_LEN_def)
qed

section \<open>The image in flash\<close>

lemma unpack_two_words:
  "struct_unpack_from ''II'' bs 0 =
     (if 8 \<le> length bs then Inr [le_nat (take 4 bs), le_nat (take 4 (drop 4 bs))] else Inl StructError)"
  by (simp add: struct_unpack_from_def)

lemma word_of_bytes: "length bs = 4 \<Longrightarrow> m < 256 ^ 4 \<Longrightarrow> le_nat bs = m \<longleftrightarrow> bs = le_bytes 4 m"
  using le_bytes_le_nat[of bs] le_nat_le_bytes[of m 4] by auto

definition magic_bytes :: bytes where
  "magic_bytes = le_bytes 4 C3_MAGIC @ le_bytes 4 C3_MAGIC"

lemma magic_words:
  assumes "8 \<le> length bs"
  shows "le_nat (take 4 bs) = C3_MAGIC \<and> le_nat (take 4 (drop 4 bs)) = C3_MAGIC \<longleftrightarrow> prefix magic_bytes bs"
proof -
  have m: "C3_MAGIC < 256 ^ 4" by (simp add: C3_MAGIC_def)
  have "le_nat (take 4 bs) = C3_MAGIC \<and> le_nat (take 4 (drop 4 bs)) = C3_MAGIC \<longleftrightarrow>
      take 4 bs = le_bytes 4 C3_MAGIC \<and> take 4 (drop 4 bs) = le_bytes 4 C3_MAGIC"
    using assms m by (simp add: word_of_bytes del: le_bytes.simps)
  also have "\<dots> \<longleftrightarrow> take 8 bs = magic_bytes"
    using assms take_add[of 4 4 bs] append_eq_append_conv[of "take 4 bs" "le_bytes 4 C3_MAGIC" "take 4 (drop 4 bs)" "le_bytes 4 C3_MAGIC"]
    by (simp add: magic_bytes_def del: le_bytes.simps)
  also have "\<dots> \<longleftrightarrow> prefix magic_bytes bs"
  proof
    assume "take 8 bs = magic_bytes"
    then show "prefix magic_bytes bs" by (metis take_is_prefix)
  next
    have "length magic_bytes = 8" by (simp add: magic_bytes_def del: le_bytes.simps)
    moreover assume "prefix magic_bytes bs"
    ultimately show "take 8 bs = magic_bytes" by (auto simp: prefix_def)
  qed
  finally show ?thesis .
qed

lemma flash_of_ok:
  "flash_of name img = Inr padded \<longleftrightarrow>
     prefix magic_bytes (file_bytes img) \<and> length img \<le> C3_FLASH_BYTES \<and>
     padded = img @ replicate (C3_FLASH_BYTES - length img) (CHR 0xFF)"
proof (cases "8 \<le> length img")
  case True
  then have l: "8 \<le> length (file_bytes img)" by (simp add: file_bytes_def)
  show ?thesis
    using magic_words[OF l] l by (auto simp: flash_of_def unpack_two_words)
next
  case False
  have "\<not> prefix magic_bytes (file_bytes img)"
  proof
    assume "prefix magic_bytes (file_bytes img)"
    from prefix_length_le[OF this] False show False
      by (simp add: magic_bytes_def file_bytes_def del: le_bytes.simps)
  qed
  then show ?thesis using False by (simp add: flash_of_def unpack_two_words file_bytes_def)
qed

text \<open>C15: A flash image the harness boots is one the mask ROM enters. If building it succeeds, the file that is
  booted is exactly as long as the flash and begins with the two magic words; its first bytes are the flattened
  image as \<^verbatim>\<open>objcopy\<close> left it and every byte after them is erased flash; the reported size is the
  length of that image.\<close>

theorem c3_flash_exact:
  assumes "c3_flash_image h r lld objcopy name objs w = (Inr (flash, n), w')"
  shows "\<exists>img padded raw_fs.
    map_of raw_fs (py_join (C3_BUILD r) (name @ ''.bin'')) = Some img \<and>
    w_fs w' = fs_write flash padded raw_fs \<and> map_of (w_fs w') flash = Some padded \<and>
    length padded = C3_FLASH_BYTES \<and> prefix magic_bytes (file_bytes padded) \<and>
    take n padded = img \<and> n = length img \<and> set (drop n padded) \<subseteq> {CHR 0xFF}"
proof -
  let ?raw = "py_join (C3_BUILD r) (name @ ''.bin'')"
  obtain w1 img padded where m: "map_of (w_fs w1) ?raw = Some img" and f: "flash_of name img = Inr padded"
    and n: "n = length img" and w': "w' = w1\<lparr>w_fs := fs_write flash padded (w_fs w1)\<rparr>"
    using assms unfolding c3_flash_image_def Let_def read_file_def
    by (auto simp: bind_Inr split: option.splits)
  from f have p: "prefix magic_bytes (file_bytes img)" "length img \<le> C3_FLASH_BYTES"
      "padded = img @ replicate (C3_FLASH_BYTES - length img) (CHR 0xFF)"
    by (simp_all add: flash_of_ok)
  have "prefix magic_bytes (file_bytes padded)"
    using p(1) unfolding p(3) file_bytes_def map_append by (rule prefix_prefix)
  then show ?thesis
    using m n w' p(2,3) by (intro exI[of _ img] exI[of _ padded] exI[of _ "w_fs w1"]) (auto simp: map_of_fs_write)
qed

definition magic_image :: string where
  "magic_image = [CHR 0x1D, CHR 0x04, CHR 0xDB, CHR 0xAE, CHR 0x1D, CHR 0x04, CHR 0xDB, CHR 0xAE, CHR ''k'']"

text \<open>A host whose linker and compilers succeed and whose \<^verbatim>\<open>objcopy\<close> writes \<open>img\<close>.\<close>

definition flat_exec :: "string \<Rightarrow> cmd \<Rightarrow> fs \<Rightarrow> proc option \<times> fs" where
  "flat_exec img c fs =
     (Some (0, [], []), if cmd_argv c ! 1 = ''-O'' then fs_write (last (cmd_argv c)) img fs else fs)"

definition flat_host :: "string \<Rightarrow> host" where
  "flat_host img = host_ex\<lparr>h_exec := flat_exec img\<rparr>"

lemma flat_run:
  "run (flat_host img) argv w =
     (Inr (), w\<lparr>w_fs := snd (flat_exec img \<lparr>cmd_argv = argv, cmd_cwd = None, cmd_env = h_env (flat_host img)\<rparr> (w_fs w)),
        w_cmds := w_cmds w @ [\<lparr>cmd_argv = argv, cmd_cwd = None, cmd_env = h_env (flat_host img)\<rparr>]\<rparr>)"
  by (simp add: run_def run_in_def bind_apply run_proc_def flat_host_def flat_exec_def)

theorem c3_flash_exact_witness:
  "\<exists>w' padded.
     c3_flash_image (flat_host magic_image) ''/r'' ''lld'' ''objcopy'' ''boot'' [''boot.o''] (world_ex [])
       = (Inr (''/r/.build/esp32c3/sos/boot.flash.bin'', 9), w') \<and>
     map_of (w_fs w') ''/r/.build/esp32c3/sos/boot.flash.bin'' = Some padded \<and> length padded = C3_FLASH_BYTES"
proof -
  let ?h = "flat_host magic_image"
  have paths: "py_join (C3_BUILD ''/r'') (''boot'' @ ''.flash.bin'') = ''/r/.build/esp32c3/sos/boot.flash.bin''" by code_simp
  have pre: "prefix magic_bytes (file_bytes magic_image)" by code_simp
  have "length magic_image \<le> C3_FLASH_BYTES" by (simp add: magic_image_def C3_FLASH_BYTES_def)
  with pre obtain padded where f: "flash_of ''boot'' magic_image = Inr padded" using flash_of_ok by blast
  have len: "length magic_image = 9" by (simp add: magic_image_def)
  have "\<exists>w'. c3_flash_image ?h ''/r'' ''lld'' ''objcopy'' ''boot'' [''boot.o''] (world_ex [])
      = (Inr (''/r/.build/esp32c3/sos/boot.flash.bin'', 9), w')"
    unfolding c3_flash_image_def Let_def paths
    by (simp add: bind_apply flat_run flat_exec_def read_file_def map_of_fs_write f len)
  then obtain w' where r: "c3_flash_image ?h ''/r'' ''lld'' ''objcopy'' ''boot'' [''boot.o''] (world_ex [])
      = (Inr (''/r/.build/esp32c3/sos/boot.flash.bin'', 9), w')" by blast
  from c3_flash_exact[OF r] r show ?thesis by blast
qed


section \<open>The reading loop\<close>

lemma c3_drain_Suc: "c3_drain k m limit n out = Some y \<Longrightarrow> c3_drain (Suc k) m limit n out = Some y"
proof (induction k m limit n out rule: c3_drain.induct)
  case (2 k m limit n out)
  then show ?case
    by (simp add: c3_drain.simps(2)[of k m limit n out] c3_drain.simps(2)[of "Suc k" m limit n out] del: c3_drain.simps
        split: if_splits option.splits)
qed simp

lemma c3_collect_Suc: "c3_collect k m d n out = Some y \<Longrightarrow> c3_collect (Suc k) m d n out = Some y"
proof (induction k m d n out rule: c3_collect.induct)
  case (2 k m d n out)
  show ?case
    using 2
    by (auto simp: c3_collect.simps(2)[of k m d n out] c3_collect.simps(2)[of "Suc k" m d n out] simp del: c3_collect.simps c3_drain.simps
        dest: c3_drain_Suc split: if_splits option.splits)
qed simp

lemma c3_collect_stable: "k \<le> k' \<Longrightarrow> c3_collect k m d n out = Some y \<Longrightarrow> c3_collect k' m d n out = Some y"
  by (induction rule: dec_induct) (simp_all del: c3_collect.simps add: c3_collect_Suc)

lemma c3_drain_returns:
  "limit \<le> p_now (m (n + k)) \<Longrightarrow> \<exists>y. c3_drain (Suc k) m limit n out = Some y"
proof (induction k arbitrary: n out)
  case 0
  then show ?case by simp
next
  case (Suc k)
  from Suc.prems have "limit \<le> p_now (m (Suc n + k))" by simp
  from Suc.IH[OF this] show ?case by (auto split: option.splits simp del: c3_drain.simps(2) simp: c3_drain.simps(2)[of "Suc k"])
qed

lemma c3_collect_returns:
  assumes clock: "\<forall>d. \<exists>j. \<forall>i\<ge>j. d \<le> p_now (m i)"
  shows "d \<le> p_now (m (n + k)) \<Longrightarrow> \<exists>j y. c3_collect j m d n out = Some y"
proof (induction k arbitrary: n out)
  case 0
  then show ?case by (intro exI[of _ "Suc 0"] exI[of _ "(out, False)"]) simp
next
  case (Suc k)
  from Suc.prems have nxt: "d \<le> p_now (m (Suc n + k))" by simp
  show ?case
  proof (cases "p_now (m n) < d")
    case False
    then show ?thesis by (intro exI[of _ "Suc 0"] exI[of _ "(out, False)"]) simp
  next
    case now: True
    show ?thesis
    proof (cases "p_data (m n)")
      case None
      obtain j y where "c3_collect j m d (Suc n) out = Some y" using Suc.IH[OF nxt] by blast
      then show ?thesis using None now by (cases "p_exited (m n)") (auto intro!: exI[of _ "Suc j"])
    next
      case (Some chunk)
      show ?thesis
      proof (cases "chunk \<noteq> [] \<and> str_in C3_HALT (out @ chunk)")
        case True
        obtain j where j: "p_then (m n) + 300 \<le> p_now (m (Suc n + j))"
          using clock by (metis le_add2)
        obtain y where "c3_drain (Suc j) m (p_then (m n) + 300) (Suc n) (out @ chunk) = Some y"
          using c3_drain_returns[of "p_then (m n) + 300" m "Suc n" j, OF j] by blast
        then show ?thesis using Some now True by (intro exI[of _ "Suc (Suc j)"] exI[of _ "(y, True)"]) (simp del: c3_drain.simps)
      next
        case False
        obtain j y where "c3_collect j m d (Suc n) (out @ chunk) = Some y" using Suc.IH[OF nxt] by blast
        then show ?thesis using Some now False by (intro exI[of _ "Suc j"]) auto
      qed
    qed
  qed
qed

text \<open>What was read, and when the loop says the kernel halted.\<close>

definition chunks :: "(nat \<Rightarrow> poll) \<Rightarrow> nat \<Rightarrow> nat \<Rightarrow> string" where
  "chunks m a b = concat (map (\<lambda>i. case p_data (m i) of None \<Rightarrow> [] | Some c \<Rightarrow> c) [a..<b])"

lemma chunks_Cons: "a < b \<Longrightarrow> chunks m a b = (case p_data (m a) of None \<Rightarrow> [] | Some c \<Rightarrow> c) @ chunks m (Suc a) b"
  by (simp add: chunks_def upt_conv_Cons)

lemma chunks_step: "chunks m (Suc a) b = c \<Longrightarrow> \<exists>b'. chunks m a b' = (case p_data (m a) of None \<Rightarrow> [] | Some s \<Rightarrow> s) @ c"
proof (cases "Suc a \<le> b")
  case True
  then show "chunks m (Suc a) b = c \<Longrightarrow> ?thesis" using chunks_Cons[of a b m] by (intro exI[of _ b]) simp
next
  case False
  then show "chunks m (Suc a) b = c \<Longrightarrow> ?thesis"
    using chunks_Cons[of a "Suc a" m] by (intro exI[of _ "Suc a"]) (simp add: chunks_def)
qed

lemma chunks_none: "\<exists>b. chunks m a b = []"
  by (intro exI[of _ a]) (simp add: chunks_def)

lemma c3_drain_reads: "c3_drain k m limit n out = Some y \<Longrightarrow> \<exists>b. y = out @ chunks m n b"
proof (induction k m limit n out rule: c3_drain.induct)
  case (2 k m limit n out)
  show ?case
  proof (cases "p_now (m n) < limit \<and> p_data (m n) \<noteq> Some []")
    case False
    then show ?thesis using 2(3) chunks_none[of m n] by (auto split: if_splits)
  next
    case True
    then have "\<exists>b. y = out @ (case p_data (m n) of None \<Rightarrow> [] | Some c \<Rightarrow> c) @ chunks m (Suc n) b"
      using 2 by (auto split: option.splits if_splits)
    then show ?thesis using chunks_step by metis
  qed
qed simp

lemma str_in_append: "str_in w s \<Longrightarrow> str_in w (s @ t)"
  by (auto simp: str_in_iff occurs_at_def prefix_def) (metis append.assoc drop_append trans_le_add1)

lemma c3_collect_reads:
  "c3_collect k m d n out = Some (all, halted) \<Longrightarrow> \<not> str_in C3_HALT out \<Longrightarrow>
   (\<exists>b. all = out @ chunks m n b) \<and> (halted \<longleftrightarrow> str_in C3_HALT all)"
proof (induction k m d n out rule: c3_collect.induct)
  case (2 k m d n out)
  consider (stop) "all = out" "\<not> halted"
    | (quiet) "p_data (m n) = None" "c3_collect k m d (Suc n) out = Some (all, halted)" "p_now (m n) < d" "\<not> p_exited (m n)"
    | (read) c where "p_data (m n) = Some c" "\<not> str_in C3_HALT (out @ c)" "p_now (m n) < d" "c \<noteq> []"
        "c3_collect k m d (Suc n) (out @ c) = Some (all, halted)"
    | (halt) c where "p_data (m n) = Some c" "str_in C3_HALT (out @ c)" "halted"
        "c3_drain k m (p_then (m n) + 300) (Suc n) (out @ c) = Some all"
    using 2(3) by (auto split: if_splits option.splits)
  then show ?case
  proof cases
    case stop
    then show ?thesis using chunks_none[of m n] 2(4) by auto
  next
    case quiet
    from 2(1)[OF quiet(3,1,4,2) 2(4)] obtain b where b: "all = out @ chunks m (Suc n) b" "halted \<longleftrightarrow> str_in C3_HALT all" by blast
    obtain b' where "chunks m n b' = chunks m (Suc n) b" using chunks_step[of m n b, OF refl] quiet(1) by auto
    with b show ?thesis by (intro conjI exI[of _ b']) simp_all
  next
    case read
    from 2(2)[OF read(3,1,4,2,5,2)] obtain b where b: "all = (out @ c) @ chunks m (Suc n) b" "halted \<longleftrightarrow> str_in C3_HALT all" by blast
    obtain b' where "chunks m n b' = c @ chunks m (Suc n) b" using chunks_step[of m n b, OF refl] read(1) by auto
    with b show ?thesis by (intro conjI exI[of _ b']) simp_all
  next
    case halt
    from c3_drain_reads[OF halt(4)] obtain b where b: "all = (out @ c) @ chunks m (Suc n) b" by blast
    obtain b' where "chunks m n b' = c @ chunks m (Suc n) b"
      using chunks_step[of m n b, OF refl] halt(1) by auto
    with b halt(2,3) str_in_append[of C3_HALT "out @ c" "chunks m (Suc n) b"] show ?thesis
      by (intro conjI exI[of _ b']) simp_all
  qed
qed simp


definition halting_polls :: "nat \<Rightarrow> poll" where
  "halting_polls n =
     \<lparr>p_now = 200 * int n, p_data = (if n = 0 then Some ''SOS-C3: ha'' else if n = 1 then Some ''lt pass'' else None),
      p_exited = False, p_then = 200 * int n\<rparr>"


section \<open>The verdict\<close>

lemma c3_missing_embeds: "c3_missing out c ws = None \<longleftrightarrow> embeds length out c ws"
proof (induction ws arbitrary: c)
  case Nil
  then show ?case by simp
next
  case (Cons w ws)
  show ?case
  proof (cases "str_find out w c")
    case None
    then show ?thesis using embeds_no_find by (simp del: embeds.simps)
  next
    case (Some i)
    then show ?thesis using Cons.IH embeds_leftmost[OF Some] by (simp del: embeds.simps)
  qed
qed

lemma c3_passed_iff:
  "c3_passed k out halted \<longleftrightarrow>
     halted \<and> (\<exists>gs g. length gs = length (k_expect k) \<and> out = spaced gs (k_expect k) @ g)"
  using embeds_length_iff[of 0 out "k_expect k"] by (auto simp: c3_passed_def c3_missing_embeds)

text \<open>C17: A case of the smoke run counts as passed exactly when its image was built, the kernel printed its halt
  line before the deadline, and the transcript is the expected strings in order with arbitrary text around
  them; a build error counts as a failure.\<close>

theorem c3_case_passes_iff:
  "fst (c3_one x b t ts blade_bin objs n (i, k) w) = Inr False \<longleftrightarrow>
     (\<exists>len out w1 gs g. c3_boot_case x b t ts blade_bin objs k w = (Inr (len, out, True), w1) \<and>
        length gs = length (k_expect k) \<and> out = spaced gs (k_expect k) @ g)"
proof -
  have e: "\<exists>w1. each print_out ls w0 = (Inr (), w1)" for ls w0
    by (induction ls arbitrary: w0) (auto simp: bind_apply)
  obtain r w1 where r: "c3_boot_case x b t ts blade_bin objs k w = (r, w1)" by fastforce
  show ?thesis
  proof (cases r)
    case (Inl e)
    then show ?thesis
      using r by (cases e) (auto simp: c3_one_def Let_def bind_apply catch_tool_def catch_def)
  next
    case (Inr y)
    obtain len out halted where y: "y = (len, out, halted)" by (cases y)
    obtain w2 where "each print_out (c3_report (h_tty (x_host x)) i n k len out halted) w1 = (Inr (), w2)" using e by blast
    then have "fst (c3_one x b t ts blade_bin objs n (i, k) w) = Inr (\<not> c3_passed k out halted)"
      using r Inr y by (simp add: c3_one_def Let_def bind_apply catch_tool_def catch_def)
    then show ?thesis using r Inr y by (auto simp: c3_passed_iff)
  qed
qed

text \<open>The tools are taken in the reverse of the lexicographic order of their paths, which is not the order of
  their versions.\<close>

lemma c3_tool_lexicographic:
  "fst (c3_tool runner_ex
     \<lparr>b_glob = (\<lambda>_. [''/t/esp-10.0.0/clang'', ''/t/esp-9.2.2/clang'']), b_start = 0,
      b_polls = (\<lambda>_ _ _. \<lparr>p_now = 0, p_data = None, p_exited = True, p_then = 0\<rparr>), b_fuel = 1\<rparr>
     ''~/t/*/clang'' ''esp-clang'' [] (world_ex [])) = Inr ''/t/esp-9.2.2/clang''"
  by code_simp

end
