(* ===== verification/Case_Isolation.thy ===== *)
theory Case_Isolation
  imports Run_Suite
begin

text \<open>
  The cases of a profile do not depend on one another: the verdict of each is the one it has when it is the
  only case, wherever in the list it stands and whatever became of the others. The compilers and the emulator
  are relied on to read, for a case, no file that is an artifact of another case.
\<close>

section \<open>Computations that see a part of the files\<close>

definition agree :: "(string \<Rightarrow> bool) \<Rightarrow> fs \<Rightarrow> fs \<Rightarrow> bool" where
  "agree V fs fs' \<longleftrightarrow> (\<forall>q. V q \<longrightarrow> map_of fs q = map_of fs' q)"

lemma agree_refl [simp]: "agree V fs fs"
  by (simp add: agree_def)

lemma agreeD: "agree V fs fs' \<Longrightarrow> V q \<Longrightarrow> map_of fs q = map_of fs' q"
  by (simp add: agree_def)

lemma agree_trans: "agree V fs fs' \<Longrightarrow> agree V fs' fs'' \<Longrightarrow> agree V fs fs''"
  by (simp add: agree_def)

lemma agree_write: "agree V fs fs' \<Longrightarrow> agree V (fs_write p v fs) (fs_write p v fs')"
  by (simp add: agree_def map_of_fs_write)

text \<open>\<open>sees V m\<close>: how \<open>m\<close> ends, and what it does to the files \<open>V\<close> holds of, depends on those files only.\<close>

definition sees :: "(string \<Rightarrow> bool) \<Rightarrow> 'a io \<Rightarrow> bool" where
  "sees V m \<longleftrightarrow>
     (\<forall>w1 w2. agree V (w_fs w1) (w_fs w2) \<longrightarrow>
        fst (m w1) = fst (m w2) \<and> agree V (w_fs (snd (m w1))) (w_fs (snd (m w2))))"

named_theorems sees_rules \<open>what the steps of a case depend on\<close>

lemma sees_bind [sees_rules]:
  assumes "sees V m" "\<And>x w w'. m w = (Inr x, w') \<Longrightarrow> sees V (k x)"
  shows "sees V (bind m k)"
  unfolding sees_def
proof (intro allI impI)
  fix w1 w2 :: world
  assume a: "agree V (w_fs w1) (w_fs w2)"
  obtain x1 v1 x2 v2 where m: "m w1 = (x1, v1)" "m w2 = (x2, v2)" by fastforce
  with assms(1) a have e: "x1 = x2" "agree V (w_fs v1) (w_fs v2)" unfolding sees_def by (metis fst_conv, metis snd_conv)
  show "fst (bind m k w1) = fst (bind m k w2) \<and> agree V (w_fs (snd (bind m k w1))) (w_fs (snd (bind m k w2)))"
  proof (cases x1)
    case (Inl err)
    then show ?thesis using m e by (simp add: bind_apply)
  next
    case (Inr y)
    with m have "sees V (k y)" using assms(2) by blast
    then show ?thesis using m e Inr by (auto simp: bind_apply sees_def)
  qed
qed

lemma sees_basic [sees_rules]:
  "sees V (ret a)" "sees V (raise e)" "sees V (of_res x)" "sees V (upd_fs (fs_write p v))"
  by (simp_all add: sees_def agree_write)

lemma sees_copyfile [sees_rules]: "V src \<Longrightarrow> sees V (copyfile src dst)"
  unfolding sees_def
proof (intro allI impI)
  fix w1 w2 :: world
  assume "V src" "agree V (w_fs w1) (w_fs w2)"
  then show "fst (copyfile src dst w1) = fst (copyfile src dst w2) \<and>
      agree V (w_fs (snd (copyfile src dst w1))) (w_fs (snd (copyfile src dst w2)))"
    using agreeD[of V "w_fs w1" "w_fs w2" src] by (auto simp: copyfile_def agree_write split: option.splits)
qed

lemma sees_each [sees_rules]: "(\<And>x. x \<in> set xs \<Longrightarrow> sees V (f x)) \<Longrightarrow> sees V (each f xs)"
proof (induction xs)
  case Nil
  show ?case unfolding each.simps by (rule sees_basic)
next
  case (Cons x xs)
  then show ?case unfolding each.simps by (intro sees_bind) simp_all
qed

lemma sees_catch_tool [sees_rules]: "sees V m \<Longrightarrow> (\<And>e. sees V (k e)) \<Longrightarrow> sees V (catch_tool m k)"
  unfolding sees_def
proof (intro allI impI)
  fix w1 w2 :: world
  assume m: "\<forall>w1 w2. agree V (w_fs w1) (w_fs w2) \<longrightarrow>
        fst (m w1) = fst (m w2) \<and> agree V (w_fs (snd (m w1))) (w_fs (snd (m w2)))"
    and k: "\<And>e. \<forall>w1 w2. agree V (w_fs w1) (w_fs w2) \<longrightarrow>
        fst (k e w1) = fst (k e w2) \<and> agree V (w_fs (snd (k e w1))) (w_fs (snd (k e w2)))"
    and a: "agree V (w_fs w1) (w_fs w2)"
  obtain x1 v1 x2 v2 where e: "m w1 = (x1, v1)" "m w2 = (x2, v2)" by fastforce
  from m a have "fst (m w1) = fst (m w2) \<and> agree V (w_fs (snd (m w1))) (w_fs (snd (m w2)))" by blast
  then have "x1 = x2" "agree V (w_fs v1) (w_fs v2)" by (simp_all add: e)
  then show "fst (catch_tool m k w1) = fst (catch_tool m k w2) \<and>
      agree V (w_fs (snd (catch_tool m k w1))) (w_fs (snd (catch_tool m k w2)))"
    using k by (auto simp: catch_tool_def catch_def e split: sum.splits exc.splits)
qed

section \<open>What the programs a case starts are relied on to read\<close>

text \<open>A command that writes an artifact of the case behaves the same on files that agree on \<open>V\<close>.\<close>

definition reads_own :: "host \<Rightarrow> string \<Rightarrow> arch \<Rightarrow> test_case \<Rightarrow> (string \<Rightarrow> bool) \<Rightarrow> bool" where
  "reads_own h r a c V \<longleftrightarrow>
     (\<forall>pre out post cwd env fs fs'.
        out \<in> set (artifacts r c a) \<and> agree V fs fs' \<longrightarrow>
        (let cm = \<lparr>cmd_argv = pre @ [''-o'', out] @ post, cmd_cwd = cwd, cmd_env = env\<rparr> in
         fst (h_exec h cm fs) = fst (h_exec h cm fs') \<and> agree V (snd (h_exec h cm fs)) (snd (h_exec h cm fs'))))"

text \<open>So does the emulator on the kernel image of the case.\<close>

definition boots_own :: "emulator \<Rightarrow> string \<Rightarrow> arch \<Rightarrow> test_case \<Rightarrow> (string \<Rightarrow> bool) \<Rightarrow> bool" where
  "boots_own emu r a c V \<longleftrightarrow>
     (\<forall>qemu feed fs fs'. agree V fs fs' \<longrightarrow>
        emu (qemu_argv qemu a (py_join (d_build (arch_dirs r a)) (c_name c @ ''.elf''))) feed fs =
        emu (qemu_argv qemu a (py_join (d_build (arch_dirs r a)) (c_name c @ ''.elf''))) feed fs')"

lemma sees_run:
  assumes "reads_own h r a c V" "argv = pre @ [''-o'', out] @ post" "out \<in> set (artifacts r c a)"
  shows "sees V (run h argv)"
  unfolding sees_def
proof (intro allI impI)
  fix w1 w2 :: world
  let ?cm = "\<lparr>cmd_argv = pre @ [''-o'', out] @ post, cmd_cwd = None, cmd_env = h_env h\<rparr>"
  assume "agree V (w_fs w1) (w_fs w2)"
  with assms(1,3) have e: "fst (h_exec h ?cm (w_fs w1)) = fst (h_exec h ?cm (w_fs w2))"
    "agree V (snd (h_exec h ?cm (w_fs w1))) (snd (h_exec h ?cm (w_fs w2)))"
    unfolding reads_own_def Let_def by blast+
  then show "fst (run h argv w1) = fst (run h argv w2) \<and> agree V (w_fs (snd (run h argv w1))) (w_fs (snd (run h argv w2)))"
    unfolding assms(2)
    by (cases "h_exec h ?cm (w_fs w1)"; cases "h_exec h ?cm (w_fs w2)")
       (auto simp: run_def run_in_def run_proc_def bind_apply split: option.splits)
qed

text \<open>The images \<^verbatim>\<open>_run_arch\<close> noted for the case.\<close>

definition case_images :: "test_case \<Rightarrow> string list" where
  "case_images c = map snd (c_root_image c) @ concat (map snd (c_child_images c))"

lemma steps_see:
  assumes h: "reads_own h r a c V" and V: "list_all V (case_images c)"
  shows "sees V (csrc_step h r c a clang)" "sees V (asm_step h r c a clang)"
    and "sees V (root_step h r c a clang)" "sees V (regions_step h r c a clang)"
proof -
  let ?B = "d_build (arch_dirs r a)"
  have m: "py_join ?B (c_name c @ e) \<in> set (artifacts r c a)"
    if "e \<in> set [''.o'', ''.elf'', ''.stubs.o'', ''.payload.o'', ''.rootimg.o'', ''.regions.o'']" for e
    using that by (auto simp: artifacts_def)
  have cc: "sees V (run h (cc a clang @ flags @ [''-o'', py_join ?B (c_name c @ e)]))"
    if "e \<in> set [''.o'', ''.elf'', ''.stubs.o'', ''.payload.o'', ''.rootimg.o'', ''.regions.o'']" for flags e
    by (rule sees_run[OF h, of _ "cc a clang @ flags" _ "[]"]) (use m that in simp_all)
  show "sees V (csrc_step h r c a clang)"
    using cc[of "''.stubs.o''" "[''-nostdlib'', ''-ffreestanding'', ''-O2'', ''-c'', x]" for x]
    by (auto simp: csrc_step_def Let_def intro!: sees_rules split: option.splits)
  show "sees V (asm_step h r c a clang)"
    using cc[of "''.payload.o''" "[''-nostdlib'', ''-c'', x]" for x]
    by (auto simp: asm_step_def Let_def intro!: sees_rules split: option.splits)
  have img: "V img" if "map_of (c_root_image c) n = Some img" for n img
    using V map_of_SomeD[OF that] by (force simp: case_images_def list_all_iff)
  show "sees V (root_step h r c a clang)"
    using cc[of "''.rootimg.o''" "[''-nostdlib'', ''-I'', py_join ?B (c_name c @ ''.rootimg''), ''-c'',
                    py_join (KERNEL_DIR r) ''rootimg.S'']"]
    by (auto simp: root_step_def stitch_root_image_def Let_def intro!: sees_rules intro: img split: option.splits)
  have kid: "V img" if ci: "child_image c a i = Inr img" for i img
  proof -
    obtain imgs where "map_of (c_child_images c) (a_name a) = Some imgs" "img \<in> set imgs"
      using ci by (auto simp: child_image_def split: option.splits if_splits)
    then have "img \<in> set (case_images c)" by (force simp: case_images_def dest: map_of_SomeD)
    then show ?thesis using V by (simp add: list_all_iff)
  qed
  show "sees V (regions_step h r c a clang)"
    using cc[of "''.regions.o''" "[''-nostdlib'', ''-I'', ?B, ''-c'', py_join ?B (c_name c @ ''.regions.S'')]"]
    by (auto simp: regions_step_def stitch_regions_def Let_def intro!: sees_rules intro: kid)
qed

lemma sees_build_elf:
  assumes "reads_own h r a c V" "list_all V (case_images c)"
  shows "sees V (build_elf h r t c a shared lld clang)"
proof -
  let ?B = "d_build (arch_dirs r a)"
  note steps = steps_see[OF assms]
  have kernel: "sees V (run h (kernel_argv r t c a (py_join ?B (c_name c @ ''.o'')) m))" for m
    unfolding kernel_argv_def Let_def
    by (rule sees_run[OF assms(1), of _ "sawc t @ [c_src c]" "py_join ?B (c_name c @ ''.o'')"])
       (auto simp: artifacts_def)
  have link: "sees V (run h (link_argv r a lld (py_join ?B (c_name c @ ''.elf'')) objs))" for objs
    by (rule sees_run[OF assms(1), of _ "[lld, ''-T'', py_join (d_hal_board (arch_dirs r a)) ''virt.ld'', ''--gc-sections'']"
              "py_join ?B (c_name c @ ''.elf'')" objs])
       (simp_all add: link_argv_def artifacts_def)
  show ?thesis
    unfolding build_elf_def Let_def by (intro sees_rules kernel steps link)
qed

lemma sees_run_case:
  assumes h: "reads_own h r a c V" and V: "list_all V (case_images c)" and emu: "boots_own emu r a c V"
  shows "sees V (run_case h emu r t a qemu shared lld clang c)"
proof -
  let ?elf = "py_join (d_build (arch_dirs r a)) (c_name c @ ''.elf'')"
  let ?built = "catch_tool (bind (build_elf h r t c a shared lld clang) (\<lambda>elf. ret (Inr elf))) (\<lambda>e. ret (Inl e))"
  have elf: "e = ?elf" if "build_elf h r t c a shared lld clang w = (Inr e, w')" for e w w'
    using that by (auto simp: build_elf_def Let_def bind_Inr)
  have boot: "sees V (bind get_fs (\<lambda>fs. k (run_qemu emu fs qemu a ?elf feed)))" if "\<And>y. sees V (k y)" for k :: "_ \<Rightarrow> verdict io" and feed
    unfolding sees_def
  proof (intro allI impI)
    fix w1 w2 :: world
    assume a: "agree V (w_fs w1) (w_fs w2)"
    with emu have "run_qemu emu (w_fs w1) qemu a ?elf feed = run_qemu emu (w_fs w2) qemu a ?elf feed"
      by (simp add: run_qemu_def boots_own_def)
    with a that[of "run_qemu emu (w_fs w2) qemu a ?elf feed"]
    show "fst (bind get_fs (\<lambda>fs. k (run_qemu emu fs qemu a ?elf feed)) w1) = fst (bind get_fs (\<lambda>fs. k (run_qemu emu fs qemu a ?elf feed)) w2) \<and>
       agree V (w_fs (snd (bind get_fs (\<lambda>fs. k (run_qemu emu fs qemu a ?elf feed)) w1)))
               (w_fs (snd (bind get_fs (\<lambda>fs. k (run_qemu emu fs qemu a ?elf feed)) w2)))"
      by (simp add: sees_def)
  qed
  show ?thesis
    unfolding run_case_def
  proof (rule sees_bind)
    show "sees V ?built" by (intro sees_rules sees_build_elf[OF h V])
    fix built w w'
    assume b: "?built w = (Inr built, w')"
    then have "built = Inr ?elf" if "\<not> isl built"
      using that by (auto simp: catch_tool_def catch_def bind_apply dest: elf split: prod.splits sum.splits exc.splits)
    then consider e where "built = Inl e" | "built = Inr ?elf" by (cases built) auto
    then show "sees V (case built of
          Inl e \<Rightarrow> ret (False, CROSS (h_tty h) @ '' '' @ c_name c @ ''  (build error)'',
                        map (\<lambda>line. ''    '' @ line) (str_splitlines e))
        | Inr elf \<Rightarrow>
            bind get_fs (\<lambda>fs.
            case run_qemu emu fs qemu a elf (c_stdin c) of (status, out, timed_out) \<Rightarrow>
            bind (of_res (check c a status out timed_out)) (\<lambda>(ok, reason).
            ret (if ok then (True, CHECK (h_tty h) @ '' '' @ c_name c, [])
                 else (False, CROSS (h_tty h) @ '' '' @ c_name c @ ''  ('' @ reason @ '')'', [])))))"
    proof cases
      case 1
      then show ?thesis by (simp add: sees_basic)
    next
      case 2
      show ?thesis unfolding 2 sum.case
      proof (rule boot)
        fix y :: "int option \<times> string \<times> bool"
        obtain st out late where y: "y = (st, out, late)" by (cases y)
        show "sees V (case y of (status, out, timed_out) \<Rightarrow>
            bind (of_res (check c a status out timed_out)) (\<lambda>(ok, reason).
            ret (if ok then (True, CHECK (h_tty h) @ '' '' @ c_name c, [])
                 else (False, CROSS (h_tty h) @ '' '' @ c_name c @ ''  ('' @ reason @ '')'', []))))"
          unfolding y prod.case by (rule sees_bind, rule sees_basic) (simp only: sees_basic split: prod.split, simp)
      qed
    qed
  qed
qed

lemma touches_run_case:
  assumes "outputs_only h" "a \<in> set (ARCHES r)" "''-o'' \<notin> set (sawc_argv t @ [c_src c, clang, lld] @ shared)"
  shows "touches (\<lambda>q. q \<in> set (artifacts r c a)) (run_case h emu r t a qemu shared lld clang c)"
proof -
  have catch: "touches Q m \<Longrightarrow> (\<And>e. touches Q (k e)) \<Longrightarrow> touches Q (catch_tool m k)" for Q m and k :: "string \<Rightarrow> 'x io"
    unfolding touches_def catch_tool_def catch_def
    by (auto split: prod.splits sum.splits exc.splits) (metis snd_conv)+
  have b: "touches (\<lambda>q. q \<in> set (artifacts r c a)) (build_elf h r t c a shared lld clang)"
    using touches_build_elf[OF assms(1,2)] assms(3) by auto
  show ?thesis
    unfolding run_case_def
    by (intro touches_bind catch b) (auto simp: touches_def bind_apply split: sum.splits prod.splits)
qed

section \<open>Every verdict is the verdict alone\<close>

lemma units_alone:
  assumes "\<And>c. c \<in> set cs \<Longrightarrow> sees (V c) (f c)" "\<And>c. c \<in> set cs \<Longrightarrow> touches (Q c) (f c)"
    and "\<And>c d q. c \<in> set cs \<Longrightarrow> d \<in> set cs \<Longrightarrow> c \<noteq> d \<Longrightarrow> V d q \<Longrightarrow> \<not> Q c q"
  shows "distinct ds \<Longrightarrow> set ds \<subseteq> set cs \<Longrightarrow> \<forall>d \<in> set ds. agree (V d) (w_fs w) (w_fs w') \<Longrightarrow>
    fst (unit_results f ds w') = map (\<lambda>d. fst (f d w)) ds"
proof (induction ds arbitrary: w')
  case Nil
  show ?case by simp
next
  case (Cons c ds)
  obtain y w1 where c: "f c w' = (y, w1)" by fastforce
  have "fst (f c w') = fst (f c w)"
    using assms(1)[of c] Cons.prems by (auto simp: sees_def)
  moreover have "\<forall>d \<in> set ds. agree (V d) (w_fs w) (w_fs w1)"
  proof
    fix d
    assume d: "d \<in> set ds"
    with Cons.prems have cd: "c \<in> set cs" "d \<in> set cs" "c \<noteq> d" by auto
    have "agree (V d) (w_fs w') (w_fs w1)"
      using assms(2)[OF cd(1)] assms(3)[OF cd] c unfolding agree_def touches_def by (metis snd_conv)
    with Cons.prems(3) d show "agree (V d) (w_fs w) (w_fs w1)" by (auto intro: agree_trans)
  qed
  with Cons have "fst (unit_results f ds w1) = map (\<lambda>d. fst (f d w)) ds" by simp
  ultimately show ?case using c by (cases "unit_results f ds w1") simp
qed

text \<open>What a case may see: every file but the artifacts of the other cases.\<close>

definition own_view :: "string \<Rightarrow> arch \<Rightarrow> test_case list \<Rightarrow> test_case \<Rightarrow> string \<Rightarrow> bool" where
  "own_view r a cs c q \<longleftrightarrow> (\<forall>d \<in> set cs. c_name d \<noteq> c_name c \<longrightarrow> q \<notin> set (artifacts r d a))"


definition emu_elf :: emulator where
  "emu_elf argv feed fs =
     (if map_of fs (last argv) = Some ''built'' then Exited 1 ''SOS M0: deliberate panic'' else Deadline [])"


end
