(* ===== verification/Serial_Console.thy ===== *)
theory Serial_Console
  imports Build_Pipeline
begin

text \<open>
  What goes on inside \<^verbatim>\<open>_run_qemu\<close> of \<^verbatim>\<open>src/tools/sos_runner.py\<close> while the emulator runs: the harness waits
  for it under a deadline, a thread types the input of the case one byte at a time, and the guest reads its
  serial port through a pipe. The three run at the same time, so a session is a sequence of steps of any of
  them; what the guest does is not constrained. \<open>run_qemu\<close> of \<open>Build_Pipeline\<close> is what a session ends in.
\<close>

section \<open>A session\<close>

definition SERIAL_TYPE_DELAY_MS :: nat where
  "SERIAL_TYPE_DELAY_MS = 150"

datatype guest = Running | Gone int | Killed

text \<open>The bytes still to be typed and whether the typing thread runs; the pipe and whether its write end is
  open; what the guest has read and whether it was told the input has ended; what it has written; the clock in
  milliseconds and the time before which the next byte is not typed; and what \<^verbatim>\<open>_run_qemu\<close> has returned.\<close>

record session =
  s_left :: string
  s_typing :: bool
  s_pipe :: string
  s_open :: bool
  s_read :: string
  s_eof :: bool
  s_out :: string
  s_clock :: nat
  s_next :: nat
  s_guest :: guest
  s_result :: "(int option \<times> string \<times> bool) option"

definition session_init :: "string option \<Rightarrow> session" where
  "session_init feed =
     \<lparr>s_left = (case feed of None \<Rightarrow> [] | Some s \<Rightarrow> s), s_typing = (feed \<noteq> None), s_pipe = [], s_open = True, s_read = [],
      s_eof = False, s_out = [], s_clock = 0, s_next = SERIAL_TYPE_DELAY_MS, s_guest = Running, s_result = None\<rparr>"

text \<open>The typing thread: a byte; the write that finds the guest gone; the end of the input.\<close>

definition do_type :: "session \<Rightarrow> session" where
  "do_type s =
     s\<lparr>s_left := tl (s_left s), s_pipe := s_pipe s @ [hd (s_left s)], s_next := s_clock s + SERIAL_TYPE_DELAY_MS\<rparr>"

definition do_hang_up :: "session \<Rightarrow> session" where
  "do_hang_up s = s\<lparr>s_typing := False, s_open := False\<rparr>"

text \<open>The guest.\<close>

definition do_guest_read :: "session \<Rightarrow> session" where
  "do_guest_read s = s\<lparr>s_pipe := tl (s_pipe s), s_read := s_read s @ [hd (s_pipe s)]\<rparr>"

text \<open>The harness: the emulator is gone, or the deadline has passed and it is killed.\<close>

definition do_return :: "int \<Rightarrow> session \<Rightarrow> session" where
  "do_return n s = s\<lparr>s_result := Some (Some n, s_out s, False)\<rparr>"

definition do_timeout :: "session \<Rightarrow> session" where
  "do_timeout s =
     s\<lparr>s_guest := (case s_guest s of Running \<Rightarrow> Killed | g \<Rightarrow> g), s_result := Some (None, s_out s, True)\<rparr>"

inductive session_step :: "session \<Rightarrow> session \<Rightarrow> bool" where
  type_byte: "s_typing s \<Longrightarrow> s_left s \<noteq> [] \<Longrightarrow> s_next s \<le> s_clock s \<Longrightarrow> s_guest s = Running \<Longrightarrow> session_step s (do_type s)"
| type_broken: "s_typing s \<Longrightarrow> s_left s \<noteq> [] \<Longrightarrow> s_next s \<le> s_clock s \<Longrightarrow> s_guest s \<noteq> Running \<Longrightarrow> session_step s (do_hang_up s)"
| type_end: "s_typing s \<Longrightarrow> s_left s = [] \<Longrightarrow> session_step s (do_hang_up s)"
| guest_read: "s_guest s = Running \<Longrightarrow> s_pipe s \<noteq> [] \<Longrightarrow> session_step s (do_guest_read s)"
| guest_eof: "s_guest s = Running \<Longrightarrow> s_pipe s = [] \<Longrightarrow> \<not> s_open s \<Longrightarrow> session_step s (s\<lparr>s_eof := True\<rparr>)"
| guest_write: "s_guest s = Running \<Longrightarrow> session_step s (s\<lparr>s_out := s_out s @ bs\<rparr>)"
| guest_exit: "s_guest s = Running \<Longrightarrow> session_step s (s\<lparr>s_guest := Gone n\<rparr>)"
| pass_time: "session_step s (s\<lparr>s_clock := s_clock s + ms\<rparr>)"
| return: "s_result s = None \<Longrightarrow> s_guest s = Gone n \<Longrightarrow> session_step s (do_return n s)"
| timeout: "s_result s = None \<Longrightarrow> 1000 * QEMU_TIMEOUT_S \<le> s_clock s \<Longrightarrow> session_step s (do_timeout s)"
| close_pipe: "s_result s \<noteq> None \<Longrightarrow> \<not> s_typing s \<Longrightarrow> session_step s (s\<lparr>s_open := False\<rparr>)"

inductive_cases session_stepE: "session_step s t"

inductive session_reach :: "string option \<Rightarrow> session \<Rightarrow> bool" for feed where
  init: "session_reach feed (session_init feed)"
| step: "session_reach feed s \<Longrightarrow> session_step s t \<Longrightarrow> session_reach feed t"

section \<open>The invariant\<close>

definition fed :: "string option \<Rightarrow> string" where
  "fed feed = (case feed of None \<Rightarrow> [] | Some s \<Rightarrow> s)"

definition session_inv :: "string option \<Rightarrow> session \<Rightarrow> bool" where
  "session_inv feed s \<longleftrightarrow>
     s_read s @ s_pipe s @ s_left s = fed feed \<and>
     SERIAL_TYPE_DELAY_MS * Suc (length (fed feed) - length (s_left s)) \<le> s_next s \<and>
     s_next s \<le> s_clock s + SERIAL_TYPE_DELAY_MS \<and>
     (s_guest s = Running \<and> \<not> s_open s \<longrightarrow> feed \<noteq> None \<and> s_left s = []) \<and>
     (s_eof s \<longrightarrow> feed \<noteq> None \<and> s_pipe s = [] \<and> s_left s = []) \<and>
     (s_typing s \<longrightarrow> feed \<noteq> None) \<and>
     (case s_result s of
        None \<Rightarrow> s_guest s \<noteq> Killed
      | Some (status, out, late) \<Rightarrow>
          out = s_out s \<and> s_guest s \<noteq> Running \<and>
          (case status of None \<Rightarrow> late \<and> 1000 * QEMU_TIMEOUT_S \<le> s_clock s | Some n \<Rightarrow> \<not> late \<and> s_guest s = Gone n))"

lemma session_inv_init: "session_inv feed (session_init feed)"
  by (auto simp: session_inv_def session_init_def fed_def split: option.splits)

lemma session_inv_step:
  assumes "session_inv feed s" "session_step s t"
  shows "session_inv feed t"
  using assms(2,1)
proof cases
  case type_byte
  obtain c cs where l: "s_left s = c # cs" using type_byte by (cases "s_left s") auto
  have "length (fed feed) = length (s_read s @ s_pipe s @ s_left s)" using assms(1) by (simp add: session_inv_def)
  then have "length (fed feed) - length cs = Suc (length (fed feed) - length (s_left s))" by (simp add: l)
  then show ?thesis using assms(1) type_byte l by (auto simp: session_inv_def do_type_def split: option.splits prod.splits)
next
  case guest_read
  then show ?thesis using assms(1) by (cases "s_pipe s") (auto simp: session_inv_def do_guest_read_def split: option.splits prod.splits)
qed (auto simp: session_inv_def do_hang_up_def do_return_def do_timeout_def split: option.splits prod.splits guest.splits)

lemma session_invariant: "session_reach feed s \<Longrightarrow> session_inv feed s"
  by (induction rule: session_reach.induct) (auto intro: session_inv_init session_inv_step)

text \<open>C13: The serial port of a case is faithful. At every moment of a session, whatever the guest does and however
  the three interleave: what the guest has read is a prefix of the input of the case, in order, and at most one
  byte for every 150 milliseconds that have passed; it is told that the input has ended only after it has read
  all of it, and never in a case without input; and what is returned is an exit status the guest really ended
  with, or a timeout that really passed, with everything the guest had written.\<close>

theorem serial_session:
  assumes "session_reach feed s"
  shows "prefix (s_read s) (fed feed) \<and>
    SERIAL_TYPE_DELAY_MS * length (s_read s) \<le> s_clock s \<and>
    (s_eof s \<longrightarrow> feed = Some (s_read s)) \<and>
    (\<forall>status out late. s_result s = Some (status, out, late) \<longrightarrow>
      out = s_out s \<and> late = (status = None) \<and>
      (case status of Some n \<Rightarrow> s_guest s = Gone n | None \<Rightarrow> 1000 * QEMU_TIMEOUT_S \<le> s_clock s))"
proof (intro conjI)
  note i = session_invariant[OF assms, unfolded session_inv_def]
  from i have r: "s_read s @ s_pipe s @ s_left s = fed feed" by blast
  then show "prefix (s_read s) (fed feed)" by (metis prefixI)
  from r have "length (fed feed) = length (s_read s @ s_pipe s @ s_left s)" by simp
  then have "length (fed feed) - length (s_left s) = length (s_read s @ s_pipe s)" by simp
  with i have "SERIAL_TYPE_DELAY_MS * Suc (length (s_read s @ s_pipe s)) \<le> s_clock s + SERIAL_TYPE_DELAY_MS"
    by (metis le_trans)
  then show "SERIAL_TYPE_DELAY_MS * length (s_read s) \<le> s_clock s" by (simp add: SERIAL_TYPE_DELAY_MS_def)
  show "s_eof s \<longrightarrow> feed = Some (s_read s)" using i r by (auto simp: fed_def)
  show "\<forall>status out late. s_result s = Some (status, out, late) \<longrightarrow>
      out = s_out s \<and> late = (status = None) \<and>
      (case status of Some n \<Rightarrow> s_guest s = Gone n | None \<Rightarrow> 1000 * QEMU_TIMEOUT_S \<le> s_clock s)"
    using i by (auto split: option.splits)
qed

text \<open>A run of steps, for concrete sessions.\<close>

lemma reach_type_read:
  assumes "session_reach feed s" "s_typing s" "s_left s \<noteq> []" "s_guest s = Running" "s_pipe s = []" "s_next s \<le> s_clock s + ms"
  shows "session_reach feed (do_guest_read (do_type (s\<lparr>s_clock := s_clock s + ms\<rparr>)))"
proof -
  let ?s1 = "s\<lparr>s_clock := s_clock s + ms\<rparr>"
  have 1: "session_reach feed ?s1" using assms(1) by (rule step) (rule pass_time)
  have "session_step ?s1 (do_type ?s1)" by (rule type_byte) (use assms in simp_all)
  with 1 have 2: "session_reach feed (do_type ?s1)" by (rule step)
  have "session_step (do_type ?s1) (do_guest_read (do_type ?s1))"
    by (rule guest_read) (use assms in \<open>simp_all add: do_type_def\<close>)
  with 2 show ?thesis by (rule step)
qed

definition echo_session :: session where
  "echo_session =
     \<lparr>s_left = [], s_typing = False, s_pipe = [], s_open = False, s_read = ''Zq'', s_eof = False, s_out = ''Zq'', s_clock = 300,
      s_next = 450, s_guest = Gone 0, s_result = Some (Some 0, ''Zq'', False)\<rparr>"

lemma echo_reach: "session_reach (Some ''Zq'') echo_session"
proof -
  let ?feed = "Some ''Zq''"
  note d = session_init_def SERIAL_TYPE_DELAY_MS_def do_type_def do_guest_read_def
  have "session_reach ?feed (do_guest_read (do_type ((session_init ?feed)\<lparr>s_clock := s_clock (session_init ?feed) + 150\<rparr>)))"
    by (rule reach_type_read[OF init]) (simp_all add: d)
  from reach_type_read[OF this, of 150] have 1: "session_reach ?feed
      \<lparr>s_left = [], s_typing = True, s_pipe = [], s_open = True, s_read = ''Zq'', s_eof = False, s_out = [], s_clock = 300,
       s_next = 450, s_guest = Running, s_result = None\<rparr>"
    by (simp add: d)
  from step[OF 1 type_end] have 2: "session_reach ?feed
      \<lparr>s_left = [], s_typing = False, s_pipe = [], s_open = False, s_read = ''Zq'', s_eof = False, s_out = [], s_clock = 300,
       s_next = 450, s_guest = Running, s_result = None\<rparr>"
    by (simp add: do_hang_up_def)
  from step[OF 2 guest_write[where bs = "''Zq''"]] have 3: "session_reach ?feed
      \<lparr>s_left = [], s_typing = False, s_pipe = [], s_open = False, s_read = ''Zq'', s_eof = False, s_out = ''Zq'', s_clock = 300,
       s_next = 450, s_guest = Running, s_result = None\<rparr>"
    by simp
  from step[OF 3 guest_exit[where n = 0]] have 4: "session_reach ?feed
      \<lparr>s_left = [], s_typing = False, s_pipe = [], s_open = False, s_read = ''Zq'', s_eof = False, s_out = ''Zq'', s_clock = 300,
       s_next = 450, s_guest = Gone 0, s_result = None\<rparr>"
    by simp
  from step[OF 4 return[where n = 0]] show ?thesis by (simp add: do_return_def echo_session_def)
qed

theorem serial_session_witness:
  "session_reach (Some ''Zq'') echo_session \<and> prefix (s_read echo_session) ''Zq'' \<and> 150 * 2 \<le> s_clock echo_session \<and>
   s_result echo_session = Some (Some 0, ''Zq'', False) \<and> s_out echo_session = ''Zq''"
  using serial_session[OF echo_reach] echo_reach by (simp add: echo_session_def fed_def SERIAL_TYPE_DELAY_MS_def)

section \<open>Sessions end, and what \<open>run_qemu\<close> makes of them\<close>

text \<open>From every moment of a session the harness can get to its result, whatever the guest has done.\<close>

lemma session_ends:
  assumes "session_reach feed s" "s_result s = None"
  shows "\<exists>t. session_reach feed t \<and> s_result t \<noteq> None"
proof -
  let ?s1 = "s\<lparr>s_clock := s_clock s + 1000 * QEMU_TIMEOUT_S\<rparr>"
  have "session_reach feed ?s1" using assms(1) by (rule step) (rule pass_time)
  moreover have "session_step ?s1 (do_timeout ?s1)" by (rule timeout) (use assms(2) in simp_all)
  ultimately have "session_reach feed (do_timeout ?s1)" by (rule step)
  then show ?thesis by (intro exI[of _ "do_timeout ?s1"]) (simp add: do_timeout_def)
qed

text \<open>Every result of a session is one \<open>run_qemu\<close> has for some end of the emulator.\<close>

lemma session_run_qemu:
  assumes "session_reach feed s" "s_result s = Some y"
  shows "\<exists>e. run_qemu (\<lambda>_ _ _. e) fs qemu a elf feed = y"
proof -
  obtain status out late where y: "y = (status, out, late)" by (cases y)
  note i = session_invariant[OF assms(1), unfolded session_inv_def] 
  show ?thesis
  proof (cases status)
    case None
    with i assms(2) y show ?thesis by (intro exI[of _ "Deadline out"]) (simp add: run_qemu_def)
  next
    case (Some n)
    with i assms(2) y show ?thesis by (intro exI[of _ "Exited n out"]) (simp add: run_qemu_def)
  qed
qed

end
