(* ===== verification/Spec2Isabelle.thy ===== *)
theory Spec2Isabelle
  imports Sosimg_Dump Suite_Runs C3_Board Case_Isolation Serial_Console
begin

text \<open>
  SawOS is a microkernel written in Saw. What its repository holds in Python is the machinery that decides
  whether a kernel is good: \<^verbatim>\<open>src/tools/sos_runner.py\<close> builds kernel images, boots them under QEMU and judges
  their transcripts; \<^verbatim>\<open>src/tools/toolchain.py\<close> finds the compiler it builds with; and
  \<^verbatim>\<open>src/tools/sosimg_dump.py\<close> prints the binary formats that pass between the two. This development models
  these three programs and proves what a green run of them means.

  \<^bold>\<open>The parts, and where they are.\<close>

  \<^item> \<open>Py_Prelude\<close>, \<open>Struct_Codec\<close>, \<open>Py_Path\<close>, \<open>Host_World\<close>: what the programs use of Python. Exceptions are the
    type \<open>exc\<close> and results \<open>exc + 'a\<close>; strings are lists of bytes, in the UTF-8 encoding of the source's; then
    \<^verbatim>\<open>str\<close> methods, number formatting, \<^verbatim>\<open>struct.unpack_from\<close>, \<^verbatim>\<open>os.path\<close>, and a world of files,
    started commands and printed lines under a state and error monad (\<open>ret\<close>, \<open>bind\<close>, \<open>raise\<close>, \<open>catch\<close>).
    The collections \<open>keep_rules\<close>, \<open>touch_rules\<close>, \<open>errs_rules\<close> and \<open>gives_rules\<close> carry the proofs about it.
  \<^item> \<open>Toolchain\<close>: all of \<^verbatim>\<open>toolchain.py\<close>. \<open>resolve\<close> is its four steps; \<open>fetch\<close> the cache; \<open>toolchain\<close> the
    class; \<open>toolchain_main\<close> its command line.
  \<^item> \<open>Sosimg_Dump\<close>: all of \<^verbatim>\<open>sosimg_dump.py\<close>, with the encodings of both formats and a locale of fixed-width
    record codecs (\<open>record_codec\<close> in \<open>Struct_Codec\<close>), interpreted for region rows and for segments.
  \<^item> \<open>Arch_Table\<close>, \<open>Case_Model\<close>, \<open>Test_Packages\<close>, \<open>Case_Table_A\<close> to \<open>Case_Table_D\<close>, \<open>Case_Table\<close>: the tables of
    \<^verbatim>\<open>sos_runner.py\<close>. Each of the three profiles and each of the 134 cases is a definition; \<open>TEST_CASES\<close> puts
    them together. Every definition takes the path of the repository.
  \<^item> \<open>Region_Table\<close>: \<^verbatim>\<open>_region_rows\<close> and the assembler text of \<^verbatim>\<open>_stitch_regions\<close>.
  \<^item> \<open>Seam_Scan\<close>: \<^verbatim>\<open>_check_arch_free\<close>.
  \<^item> \<open>Transcript_Check\<close>: \<^verbatim>\<open>_check\<close> and \<^verbatim>\<open>_strip_kernel_diagnostics\<close>.
  \<^item> \<open>Map_Ordered\<close>: \<^verbatim>\<open>_map_ordered\<close>. The thread pool is a step relation \<open>pool_step\<close> with the moves start,
    finish, yield and close; the interface its consumers rely on is the locale \<open>ordered_mapper\<close>, interpreted on
    \<open>map_ordered\<close>.
  \<^item> \<open>Build_Pipeline\<close>: \<^verbatim>\<open>_find_clang\<close>, \<^verbatim>\<open>_probe_tools\<close>, every \<^verbatim>\<open>_build\<close> and \<^verbatim>\<open>_stitch\<close> function with
    its command lines and file effects, and what \<^verbatim>\<open>_run_qemu\<close> returns for each end of the emulator.
  \<^item> \<open>Serial_Console\<close>: what goes on inside \<^verbatim>\<open>_run_qemu\<close> meanwhile: the typing thread, the pipe, the guest and
    the deadline as a step relation \<open>session_step\<close>; \<open>session_run_qemu\<close> ties its results to \<open>run_qemu\<close>.
  \<^item> \<open>Run_Suite\<close>: \<^verbatim>\<open>_run_arch\<close>, \<^verbatim>\<open>tc\<close> and the \<^verbatim>\<open>virt\<close> part of \<^verbatim>\<open>main\<close>; \<open>Suite_Table\<close>, \<open>Suite_Exit\<close> and
    \<open>Suite_Runs\<close> hold what follows for the real table, for the exit status and for whole runs, and
    \<open>Case_Isolation\<close> that the verdict of a case does not depend on the other cases.
  \<^item> \<open>C3_Board\<close>: the \<^verbatim>\<open>esp32c3\<close> section of \<^verbatim>\<open>main\<close>, and \<open>main\<close> itself.
  \<^item> This theory: a property that goes through the runner and the dumper.

  \<^bold>\<open>How they interact.\<close> \<open>main\<close> chooses profiles and cases from the tables, probes the host tools, scans the
  sources, resolves a toolchain and, per profile, builds the shared objects, then the root packages and then
  the cases over the ordered mapper. A case is compiled and linked by \<open>build_elf\<close>, booted by \<open>run_qemu\<close> and
  judged by \<open>check\<close>; verdicts are reported in list order and counted into the exit status. The region table a
  case carries is text from \<open>Region_Table\<close>, assembled by clang, read by the kernel and by \<open>Sosimg_Dump\<close>.

  \<^bold>\<open>What the lemmas show.\<close> Judging: a pass is exactly an ordered decomposition of the transcript and the wanted
  exit status, with the leftmost search losing nothing, and stripping removes whole kernel lines only.
  Concurrency: the pool yields the serial list under every schedule, never deadlocks, and neither the counts nor
  the report of a profile depend on the jobs; case builds touch disjoint files, and every verdict is the one the
  case has alone. Building: what is
  linked was built by this run, no stale image survives, the flash image is exact. Formats: the generated tables
  assemble to the wire format, their windows are disjoint, and the dump prints what was encoded. Accounting:
  counts add up on every path, exclusions are printed, and exit status 0 means no failed case. Resolver: which
  source answers, what a resolved toolchain guarantees, the atomic fetch, and every refusal. Tables: all 134
  entries are well formed and safe to judge, 129 of them run on each isolated profile and 124 on the flat one.
  Some theorems show what the code does where it does something else than it means to: \<open>vacuous_pass\<close>,
  \<open>path_toolchain_cannot_build\<close>, \<open>blank_sawc_hides_root\<close>, \<open>c3_short_image_uncaught\<close>.

  \<^bold>\<open>Parameters and their hypotheses.\<close> Programs that are not in the repository (clang, ld.lld, sawc, blade, git,
  python3, pip, objcopy) are \<open>h_exec\<close>, a function of the command and the files; QEMU is \<open>x_emu\<close> or the polls of
  \<open>board\<close>; \<^verbatim>\<open>shutil.which\<close>, \<^verbatim>\<open>os.walk\<close>, \<^verbatim>\<open>glob\<close>, \<^verbatim>\<open>difflib\<close> and the schedule of the pool are
  parameters too. Hypotheses about them are named: \<open>data_directives\<close> and \<open>literals\<close> (the assembler's documented
  data directives), \<open>outputs_only\<close> (a compiler writes the file its \<^verbatim>\<open>-o\<close> names), \<open>confined\<close> (a fetch command
  writes under its directory), \<open>reads_own\<close> and \<open>boots_own\<close> (compilers and emulator read, for one case, no artifact
  of another). Each has a concrete instance in a witness.

  \<^bold>\<open>Bounds.\<close> All recursions of the model are structural or have a measure, with one exception: the console
  loop of the board section, which in the source ends by the clock only. It is given \<open>b_fuel\<close> passes;
  \<open>c3_console_returns\<close> shows that some number of passes is enough whenever the clock passes every instant, and
  that more passes do not change the answer.

  \<^bold>\<open>Not modelled.\<close> The kernel, the hardware layers, the runtime, the root server and the test programs (Saw, C and
  assembly). In the Python: \<^verbatim>\<open>argparse\<close>; decoding output that is not UTF-8; permissions, links and empty directories; and the interleaving
  of the file effects of units that run at once: the pool hands out results in every order, but the units'
  effects on files are taken one unit after the other, which \<open>case_builds_isolated\<close> and \<open>verdicts_alone\<close> justify
  for the cases.
\<close>

section \<open>From the table a case publishes to the dump a developer reads\<close>

text \<open>The rows of a case as numbers: the child images where the linker puts them, their destinations, the pool
  and the device window of the profile.\<close>

definition table_rows :: "(string \<Rightarrow> nat) \<Rightarrow> test_case \<Rightarrow> arch \<Rightarrow> region_row list" where
  "table_rows val c a =
     (let n = length (c_children c) in
      map (\<lambda>i. (blob_start val i, blob_len val i, 0)) [0..<n] @
      map (\<lambda>i. (a_child_region_base a + i * CHILD_REGION_LEN, CHILD_REGION_LEN, 0)) [0..<n] @
      (if c_pool c then [(a_pool_base a, a_pool_len a, 0)] else []) @
      (if c_device c then [(a_device_base a, a_device_len a, 1)] else []))"

lemma region_rows_resolved:
  assumes "literals val" "region_rows c a = Inr rows"
  shows "map (resolved val) rows = table_rows val c a"
proof -
  have hex: "val (hash_x n) = n" for n using assms(1) by (simp add: literals_def)
  have "resolved val (blob_row i) = (blob_start val i, blob_len val i, 0)"
    "resolved val (dest_row a i) = (a_child_region_base a + i * CHILD_REGION_LEN, CHILD_REGION_LEN, 0)"
    "resolved val (pool_row a) = (a_pool_base a, a_pool_len a, 0)"
    "resolved val (device_row a) = (a_device_base a, a_device_len a, 1)" for i
    by (simp_all add: resolved_def blob_row_def dest_row_def pool_row_def device_row_def hex blob_start_def blob_len_def
        REGION_KIND_RAM_def REGION_KIND_DEVICE_def)
  then show ?thesis using assms(2) by (auto simp: region_rows_def table_rows_def Let_def split: if_splits)
qed

lemma table_rows_small:
  assumes "a \<in> set (ARCHES r)" "length (c_children c) \<le> 100"
    and "\<forall>i < length (c_children c). blob_start val i < 2 ^ 32 \<and> blob_len val i < 2 ^ 32"
  shows "list_all (\<lambda>(b, l, k). b < 2 ^ 32 \<and> l < 2 ^ 32 \<and> k < 2) (table_rows val c a)"
proof -
  have fields: "a_child_region_base a \<le> 0x80240000 \<and> a_pool_base a < 2 ^ 32 \<and> a_pool_len a < 2 ^ 32 \<and>
      a_device_base a < 2 ^ 32 \<and> a_device_len a < 2 ^ 32"
    using assms(1) by (auto simp: arch_defs)
  have "a_child_region_base a + i * CHILD_REGION_LEN < 2 ^ 32" if "i < length (c_children c)" for i
    using that fields assms(2) by (simp add: CHILD_REGION_LEN_def)
  with assms(3) fields show ?thesis
    by (auto simp: table_rows_def Let_def list_all_iff CHILD_REGION_LEN_def)
qed

text \<open>C10: What a developer reads off a kernel image is what the case asked for. Take any case the row generator
  accepts, on any profile, and any assembler and linker that treat the data directives as documented and put
  the child images below 4 GiB: dumping the assembled section reports a good magic, version 2 and one line per
  row, which are the child images, their destinations, the pool and the device window, in this order and with
  the numbers of the profile.\<close>

theorem published_table_dumps:
  assumes "data_directives asm" "literals val" "a \<in> set (ARCHES r)"
    and "\<not> (c_pool c \<and> 1 < length (c_children c))" "length (c_children c) \<le> 100"
    and "\<forall>i < length (c_children c). blob_start val i < 2 ^ 32 \<and> blob_len val i < 2 ^ 32"
  shows "\<exists>rows. region_rows c a = Inr rows \<and>
    dump_regions (assemble asm val (regions_lines a rows)) =
      ([''magic     0x4e475253 (ok)'', ''version   2'', ''regions   '' @ show_nat (length (table_rows val c a))] @
       map (\<lambda>(i, (base, len, kind)). region_line i base len kind) (enumerate_from 0 (table_rows val c a)), Inr ())"
proof -
  obtain rows where rows: "region_rows c a = Inr rows" using assms(4) by (auto simp: region_rows_def Let_def)
  note res = region_rows_resolved[OF assms(2) rows]
  note small = table_rows_small[OF assms(3,5,6)]
  have "list_all (row_fits a val) rows"
  proof -
    have "list_all (\<lambda>(b, l, k). b < 2 ^ 32 \<and> l < 2 ^ 32 \<and> k < 2) (map (resolved val) rows)" using small unfolding res .
    then show ?thesis by (auto simp: list_all_iff resolved_def row_fits_def addr_bytes_def)
  qed
  from regions_lines_assemble[OF assms(1,2) this]
  have bytes: "assemble asm val (regions_lines a rows) = region_table_bytes (table_rows val c a)" unfolding res .
  have ok: "list_all region_row_ok (table_rows val c a)" using small by (fastforce simp: list_all_iff)
  have len: "length (table_rows val c a) < 256" using assms(5) by (simp add: table_rows_def Let_def)
  show ?thesis using rows dump_encoded_table[OF ok len] bytes by auto
qed

theorem published_table_dumps_witness:
  "\<exists>rows. region_rows (blank_case\<lparr>c_children := [''/t/kid''], c_pool := True, c_device := True\<rparr>) (arch_riscv32 ''/r'') = Inr rows \<and>
    dump_regions (assemble gas_ref link_ref (regions_lines (arch_riscv32 ''/r'') rows)) =
      ([''magic     0x4e475253 (ok)'', ''version   2'', ''regions   4'',
        ''  row 0: base 0x0000000080210000  len 0x4d2 (1234)  kind 0 (ram)'',
        ''  row 1: base 0x0000000080240000  len 0x40000 (262144)  kind 0 (ram)'',
        ''  row 2: base 0x0000000080280000  len 0x40000 (262144)  kind 0 (ram)'',
        ''  row 3: base 0x0000000010000000  len 0x1000 (4096)  kind 1 (device)''], Inr ())"
proof -
  let ?c = "blank_case\<lparr>c_children := [''/t/kid''], c_pool := True, c_device := True\<rparr>" and ?a = "arch_riscv32 ''/r''"
  have m: "?a \<in> set (ARCHES ''/r'')" by (simp add: ARCHES_def)
  have one: "length (c_children ?c) = 1" by simp
  have z: "show_nat 0 = ''0''" by code_simp
  have b: "blob_start link_ref 0 = 0x80210000" "blob_len link_ref 0 = 1234" by (simp_all add: blob_start_def blob_len_def link_ref_def z)
  have t: "table_rows link_ref ?c ?a =
      [(0x80210000, 1234, 0), (0x80240000, 0x40000, 0), (0x80280000, 0x40000, 0), (0x10000000, 0x1000, 1)]"
    by (simp add: table_rows_def b arch_riscv32_def CHILD_REGION_LEN_def)
  have lines: "map (\<lambda>(i, (base, len, kind)). region_line i base len kind)
      (enumerate_from 0 [(0x80210000, 1234, 0), (0x80240000, 0x40000, 0), (0x80280000, 0x40000, 0), (0x10000000, 0x1000, 1)])
    = [''  row 0: base 0x0000000080210000  len 0x4d2 (1234)  kind 0 (ram)'',
        ''  row 1: base 0x0000000080240000  len 0x40000 (262144)  kind 0 (ram)'',
        ''  row 2: base 0x0000000080280000  len 0x40000 (262144)  kind 0 (ram)'',
        ''  row 3: base 0x0000000010000000  len 0x1000 (4096)  kind 1 (device)'']"
    by code_simp
  have four: "show_nat (Suc (Suc (Suc (Suc 0)))) = ''4''" by code_simp
  show ?thesis
    using published_table_dumps[OF gas_ref_directives link_ref_literals m, of ?c]
    unfolding t lines using four by (simp add: b)
qed

end
